(* ===== verification/Owl_Prelude.thy ===== *)
theory Owl_Prelude
  imports Main "HOL-Library.Word" "HOL-Library.Sublist"
begin

text \<open>
  Shared vocabulary of the OwlAuth development: the Rust result type with panics as a
  branch of their own, \<open>&mut self\<close> methods as state transformers, checked machine
  arithmetic, instants and identifiers, and the byte-string operations of the standard
  library that the value parsers use.

  Rust strings are UTF-8 byte sequences, so a \<open>&str\<close> is a \<^typ>\<open>string\<close> whose characters
  are its bytes and \<open>str::len\<close> is \<^const>\<open>length\<close>.  Predicates on Unicode scalar values
  (\<open>char::is_control\<close>, \<open>char::is_whitespace\<close>) are written on the encoded bytes.
\<close>

section \<open>Results, panics and the question mark operator\<close>

text \<open>
  \<open>Result<T, E>\<close> is a sum whose left summand holds an error of the source (\<open>Err\<close>) or the
  fact that the call panicked (\<open>Panic\<close>).  Both leave the function at once, so \<open>?\<close> is the
  same sequencing for both.
\<close>

datatype 'e fault = Err 'e | Panic

type_synonym ('e, 'a) res = "'e fault + 'a"

named_theorems res_simps \<open>when a sequenced computation returns\<close>
named_theorems mut_simps \<open>evaluation of state transformers\<close>

definition and_then :: "'f + 'a \<Rightarrow> ('a \<Rightarrow> 'f + 'b) \<Rightarrow> 'f + 'b" where
  "and_then r k = (case r of Inl f \<Rightarrow> Inl f | Inr a \<Rightarrow> k a)"

definition ok_or :: "'a option \<Rightarrow> 'e \<Rightarrow> ('e, 'a) res" where
  "ok_or x e = (case x of None \<Rightarrow> Inl (Err e) | Some a \<Rightarrow> Inr a)"

definition expect :: "'a option \<Rightarrow> ('e, 'a) res" where
  "expect x = (case x of None \<Rightarrow> Inl Panic | Some a \<Rightarrow> Inr a)"

definition map_err :: "('d \<Rightarrow> 'e) \<Rightarrow> ('d, 'a) res \<Rightarrow> ('e, 'a) res" where
  "map_err g r = (case r of Inl (Err d) \<Rightarrow> Inl (Err (g d)) | Inl Panic \<Rightarrow> Inl Panic | Inr a \<Rightarrow> Inr a)"

definition panics :: "('e, 'a) res \<Rightarrow> bool" where
  "panics r = (case r of Inl Panic \<Rightarrow> True | _ \<Rightarrow> False)"

lemma and_then_simps [simp]:
  "and_then (Inl f) k = Inl f"
  "and_then (Inr a) k = k a"
  by (simp_all add: and_then_def)

lemma and_then_eq_Inr [res_simps]: "and_then r k = Inr b \<longleftrightarrow> (\<exists>a. r = Inr a \<and> k a = Inr b)"
  by (cases r) simp_all

lemma and_then_eq_Inl [res_simps]:
  "and_then r k = Inl f \<longleftrightarrow> r = Inl f \<or> (\<exists>a. r = Inr a \<and> k a = Inl f)"
  by (cases r) auto

lemma guard_eq_Inr [res_simps]: "(if b then Inl f else r) = Inr a \<longleftrightarrow> \<not> b \<and> r = Inr a"
  by simp

lemma and_then_cong [fundef_cong]:
  "r = r' \<Longrightarrow> (\<And>a. r' = Inr a \<Longrightarrow> k a = k' a) \<Longrightarrow> and_then r k = and_then r' k'"
  by (cases r') simp_all

lemma ok_or_simps [simp]:
  "ok_or None e = Inl (Err e)"
  "ok_or (Some a) e = Inr a"
  by (simp_all add: ok_or_def)

lemma ok_or_eq_Inr [res_simps]: "ok_or r e = Inr a \<longleftrightarrow> r = Some a"
  by (cases r) simp_all

lemma ok_or_eq_Inl [res_simps]: "ok_or r e = Inl f \<longleftrightarrow> r = None \<and> f = Err e"
  by (cases r) auto

lemma expect_simps [simp]:
  "expect None = Inl Panic"
  "expect (Some a) = Inr a"
  by (simp_all add: expect_def)

lemma expect_eq_Inr [res_simps]: "expect r = Inr a \<longleftrightarrow> r = Some a"
  by (cases r) simp_all

lemma expect_eq_Inl [res_simps]: "expect r = Inl f \<longleftrightarrow> r = None \<and> f = Panic"
  by (cases r) auto

lemma map_err_simps [simp]:
  "map_err g (Inl (Err d)) = Inl (Err (g d))"
  "map_err g (Inl Panic) = Inl Panic"
  "map_err g (Inr a) = Inr a"
  by (simp_all add: map_err_def)

lemma map_err_eq_Inr [res_simps]: "map_err g r = Inr a \<longleftrightarrow> r = Inr a"
  by (auto simp: map_err_def split: sum.splits fault.splits)

lemma panics_simps [simp]:
  "panics (Inl Panic)"
  "\<not> panics (Inl (Err e))"
  "\<not> panics (Inr a)"
  by (simp_all add: panics_def)

text \<open>The \<open>collect::<Result<Vec<_>, _>>()\<close> of a mapped iterator stops at the first error.\<close>

fun collect_res :: "('a \<Rightarrow> 'f + 'b) \<Rightarrow> 'a list \<Rightarrow> 'f + 'b list" where
  "collect_res g [] = Inr []"
| "collect_res g (x # xs) =
     and_then (g x) (\<lambda>y. and_then (collect_res g xs) (\<lambda>ys. Inr (y # ys)))"

text \<open>A \<open>for\<close> loop whose body may leave by \<open>?\<close> or \<open>return Err\<close>.\<close>

fun for_each :: "('a \<Rightarrow> 'f + unit) \<Rightarrow> 'a list \<Rightarrow> 'f + unit" where
  "for_each g [] = Inr ()"
| "for_each g (x # xs) = and_then (g x) (\<lambda>_. for_each g xs)"

lemma for_each_eq_Inr [res_simps]: "for_each g xs = Inr u \<longleftrightarrow> (\<forall>x \<in> set xs. g x = Inr ())"
  by (induction xs) (auto simp: res_simps)

lemma for_each_no_panic: "(\<And>x. x \<in> set xs \<Longrightarrow> \<not> panics (g x)) \<Longrightarrow> \<not> panics (for_each g xs)"
proof (induction xs)
  case Nil
  then show ?case by simp
next
  case (Cons x xs)
  then have "\<not> panics (g x)" and "\<not> panics (for_each g xs)" by simp_all
  then show ?case by (cases "g x") (auto simp: panics_def)
qed

lemma collect_res_eq_Inr:
  "collect_res g xs = Inr ys \<longleftrightarrow> list_all2 (\<lambda>x y. g x = Inr y) xs ys"
  by (induction xs arbitrary: ys) (auto simp: res_simps list_all2_Cons1)

lemma collect_res_length: "collect_res g xs = Inr ys \<Longrightarrow> length ys = length xs"
  by (auto simp: collect_res_eq_Inr dest: list_all2_lengthD)

section \<open>Methods on \<open>&mut self\<close>\<close>

text \<open>
  A method that mutates its receiver maps the receiver to the returned result and the
  receiver afterwards.  The receiver is also given when the method fails, so that a
  mutation done before an early return is visible.
\<close>

type_synonym ('s, 'e, 'a) mut = "'s \<Rightarrow> ('e, 'a) res \<times> 's"

definition m_bind :: "('s, 'e, 'a) mut \<Rightarrow> ('a \<Rightarrow> ('s, 'e, 'b) mut) \<Rightarrow> ('s, 'e, 'b) mut" where
  "m_bind m k s = (case m s of (Inl f, s') \<Rightarrow> (Inl f, s') | (Inr a, s') \<Rightarrow> k a s')"

definition m_try :: "('e, 'a) res \<Rightarrow> ('s, 'e, 'a) mut" where
  "m_try r s = (r, s)"

text \<open>Compute the next receiver first and assign it only when every \<open>?\<close> has succeeded.\<close>

definition m_commit :: "('e, 's) res \<Rightarrow> 'a \<Rightarrow> ('s, 'e, 'a) mut" where
  "m_commit r a s = (case r of Inl f \<Rightarrow> (Inl f, s) | Inr s' \<Rightarrow> (Inr a, s'))"

lemma m_commit_simps [mut_simps, simp]:
  "m_commit (Inl f) a s = (Inl f, s)"
  "m_commit (Inr s') a s = (Inr a, s')"
  by (simp_all add: m_commit_def)

lemma m_commit_eq [mut_simps]:
  "m_commit r a s = (Inl f, t) \<longleftrightarrow> r = Inl f \<and> t = s"
  "m_commit r a s = (Inr b, t) \<longleftrightarrow> r = Inr t \<and> b = a"
  by (cases r; auto)+

lemma m_bind_eq [mut_simps]:
  "m_bind m k s = (x, t) \<longleftrightarrow>
     (\<exists>f. m s = (Inl f, t) \<and> x = Inl f) \<or> (\<exists>a s'. m s = (Inr a, s') \<and> k a s' = (x, t))"
  by (auto simp: m_bind_def split: prod.splits sum.splits)

lemma m_try_eq [mut_simps]: "m_try r s = (x, t) \<longleftrightarrow> r = x \<and> t = s"
  by (auto simp: m_try_def)

lemma m_bind_simps:
  "m s = (Inl f, s') \<Longrightarrow> m_bind m k s = (Inl f, s')"
  "m s = (Inr a, s') \<Longrightarrow> m_bind m k s = k a s'"
  by (simp_all add: m_bind_def)

lemma m_bind_try [mut_simps, simp]:
  "m_bind (m_try (Inl f)) k s = (Inl f, s)"
  "m_bind (m_try (Inr a)) k s = k a s"
  by (simp_all add: m_bind_def m_try_def)

section \<open>Machine integers, instants and identifiers\<close>

text \<open>
  Signed 32 and 64 bit values are mathematical integers together with the range in which
  the machine keeps them; the only arithmetic the modelled code does on revisions is
  \<open>checked_add\<close> or an addition that panics when it leaves the range.
\<close>

type_synonym i64 = int
type_synonym i32 = int
type_synonym u8 = "8 word"
type_synonym u16 = "16 word"

definition i64_min :: int where "i64_min = - (2 ^ 63)"

definition i64_max :: int where "i64_max = 2 ^ 63 - 1"

definition in_i64 :: "int \<Rightarrow> bool" where
  "in_i64 x \<longleftrightarrow> i64_min \<le> x \<and> x \<le> i64_max"

definition checked_add_i64 :: "i64 \<Rightarrow> i64 \<Rightarrow> i64 option" where
  "checked_add_i64 a b = (if in_i64 (a + b) then Some (a + b) else None)"

definition checked_add_u8 :: "u8 \<Rightarrow> u8 \<Rightarrow> u8 option" where
  "checked_add_u8 a b = (if unat a + unat b < 256 then Some (a + b) else None)"

lemma i64_max_value: "i64_max = 9223372036854775807"
  by (simp add: i64_max_def)

lemma i64_min_value: "i64_min = - 9223372036854775808"
  by (simp add: i64_min_def)

lemma checked_add_i64_Some:
  "checked_add_i64 a b = Some c \<longleftrightarrow> c = a + b \<and> in_i64 c"
  by (auto simp: checked_add_i64_def)

lemma checked_add_i64_None: "checked_add_i64 a b = None \<longleftrightarrow> \<not> in_i64 (a + b)"
  by (simp add: checked_add_i64_def)

text \<open>
  An \<open>OffsetDateTime\<close> is the integer number of nanoseconds since the Unix epoch, a
  \<open>Duration\<close> an integer number of nanoseconds; comparison is comparison of instants.
  The addition is an operation of the \<open>time\<close> crate and a parameter \<open>tadd\<close> of every
  definition that adds: \<open>None\<close> stands for a sum outside the representable instants,
  where the operator \<open>+\<close> panics and \<open>checked_add\<close> returns \<open>None\<close>.
\<close>

type_synonym instant = int
type_synonym duration = int

definition seconds :: "int \<Rightarrow> duration" where "seconds n = n * 1000000000"

definition minutes :: "int \<Rightarrow> duration" where "minutes n = seconds (n * 60)"

definition hours :: "int \<Rightarrow> duration" where "hours n = seconds (n * 3600)"

definition days :: "int \<Rightarrow> duration" where "days n = seconds (n * 86400)"

text \<open>What the code relies on: a returned sum is the exact one.\<close>

definition time_add_exact :: "(instant \<Rightarrow> duration \<Rightarrow> instant option) \<Rightarrow> bool" where
  "time_add_exact tadd \<longleftrightarrow> (\<forall>t d u. tadd t d = Some u \<longrightarrow> u = t + d)"

text \<open>
  A concrete addition with the documented range of the crate (years -9999 to 9999), used
  by the witnesses.
\<close>

definition utc_add :: "instant \<Rightarrow> duration \<Rightarrow> instant option" where
  "utc_add t d =
     (if seconds (-377705116800) \<le> t + d \<and> t + d < seconds 253402300800 then Some (t + d) else None)"

lemma utc_add_exact [simp]: "time_add_exact utc_add"
  by (auto simp: time_add_exact_def utc_add_def split: if_splits)

text \<open>A \<open>Uuid\<close> is a 128 bit value; the nil identifier is the zero value.\<close>

type_synonym uuid = "128 word"

definition is_nil :: "uuid \<Rightarrow> bool" where "is_nil u \<longleftrightarrow> u = 0"

section \<open>Byte strings\<close>

definition byte :: "char \<Rightarrow> nat" where "byte c = of_char c"

definition is_ascii :: "string \<Rightarrow> bool" where
  "is_ascii s = list_all (\<lambda>c. byte c < 128) s"

definition is_ascii_control :: "char \<Rightarrow> bool" where
  "is_ascii_control c \<longleftrightarrow> byte c < 32 \<or> byte c = 127"

definition is_ascii_whitespace :: "char \<Rightarrow> bool" where
  "is_ascii_whitespace c \<longleftrightarrow> byte c \<in> {9, 10, 12, 13, 32}"

definition is_ascii_digit :: "char \<Rightarrow> bool" where
  "is_ascii_digit c \<longleftrightarrow> 48 \<le> byte c \<and> byte c \<le> 57"

definition is_ascii_lowercase :: "char \<Rightarrow> bool" where
  "is_ascii_lowercase c \<longleftrightarrow> 97 \<le> byte c \<and> byte c \<le> 122"

definition is_ascii_uppercase :: "char \<Rightarrow> bool" where
  "is_ascii_uppercase c \<longleftrightarrow> 65 \<le> byte c \<and> byte c \<le> 90"

definition is_ascii_alphanumeric :: "char \<Rightarrow> bool" where
  "is_ascii_alphanumeric c \<longleftrightarrow>
     is_ascii_digit c \<or> is_ascii_lowercase c \<or> is_ascii_uppercase c"

definition ascii_lower :: "char \<Rightarrow> char" where
  "ascii_lower c = (if is_ascii_uppercase c then char_of (byte c + 32) else c)"

definition to_ascii_lowercase :: "string \<Rightarrow> string" where
  "to_ascii_lowercase s = map ascii_lower s"

text \<open>
  \<open>chars().any(char::is_control)\<close>: the C0 controls and DEL are single bytes, the C1
  controls U+0080 to U+009F are encoded as byte C2 followed by a byte below A0.
\<close>

fun any_control :: "string \<Rightarrow> bool" where
  "any_control [] = False"
| "any_control (c # s) =
     (is_ascii_control c
      \<or> (byte c = 194 \<and> (case s of [] \<Rightarrow> False | d # _ \<Rightarrow> byte d < 160))
      \<or> any_control s)"

text \<open>\<open>contains(char::is_whitespace)\<close>: the encodings of the \<open>White_Space\<close> scalar values.\<close>

definition whitespace_encodings :: "nat list list" where
  "whitespace_encodings =
     map (\<lambda>n. [n]) [9, 10, 11, 12, 13, 32] @ [[194, 133], [194, 160], [225, 154, 128]]
     @ map (\<lambda>n. [226, 128, n]) ([128..<139] @ [168, 169, 175])
     @ [[226, 129, 159], [227, 128, 128]]"

fun any_whitespace :: "string \<Rightarrow> bool" where
  "any_whitespace [] = False"
| "any_whitespace (c # s) =
     (list_ex (\<lambda>e. take (length e) (map byte (c # s)) = e) whitespace_encodings
      \<or> any_whitespace s)"

definition starts_with :: "string \<Rightarrow> string \<Rightarrow> bool" where
  "starts_with p s \<longleftrightarrow> take (length p) s = p"

definition ends_with :: "string \<Rightarrow> string \<Rightarrow> bool" where
  "ends_with p s \<longleftrightarrow> length p \<le> length s \<and> drop (length s - length p) s = p"

fun contains_str :: "string \<Rightarrow> string \<Rightarrow> bool" where
  "contains_str p [] = (p = [])"
| "contains_str p (c # s) = (starts_with p (c # s) \<or> contains_str p s)"

text \<open>\<open>str::split(c)\<close>: always at least one piece.\<close>

fun split_on :: "char \<Rightarrow> string \<Rightarrow> string list" where
  "split_on c [] = [[]]"
| "split_on c (x # xs) =
     (if x = c then [] # split_on c xs
      else (case split_on c xs of [] \<Rightarrow> [[x]] | p # ps \<Rightarrow> (x # p) # ps))"

text \<open>\<open>str::rsplit_once(c)\<close>: the parts before and after the last occurrence.\<close>

fun rsplit_once :: "char \<Rightarrow> string \<Rightarrow> (string \<times> string) option" where
  "rsplit_once c [] = None"
| "rsplit_once c (x # xs) =
     (case rsplit_once c xs of
        Some (l, r) \<Rightarrow> Some (x # l, r)
      | None \<Rightarrow> if x = c then Some ([], xs) else None)"

definition strip_suffix :: "string \<Rightarrow> string \<Rightarrow> string option" where
  "strip_suffix p s = (if ends_with p s then Some (take (length s - length p) s) else None)"

lemma rsplit_once_None: "rsplit_once c s = None \<longleftrightarrow> c \<notin> set s"
  by (induction s) (auto split: option.splits)

lemma rsplit_once_append: "c \<notin> set r \<Longrightarrow> rsplit_once c (l @ c # r) = Some (l, r)"
  by (induction l) (simp_all add: rsplit_once_None [THEN iffD2])

lemma rsplit_once_SomeD: "rsplit_once c s = Some (l, r) \<Longrightarrow> s = l @ c # r \<and> c \<notin> set r"
proof (induction s arbitrary: l)
  case Nil
  then show ?case by simp
next
  case (Cons x xs)
  then show ?case
    by (cases "rsplit_once c xs") (auto simp: rsplit_once_None split: if_splits)
qed

lemma rsplit_once_Some:
  "rsplit_once c s = Some (l, r) \<longleftrightarrow> s = l @ c # r \<and> c \<notin> set r"
  using rsplit_once_append rsplit_once_SomeD by blast

lemma any_control_append_left: "any_control s \<Longrightarrow> any_control (s @ t)"
proof (induction s)
  case Nil
  then show ?case by simp
next
  case (Cons c s)
  then show ?case by (cases s) auto
qed

lemma not_any_control_no_c0: "\<not> any_control s \<Longrightarrow> c \<in> set s \<Longrightarrow> \<not> is_ascii_control c"
  by (induction s) auto

lemma length_to_ascii_lowercase [simp]: "length (to_ascii_lowercase s) = length s"
  by (simp add: to_ascii_lowercase_def)

lemma byte_less_256 [simp]: "byte c < 256"
  by (simp add: byte_def)

lemma ascii_lower_idem [simp]: "ascii_lower (ascii_lower c) = ascii_lower c"
proof -
  have "byte (char_of (byte c + 32)) = byte c + 32" if "byte c \<le> 90"
    using that unfolding byte_def by simp
  then show ?thesis
    by (auto simp: ascii_lower_def is_ascii_uppercase_def)
qed

lemma to_ascii_lowercase_idem [simp]:
  "to_ascii_lowercase (to_ascii_lowercase s) = to_ascii_lowercase s"
  by (simp add: to_ascii_lowercase_def)

lemma to_ascii_lowercase_append [simp]:
  "to_ascii_lowercase (s @ t) = to_ascii_lowercase s @ to_ascii_lowercase t"
  by (simp add: to_ascii_lowercase_def)

end
