(* ===== verification/Owl_Lifecycles.thy ===== *)
theory Owl_Lifecycles
  imports Owl_Prelude
begin

text \<open>
  The status machines of \<open>crates/owlauth-server/src/domain\<close>: projects, applications,
  users, providers, signing keys, login transactions, browser sessions, handoff tickets,
  application sessions, refresh families, refresh generations and browser logout
  interactions.  Every transition method takes \<open>&mut self\<close> and is a state transformer;
  the enumerations keep the source's constructors behind a prefix for the type.

  The locale \<open>one_way_lifecycle\<close> states the contract most of them share (a failed
  transition changes nothing, a successful one moves strictly towards the terminal
  states) and derives from it that a history is finite, never returns and is dead after
  a terminal state.
\<close>

section \<open>Domain errors\<close>

datatype domain_error =
    Empty
  | TooLong
  | InvalidCharacters
  | InvalidUrl
  | InvalidTransition
  | InvalidValue

section \<open>Status enumerations and their transitions\<close>

text \<open>A guarded assignment \<open>if !guard { return Err(InvalidTransition) } *self = next\<close>.\<close>

definition guarded_set :: "('s \<Rightarrow> bool) \<Rightarrow> 's \<Rightarrow> ('s, domain_error, unit) mut" where
  "guarded_set allowed nxt s = (if allowed s then (Inr (), nxt) else (Inl (Err InvalidTransition), s))"

lemma guarded_set_simps [simp]:
  "allowed s \<Longrightarrow> guarded_set allowed nxt s = (Inr (), nxt)"
  "\<not> allowed s \<Longrightarrow> guarded_set allowed nxt s = (Inl (Err InvalidTransition), s)"
  by (simp_all add: guarded_set_def)

subsection \<open>Projects, applications, users and providers\<close>

datatype project_status = ProjectActive | ProjectDisabled | ProjectDeleting

fun project_status_as_str :: "project_status \<Rightarrow> string" where
  "project_status_as_str ProjectActive = ''active''"
| "project_status_as_str ProjectDisabled = ''disabled''"
| "project_status_as_str ProjectDeleting = ''deleting''"

definition project_disable :: "(project_status, domain_error, unit) mut" where
  "project_disable = guarded_set (\<lambda>s. s = ProjectActive) ProjectDisabled"

definition project_enable :: "(project_status, domain_error, unit) mut" where
  "project_enable = guarded_set (\<lambda>s. s = ProjectDisabled) ProjectActive"

definition project_delete :: "(project_status, domain_error, unit) mut" where
  "project_delete = guarded_set (\<lambda>s. s \<in> {ProjectActive, ProjectDisabled}) ProjectDeleting"

datatype application_status = AppActive | AppDisabled

fun application_status_as_str :: "application_status \<Rightarrow> string" where
  "application_status_as_str AppActive = ''active''"
| "application_status_as_str AppDisabled = ''disabled''"

definition application_disable :: "(application_status, domain_error, unit) mut" where
  "application_disable = guarded_set (\<lambda>s. s = AppActive) AppDisabled"

datatype project_user_status = UserActive | UserDisabled

fun project_user_status_as_str :: "project_user_status \<Rightarrow> string" where
  "project_user_status_as_str UserActive = ''active''"
| "project_user_status_as_str UserDisabled = ''disabled''"

definition user_disable :: "(project_user_status, domain_error, unit) mut" where
  "user_disable = guarded_set (\<lambda>s. s = UserActive) UserDisabled"

definition user_enable :: "(project_user_status, domain_error, unit) mut" where
  "user_enable = guarded_set (\<lambda>s. s = UserDisabled) UserActive"

datatype provider_status = ProviderProvisioning | ProviderActive | ProviderDisabled

fun provider_status_as_str :: "provider_status \<Rightarrow> string" where
  "provider_status_as_str ProviderProvisioning = ''provisioning''"
| "provider_status_as_str ProviderActive = ''active''"
| "provider_status_as_str ProviderDisabled = ''disabled''"

definition provider_provision :: "(provider_status, domain_error, unit) mut" where
  "provider_provision = guarded_set (\<lambda>s. s = ProviderProvisioning) ProviderActive"

definition provider_disable :: "(provider_status, domain_error, unit) mut" where
  "provider_disable = guarded_set (\<lambda>s. s = ProviderActive) ProviderDisabled"

subsection \<open>Signing keys\<close>

datatype signing_key_state =
    KeyProvisioning | KeyPublished | KeyActive | KeyRetiring | KeyRetired | KeyRevoked | KeyAbandoned

fun signing_key_state_as_str :: "signing_key_state \<Rightarrow> string" where
  "signing_key_state_as_str KeyProvisioning = ''provisioning''"
| "signing_key_state_as_str KeyPublished = ''published''"
| "signing_key_state_as_str KeyActive = ''active''"
| "signing_key_state_as_str KeyRetiring = ''retiring''"
| "signing_key_state_as_str KeyRetired = ''retired''"
| "signing_key_state_as_str KeyRevoked = ''revoked''"
| "signing_key_state_as_str KeyAbandoned = ''abandoned''"

fun signing_key_allowed :: "signing_key_state \<Rightarrow> signing_key_state \<Rightarrow> bool" where
  "signing_key_allowed KeyProvisioning n = (n \<in> {KeyPublished, KeyAbandoned, KeyRevoked})"
| "signing_key_allowed KeyPublished n = (n \<in> {KeyActive, KeyAbandoned, KeyRevoked})"
| "signing_key_allowed KeyActive n = (n \<in> {KeyRetiring, KeyRevoked})"
| "signing_key_allowed KeyRetiring n = (n \<in> {KeyRetired, KeyRevoked})"
| "signing_key_allowed _ _ = False"

definition signing_key_transition :: "signing_key_state \<Rightarrow> (signing_key_state, domain_error, unit) mut" where
  "signing_key_transition nxt = guarded_set (\<lambda>s. signing_key_allowed s nxt) nxt"

subsection \<open>Login transactions\<close>

datatype login_transaction_status =
    AwaitingBrowserBinding
  | AwaitingMethodSelection
  | EmailAddressEntry
  | EmailChallengePending
  | ProviderAuthorizationStarted
  | ProviderExchangeInProgress
  | ProviderExchangeFailed
  | Authenticated
  | HandoffIssued
  | LoginCompleted
  | LoginExpired
  | LoginCancelled

fun login_status_as_str :: "login_transaction_status \<Rightarrow> string" where
  "login_status_as_str AwaitingBrowserBinding = ''awaiting_browser_binding''"
| "login_status_as_str AwaitingMethodSelection = ''awaiting_method_selection''"
| "login_status_as_str EmailAddressEntry = ''email_address_entry''"
| "login_status_as_str EmailChallengePending = ''email_challenge_pending''"
| "login_status_as_str ProviderAuthorizationStarted = ''provider_authorization_started''"
| "login_status_as_str ProviderExchangeInProgress = ''provider_exchange_in_progress''"
| "login_status_as_str ProviderExchangeFailed = ''provider_exchange_failed''"
| "login_status_as_str Authenticated = ''authenticated''"
| "login_status_as_str HandoffIssued = ''handoff_issued''"
| "login_status_as_str LoginCompleted = ''completed''"
| "login_status_as_str LoginExpired = ''expired''"
| "login_status_as_str LoginCancelled = ''cancelled''"

fun login_allowed :: "login_transaction_status \<Rightarrow> login_transaction_status \<Rightarrow> bool" where
  "login_allowed AwaitingBrowserBinding n =
     (n \<in> {AwaitingMethodSelection, LoginExpired, LoginCancelled})"
| "login_allowed AwaitingMethodSelection n =
     (n \<in> {ProviderAuthorizationStarted, EmailAddressEntry, HandoffIssued, LoginExpired, LoginCancelled})"
| "login_allowed EmailAddressEntry n = (n \<in> {EmailChallengePending, LoginExpired, LoginCancelled})"
| "login_allowed EmailChallengePending n = (n \<in> {Authenticated, LoginExpired, LoginCancelled})"
| "login_allowed ProviderAuthorizationStarted n =
     (n \<in> {ProviderExchangeInProgress, LoginExpired, LoginCancelled})"
| "login_allowed ProviderExchangeInProgress n = (n \<in> {Authenticated, ProviderExchangeFailed})"
| "login_allowed Authenticated n = (n \<in> {HandoffIssued, LoginExpired})"
| "login_allowed HandoffIssued n = (n \<in> {LoginCompleted, LoginExpired})"
| "login_allowed _ _ = False"

definition login_transition ::
    "login_transaction_status \<Rightarrow> (login_transaction_status, domain_error, unit) mut" where
  "login_transition nxt = guarded_set (\<lambda>s. login_allowed s nxt) nxt"

text \<open>The public methods; each is one call of \<open>transition\<close>.\<close>

datatype login_op =
    BindBrowser | SelectProvider | SelectEmail | BeginEmailChallenge | ConfirmSessionReuse
  | ClaimProviderCallback | Authenticate | FailProviderExchange | IssueHandoff | Complete
  | Expire | Cancel

fun login_apply :: "login_op \<Rightarrow> (login_transaction_status, domain_error, unit) mut" where
  "login_apply BindBrowser = login_transition AwaitingMethodSelection"
| "login_apply SelectProvider = login_transition ProviderAuthorizationStarted"
| "login_apply SelectEmail = login_transition EmailAddressEntry"
| "login_apply BeginEmailChallenge = login_transition EmailChallengePending"
| "login_apply ConfirmSessionReuse = login_transition HandoffIssued"
| "login_apply ClaimProviderCallback = login_transition ProviderExchangeInProgress"
| "login_apply Authenticate = login_transition Authenticated"
| "login_apply FailProviderExchange = login_transition ProviderExchangeFailed"
| "login_apply IssueHandoff = login_transition HandoffIssued"
| "login_apply Complete = login_transition LoginCompleted"
| "login_apply Expire = login_transition LoginExpired"
| "login_apply Cancel = login_transition LoginCancelled"

subsection \<open>Sessions, handoff tickets, refresh tokens and browser logout\<close>

datatype browser_session_status = BrowserActive | BrowserTerminated | BrowserExpired

fun browser_session_as_str :: "browser_session_status \<Rightarrow> string" where
  "browser_session_as_str BrowserActive = ''active''"
| "browser_session_as_str BrowserTerminated = ''terminated''"
| "browser_session_as_str BrowserExpired = ''expired''"

definition browser_terminate :: "(browser_session_status, domain_error, unit) mut" where
  "browser_terminate = guarded_set (\<lambda>s. s = BrowserActive) BrowserTerminated"

definition browser_expire :: "(browser_session_status, domain_error, unit) mut" where
  "browser_expire = guarded_set (\<lambda>s. s = BrowserActive) BrowserExpired"

datatype handoff_status = TicketIssued | TicketConsumed | TicketExpired

fun handoff_as_str :: "handoff_status \<Rightarrow> string" where
  "handoff_as_str TicketIssued = ''issued''"
| "handoff_as_str TicketConsumed = ''consumed''"
| "handoff_as_str TicketExpired = ''expired''"

definition handoff_consume :: "(handoff_status, domain_error, unit) mut" where
  "handoff_consume = guarded_set (\<lambda>s. s = TicketIssued) TicketConsumed"

definition handoff_expire :: "(handoff_status, domain_error, unit) mut" where
  "handoff_expire = guarded_set (\<lambda>s. s = TicketIssued) TicketExpired"

datatype application_session_status = SessionActive | SessionRevoked | SessionExpired

fun application_session_as_str :: "application_session_status \<Rightarrow> string" where
  "application_session_as_str SessionActive = ''active''"
| "application_session_as_str SessionRevoked = ''revoked''"
| "application_session_as_str SessionExpired = ''expired''"

definition session_revoke :: "(application_session_status, domain_error, unit) mut" where
  "session_revoke = guarded_set (\<lambda>s. s = SessionActive) SessionRevoked"

definition session_expire :: "(application_session_status, domain_error, unit) mut" where
  "session_expire = guarded_set (\<lambda>s. s = SessionActive) SessionExpired"

datatype refresh_family_status = FamilyActive | FamilyRevoked | FamilyExpired

fun refresh_family_as_str :: "refresh_family_status \<Rightarrow> string" where
  "refresh_family_as_str FamilyActive = ''active''"
| "refresh_family_as_str FamilyRevoked = ''revoked''"
| "refresh_family_as_str FamilyExpired = ''expired''"

definition family_revoke :: "(refresh_family_status, domain_error, unit) mut" where
  "family_revoke = guarded_set (\<lambda>s. s = FamilyActive) FamilyRevoked"

definition family_expire :: "(refresh_family_status, domain_error, unit) mut" where
  "family_expire = guarded_set (\<lambda>s. s = FamilyActive) FamilyExpired"

datatype refresh_generation_status = GenCurrent | GenConsumed

fun refresh_generation_as_str :: "refresh_generation_status \<Rightarrow> string" where
  "refresh_generation_as_str GenCurrent = ''current''"
| "refresh_generation_as_str GenConsumed = ''consumed''"

datatype refresh_presentation_decision = RotateSuccessor | RevokeFamilyForReplay

fun generation_present ::
    "refresh_generation_status \<Rightarrow> refresh_presentation_decision \<times> refresh_generation_status" where
  "generation_present GenCurrent = (RotateSuccessor, GenConsumed)"
| "generation_present GenConsumed = (RevokeFamilyForReplay, GenConsumed)"

datatype browser_logout_status = LogoutPrepared | LogoutCsrfBound | LogoutConsumed | LogoutExpired

fun browser_logout_as_str :: "browser_logout_status \<Rightarrow> string" where
  "browser_logout_as_str LogoutPrepared = ''prepared''"
| "browser_logout_as_str LogoutCsrfBound = ''csrf_bound''"
| "browser_logout_as_str LogoutConsumed = ''consumed''"
| "browser_logout_as_str LogoutExpired = ''expired''"

definition logout_bind_csrf :: "(browser_logout_status, domain_error, unit) mut" where
  "logout_bind_csrf = guarded_set (\<lambda>s. s = LogoutPrepared) LogoutCsrfBound"

definition logout_consume :: "(browser_logout_status, domain_error, unit) mut" where
  "logout_consume = guarded_set (\<lambda>s. s = LogoutCsrfBound) LogoutConsumed"

definition logout_expire :: "(browser_logout_status, domain_error, unit) mut" where
  "logout_expire = guarded_set (\<lambda>s. s \<in> {LogoutPrepared, LogoutCsrfBound}) LogoutExpired"

datatype logout_op = LogoutBindCsrf | LogoutConsume | LogoutExpire

fun logout_apply :: "logout_op \<Rightarrow> (browser_logout_status, domain_error, unit) mut" where
  "logout_apply LogoutBindCsrf = logout_bind_csrf"
| "logout_apply LogoutConsume = logout_consume"
| "logout_apply LogoutExpire = logout_expire"

section \<open>Histories of a status value\<close>

text \<open>
  A caller applies methods one after another and carries on after an error.
  \<open>run_ops\<close> is the status afterwards, \<open>visited\<close> the statuses the successful calls
  moved to, in order.
\<close>

fun run_ops :: "('o \<Rightarrow> ('s, 'e, 'a) mut) \<Rightarrow> 'o list \<Rightarrow> 's \<Rightarrow> 's" where
  "run_ops app [] s = s"
| "run_ops app (x # xs) s = run_ops app xs (snd (app x s))"

fun visited :: "('o \<Rightarrow> ('s, 'e, 'a) mut) \<Rightarrow> 'o list \<Rightarrow> 's \<Rightarrow> 's list" where
  "visited app [] s = []"
| "visited app (x # xs) s =
     (case app x s of
        (Inr _, t) \<Rightarrow> t # visited app xs t
      | (Inl _, t) \<Rightarrow> visited app xs t)"

locale one_way_lifecycle =
  fixes app :: "'o \<Rightarrow> ('s, 'e, 'a) mut"
    and rank :: "'s \<Rightarrow> nat"
  assumes failed_unchanged: "app x s = (Inl f, t) \<Longrightarrow> t = s"
    and applied_descends: "app x s = (Inr a, t) \<Longrightarrow> rank t < rank s"
begin

lemma step_cases:
  obtains (failed) f where "app x s = (Inl f, s)"
  | (applied) a t where "app x s = (Inr a, t)" and "rank t < rank s"
proof (cases "app x s")
  case (Pair r t)
  then show ?thesis
    using failed applied failed_unchanged applied_descends by (cases r) blast+
qed

lemma rank_run: "rank (run_ops app xs s) \<le> rank s"
proof (induction xs arbitrary: s)
  case Nil
  then show ?case by simp
next
  case (Cons x xs)
  show ?case
  proof (cases rule: step_cases [of x s])
    case (failed f)
    then show ?thesis using Cons by simp
  next
    case (applied a t)
    then show ?thesis using Cons [of t] by simp
  qed
qed

lemma visited_descending:
  "sorted_wrt (\<lambda>t u. rank u < rank t) (s # visited app xs s)"
proof (induction xs arbitrary: s)
  case Nil
  then show ?case by simp
next
  case (Cons x xs)
  show ?case
  proof (cases rule: step_cases [of x s])
    case (failed f)
    then show ?thesis using Cons by simp
  next
    case (applied a t)
    then show ?thesis using Cons [of t] by auto
  qed
qed

lemma visited_bounded: "length (visited app xs s) \<le> rank s"
proof (induction xs arbitrary: s)
  case Nil
  then show ?case by simp
next
  case (Cons x xs)
  show ?case
  proof (cases rule: step_cases [of x s])
    case (failed f)
    then show ?thesis using Cons by simp
  next
    case (applied a t)
    then show ?thesis using Cons [of t] by simp
  qed
qed

lemma visited_distinct: "distinct (s # visited app xs s)"
proof -
  have "sorted_wrt (\<lambda>t u. rank u < rank t) ys \<Longrightarrow> distinct ys" for ys :: "'s list"
    by (induction ys) auto
  then show ?thesis using visited_descending by blast
qed

lemma terminal_stays: "rank s = 0 \<Longrightarrow> run_ops app xs s = s"
proof (induction xs)
  case Nil
  then show ?case by simp
next
  case (Cons x xs)
  then show ?case by (cases rule: step_cases [of x s]) simp_all
qed

end

lemma run_ops_last_visited:
  assumes "\<And>x s f t. app x s = (Inl f, t) \<Longrightarrow> t = s"
  shows "run_ops app xs s = last (s # visited app xs s)"
proof (induction xs arbitrary: s)
  case Nil
  then show ?case by simp
next
  case (Cons x xs)
  show ?case
  proof (cases "app x s")
    case (Pair r t)
    then show ?thesis using Cons [of t] assms by (cases r) fastforce+
  qed
qed

lemma guarded_set_failed: "guarded_set g n s = (Inl f, t) \<Longrightarrow> t = s"
  by (auto simp: guarded_set_def split: if_splits)

lemma guarded_set_applied: "guarded_set g n s = (Inr a, t) \<longleftrightarrow> g s \<and> t = n"
  by (auto simp: guarded_set_def)

subsection \<open>The lifecycles of the code\<close>

fun login_rank :: "login_transaction_status \<Rightarrow> nat" where
  "login_rank AwaitingBrowserBinding = 6"
| "login_rank AwaitingMethodSelection = 5"
| "login_rank EmailAddressEntry = 4"
| "login_rank ProviderAuthorizationStarted = 4"
| "login_rank EmailChallengePending = 3"
| "login_rank ProviderExchangeInProgress = 3"
| "login_rank Authenticated = 2"
| "login_rank HandoffIssued = 1"
| "login_rank _ = 0"

lemma login_apply_transition: "\<exists>n. login_apply x = login_transition n"
  by (cases x) auto

lemma login_apply_applied: "login_apply x s = (Inr a, t) \<Longrightarrow> login_allowed s t"
  using login_apply_transition [of x] by (auto simp: login_transition_def guarded_set_applied)

lemma login_allowed_rank: "login_allowed s t \<Longrightarrow> login_rank t < login_rank s"
  by (cases s) auto

interpretation login_lc: one_way_lifecycle login_apply login_rank
proof
  fix x s f t
  assume "login_apply x s = (Inl f, t)"
  then show "t = s"
    using login_apply_transition [of x] by (auto simp: login_transition_def dest: guarded_set_failed)
next
  fix x s a t
  assume "login_apply x s = (Inr a, t)"
  then show "login_rank t < login_rank s"
    by (blast dest: login_apply_applied login_allowed_rank)
qed

fun signing_key_rank :: "signing_key_state \<Rightarrow> nat" where
  "signing_key_rank KeyProvisioning = 4"
| "signing_key_rank KeyPublished = 3"
| "signing_key_rank KeyActive = 2"
| "signing_key_rank KeyRetiring = 1"
| "signing_key_rank _ = 0"

lemma signing_key_allowed_rank: "signing_key_allowed s t \<Longrightarrow> signing_key_rank t < signing_key_rank s"
  by (cases s) auto

interpretation key_lc: one_way_lifecycle signing_key_transition signing_key_rank
  by unfold_locales
    (auto simp: signing_key_transition_def guarded_set_applied signing_key_allowed_rank
      dest: guarded_set_failed)

fun logout_rank :: "browser_logout_status \<Rightarrow> nat" where
  "logout_rank LogoutPrepared = 2"
| "logout_rank LogoutCsrfBound = 1"
| "logout_rank _ = 0"

lemmas logout_ops = logout_bind_csrf_def logout_consume_def logout_expire_def

interpretation logout_lc: one_way_lifecycle logout_apply logout_rank
proof
  fix x s f t
  assume "logout_apply x s = (Inl f, t)"
  then show "t = s" by (cases x) (auto simp: logout_ops dest: guarded_set_failed)
next
  fix x s a t
  assume "logout_apply x s = (Inr a, t)"
  then show "logout_rank t < logout_rank s" by (cases x) (auto simp: logout_ops guarded_set_applied)
qed

section \<open>Login transactions reach a handoff only through a proof\<close>

text \<open>The statuses a login walks through before a status, from the binding step on.\<close>

fun login_path :: "login_transaction_status \<Rightarrow> login_transaction_status list \<Rightarrow> bool" where
  "login_path s [] = True"
| "login_path s (t # ts) = (login_allowed s t \<and> login_path t ts)"

lemma visited_login_path: "login_path s (visited login_apply xs s)"
proof (induction xs arbitrary: s)
  case Nil
  then show ?case by simp
next
  case (Cons x xs)
  show ?case
  proof (cases rule: login_lc.step_cases [of x s])
    case (failed f)
    then show ?thesis using Cons by simp
  next
    case (applied a t)
    then show ?thesis using Cons [of t] by (auto dest: login_apply_applied)
  qed
qed

text \<open>Completing walks: the status sequences from a status that end completed.\<close>

definition completes_from :: "login_transaction_status \<Rightarrow> login_transaction_status list \<Rightarrow> bool" where
  "completes_from s ts \<longleftrightarrow> login_path s ts \<and> last (s # ts) = LoginCompleted"

lemma completes_from_Cons:
  "completes_from s (t # ts) \<longleftrightarrow> login_allowed s t \<and> completes_from t ts"
  by (auto simp: completes_from_def)

lemma completes_from_Nil: "completes_from s [] \<longleftrightarrow> s = LoginCompleted"
  by (simp add: completes_from_def)

lemma login_path_terminal: "login_rank s = 0 \<Longrightarrow> login_path s ts \<longleftrightarrow> ts = []"
  by (cases ts) (auto dest: login_allowed_rank)

lemma completes_from_terminal:
  "login_rank s = 0 \<Longrightarrow> completes_from s ts \<longleftrightarrow> ts = [] \<and> s = LoginCompleted"
  by (auto simp: completes_from_def login_path_terminal)

lemma completes_from_step:
  "completes_from s ts \<Longrightarrow> s \<noteq> LoginCompleted \<Longrightarrow>
     \<exists>t us. ts = t # us \<and> login_allowed s t \<and> completes_from t us"
  by (cases ts) (auto simp: completes_from_Nil completes_from_Cons)

lemma completes_HandoffIssued: "completes_from HandoffIssued ts \<Longrightarrow> ts = [LoginCompleted]"
  by (drule completes_from_step) (auto simp: completes_from_terminal)

lemma completes_Authenticated:
  "completes_from Authenticated ts \<Longrightarrow> ts = [HandoffIssued, LoginCompleted]"
  by (drule completes_from_step)
    (auto simp: completes_from_terminal dest: completes_HandoffIssued)

lemma completes_EmailChallengePending:
  "completes_from EmailChallengePending ts \<Longrightarrow> ts = [Authenticated, HandoffIssued, LoginCompleted]"
  by (drule completes_from_step)
    (auto simp: completes_from_terminal dest: completes_Authenticated)

lemma completes_EmailAddressEntry:
  "completes_from EmailAddressEntry ts \<Longrightarrow>
     ts = [EmailChallengePending, Authenticated, HandoffIssued, LoginCompleted]"
  by (drule completes_from_step)
    (auto simp: completes_from_terminal dest: completes_EmailChallengePending)

lemma completes_ProviderExchange:
  "completes_from ProviderExchangeInProgress ts \<Longrightarrow>
     ts = [Authenticated, HandoffIssued, LoginCompleted]"
  by (drule completes_from_step)
    (auto simp: completes_from_terminal dest: completes_Authenticated)

lemma completes_ProviderAuthorization:
  "completes_from ProviderAuthorizationStarted ts \<Longrightarrow>
     ts = [ProviderExchangeInProgress, Authenticated, HandoffIssued, LoginCompleted]"
  by (drule completes_from_step)
    (auto simp: completes_from_terminal dest: completes_ProviderExchange)

lemma completes_MethodSelection:
  "completes_from AwaitingMethodSelection ts \<Longrightarrow>
     ts \<in> {[HandoffIssued, LoginCompleted],
           [EmailAddressEntry, EmailChallengePending, Authenticated, HandoffIssued, LoginCompleted],
           [ProviderAuthorizationStarted, ProviderExchangeInProgress, Authenticated, HandoffIssued,
            LoginCompleted]}"
  by (drule completes_from_step)
    (auto simp: completes_from_terminal
      dest: completes_HandoffIssued completes_EmailAddressEntry completes_ProviderAuthorization)



text \<open>
  (C27) Every history of a login transaction is finite and one-way: at most six calls ever
  succeed, no status is entered twice, and in a terminal status no call changes anything.
\<close>

theorem login_history_is_one_way:
  "length (visited login_apply xs s) \<le> 6 \<and> distinct (s # visited login_apply xs s)
   \<and> (s \<in> {LoginCompleted, LoginExpired, LoginCancelled, ProviderExchangeFailed}
      \<longrightarrow> run_ops login_apply xs s = s)"
proof -
  have "login_rank s \<le> 6" by (cases s) auto
  then have "length (visited login_apply xs s) \<le> 6"
    using login_lc.visited_bounded [of xs s] by linarith
  then show ?thesis
    using login_lc.visited_distinct [of s xs] login_lc.terminal_stays [of s xs] by auto
qed

theorem login_history_is_one_way_witness:
  "run_ops login_apply [BindBrowser, Complete, Authenticate] LoginCancelled = LoginCancelled"
  using login_history_is_one_way [of "[BindBrowser, Complete, Authenticate]" LoginCancelled] by simp

end
