(* ===== verification/Owl_Values.thy ===== *)
theory Owl_Values
  imports Owl_Lifecycles
begin

text \<open>
  The bounded value types of \<open>domain/project.rs\<close>, \<open>domain/identity.rs\<close> and
  \<open>domain/provider.rs\<close>: display names, owners, public identifiers, provider issuers,
  subjects and keys, locales, revisions.  A newtype \<open>struct T(String)\<close> is its string, and
  \<open>T::parse\<close> the function that returns it or the domain error of the first failed check.

  The locale \<open>checked_parser\<close> is what the rest of the server assumes of every one of
  these parsers: it returns its input unchanged, exactly when the input is admissible.
\<close>

section \<open>Text values\<close>

definition validate_bounded_text :: "string \<Rightarrow> nat \<Rightarrow> (domain_error, unit) res" where
  "validate_bounded_text value mx =
     (if value = [] then Inl (Err Empty)
      else if length value > mx then Inl (Err TooLong)
      else if any_control value then Inl (Err InvalidCharacters)
      else Inr ())"

definition display_name_parse :: "string \<Rightarrow> (domain_error, string) res" where
  "display_name_parse value = and_then (validate_bounded_text value 128) (\<lambda>_. Inr value)"

definition opaque_owner_parse :: "string \<Rightarrow> (domain_error, string) res" where
  "opaque_owner_parse value = and_then (validate_bounded_text value 256) (\<lambda>_. Inr value)"

definition public_id_parse :: "string \<Rightarrow> (domain_error, string) res" where
  "public_id_parse value =
     (if \<not> (8 \<le> length value \<and> length value \<le> 96)
      then Inl (Err (if value = [] then Empty else TooLong))
      else if \<not> list_all (\<lambda>c. is_ascii_alphanumeric c \<or> c \<in> {CHR ''_'', CHR ''-''}) value
      then Inl (Err InvalidCharacters)
      else Inr value)"

text \<open>
  \<open>domain/identity.rs\<close> has a copy of \<open>validate_bounded_text\<close> with the same body.
\<close>

definition identity_validate_bounded_text :: "string \<Rightarrow> nat \<Rightarrow> (domain_error, unit) res" where
  "identity_validate_bounded_text value mx =
     (if value = [] then Inl (Err Empty)
      else if length value > mx then Inl (Err TooLong)
      else if any_control value then Inl (Err InvalidCharacters)
      else Inr ())"

definition provider_issuer_parse :: "string \<Rightarrow> (domain_error, string) res" where
  "provider_issuer_parse value = and_then (identity_validate_bounded_text value 2048) (\<lambda>_. Inr value)"

definition provider_subject_parse :: "string \<Rightarrow> (domain_error, string) res" where
  "provider_subject_parse value = and_then (identity_validate_bounded_text value 512) (\<lambda>_. Inr value)"

definition profile_display_name_parse :: "string \<Rightarrow> (domain_error, string) res" where
  "profile_display_name_parse value =
     and_then (identity_validate_bounded_text value 128) (\<lambda>_. Inr value)"

definition profile_locale_parse :: "string \<Rightarrow> (domain_error, string) res" where
  "profile_locale_parse value =
     (if \<not> (2 \<le> length value \<and> length value \<le> 35)
        \<or> starts_with ''-'' value \<or> ends_with ''-'' value \<or> contains_str ''--'' value
        \<or> \<not> list_all (\<lambda>c. is_ascii_alphanumeric c \<or> c = CHR ''-'') value
      then Inl (Err InvalidCharacters)
      else Inr value)"

text \<open>
  \<open>ProviderKey::parse\<close> reads the first byte from an iterator and the remaining ones from
  the rest of the same iterator; the length is judged first when the errors are chosen.
\<close>

definition provider_key_parse :: "string \<Rightarrow> (domain_error, string) res" where
  "provider_key_parse value =
     (let valid_length = (1 \<le> length value \<and> length value \<le> 64);
          valid_first = (case value of [] \<Rightarrow> False | c # _ \<Rightarrow> is_ascii_lowercase c);
          valid_rest =
            list_all (\<lambda>c. is_ascii_lowercase c \<or> is_ascii_digit c \<or> c \<in> {CHR ''_'', CHR ''-''})
              (tl value)
      in if \<not> valid_length then Inl (Err (if value = [] then Empty else TooLong))
         else if \<not> valid_first \<or> \<not> valid_rest then Inl (Err InvalidCharacters)
         else Inr value)"

section \<open>Revisions\<close>

text \<open>\<open>UserRevision\<close> and \<open>ProjectionRevision\<close> wrap a positive \<open>i64\<close>.\<close>

definition user_revision_initial :: i64 where "user_revision_initial = 1"

definition user_revision_parse :: "i64 \<Rightarrow> (domain_error, i64) res" where
  "user_revision_parse value = (if value < 1 then Inl (Err InvalidTransition) else Inr value)"

definition user_revision_advance :: "(i64, domain_error, unit) mut" where
  "user_revision_advance self =
     (case checked_add_i64 self 1 of
        None \<Rightarrow> (Inl (Err InvalidTransition), self)
      | Some v \<Rightarrow> (Inr (), v))"

definition projection_revision_initial :: i64 where "projection_revision_initial = 1"

definition projection_revision_parse :: "i64 \<Rightarrow> (domain_error, i64) res" where
  "projection_revision_parse value = (if value < 1 then Inl (Err InvalidTransition) else Inr value)"

definition projection_revision_advance :: "(i64, domain_error, unit) mut" where
  "projection_revision_advance self =
     (case checked_add_i64 self 1 of
        None \<Rightarrow> (Inl (Err InvalidTransition), self)
      | Some v \<Rightarrow> (Inr (), v))"

section \<open>Provider kinds\<close>

datatype provider_kind = Oidc | Google | Github

definition GOOGLE_ISSUER :: string where "GOOGLE_ISSUER = ''https://accounts.google.com''"

definition GITHUB_ISSUER :: string where "GITHUB_ISSUER = ''https://github.com''"

definition GOOGLE_SCOPES :: "string list" where "GOOGLE_SCOPES = [''openid'', ''profile'']"

definition GITHUB_SCOPES :: "string list" where "GITHUB_SCOPES = [''read:user'']"

definition provider_kind_parse :: "string \<Rightarrow> (domain_error, provider_kind) res" where
  "provider_kind_parse value =
     (if value = ''oidc'' then Inr Oidc
      else if value = ''google'' then Inr Google
      else if value = ''github'' then Inr Github
      else Inl (Err InvalidCharacters))"

fun provider_kind_as_str :: "provider_kind \<Rightarrow> string" where
  "provider_kind_as_str Oidc = ''oidc''"
| "provider_kind_as_str Google = ''google''"
| "provider_kind_as_str Github = ''github''"

record provider_capabilities =
  pc_login :: bool
  pc_identity_proof :: bool
  pc_managed_profile :: bool
  pc_adapter_key :: string

fun provider_kind_capabilities :: "provider_kind \<Rightarrow> provider_capabilities" where
  "provider_kind_capabilities Oidc =
     \<lparr>pc_login = True, pc_identity_proof = True, pc_managed_profile = True,
      pc_adapter_key = ''controlled_oidc_profile_v1''\<rparr>"
| "provider_kind_capabilities Google =
     \<lparr>pc_login = True, pc_identity_proof = True, pc_managed_profile = True,
      pc_adapter_key = ''google_oidc_profile_v1''\<rparr>"
| "provider_kind_capabilities Github =
     \<lparr>pc_login = True, pc_identity_proof = False, pc_managed_profile = False,
      pc_adapter_key = ''github_oauth_login_v1''\<rparr>"

datatype provider_consent_behavior = Standard | ExplicitOfflineConsent

record fixed_provider_authorization_policy =
  fp_exact_scopes :: "string list"
  fp_consent_behavior :: provider_consent_behavior

record named_provider_profile =
  np_issuer :: string
  np_login :: fixed_provider_authorization_policy
  np_managed_profile :: "fixed_provider_authorization_policy option"

definition STANDARD_OPENID_POLICY :: fixed_provider_authorization_policy where
  "STANDARD_OPENID_POLICY = \<lparr>fp_exact_scopes = GOOGLE_SCOPES, fp_consent_behavior = Standard\<rparr>"

definition GOOGLE_MANAGED_POLICY :: fixed_provider_authorization_policy where
  "GOOGLE_MANAGED_POLICY =
     \<lparr>fp_exact_scopes = GOOGLE_SCOPES, fp_consent_behavior = ExplicitOfflineConsent\<rparr>"

definition GITHUB_LOGIN_POLICY :: fixed_provider_authorization_policy where
  "GITHUB_LOGIN_POLICY = \<lparr>fp_exact_scopes = GITHUB_SCOPES, fp_consent_behavior = Standard\<rparr>"

fun named_profile :: "provider_kind \<Rightarrow> named_provider_profile option" where
  "named_profile Oidc = None"
| "named_profile Google =
     Some \<lparr>np_issuer = GOOGLE_ISSUER, np_login = STANDARD_OPENID_POLICY,
           np_managed_profile = Some GOOGLE_MANAGED_POLICY\<rparr>"
| "named_profile Github =
     Some \<lparr>np_issuer = GITHUB_ISSUER, np_login = GITHUB_LOGIN_POLICY, np_managed_profile = None\<rparr>"

definition issuer_matches :: "provider_kind \<Rightarrow> string \<Rightarrow> bool" where
  "issuer_matches kind issuer =
     (case named_profile kind of
        Some profile \<Rightarrow> issuer = np_issuer profile
      | None \<Rightarrow>
          (let canonical_root = (case strip_suffix ''/'' issuer of Some r \<Rightarrow> r | None \<Rightarrow> issuer)
           in canonical_root \<notin> {GOOGLE_ISSUER, GITHUB_ISSUER}))"

section \<open>The contract of a parser\<close>

locale checked_parser =
  fixes parse :: "string \<Rightarrow> (domain_error, string) res"
    and admissible :: "string \<Rightarrow> bool"
  assumes parse_iff: "parse s = Inr t \<longleftrightarrow> t = s \<and> admissible s"
    and parse_no_panic: "\<not> panics (parse s)"
begin

lemma parse_idem: "parse s = Inr t \<Longrightarrow> parse t = Inr t"
  by (simp add: parse_iff)

lemma parse_total: "parse s = Inr s \<or> (\<exists>e. parse s = Inl (Err e))"
proof (cases "parse s")
  case (Inl f)
  then show ?thesis using parse_no_panic [of s] by (cases f) simp_all
next
  case (Inr t)
  then show ?thesis using parse_iff [of s t] by simp
qed

lemma parse_rejects: "\<not> admissible s \<longleftrightarrow> (\<exists>e. parse s = Inl (Err e))"
  using parse_total [of s] parse_iff [of s s] by auto

end

definition bounded_text :: "nat \<Rightarrow> string \<Rightarrow> bool" where
  "bounded_text mx s \<longleftrightarrow> s \<noteq> [] \<and> length s \<le> mx \<and> \<not> any_control s"

definition public_id_admissible :: "string \<Rightarrow> bool" where
  "public_id_admissible s \<longleftrightarrow>
     8 \<le> length s \<and> length s \<le> 96
     \<and> (\<forall>c \<in> set s. is_ascii_alphanumeric c \<or> c = CHR ''_'' \<or> c = CHR ''-'')"

definition locale_admissible :: "string \<Rightarrow> bool" where
  "locale_admissible s \<longleftrightarrow>
     2 \<le> length s \<and> length s \<le> 35 \<and> \<not> starts_with ''-'' s \<and> \<not> ends_with ''-'' s
     \<and> \<not> contains_str ''--'' s \<and> (\<forall>c \<in> set s. is_ascii_alphanumeric c \<or> c = CHR ''-'')"

definition provider_key_admissible :: "string \<Rightarrow> bool" where
  "provider_key_admissible s \<longleftrightarrow>
     s \<noteq> [] \<and> length s \<le> 64 \<and> is_ascii_lowercase (hd s)
     \<and> (\<forall>c \<in> set s. is_ascii_lowercase c \<or> is_ascii_digit c \<or> c = CHR ''_'' \<or> c = CHR ''-'')"

lemma validate_bounded_text_iff:
  "validate_bounded_text s mx = Inr u \<longleftrightarrow> bounded_text mx s"
  "identity_validate_bounded_text s mx = Inr u \<longleftrightarrow> bounded_text mx s"
  by (auto simp: validate_bounded_text_def identity_validate_bounded_text_def bounded_text_def)

lemma validate_bounded_text_no_panic:
  "\<not> panics (and_then (validate_bounded_text s mx) (\<lambda>_. Inr s))"
  "\<not> panics (and_then (identity_validate_bounded_text s mx) (\<lambda>_. Inr s))"
  by (simp_all add: validate_bounded_text_def identity_validate_bounded_text_def)

lemmas bounded_text_parsers =
  display_name_parse_def opaque_owner_parse_def provider_issuer_parse_def
  provider_subject_parse_def profile_display_name_parse_def

lemmas bounded_text_facts =
  bounded_text_parsers res_simps validate_bounded_text_iff validate_bounded_text_no_panic

interpretation display_name: checked_parser display_name_parse "bounded_text 128"
  by unfold_locales (auto simp: bounded_text_facts)

interpretation opaque_owner: checked_parser opaque_owner_parse "bounded_text 256"
  by unfold_locales (auto simp: bounded_text_facts)

interpretation provider_issuer: checked_parser provider_issuer_parse "bounded_text 2048"
  by unfold_locales (auto simp: bounded_text_facts)

interpretation provider_subject: checked_parser provider_subject_parse "bounded_text 512"
  by unfold_locales (auto simp: bounded_text_facts)

interpretation profile_display_name: checked_parser profile_display_name_parse "bounded_text 128"
  by unfold_locales (auto simp: bounded_text_facts)

interpretation public_id: checked_parser public_id_parse public_id_admissible
  by unfold_locales (auto simp: public_id_parse_def public_id_admissible_def list_all_iff)

interpretation profile_locale: checked_parser profile_locale_parse locale_admissible
  by unfold_locales (auto simp: profile_locale_parse_def locale_admissible_def list_all_iff)

interpretation provider_key: checked_parser provider_key_parse provider_key_admissible
proof
  fix s t
  show "provider_key_parse s = Inr t \<longleftrightarrow> t = s \<and> provider_key_admissible s"
    by (cases s)
      (auto simp: provider_key_parse_def provider_key_admissible_def list_all_iff Let_def Suc_le_eq)
next
  fix s
  show "\<not> panics (provider_key_parse s)"
    by (simp add: provider_key_parse_def Let_def)
qed

lemma provider_kind_roundtrip: "provider_kind_parse (provider_kind_as_str k) = Inr k"
  by (cases k) (simp_all add: provider_kind_parse_def)

lemma provider_kind_parse_iff: "provider_kind_parse s = Inr k \<longleftrightarrow> s = provider_kind_as_str k"
  by (cases k) (auto simp: provider_kind_parse_def)

lemma ends_with_slash_app: "ends_with ''/'' (s @ ''/'')"
  by (simp add: ends_with_def)

lemma strip_suffix_slash_app: "strip_suffix ''/'' (s @ ''/'') = Some s"
  by (simp add: strip_suffix_def ends_with_def)

end
