(* ===== verification/Owl_Urls.thy ===== *)
theory Owl_Urls
  imports Owl_Prelude
begin

text \<open>
  The interface to the \<open>url\<close> crate.  Its parser and serialiser are parameters of every
  definition that uses them; this theory names the observations the code makes.
\<close>

text \<open>The observations the code makes of a parsed \<open>Url\<close>.\<close>

record url =
  url_as_str :: string
  url_scheme :: string
  url_host_str :: "string option"
  url_username :: string
  url_password :: "string option"
  url_query :: "string option"
  url_fragment :: "string option"
  url_cannot_be_a_base :: bool

text \<open>
  \<open>ul_parse\<close> is \<open>Url::parse\<close>; \<open>ul_push\<close> opens \<open>path_segments_mut\<close>, drops an empty last
  segment, pushes the given segments and serialises the URL (\<open>None\<close> where
  \<open>path_segments_mut\<close> refuses).
\<close>

record url_lib =
  ul_parse :: "string \<Rightarrow> url option"
  ul_push :: "url \<Rightarrow> string list \<Rightarrow> string option"

end
