(* ===== verification/Owl_Identity_Mutation.thy ===== *)
theory Owl_Identity_Mutation
  imports Owl_Values Owl_Urls
begin

text \<open>
  The identity mutation aggregate of \<open>domain/identity_mutation.rs\<close>: an intent to link,
  unlink or merge identities, its proof slots and the receipts that prove them.  This
  theory holds the data and every operation of the aggregate; the laws are proved in
  \<open>Owl_Identity_Mutation_Laws\<close>.

  The URL parser and the path builder of the \<open>url\<close> crate, the addition of the \<open>time\<close>
  crate and the identifiers drawn by \<open>Uuid::new_v4\<close> are parameters.
\<close>

section \<open>Data\<close>

definition MAX_INTENT_LIFETIME :: duration where "MAX_INTENT_LIFETIME = minutes 10"

definition MAX_RECEIPT_LIFETIME :: duration where "MAX_RECEIPT_LIFETIME = minutes 5"

definition MAX_PROVIDER_PROOF_SCOPES :: nat where "MAX_PROVIDER_PROOF_SCOPES = 16"

definition INITIAL_BROWSER_BINDING_REVISION :: i64 where "INITIAL_BROWSER_BINDING_REVISION = 1"

datatype mutation_kind = LinkKind | UnlinkKind | MergeKind

fun mutation_kind_as_str :: "mutation_kind \<Rightarrow> string" where
  "mutation_kind_as_str LinkKind = ''link''"
| "mutation_kind_as_str UnlinkKind = ''unlink''"
| "mutation_kind_as_str MergeKind = ''merge''"

datatype mutation_status = PendingProof | Ready | Completed | Expired | Cancelled

fun mutation_status_as_str :: "mutation_status \<Rightarrow> string" where
  "mutation_status_as_str PendingProof = ''pending_proof''"
| "mutation_status_as_str Ready = ''ready''"
| "mutation_status_as_str Completed = ''completed''"
| "mutation_status_as_str Expired = ''expired''"
| "mutation_status_as_str Cancelled = ''cancelled''"

definition is_terminal :: "mutation_status \<Rightarrow> bool" where
  "is_terminal s \<longleftrightarrow> s \<in> {Completed, Expired, Cancelled}"

datatype slot_role = DestinationOwner | CandidateIdentity | IdentityOwner | WinnerOwner | LoserOwner

fun slot_role_as_str :: "slot_role \<Rightarrow> string" where
  "slot_role_as_str DestinationOwner = ''destination_owner''"
| "slot_role_as_str CandidateIdentity = ''candidate_identity''"
| "slot_role_as_str IdentityOwner = ''identity_owner''"
| "slot_role_as_str WinnerOwner = ''winner_owner''"
| "slot_role_as_str LoserOwner = ''loser_owner''"

fun purpose :: "slot_role \<Rightarrow> string" where
  "purpose DestinationOwner = ''link.destination_owner''"
| "purpose CandidateIdentity = ''link.candidate_identity''"
| "purpose IdentityOwner = ''unlink.identity_owner''"
| "purpose WinnerOwner = ''merge.winner_owner''"
| "purpose LoserOwner = ''merge.loser_owner''"

datatype identity_kind = ProviderIdentity | EmailIdentity

fun identity_kind_as_str :: "identity_kind \<Rightarrow> string" where
  "identity_kind_as_str ProviderIdentity = ''provider''"
| "identity_kind_as_str EmailIdentity = ''email''"

record existing_identity =
  ei_project_id :: uuid
  ei_user_id :: uuid
  ei_identity_id :: uuid
  ei_identity_kind :: identity_kind
  ei_expected_user_revision :: i64
  ei_expected_user_security_revision :: i64
  ei_expected_identity_revision :: i64

record trusted_callback =
  tc_runtime_base :: string
  tc_project_public_id :: string
  tc_provider_key :: string
  tc_value :: string

record proof_capability =
  cap_adapter_key :: string
  cap_adapter_capability_revision :: i64
  cap_exact_scopes :: "string list"
  cap_callback :: trusted_callback
  cap_provider_pkce_required :: bool
  cap_oidc_nonce_required :: bool

record provider_authority =
  pa_project_id :: uuid
  pa_application_id :: uuid
  pa_application_security_revision :: i64
  pa_provider_configuration_id :: uuid
  pa_provider_revision :: i64
  pa_assignment_security_revision :: i64
  pa_proof_scopes :: "string list"
  pa_capability :: proof_capability

record email_authority =
  ea_project_id :: uuid
  ea_application_id :: uuid
  ea_application_security_revision :: i64
  ea_method_policy_revision :: i64
  ea_method_security_revision :: i64
  ea_assignment_security_revision :: i64

datatype authority = ProviderAuthority provider_authority | EmailAuthority email_authority

datatype mutation_plan =
    PlanLink existing_identity identity_kind authority authority
  | PlanUnlink existing_identity authority
  | PlanMerge existing_identity existing_identity authority authority

record candidate_target =
  ct_project_id :: uuid
  ct_destination_user_id :: uuid
  ct_expected_user_revision :: i64
  ct_expected_user_security_revision :: i64
  ct_identity_kind :: identity_kind

datatype slot_target = Existing existing_identity | Candidate candidate_target

datatype slot_state =
    SlotPending
  | SlotProviderAuthorizationStarted
  | SlotProviderExchangeInProgress
  | SlotProviderExchangeFailed
  | SlotEmailAddressEntry
  | SlotEmailChallengePending
  | SlotProved
  | SlotExpired

fun slot_state_as_str :: "slot_state \<Rightarrow> string" where
  "slot_state_as_str SlotPending = ''pending''"
| "slot_state_as_str SlotProviderAuthorizationStarted = ''provider_authorization_started''"
| "slot_state_as_str SlotProviderExchangeInProgress = ''provider_exchange_in_progress''"
| "slot_state_as_str SlotProviderExchangeFailed = ''provider_exchange_failed''"
| "slot_state_as_str SlotEmailAddressEntry = ''email_address_entry''"
| "slot_state_as_str SlotEmailChallengePending = ''email_challenge_pending''"
| "slot_state_as_str SlotProved = ''proved''"
| "slot_state_as_str SlotExpired = ''expired''"

record browser_binding =
  bb_digest :: "u8 list"
  bb_digest_key_version :: i32
  bb_revision :: i64

datatype proof_evidence = ExistingIdentity uuid i64 | CandidateEvidence uuid i64

datatype receipt_status = ReceiptIssued | ReceiptConsumed | ReceiptExpired

record receipt_snapshot =
  rc_id :: uuid
  rc_project_id :: uuid
  rc_intent_id :: uuid
  rc_slot_id :: uuid
  rc_role :: slot_role
  rc_purpose :: string
  rc_browser_binding :: browser_binding
  rc_proof_user_id :: uuid
  rc_proof_user_revision :: i64
  rc_proof_user_security_revision :: i64
  rc_captured_intent_revision :: i64
  rc_evidence :: proof_evidence
  rc_issued_at :: instant
  rc_expires_at :: instant

record restored_receipt =
  rr_snapshot :: receipt_snapshot
  rr_status :: receipt_status

record restored_slot =
  rs_id :: uuid
  rs_role :: slot_role
  rs_ordinal :: u8
  rs_target :: slot_target
  rs_state :: slot_state
  rs_slot_revision :: i64
  rs_receipt :: "restored_receipt option"

record proof_slot =
  ps_id :: uuid
  ps_role :: slot_role
  ps_ordinal :: u8
  ps_target :: slot_target
  ps_authority :: authority
  ps_state :: slot_state
  ps_slot_revision :: i64
  ps_receipt :: "restored_receipt option"

record restored_intent =
  ri_id :: uuid
  ri_project_id :: uuid
  ri_kind :: mutation_kind
  ri_status :: mutation_status
  ri_intent_revision :: i64
  ri_browser_binding :: "browser_binding option"
  ri_slots :: "(restored_slot \<times> authority) list"
  ri_created_at :: instant
  ri_expires_at :: instant

record mutation_intent =
  mi_id :: uuid
  mi_project_id :: uuid
  mi_kind :: mutation_kind
  mi_status :: mutation_status
  mi_intent_revision :: i64
  mi_browser_binding :: "browser_binding option"
  mi_slots :: "proof_slot list"
  mi_created_at :: instant
  mi_expires_at :: instant

datatype mutation_effect = EffectApplied | EffectExpired

section \<open>Validation of the parts\<close>

definition reject_nil :: "uuid \<Rightarrow> (domain_error, unit) res" where
  "reject_nil value = (if is_nil value then Inl (Err InvalidValue) else Inr ())"

definition next_revision :: "i64 \<Rightarrow> (domain_error, i64) res" where
  "next_revision revision = ok_or (checked_add_i64 revision 1) InvalidTransition"

definition derive_callback :: "url_lib \<Rightarrow> string \<Rightarrow> string \<Rightarrow> string \<Rightarrow> (domain_error, trusted_callback) res" where
  "derive_callback U runtime_base project_public_id provider_key =
     and_then (ok_or (ul_parse U runtime_base) InvalidValue) (\<lambda>base.
       if url_scheme base \<notin> {''http'', ''https''} \<or> url_host_str base = None
          \<or> url_username base \<noteq> [] \<or> url_password base \<noteq> None
          \<or> url_query base \<noteq> None \<or> url_fragment base \<noteq> None \<or> url_cannot_be_a_base base
       then Inl (Err InvalidValue)
       else and_then
         (ok_or (ul_push U base [''projects'', project_public_id, ''auth'', ''callback'', provider_key])
            InvalidValue)
         (\<lambda>value. Inr \<lparr>tc_runtime_base = url_as_str base, tc_project_public_id = project_public_id,
                       tc_provider_key = provider_key, tc_value = value\<rparr>))"

definition callback_validate :: "url_lib \<Rightarrow> trusted_callback \<Rightarrow> (domain_error, unit) res" where
  "callback_validate U cb =
     and_then (public_id_parse (tc_project_public_id cb)) (\<lambda>project_public_id.
     and_then (provider_key_parse (tc_provider_key cb)) (\<lambda>provider_key.
     and_then (derive_callback U (tc_runtime_base cb) project_public_id provider_key) (\<lambda>derived.
       if tc_value derived \<noteq> tc_value cb then Inl (Err InvalidValue) else Inr ())))"

text \<open>\<open>scopes.iter().all(..)\<close> with the \<open>HashSet\<close> of the scopes seen so far.\<close>

definition scope_byte_ok :: "char \<Rightarrow> bool" where
  "scope_byte_ok c \<longleftrightarrow>
     c = CHR ''!'' \<or> (35 \<le> byte c \<and> byte c \<le> 91) \<or> (93 \<le> byte c \<and> byte c \<le> 126)"

fun scopes_all :: "string set \<Rightarrow> string list \<Rightarrow> bool" where
  "scopes_all seen [] = True"
| "scopes_all seen (scope # scopes) =
     (scope \<noteq> [] \<and> length scope \<le> 128 \<and> scope \<noteq> ''offline_access''
      \<and> list_all scope_byte_ok scope \<and> scope \<notin> seen
      \<and> scopes_all (insert scope seen) scopes)"

definition valid_exact_scope_set :: "string list \<Rightarrow> bool" where
  "valid_exact_scope_set scopes =
     (if scopes = [] \<or> length scopes > MAX_PROVIDER_PROOF_SCOPES then False
      else scopes_all {} scopes)"

definition exact_scope_sets_match :: "string list \<Rightarrow> string list \<Rightarrow> bool" where
  "exact_scope_sets_match requested declared \<longleftrightarrow>
     valid_exact_scope_set requested \<and> valid_exact_scope_set declared
     \<and> length requested = length declared
     \<and> list_all (\<lambda>scope. List.member declared scope) requested"

definition capability_validate :: "url_lib \<Rightarrow> proof_capability \<Rightarrow> (domain_error, unit) res" where
  "capability_validate U cap =
     (if cap_adapter_key cap = [] \<or> length (cap_adapter_key cap) > 64
         \<or> cap_adapter_capability_revision cap \<le> 0 \<or> \<not> cap_oidc_nonce_required cap
         \<or> \<not> valid_exact_scope_set (cap_exact_scopes cap)
      then Inl (Err InvalidValue)
      else callback_validate U (cap_callback cap))"

definition from_reviewed_adapter ::
    "url_lib \<Rightarrow> string \<Rightarrow> i64 \<Rightarrow> string list \<Rightarrow> trusted_callback \<Rightarrow> bool \<Rightarrow> bool
     \<Rightarrow> (domain_error, proof_capability) res" where
  "from_reviewed_adapter U adapter_key revision scopes callback pkce nonce =
     (let snapshot =
        \<lparr>cap_adapter_key = adapter_key, cap_adapter_capability_revision = revision,
         cap_exact_scopes = scopes, cap_callback = callback,
         cap_provider_pkce_required = pkce, cap_oidc_nonce_required = nonce\<rparr>
      in and_then (capability_validate U snapshot) (\<lambda>_. Inr snapshot))"

fun authority_project_id :: "authority \<Rightarrow> uuid" where
  "authority_project_id (ProviderAuthority a) = pa_project_id a"
| "authority_project_id (EmailAuthority a) = ea_project_id a"

fun authority_application_id :: "authority \<Rightarrow> uuid" where
  "authority_application_id (ProviderAuthority a) = pa_application_id a"
| "authority_application_id (EmailAuthority a) = ea_application_id a"

fun authority_identity_kind :: "authority \<Rightarrow> identity_kind" where
  "authority_identity_kind (ProviderAuthority _) = ProviderIdentity"
| "authority_identity_kind (EmailAuthority _) = EmailIdentity"

definition authority_validate ::
    "url_lib \<Rightarrow> authority \<Rightarrow> uuid \<Rightarrow> identity_kind \<Rightarrow> (domain_error, unit) res" where
  "authority_validate U auth project_id target_kind =
     (if authority_project_id auth \<noteq> project_id \<or> authority_identity_kind auth \<noteq> target_kind
      then Inl (Err InvalidValue)
      else case auth of
        ProviderAuthority a \<Rightarrow>
          and_then (reject_nil (pa_application_id a)) (\<lambda>_.
          and_then (reject_nil (pa_provider_configuration_id a)) (\<lambda>_.
          and_then (capability_validate U (pa_capability a)) (\<lambda>_.
            if list_ex (\<lambda>r. r \<le> 0)
                 [pa_application_security_revision a, pa_provider_revision a,
                  pa_assignment_security_revision a]
               \<or> \<not> exact_scope_sets_match (pa_proof_scopes a) (cap_exact_scopes (pa_capability a))
            then Inl (Err InvalidValue) else Inr ())))
      | EmailAuthority a \<Rightarrow>
          and_then (reject_nil (ea_application_id a)) (\<lambda>_.
            if list_ex (\<lambda>r. r \<le> 0)
                 [ea_application_security_revision a, ea_method_policy_revision a,
                  ea_method_security_revision a, ea_assignment_security_revision a]
            then Inl (Err InvalidValue) else Inr ()))"

fun target_project_id :: "slot_target \<Rightarrow> uuid" where
  "target_project_id (Existing t) = ei_project_id t"
| "target_project_id (Candidate t) = ct_project_id t"

fun target_user_id :: "slot_target \<Rightarrow> uuid" where
  "target_user_id (Existing t) = ei_user_id t"
| "target_user_id (Candidate t) = ct_destination_user_id t"

fun target_expected_user_revision :: "slot_target \<Rightarrow> i64" where
  "target_expected_user_revision (Existing t) = ei_expected_user_revision t"
| "target_expected_user_revision (Candidate t) = ct_expected_user_revision t"

fun target_expected_user_security_revision :: "slot_target \<Rightarrow> i64" where
  "target_expected_user_security_revision (Existing t) = ei_expected_user_security_revision t"
| "target_expected_user_security_revision (Candidate t) = ct_expected_user_security_revision t"

fun target_identity_kind :: "slot_target \<Rightarrow> identity_kind" where
  "target_identity_kind (Existing t) = ei_identity_kind t"
| "target_identity_kind (Candidate t) = ct_identity_kind t"

definition binding_validate :: "browser_binding \<Rightarrow> (domain_error, unit) res" where
  "binding_validate b =
     (if bb_digest_key_version b \<le> 0 \<or> bb_revision b \<noteq> INITIAL_BROWSER_BINDING_REVISION
      then Inl (Err InvalidValue) else Inr ())"

definition validate_existing :: "uuid \<Rightarrow> existing_identity \<Rightarrow> (domain_error, unit) res" where
  "validate_existing project_id ident =
     (if ei_project_id ident \<noteq> project_id \<or> ei_expected_user_revision ident \<le> 0
         \<or> ei_expected_user_security_revision ident \<le> 0
         \<or> ei_expected_identity_revision ident \<le> 0
      then Inl (Err InvalidValue)
      else and_then (reject_nil (ei_user_id ident)) (\<lambda>_. reject_nil (ei_identity_id ident)))"

fun validate_target :: "uuid \<Rightarrow> slot_target \<Rightarrow> (domain_error, unit) res" where
  "validate_target project_id (Existing ident) = validate_existing project_id ident"
| "validate_target project_id (Candidate c) =
     (if ct_project_id c \<noteq> project_id \<or> ct_expected_user_revision c \<le> 0
         \<or> ct_expected_user_security_revision c \<le> 0
      then Inl (Err InvalidValue)
      else reject_nil (ct_destination_user_id c))"

definition validate_lifetime ::
    "(instant \<Rightarrow> duration \<Rightarrow> instant option) \<Rightarrow> instant \<Rightarrow> instant \<Rightarrow> (domain_error, unit) res" where
  "validate_lifetime tadd created_at expires_at =
     (if expires_at \<le> created_at then Inl (Err InvalidValue)
      else and_then (expect (tadd created_at MAX_INTENT_LIFETIME)) (\<lambda>limit.
        if expires_at > limit then Inl (Err InvalidValue) else Inr ()))"

fun expected_roles :: "mutation_kind \<Rightarrow> slot_role list" where
  "expected_roles LinkKind = [DestinationOwner, CandidateIdentity]"
| "expected_roles UnlinkKind = [IdentityOwner]"
| "expected_roles MergeKind = [WinnerOwner, LoserOwner]"

text \<open>Indexing \<open>slots[k]\<close> panics when the index is out of range.\<close>

definition index :: "'a list \<Rightarrow> nat \<Rightarrow> ('e, 'a) res" where
  "index xs k = (if k < length xs then Inr (xs ! k) else Inl Panic)"

fun link_targets_ok :: "slot_target \<Rightarrow> slot_target \<Rightarrow> bool" where
  "link_targets_ok (Existing d) (Candidate c) \<longleftrightarrow>
     ei_user_id d = ct_destination_user_id c
     \<and> ei_expected_user_revision d = ct_expected_user_revision c
     \<and> ei_expected_user_security_revision d = ct_expected_user_security_revision c"
| "link_targets_ok _ _ = False"

fun merge_targets_ok :: "slot_target \<Rightarrow> slot_target \<Rightarrow> bool" where
  "merge_targets_ok (Existing w) (Existing l) \<longleftrightarrow>
     ei_user_id w \<noteq> ei_user_id l \<and> ei_identity_id w \<noteq> ei_identity_id l"
| "merge_targets_ok _ _ = False"

fun is_existing :: "slot_target \<Rightarrow> bool" where
  "is_existing (Existing _) = True"
| "is_existing (Candidate _) = False"

definition validate_slot_set ::
    "uuid \<Rightarrow> mutation_kind \<Rightarrow> proof_slot list \<Rightarrow> (domain_error, unit) res" where
  "validate_slot_set project_id kind slots =
     and_then (for_each (\<lambda>slot. validate_target project_id (ps_target slot)) slots) (\<lambda>_.
       let expected = expected_roles kind in
       if length slots \<noteq> length expected
          \<or> list_ex (\<lambda>(k, (slot, role)).
                ps_role slot \<noteq> role \<or> unat (ps_ordinal slot) \<noteq> k + 1
                \<or> target_project_id (ps_target slot) \<noteq> project_id)
              (enumerate 0 (zip slots expected))
       then Inl (Err InvalidValue)
       else and_then
         (case kind of
            LinkKind \<Rightarrow> and_then (index slots 0) (\<lambda>s0. and_then (index slots 1) (\<lambda>s1.
              Inr (link_targets_ok (ps_target s0) (ps_target s1))))
          | UnlinkKind \<Rightarrow> and_then (index slots 0) (\<lambda>s0. Inr (is_existing (ps_target s0)))
          | MergeKind \<Rightarrow> and_then (index slots 0) (\<lambda>s0. and_then (index slots 1) (\<lambda>s1.
              Inr (merge_targets_ok (ps_target s0) (ps_target s1)))))
         (\<lambda>valid_targets. if \<not> valid_targets then Inl (Err InvalidValue) else Inr ()))"

section \<open>Creation\<close>

text \<open>
  \<open>derive_slots\<close> turns a plan into the mandatory slots in a fixed order.  The \<open>k\<close>-th slot
  gets the identifier \<open>fresh k\<close> that \<open>Uuid::new_v4\<close> draws for it.
\<close>

definition slot_definitions ::
    "uuid \<Rightarrow> mutation_plan
     \<Rightarrow> (domain_error, mutation_kind \<times> (slot_role \<times> slot_target \<times> authority) list) res" where
  "slot_definitions project_id plan =
     (case plan of
        PlanLink destination candidate_kind destination_authority candidate_authority \<Rightarrow>
          and_then (validate_existing project_id destination) (\<lambda>_.
            Inr (LinkKind,
              [(DestinationOwner, Existing destination, destination_authority),
               (CandidateIdentity,
                Candidate \<lparr>ct_project_id = project_id,
                           ct_destination_user_id = ei_user_id destination,
                           ct_expected_user_revision = ei_expected_user_revision destination,
                           ct_expected_user_security_revision =
                             ei_expected_user_security_revision destination,
                           ct_identity_kind = candidate_kind\<rparr>,
                candidate_authority)]))
      | PlanUnlink ident auth \<Rightarrow>
          and_then (validate_existing project_id ident) (\<lambda>_.
            Inr (UnlinkKind, [(IdentityOwner, Existing ident, auth)]))
      | PlanMerge winner loser winner_authority loser_authority \<Rightarrow>
          and_then (validate_existing project_id winner) (\<lambda>_.
          and_then (validate_existing project_id loser) (\<lambda>_.
            if ei_user_id winner = ei_user_id loser \<or> ei_identity_id winner = ei_identity_id loser
            then Inl (Err InvalidValue)
            else Inr (MergeKind,
              [(WinnerOwner, Existing winner, winner_authority),
               (LoserOwner, Existing loser, loser_authority)]))))"

definition u8_try_from :: "nat \<Rightarrow> u8 option" where
  "u8_try_from n = (if n < 256 then Some (of_nat n) else None)"

definition derive_slot ::
    "url_lib \<Rightarrow> (nat \<Rightarrow> uuid) \<Rightarrow> uuid \<Rightarrow> nat \<times> slot_role \<times> slot_target \<times> authority
     \<Rightarrow> (domain_error, proof_slot) res" where
  "derive_slot U fresh project_id d =
     (case d of (ordinal, role, target, auth) \<Rightarrow>
       and_then (authority_validate U auth project_id (target_identity_kind target)) (\<lambda>_.
       and_then (ok_or (u8_try_from (ordinal + 1)) InvalidValue) (\<lambda>ord.
         Inr \<lparr>ps_id = fresh ordinal, ps_role = role, ps_ordinal = ord, ps_target = target,
              ps_authority = auth, ps_state = SlotPending, ps_slot_revision = 1,
              ps_receipt = None\<rparr>)))"

definition derive_slots ::
    "url_lib \<Rightarrow> (nat \<Rightarrow> uuid) \<Rightarrow> uuid \<Rightarrow> mutation_plan
     \<Rightarrow> (domain_error, mutation_kind \<times> proof_slot list) res" where
  "derive_slots U fresh project_id plan =
     and_then (slot_definitions project_id plan) (\<lambda>(kind, definitions).
     and_then (collect_res (derive_slot U fresh project_id) (enumerate 0 definitions)) (\<lambda>slots.
     and_then (validate_slot_set project_id kind slots) (\<lambda>_.
       Inr (kind, slots))))"

definition intent_create ::
    "url_lib \<Rightarrow> (instant \<Rightarrow> duration \<Rightarrow> instant option) \<Rightarrow> (nat \<Rightarrow> uuid)
     \<Rightarrow> uuid \<Rightarrow> uuid \<Rightarrow> mutation_plan \<Rightarrow> instant \<Rightarrow> instant
     \<Rightarrow> (domain_error, mutation_intent) res" where
  "intent_create U tadd fresh ident project_id plan created_at expires_at =
     and_then (reject_nil ident) (\<lambda>_.
     and_then (reject_nil project_id) (\<lambda>_.
     and_then (validate_lifetime tadd created_at expires_at) (\<lambda>_.
     and_then (derive_slots U fresh project_id plan) (\<lambda>(kind, slots).
       Inr \<lparr>mi_id = ident, mi_project_id = project_id, mi_kind = kind,
            mi_status = PendingProof, mi_intent_revision = 1, mi_browser_binding = None,
            mi_slots = slots, mi_created_at = created_at, mi_expires_at = expires_at\<rparr>))))"

section \<open>Transitions\<close>

definition find_slot :: "slot_role \<Rightarrow> proof_slot list \<Rightarrow> (domain_error, proof_slot) res" where
  "find_slot role slots =
     (case filter (\<lambda>slot. ps_role slot = role) slots of
        [slot] \<Rightarrow> Inr slot
      | _ \<Rightarrow> Inl (Err InvalidTransition))"

text \<open>
  Writing through the reference \<open>slot_mut\<close> returned: the slot with the role is the only
  one, so updating by role updates that slot.
\<close>

definition update_slot :: "slot_role \<Rightarrow> (proof_slot \<Rightarrow> proof_slot) \<Rightarrow> proof_slot list \<Rightarrow> proof_slot list" where
  "update_slot role f = map (\<lambda>slot. if ps_role slot = role then f slot else slot)"

definition receipt_deadlines :: "proof_slot list \<Rightarrow> instant list" where
  "receipt_deadlines slots =
     List.map_filter (\<lambda>slot. map_option (\<lambda>r. rc_expires_at (rr_snapshot r)) (ps_receipt slot)) slots"

definition effective_deadline :: "mutation_intent \<Rightarrow> instant" where
  "effective_deadline i = foldl min (mi_expires_at i) (receipt_deadlines (mi_slots i))"

definition next_slot_revisions :: "proof_slot list \<Rightarrow> (domain_error, i64 list) res" where
  "next_slot_revisions slots = collect_res (\<lambda>slot. next_revision (ps_slot_revision slot)) slots"

definition expire_receipt :: "restored_receipt \<Rightarrow> restored_receipt" where
  "expire_receipt r = (if rr_status r = ReceiptIssued then r\<lparr>rr_status := ReceiptExpired\<rparr> else r)"

definition expire_slot :: "proof_slot \<times> i64 \<Rightarrow> proof_slot" where
  "expire_slot p =
     (case p of (slot, nxt) \<Rightarrow>
        slot\<lparr>ps_state := SlotExpired,
             ps_receipt := map_option expire_receipt (ps_receipt slot),
             ps_slot_revision := nxt\<rparr>)"

definition terminalize :: "mutation_status \<Rightarrow> (mutation_intent, domain_error, unit) mut" where
  "terminalize status i =
     m_commit
       (if status \<notin> {Expired, Cancelled} \<or> is_terminal (mi_status i)
        then Inl (Err InvalidTransition)
        else and_then (next_revision (mi_intent_revision i)) (\<lambda>next_intent_revision.
             and_then (next_slot_revisions (mi_slots i)) (\<lambda>revisions.
               Inr (i\<lparr>mi_slots := map expire_slot (zip (mi_slots i) revisions),
                      mi_status := status, mi_intent_revision := next_intent_revision\<rparr>))))
       () i"

definition ensure_pending ::
    "i64 \<Rightarrow> instant \<Rightarrow> (mutation_intent, domain_error, mutation_effect option) mut" where
  "ensure_pending expected_revision now i =
     (if mi_status i \<noteq> PendingProof \<or> mi_intent_revision i \<noteq> expected_revision
      then (Inl (Err InvalidTransition), i)
      else if now \<ge> effective_deadline i
      then m_bind (terminalize Expired) (\<lambda>_. m_try (Inr (Some EffectExpired))) i
      else (Inr None, i))"

definition bind_browser ::
    "i64 \<Rightarrow> browser_binding \<Rightarrow> instant \<Rightarrow> (mutation_intent, domain_error, mutation_effect) mut" where
  "bind_browser expected_revision binding now =
     m_bind (m_try (binding_validate binding)) (\<lambda>_.
     m_bind (ensure_pending expected_revision now) (\<lambda>pending.
       case pending of
         Some outcome \<Rightarrow> m_try (Inr outcome)
       | None \<Rightarrow> (\<lambda>i.
           if mi_browser_binding i \<noteq> None
              \<or> list_ex (\<lambda>slot. ps_state slot \<noteq> SlotPending \<or> ps_receipt slot \<noteq> None) (mi_slots i)
           then (Inl (Err InvalidTransition), i)
           else
             let bound = i\<lparr>mi_browser_binding := Some binding\<rparr> in
             case next_revision (mi_intent_revision bound) of
               Inl f \<Rightarrow> (Inl f, bound)
             | Inr revision \<Rightarrow> (Inr EffectApplied, bound\<lparr>mi_intent_revision := revision\<rparr>))))"

definition transition_slot ::
    "slot_role \<Rightarrow> i64 \<Rightarrow> instant \<Rightarrow> (authority \<Rightarrow> slot_state \<Rightarrow> (domain_error, slot_state) res)
     \<Rightarrow> (mutation_intent, domain_error, mutation_effect) mut" where
  "transition_slot role expected_revision now transition =
     m_bind (ensure_pending expected_revision now) (\<lambda>pending.
       case pending of
         Some outcome \<Rightarrow> m_try (Inr outcome)
       | None \<Rightarrow> (\<lambda>i.
           m_commit
             (if mi_browser_binding i = None then Inl (Err InvalidTransition)
              else and_then (next_revision (mi_intent_revision i)) (\<lambda>next_intent_revision.
                   and_then (find_slot role (mi_slots i)) (\<lambda>slot.
                   and_then (transition (ps_authority slot) (ps_state slot)) (\<lambda>next_state.
                   and_then (next_revision (ps_slot_revision slot)) (\<lambda>next_slot_revision.
                     Inr (i\<lparr>mi_slots := update_slot role
                              (\<lambda>s. s\<lparr>ps_state := next_state, ps_slot_revision := next_slot_revision\<rparr>)
                              (mi_slots i),
                            mi_intent_revision := next_intent_revision\<rparr>))))))
             EffectApplied i))"

fun is_provider :: "authority \<Rightarrow> bool" where
  "is_provider (ProviderAuthority _) = True"
| "is_provider (EmailAuthority _) = False"

text \<open>The closures the public slot methods pass to \<open>transition_slot\<close>.\<close>

definition slot_move ::
    "bool \<Rightarrow> slot_state set \<Rightarrow> slot_state \<Rightarrow> authority \<Rightarrow> slot_state \<Rightarrow> (domain_error, slot_state) res" where
  "slot_move provider from_states target auth state =
     (if is_provider auth \<noteq> provider \<or> state \<notin> from_states
      then Inl (Err InvalidTransition) else Inr target)"

definition start_provider ::
    "slot_role \<Rightarrow> i64 \<Rightarrow> instant \<Rightarrow> (mutation_intent, domain_error, mutation_effect) mut" where
  "start_provider role expected_revision now =
     transition_slot role expected_revision now
       (slot_move True {SlotPending} SlotProviderAuthorizationStarted)"

definition claim_provider_callback ::
    "slot_role \<Rightarrow> i64 \<Rightarrow> instant \<Rightarrow> (mutation_intent, domain_error, mutation_effect) mut" where
  "claim_provider_callback role expected_revision now =
     transition_slot role expected_revision now
       (slot_move True {SlotProviderAuthorizationStarted} SlotProviderExchangeInProgress)"

definition fail_provider_exchange ::
    "slot_role \<Rightarrow> i64 \<Rightarrow> instant \<Rightarrow> (mutation_intent, domain_error, mutation_effect) mut" where
  "fail_provider_exchange role expected_revision now =
     transition_slot role expected_revision now
       (slot_move True {SlotProviderAuthorizationStarted, SlotProviderExchangeInProgress}
          SlotProviderExchangeFailed)"

definition begin_email ::
    "slot_role \<Rightarrow> i64 \<Rightarrow> instant \<Rightarrow> (mutation_intent, domain_error, mutation_effect) mut" where
  "begin_email role expected_revision now =
     transition_slot role expected_revision now (slot_move False {SlotPending} SlotEmailAddressEntry)"

definition mark_email_challenge_pending ::
    "slot_role \<Rightarrow> i64 \<Rightarrow> instant \<Rightarrow> (mutation_intent, domain_error, mutation_effect) mut" where
  "mark_email_challenge_pending role expected_revision now =
     transition_slot role expected_revision now
       (slot_move False {SlotEmailAddressEntry} SlotEmailChallengePending)"

definition replace_email_challenge ::
    "slot_role \<Rightarrow> i64 \<Rightarrow> instant \<Rightarrow> (mutation_intent, domain_error, mutation_effect) mut" where
  "replace_email_challenge role expected_revision now =
     transition_slot role expected_revision now
       (slot_move False {SlotEmailChallengePending} SlotEmailChallengePending)"

fun evidence_matches :: "slot_target \<Rightarrow> proof_evidence \<Rightarrow> bool" where
  "evidence_matches (Existing ident) (ExistingIdentity identity_id identity_revision) \<longleftrightarrow>
     identity_id = ei_identity_id ident \<and> identity_revision = ei_expected_identity_revision ident"
| "evidence_matches (Candidate _) (CandidateEvidence evidence_id evidence_revision) \<longleftrightarrow>
     \<not> is_nil evidence_id \<and> evidence_revision > 0"
| "evidence_matches _ _ = False"

definition validate_receipt_for_slot ::
    "(instant \<Rightarrow> duration \<Rightarrow> instant option) \<Rightarrow> mutation_intent \<Rightarrow> receipt_snapshot \<Rightarrow> proof_slot
     \<Rightarrow> (domain_error, unit) res" where
  "validate_receipt_for_slot tadd i receipt slot =
     and_then (reject_nil (rc_id receipt)) (\<lambda>_.
     and_then (binding_validate (rc_browser_binding receipt)) (\<lambda>_.
       if rc_project_id receipt \<noteq> mi_project_id i
          \<or> rc_intent_id receipt \<noteq> mi_id i
          \<or> rc_slot_id receipt \<noteq> ps_id slot
          \<or> rc_role receipt \<noteq> ps_role slot
          \<or> Some (rc_browser_binding receipt) \<noteq> mi_browser_binding i
          \<or> rc_purpose receipt \<noteq> purpose (ps_role slot)
          \<or> rc_captured_intent_revision receipt \<le> 0
          \<or> rc_issued_at receipt < mi_created_at i
          \<or> rc_expires_at receipt \<le> rc_issued_at receipt
       then Inl (Err InvalidValue)
       else and_then (expect (tadd (rc_issued_at receipt) MAX_RECEIPT_LIFETIME)) (\<lambda>limit.
         if rc_expires_at receipt > limit
            \<or> rc_expires_at receipt > mi_expires_at i
            \<or> rc_proof_user_id receipt \<noteq> target_user_id (ps_target slot)
            \<or> rc_proof_user_revision receipt \<noteq> target_expected_user_revision (ps_target slot)
            \<or> rc_proof_user_security_revision receipt
                \<noteq> target_expected_user_security_revision (ps_target slot)
         then Inl (Err InvalidValue)
         else if \<not> evidence_matches (ps_target slot) (rc_evidence receipt)
         then Inl (Err InvalidValue)
         else Inr ())))"

definition attach_receipt ::
    "(instant \<Rightarrow> duration \<Rightarrow> instant option) \<Rightarrow> i64 \<Rightarrow> instant \<Rightarrow> receipt_snapshot
     \<Rightarrow> (mutation_intent, domain_error, mutation_effect) mut" where
  "attach_receipt tadd expected_revision now receipt i =
     (if mi_status i \<noteq> PendingProof \<or> mi_intent_revision i \<noteq> expected_revision
         \<or> mi_browser_binding i = None
      then (Inl (Err InvalidTransition), i)
      else m_bind (m_try (find_slot (rc_role receipt) (mi_slots i))) (\<lambda>slot.
           m_bind (m_try (validate_receipt_for_slot tadd i receipt slot)) (\<lambda>_.
             if rc_captured_intent_revision receipt \<noteq> expected_revision
                \<or> rc_issued_at receipt > now \<or> now \<ge> rc_expires_at receipt
             then m_try (Inl (Err InvalidValue))
             else if ps_state slot \<notin> {SlotProviderExchangeInProgress, SlotEmailChallengePending}
                     \<or> ps_receipt slot \<noteq> None
             then m_try (Inl (Err InvalidTransition))
             else m_bind (ensure_pending expected_revision now) (\<lambda>pending.
               case pending of
                 Some outcome \<Rightarrow> m_try (Inr outcome)
               | None \<Rightarrow> (\<lambda>i.
                   m_commit
                     (and_then (next_revision (mi_intent_revision i)) (\<lambda>next_intent_revision.
                      and_then (find_slot (rc_role receipt) (mi_slots i)) (\<lambda>slot.
                      and_then (next_revision (ps_slot_revision slot)) (\<lambda>next_slot_revision.
                        Inr (i\<lparr>mi_slots := update_slot (rc_role receipt)
                                 (\<lambda>s. s\<lparr>ps_state := SlotProved,
                                        ps_receipt := Some \<lparr>rr_snapshot = receipt,
                                                            rr_status = ReceiptIssued\<rparr>,
                                        ps_slot_revision := next_slot_revision\<rparr>)
                                 (mi_slots i),
                               mi_intent_revision := next_intent_revision\<rparr>)))))
                     EffectApplied i)))) i)"

definition has_issued_receipt :: "proof_slot \<Rightarrow> bool" where
  "has_issued_receipt slot =
     (case ps_receipt slot of Some r \<Rightarrow> rr_status r = ReceiptIssued | None \<Rightarrow> False)"

definition confirm_ready ::
    "i64 \<Rightarrow> instant \<Rightarrow> (mutation_intent, domain_error, mutation_effect) mut" where
  "confirm_ready expected_revision now =
     m_bind (ensure_pending expected_revision now) (\<lambda>pending.
       case pending of
         Some outcome \<Rightarrow> m_try (Inr outcome)
       | None \<Rightarrow> (\<lambda>i.
           m_commit
             (if list_ex (\<lambda>slot. ps_state slot \<noteq> SlotProved \<or> \<not> has_issued_receipt slot) (mi_slots i)
              then Inl (Err InvalidTransition)
              else and_then (next_revision (mi_intent_revision i)) (\<lambda>revision.
                Inr (i\<lparr>mi_intent_revision := revision, mi_status := Ready\<rparr>)))
             EffectApplied i))"

text \<open>
  The loop of \<open>complete\<close> that consumes the receipts in place; it stops at a slot without
  a receipt, the slots before it already written.
\<close>

fun consume_receipts :: "proof_slot list \<Rightarrow> i64 list \<Rightarrow> (domain_error, unit) res \<times> proof_slot list" where
  "consume_receipts (slot # slots) (revision # revisions) =
     (case ps_receipt slot of
        None \<Rightarrow> (Inl (Err InvalidTransition), slot # slots)
      | Some r \<Rightarrow>
          (case consume_receipts slots revisions of
             (result, rest) \<Rightarrow>
               (result, slot\<lparr>ps_receipt := Some (r\<lparr>rr_status := ReceiptConsumed\<rparr>),
                             ps_slot_revision := revision\<rparr> # rest)))"
| "consume_receipts slots _ = (Inr (), slots)"

definition complete ::
    "i64 \<Rightarrow> instant \<Rightarrow> (mutation_intent, domain_error, mutation_effect) mut" where
  "complete expected_revision now i =
     (if mi_status i \<noteq> Ready \<or> mi_intent_revision i \<noteq> expected_revision
      then (Inl (Err InvalidTransition), i)
      else if now \<ge> effective_deadline i
      then m_bind (terminalize Expired) (\<lambda>_. m_try (Inr EffectExpired)) i
      else if list_ex (\<lambda>slot. \<not> has_issued_receipt slot) (mi_slots i)
      then (Inl (Err InvalidTransition), i)
      else m_bind (m_try (next_revision (mi_intent_revision i))) (\<lambda>next_intent_revision.
           m_bind (m_try (next_slot_revisions (mi_slots i))) (\<lambda>revisions. \<lambda>i.
             case consume_receipts (mi_slots i) revisions of
               (Inl f, slots) \<Rightarrow> (Inl f, i\<lparr>mi_slots := slots\<rparr>)
             | (Inr _, slots) \<Rightarrow>
                 (Inr EffectApplied,
                  i\<lparr>mi_slots := slots, mi_status := Completed,
                    mi_intent_revision := next_intent_revision\<rparr>))) i)"

definition cancel ::
    "i64 \<Rightarrow> instant \<Rightarrow> (mutation_intent, domain_error, mutation_effect) mut" where
  "cancel expected_revision now i =
     (if is_terminal (mi_status i) \<or> mi_intent_revision i \<noteq> expected_revision
      then (Inl (Err InvalidTransition), i)
      else if now \<ge> effective_deadline i
      then m_bind (terminalize Expired) (\<lambda>_. m_try (Inr EffectExpired)) i
      else m_bind (terminalize Cancelled) (\<lambda>_. m_try (Inr EffectApplied)) i)"

definition intent_expire :: "instant \<Rightarrow> (mutation_intent, domain_error, bool) mut" where
  "intent_expire now i =
     (if is_terminal (mi_status i) \<or> now < effective_deadline i then (Inr False, i)
      else m_bind (terminalize Expired) (\<lambda>_. m_try (Inr True)) i)"

section \<open>Restoration\<close>

definition state_matches_authority :: "proof_slot \<Rightarrow> bool" where
  "state_matches_authority slot =
     (case ps_authority slot of
        ProviderAuthority _ \<Rightarrow>
          ps_state slot \<notin> {SlotEmailAddressEntry, SlotEmailChallengePending}
      | EmailAuthority _ \<Rightarrow>
          ps_state slot \<notin> {SlotProviderAuthorizationStarted, SlotProviderExchangeInProgress,
                              SlotProviderExchangeFailed})"

fun receipt_state_ok :: "mutation_status \<Rightarrow> slot_state \<Rightarrow> receipt_status \<Rightarrow> bool" where
  "receipt_state_ok status state ReceiptIssued \<longleftrightarrow>
     state = SlotProved \<and> status \<in> {PendingProof, Ready}"
| "receipt_state_ok status state ReceiptConsumed \<longleftrightarrow> state = SlotProved \<and> status = Completed"
| "receipt_state_ok status state ReceiptExpired \<longleftrightarrow>
     state = SlotExpired \<and> status \<in> {Expired, Cancelled}"

text \<open>The body of the loop over the slots, with the two \<open>HashSet\<close>s it fills.\<close>

fun validate_restored_slots ::
    "url_lib \<Rightarrow> (instant \<Rightarrow> duration \<Rightarrow> instant option) \<Rightarrow> mutation_intent
     \<Rightarrow> uuid set \<Rightarrow> uuid set \<Rightarrow> proof_slot list \<Rightarrow> (domain_error, unit) res" where
  "validate_restored_slots U tadd i slot_ids receipt_ids [] = Inr ()"
| "validate_restored_slots U tadd i slot_ids receipt_ids (slot # slots) =
     and_then (reject_nil (ps_id slot)) (\<lambda>_.
       if ps_slot_revision slot \<le> 0 \<or> ps_id slot \<in> slot_ids
          \<or> target_project_id (ps_target slot) \<noteq> mi_project_id i
       then Inl (Err InvalidValue)
       else and_then (authority_validate U (ps_authority slot) (mi_project_id i)
                        (target_identity_kind (ps_target slot))) (\<lambda>_.
         if \<not> state_matches_authority slot then Inl (Err InvalidValue)
         else case ps_receipt slot of
           Some r \<Rightarrow>
             and_then (validate_receipt_for_slot tadd i (rr_snapshot r) slot) (\<lambda>_.
               if rc_captured_intent_revision (rr_snapshot r) \<ge> mi_intent_revision i
                  \<or> rc_id (rr_snapshot r) \<in> receipt_ids
               then Inl (Err InvalidValue)
               else if \<not> receipt_state_ok (mi_status i) (ps_state slot) (rr_status r)
               then Inl (Err InvalidValue)
               else validate_restored_slots U tadd i (insert (ps_id slot) slot_ids)
                      (insert (rc_id (rr_snapshot r)) receipt_ids) slots)
         | None \<Rightarrow>
             if ps_state slot = SlotProved
                \<or> (ps_state slot = SlotExpired \<and> mi_status i \<notin> {Expired, Cancelled})
             then Inl (Err InvalidValue)
             else validate_restored_slots U tadd i (insert (ps_id slot) slot_ids) receipt_ids slots))"

definition validate_browser_binding_state :: "mutation_intent \<Rightarrow> (domain_error, unit) res" where
  "validate_browser_binding_state i =
     (if mi_browser_binding i \<noteq> None
      then (if mi_intent_revision i > 1 then Inr () else Inl (Err InvalidValue))
      else if mi_status i \<notin> {PendingProof, Expired, Cancelled}
              \<or> list_ex (\<lambda>slot. ps_receipt slot \<noteq> None \<or> ps_state slot \<notin> {SlotPending, SlotExpired})
                  (mi_slots i)
      then Inl (Err InvalidValue)
      else Inr ())"

definition aggregate_state_ok :: "mutation_intent \<Rightarrow> bool" where
  "aggregate_state_ok i =
     (case mi_status i of
        PendingProof \<Rightarrow> list_all (\<lambda>slot. ps_state slot \<noteq> SlotExpired) (mi_slots i)
      | Ready \<Rightarrow> list_all (\<lambda>slot. ps_state slot = SlotProved \<and>
          (case ps_receipt slot of Some r \<Rightarrow> rr_status r = ReceiptIssued | None \<Rightarrow> False)) (mi_slots i)
      | Completed \<Rightarrow> list_all (\<lambda>slot. ps_state slot = SlotProved \<and>
          (case ps_receipt slot of Some r \<Rightarrow> rr_status r = ReceiptConsumed | None \<Rightarrow> False)) (mi_slots i)
      | _ \<Rightarrow> list_all (\<lambda>slot. ps_state slot = SlotExpired) (mi_slots i))"

definition validate_restored ::
    "url_lib \<Rightarrow> (instant \<Rightarrow> duration \<Rightarrow> instant option) \<Rightarrow> mutation_intent \<Rightarrow> (domain_error, unit) res" where
  "validate_restored U tadd i =
     and_then (validate_slot_set (mi_project_id i) (mi_kind i) (mi_slots i)) (\<lambda>_.
     and_then (validate_browser_binding_state i) (\<lambda>_.
     and_then (validate_restored_slots U tadd i {} {} (mi_slots i)) (\<lambda>_.
       if \<not> aggregate_state_ok i then Inl (Err InvalidValue) else Inr ())))"

definition restore_slot :: "restored_slot \<times> authority \<Rightarrow> proof_slot" where
  "restore_slot p =
     (case p of (slot, auth) \<Rightarrow>
        \<lparr>ps_id = rs_id slot, ps_role = rs_role slot, ps_ordinal = rs_ordinal slot,
         ps_target = rs_target slot, ps_authority = auth, ps_state = rs_state slot,
         ps_slot_revision = rs_slot_revision slot, ps_receipt = rs_receipt slot\<rparr>)"

definition restore ::
    "url_lib \<Rightarrow> (instant \<Rightarrow> duration \<Rightarrow> instant option) \<Rightarrow> restored_intent
     \<Rightarrow> (domain_error, mutation_intent) res" where
  "restore U tadd record =
     and_then (reject_nil (ri_id record)) (\<lambda>_.
     and_then (reject_nil (ri_project_id record)) (\<lambda>_.
     and_then (case ri_browser_binding record of Some b \<Rightarrow> binding_validate b | None \<Rightarrow> Inr ()) (\<lambda>_.
     and_then (validate_lifetime tadd (ri_created_at record) (ri_expires_at record)) (\<lambda>_.
       if ri_intent_revision record \<le> 0 then Inl (Err InvalidValue)
       else
         let intent =
           \<lparr>mi_id = ri_id record, mi_project_id = ri_project_id record, mi_kind = ri_kind record,
            mi_status = ri_status record, mi_intent_revision = ri_intent_revision record,
            mi_browser_binding = ri_browser_binding record,
            mi_slots = map restore_slot (ri_slots record),
            mi_created_at = ri_created_at record, mi_expires_at = ri_expires_at record\<rparr>
         in and_then (validate_restored U tadd intent) (\<lambda>_. Inr intent)))))"

text \<open>The record the accessors of an intent give, as the persistence layer stores it.\<close>

definition record_slot :: "proof_slot \<Rightarrow> restored_slot \<times> authority" where
  "record_slot slot =
     (\<lparr>rs_id = ps_id slot, rs_role = ps_role slot, rs_ordinal = ps_ordinal slot,
       rs_target = ps_target slot, rs_state = ps_state slot,
       rs_slot_revision = ps_slot_revision slot, rs_receipt = ps_receipt slot\<rparr>,
      ps_authority slot)"

definition record_for :: "mutation_intent \<Rightarrow> restored_intent" where
  "record_for i =
     \<lparr>ri_id = mi_id i, ri_project_id = mi_project_id i, ri_kind = mi_kind i,
      ri_status = mi_status i, ri_intent_revision = mi_intent_revision i,
      ri_browser_binding = mi_browser_binding i, ri_slots = map record_slot (mi_slots i),
      ri_created_at = mi_created_at i, ri_expires_at = mi_expires_at i\<rparr>"

end
