(* ===== verification/Owl_Identity_Mutation_Laws.thy ===== *)
theory Owl_Identity_Mutation_Laws
  imports Owl_Identity_Mutation
begin

text \<open>
  The laws of the identity mutation aggregate.  The operations are gathered in one
  dispatch function, whose every outcome is a step of an abstract relation; the
  invariant is the one \<open>restore\<close> checks, and it is preserved by every step, so whatever
  the aggregate can become can be stored and read back.
\<close>

section \<open>The operations as one dispatch\<close>

datatype intent_op =
    OpBindBrowser browser_binding
  | OpStartProvider slot_role
  | OpClaimProviderCallback slot_role
  | OpFailProviderExchange slot_role
  | OpBeginEmail slot_role
  | OpMarkEmailChallengePending slot_role
  | OpReplaceEmailChallenge slot_role
  | OpAttachReceipt receipt_snapshot
  | OpConfirmReady
  | OpComplete
  | OpCancel
  | OpExpire

definition m_some :: "('s, 'e, 'a) mut \<Rightarrow> ('s, 'e, 'a option) mut" where
  "m_some m = m_bind m (\<lambda>a. m_try (Inr (Some a)))"

fun intent_apply ::
    "(instant \<Rightarrow> duration \<Rightarrow> instant option) \<Rightarrow> i64 \<Rightarrow> instant \<Rightarrow> intent_op
     \<Rightarrow> (mutation_intent, domain_error, mutation_effect option) mut" where
  "intent_apply tadd rv now (OpBindBrowser b) = m_some (bind_browser rv b now)"
| "intent_apply tadd rv now (OpStartProvider r) = m_some (start_provider r rv now)"
| "intent_apply tadd rv now (OpClaimProviderCallback r) = m_some (claim_provider_callback r rv now)"
| "intent_apply tadd rv now (OpFailProviderExchange r) = m_some (fail_provider_exchange r rv now)"
| "intent_apply tadd rv now (OpBeginEmail r) = m_some (begin_email r rv now)"
| "intent_apply tadd rv now (OpMarkEmailChallengePending r) =
     m_some (mark_email_challenge_pending r rv now)"
| "intent_apply tadd rv now (OpReplaceEmailChallenge r) = m_some (replace_email_challenge r rv now)"
| "intent_apply tadd rv now (OpAttachReceipt receipt) = m_some (attach_receipt tadd rv now receipt)"
| "intent_apply tadd rv now OpConfirmReady = m_some (confirm_ready rv now)"
| "intent_apply tadd rv now OpComplete = m_some (complete rv now)"
| "intent_apply tadd rv now OpCancel = m_some (cancel rv now)"
| "intent_apply tadd rv now OpExpire =
     m_bind (intent_expire now) (\<lambda>due. m_try (Inr (if due then Some EffectExpired else None)))"

section \<open>The abstract step relation\<close>

definition receipt_ids :: "proof_slot list \<Rightarrow> uuid list" where
  "receipt_ids slots =
     List.map_filter (\<lambda>slot. map_option (\<lambda>r. rc_id (rr_snapshot r)) (ps_receipt slot)) slots"

definition terminalized :: "mutation_status \<Rightarrow> mutation_intent \<Rightarrow> mutation_intent" where
  "terminalized status i =
     i\<lparr>mi_slots := map (\<lambda>s. expire_slot (s, ps_slot_revision s + 1)) (mi_slots i),
       mi_status := status, mi_intent_revision := mi_intent_revision i + 1\<rparr>"

definition moved :: "slot_role \<Rightarrow> slot_state \<Rightarrow> mutation_intent \<Rightarrow> mutation_intent" where
  "moved role st i =
     i\<lparr>mi_slots := update_slot role
         (\<lambda>s. s\<lparr>ps_state := st, ps_slot_revision := ps_slot_revision s + 1\<rparr>) (mi_slots i),
       mi_intent_revision := mi_intent_revision i + 1\<rparr>"

definition attached :: "receipt_snapshot \<Rightarrow> mutation_intent \<Rightarrow> mutation_intent" where
  "attached receipt i =
     i\<lparr>mi_slots := update_slot (rc_role receipt)
         (\<lambda>s. s\<lparr>ps_state := SlotProved,
                ps_receipt := Some \<lparr>rr_snapshot = receipt, rr_status = ReceiptIssued\<rparr>,
                ps_slot_revision := ps_slot_revision s + 1\<rparr>) (mi_slots i),
       mi_intent_revision := mi_intent_revision i + 1\<rparr>"

definition consumed :: "mutation_intent \<Rightarrow> mutation_intent" where
  "consumed i =
     i\<lparr>mi_slots := map (\<lambda>s. s\<lparr>ps_receipt := map_option (\<lambda>r. r\<lparr>rr_status := ReceiptConsumed\<rparr>)
                               (ps_receipt s),
                             ps_slot_revision := ps_slot_revision s + 1\<rparr>) (mi_slots i),
       mi_status := Completed, mi_intent_revision := mi_intent_revision i + 1\<rparr>"

text \<open>The slot moves: which states a method of which family leads to.\<close>

inductive slot_step :: "bool \<Rightarrow> slot_state \<Rightarrow> slot_state \<Rightarrow> bool" where
  start: "slot_step True SlotPending SlotProviderAuthorizationStarted"
| claim: "slot_step True SlotProviderAuthorizationStarted SlotProviderExchangeInProgress"
| abandon: "slot_step True SlotProviderAuthorizationStarted SlotProviderExchangeFailed"
| exchange_fails: "slot_step True SlotProviderExchangeInProgress SlotProviderExchangeFailed"
| enter_address: "slot_step False SlotPending SlotEmailAddressEntry"
| challenge: "slot_step False SlotEmailAddressEntry SlotEmailChallengePending"
| resend: "slot_step False SlotEmailChallengePending SlotEmailChallengePending"

inductive_simps slot_step_simps: "slot_step p a b"

inductive intent_step ::
    "(instant \<Rightarrow> duration \<Rightarrow> instant option) \<Rightarrow> instant \<Rightarrow> intent_op \<Rightarrow> mutation_intent
     \<Rightarrow> (domain_error, mutation_effect option) res \<Rightarrow> mutation_intent \<Rightarrow> bool"
  for tadd now x i where
  rejected: "intent_step tadd now x i (Inl f) i"
| not_due: "x = OpExpire \<Longrightarrow> intent_step tadd now x i (Inr None) i"
| bind_overflow: "intent_step tadd now x i (Inl (Err InvalidTransition))
      (i\<lparr>mi_browser_binding := Some b\<rparr>)"
  if "x = OpBindBrowser b" "mi_status i = PendingProof" "mi_browser_binding i = None"
     "binding_validate b = Inr ()" "\<not> in_i64 (mi_intent_revision i + 1)"
| timed_out: "intent_step tadd now x i (Inr (Some EffectExpired)) (terminalized Expired i)"
  if "\<not> is_terminal (mi_status i)" "effective_deadline i \<le> now"
| cancelled: "intent_step tadd now x i (Inr (Some EffectApplied)) (terminalized Cancelled i)"
  if "x = OpCancel" "\<not> is_terminal (mi_status i)" "now < effective_deadline i"
| bound: "intent_step tadd now x i (Inr (Some EffectApplied))
      (i\<lparr>mi_browser_binding := Some b, mi_intent_revision := mi_intent_revision i + 1\<rparr>)"
  if "x = OpBindBrowser b" "mi_status i = PendingProof" "mi_browser_binding i = None"
     "binding_validate b = Inr ()" "now < effective_deadline i"
| slot_moved: "intent_step tadd now x i (Inr (Some EffectApplied)) (moved role st i)"
  if "mi_status i = PendingProof" "mi_browser_binding i \<noteq> None"
     "find_slot role (mi_slots i) = Inr slot"
     "slot_step (is_provider (ps_authority slot)) (ps_state slot) st" "now < effective_deadline i"
| receipt_attached: "intent_step tadd now x i (Inr (Some EffectApplied)) (attached receipt i)"
  if "x = OpAttachReceipt receipt" "mi_status i = PendingProof" "mi_browser_binding i \<noteq> None"
     "find_slot (rc_role receipt) (mi_slots i) = Inr slot"
     "validate_receipt_for_slot tadd i receipt slot = Inr ()"
     "rc_captured_intent_revision receipt = mi_intent_revision i"
     "rc_issued_at receipt \<le> now" "now < rc_expires_at receipt"
     "ps_state slot \<in> {SlotProviderExchangeInProgress, SlotEmailChallengePending}"
     "ps_receipt slot = None" "now < effective_deadline i"
| confirmed: "intent_step tadd now x i (Inr (Some EffectApplied))
      (i\<lparr>mi_intent_revision := mi_intent_revision i + 1, mi_status := Ready\<rparr>)"
  if "x = OpConfirmReady" "mi_status i = PendingProof"
     "list_all (\<lambda>s. ps_state s = SlotProved \<and> has_issued_receipt s) (mi_slots i)"
     "now < effective_deadline i"
| completed: "intent_step tadd now x i (Inr (Some EffectApplied)) (consumed i)"
  if "x = OpComplete" "mi_status i = Ready"
     "list_all has_issued_receipt (mi_slots i)" "now < effective_deadline i"

section \<open>Every outcome of an operation is a step\<close>

lemma next_revision_eq [res_simps]:
  "next_revision r = Inr n \<longleftrightarrow> n = r + 1 \<and> in_i64 (r + 1)"
  "next_revision r = Inl f \<longleftrightarrow> f = Err InvalidTransition \<and> \<not> in_i64 (r + 1)"
  by (auto simp: next_revision_def res_simps checked_add_i64_def)

lemma next_revision_if:
  "next_revision r = (if in_i64 (r + 1) then Inr (r + 1) else Inl (Err InvalidTransition))"
  by (simp add: next_revision_def checked_add_i64_def)

lemma next_slot_revisions_eq:
  "next_slot_revisions slots = Inr rs \<Longrightarrow> rs = map (\<lambda>s. ps_slot_revision s + 1) slots"
  unfolding next_slot_revisions_def
  by (induction slots arbitrary: rs) (auto simp: res_simps)

lemma zip_map_self: "map f (zip xs (map g xs)) = map (\<lambda>x. f (x, g x)) xs"
  by (induction xs) simp_all

lemma terminalize_eq:
  "terminalize st i = (Inr u, t) \<Longrightarrow> \<not> is_terminal (mi_status i) \<and> t = terminalized st i"
  "terminalize st i = (Inl f, t) \<Longrightarrow> t = i"
  by (auto simp: terminalize_def mut_simps res_simps terminalized_def zip_map_self
      dest!: next_slot_revisions_eq split: if_splits)

lemma ensure_pending_eq:
  assumes "ensure_pending rv now i = (r, t)"
  shows "(r = Inr None \<and> t = i \<and> mi_status i = PendingProof \<and> mi_intent_revision i = rv
            \<and> now < effective_deadline i)
       \<or> (r = Inr (Some EffectExpired) \<and> t = terminalized Expired i
            \<and> \<not> is_terminal (mi_status i) \<and> effective_deadline i \<le> now)
       \<or> ((\<exists>f. r = Inl f) \<and> t = i)"
  using assms
  by (auto simp: ensure_pending_def mut_simps split: if_splits dest!: terminalize_eq)

lemma slot_move_eq [res_simps]:
  "slot_move p A b auth st = Inr st' \<longleftrightarrow> is_provider auth = p \<and> st \<in> A \<and> st' = b"
  by (auto simp: slot_move_def)

lemma find_slot_eq [res_simps]:
  "find_slot role slots = Inr slot \<longleftrightarrow> filter (\<lambda>s. ps_role s = role) slots = [slot]"
  by (auto simp: find_slot_def split: list.splits)

lemma slot_moved_by:
  assumes "mi_status i = PendingProof" "mi_browser_binding i = Some b"
    "find_slot role (mi_slots i) = Inr slot" "now < effective_deadline i"
  shows "is_provider (ps_authority slot) \<Longrightarrow> slot_step True (ps_state slot) st
           \<Longrightarrow> intent_step tadd now x i (Inr (Some EffectApplied)) (moved role st i)"
    and "\<not> is_provider (ps_authority slot) \<Longrightarrow> slot_step False (ps_state slot) st
           \<Longrightarrow> intent_step tadd now x i (Inr (Some EffectApplied)) (moved role st i)"
  using assms by (auto intro: intent_step.slot_moved)

lemma moved_eq:
  assumes "find_slot role slots = Inr slot"
  shows "update_slot role (\<lambda>s. s\<lparr>ps_state := st, ps_slot_revision := ps_slot_revision slot + 1\<rparr>) slots
       = update_slot role (\<lambda>s. s\<lparr>ps_state := st, ps_slot_revision := ps_slot_revision s + 1\<rparr>) slots"
    and "update_slot role (\<lambda>s. s\<lparr>ps_state := st, ps_receipt := rc,
             ps_slot_revision := ps_slot_revision slot + 1\<rparr>) slots
       = update_slot role (\<lambda>s. s\<lparr>ps_state := st, ps_receipt := rc,
             ps_slot_revision := ps_slot_revision s + 1\<rparr>) slots"
proof -
  have "s = slot" if "s \<in> set slots" "ps_role s = role" for s
  proof -
    have "s \<in> set (filter (\<lambda>s. ps_role s = role) slots)" using that by simp
    then show ?thesis
      unfolding assms [unfolded find_slot_eq] by simp
  qed
  then show "update_slot role (\<lambda>s. s\<lparr>ps_state := st, ps_slot_revision := ps_slot_revision slot + 1\<rparr>) slots
       = update_slot role (\<lambda>s. s\<lparr>ps_state := st, ps_slot_revision := ps_slot_revision s + 1\<rparr>) slots"
    and "update_slot role (\<lambda>s. s\<lparr>ps_state := st, ps_receipt := rc,
             ps_slot_revision := ps_slot_revision slot + 1\<rparr>) slots
       = update_slot role (\<lambda>s. s\<lparr>ps_state := st, ps_receipt := rc,
             ps_slot_revision := ps_slot_revision s + 1\<rparr>) slots"
    by (auto simp: update_slot_def)
qed

lemma transition_slot_step:
  assumes "m_some (transition_slot role rv now (slot_move p A b)) i = (r, t)"
    and "\<forall>st \<in> A. slot_step p st b"
  shows "intent_step tadd now x i r t"
proof -
  obtain e s where e: "ensure_pending rv now i = (e, s)" by force
  from ensure_pending_eq [OF this] show ?thesis
  proof (elim disjE conjE exE)
    assume *: "e = Inr None" "s = i" "mi_status i = PendingProof" "now < effective_deadline i"
    show ?thesis
      using assms e *
      by (cases r)
         (auto simp: m_some_def transition_slot_def mut_simps and_then_eq_Inr next_revision_eq
            slot_move_eq moved_eq moved_def [symmetric] split: if_splits
            intro: intent_step.rejected, (fastforce intro: slot_moved_by)+)
  next
    assume *: "e = Inr (Some EffectExpired)" "s = terminalized Expired i"
      "\<not> is_terminal (mi_status i)" "effective_deadline i \<le> now"
    then show ?thesis
      using assms(1) e
      by (auto simp: m_some_def transition_slot_def mut_simps intro: intent_step.timed_out)
  next
    fix f assume "e = Inl f" "s = i"
    then show ?thesis
      using assms(1) e
      by (auto simp: m_some_def transition_slot_def mut_simps intro: intent_step.rejected)
  qed
qed

lemmas slot_op_defs = start_provider_def claim_provider_callback_def fail_provider_exchange_def
  begin_email_def mark_email_challenge_pending_def replace_email_challenge_def

lemma bind_browser_step:
  assumes "m_some (bind_browser rv b now) i = (r, t)"
  shows "intent_step tadd now (OpBindBrowser b) i r t"
proof (cases "binding_validate b")
  case (Inl f)
  then show ?thesis
    using assms by (auto simp: m_some_def bind_browser_def mut_simps intro: intent_step.rejected)
next
  case (Inr u)
  obtain e s where e: "ensure_pending rv now i = (e, s)" by force
  from ensure_pending_eq [OF this] show ?thesis
  proof (elim disjE conjE exE)
    assume "e = Inr None" "s = i" "mi_status i = PendingProof" "now < effective_deadline i"
    then show ?thesis
      using assms e Inr
      by (cases "in_i64 (mi_intent_revision i + 1)")
         (auto simp: m_some_def bind_browser_def mut_simps next_revision_if Let_def
            split: if_splits intro: intent_step.rejected intent_step.bind_overflow intent_step.bound)
  qed (use assms e Inr in \<open>auto simp: m_some_def bind_browser_def mut_simps
         intro: intent_step.rejected intent_step.timed_out\<close>)
qed

lemma attach_receipt_step:
  assumes "m_some (attach_receipt tadd rv now receipt) i = (r, t)"
  shows "intent_step tadd now (OpAttachReceipt receipt) i r t"
proof -
  obtain e s where e: "ensure_pending rv now i = (e, s)" by force
  from ensure_pending_eq [OF this] show ?thesis
  proof (elim disjE conjE exE)
    assume "e = Inr None" "s = i" "mi_status i = PendingProof" "now < effective_deadline i"
    then show ?thesis
      using assms e
      by (cases r)
         (auto simp: m_some_def attach_receipt_def mut_simps and_then_eq_Inr next_revision_eq moved_eq
            attached_def [symmetric] not_less not_le split: if_splits
            intro: intent_step.rejected, (fastforce intro: intent_step.receipt_attached)+)
  qed (use assms e in \<open>auto simp: m_some_def attach_receipt_def mut_simps split: if_splits
         intro: intent_step.rejected intent_step.timed_out\<close>)
qed

lemma confirm_ready_step:
  assumes "m_some (confirm_ready rv now) i = (r, t)"
  shows "intent_step tadd now OpConfirmReady i r t"
proof -
  obtain e s where e: "ensure_pending rv now i = (e, s)" by force
  from ensure_pending_eq [OF this] show ?thesis
  proof (elim disjE conjE exE)
    assume "e = Inr None" "s = i" "mi_status i = PendingProof" "now < effective_deadline i"
    then show ?thesis
      using assms e
      by (cases r)
         (auto simp: m_some_def confirm_ready_def mut_simps and_then_eq_Inr next_revision_eq
            list_ex_iff list_all_iff split: if_splits
            intro: intent_step.rejected intent_step.confirmed)
  qed (use assms e in \<open>auto simp: m_some_def confirm_ready_def mut_simps split: if_splits
         intro: intent_step.rejected intent_step.timed_out\<close>)
qed

text \<open>The loop of \<open>complete\<close> cannot stop half way once every slot holds a receipt.\<close>

lemma consume_receipts_all:
  "\<forall>s \<in> set slots. ps_receipt s \<noteq> None \<Longrightarrow>
   consume_receipts slots (map (\<lambda>s. ps_slot_revision s + 1) slots) =
     (Inr (), map (\<lambda>s. s\<lparr>ps_receipt := map_option (\<lambda>r. r\<lparr>rr_status := ReceiptConsumed\<rparr>) (ps_receipt s),
                       ps_slot_revision := ps_slot_revision s + 1\<rparr>) slots)"
  by (induction slots) auto

lemma has_issued_receipt_Some: "has_issued_receipt s \<Longrightarrow> ps_receipt s \<noteq> None"
  by (auto simp: has_issued_receipt_def split: option.splits)

lemma complete_step:
  assumes "m_some (complete rv now) i = (r, t)"
  shows "intent_step tadd now OpComplete i r t"
proof (cases "mi_status i = Ready \<and> now < effective_deadline i \<and> list_all has_issued_receipt (mi_slots i)")
  case True
  then have all: "\<forall>s \<in> set (mi_slots i). ps_receipt s \<noteq> None"
    by (auto simp: list_all_iff dest: has_issued_receipt_Some)
  show ?thesis
    using assms True consume_receipts_all [OF all]
    by (cases r)
       (auto simp: m_some_def complete_def mut_simps next_revision_eq list_ex_iff list_all_iff
          consumed_def [symmetric] dest!: next_slot_revisions_eq split: if_splits
          intro: intent_step.rejected intent_step.completed [unfolded list_all_iff])
next
  case False
  then show ?thesis
    using assms
    by (auto simp: m_some_def complete_def mut_simps list_ex_iff list_all_iff is_terminal_def
          split: if_splits dest!: terminalize_eq intro: intent_step.rejected intent_step.timed_out)
qed

theorem intent_apply_step:
  assumes "intent_apply tadd rv now x i = (r, t)"
  shows "intent_step tadd now x i r t"
proof (cases x)
  case OpCancel
  with assms show ?thesis
    by (auto simp: m_some_def cancel_def mut_simps not_le split: if_splits dest!: terminalize_eq
        intro: intent_step.rejected intent_step.timed_out intent_step.cancelled)
next
  case OpExpire
  with assms show ?thesis
    by (auto simp: intent_expire_def mut_simps split: if_splits dest!: terminalize_eq
        intro: intent_step.rejected intent_step.not_due intent_step.timed_out)
qed (use assms in \<open>auto simp: slot_op_defs slot_step_simps
       intro: transition_slot_step bind_browser_step attach_receipt_step confirm_ready_step
         complete_step elim!: transition_slot_step\<close>)

section \<open>The invariant that restoration checks\<close>

definition slot_sound ::
    "url_lib \<Rightarrow> (instant \<Rightarrow> duration \<Rightarrow> instant option) \<Rightarrow> mutation_intent \<Rightarrow> proof_slot \<Rightarrow> bool" where
  "slot_sound U tadd i s \<longleftrightarrow>
     \<not> is_nil (ps_id s) \<and> 0 < ps_slot_revision s \<and> target_project_id (ps_target s) = mi_project_id i
     \<and> authority_validate U (ps_authority s) (mi_project_id i) (target_identity_kind (ps_target s)) = Inr ()
     \<and> state_matches_authority s
     \<and> (case ps_receipt s of
          Some r \<Rightarrow> validate_receipt_for_slot tadd i (rr_snapshot r) s = Inr ()
            \<and> rc_captured_intent_revision (rr_snapshot r) < mi_intent_revision i
            \<and> receipt_state_ok (mi_status i) (ps_state s) (rr_status r)
        | None \<Rightarrow> ps_state s \<noteq> SlotProved
            \<and> (ps_state s = SlotExpired \<longrightarrow> mi_status i \<in> {Expired, Cancelled}))"

definition binding_sound :: "mutation_intent \<Rightarrow> bool" where
  "binding_sound i \<longleftrightarrow>
     (case mi_browser_binding i of
        Some b \<Rightarrow> binding_validate b = Inr () \<and> 1 < mi_intent_revision i
      | None \<Rightarrow> mi_status i \<in> {PendingProof, Expired, Cancelled}
          \<and> (\<forall>s \<in> set (mi_slots i). ps_receipt s = None \<and> ps_state s \<in> {SlotPending, SlotExpired}))"

definition intent_wf ::
    "url_lib \<Rightarrow> (instant \<Rightarrow> duration \<Rightarrow> instant option) \<Rightarrow> mutation_intent \<Rightarrow> bool" where
  "intent_wf U tadd i \<longleftrightarrow>
     \<not> is_nil (mi_id i) \<and> \<not> is_nil (mi_project_id i)
     \<and> validate_lifetime tadd (mi_created_at i) (mi_expires_at i) = Inr ()
     \<and> 0 < mi_intent_revision i
     \<and> validate_slot_set (mi_project_id i) (mi_kind i) (mi_slots i) = Inr ()
     \<and> binding_sound i
     \<and> (\<forall>s \<in> set (mi_slots i). slot_sound U tadd i s)
     \<and> distinct (map ps_id (mi_slots i)) \<and> distinct (receipt_ids (mi_slots i))
     \<and> aggregate_state_ok i"

lemma reject_nil_eq [res_simps]:
  "reject_nil u = Inr x \<longleftrightarrow> \<not> is_nil u"
  "reject_nil u = Inl f \<longleftrightarrow> is_nil u \<and> f = Err InvalidValue"
  by (auto simp: reject_nil_def)

lemma receipt_ids_simps [simp]:
  "receipt_ids [] = []"
  "receipt_ids (s # ss) =
     (case ps_receipt s of None \<Rightarrow> receipt_ids ss | Some r \<Rightarrow> rc_id (rr_snapshot r) # receipt_ids ss)"
  by (auto simp: receipt_ids_def List.map_filter_simps split: option.splits)

lemma receipt_ids_append [simp]: "receipt_ids (ss @ ts) = receipt_ids ss @ receipt_ids ts"
  by (induction ss) (auto split: option.splits)

lemma validate_restored_slots_eq:
  "validate_restored_slots U tadd i A B slots = Inr () \<longleftrightarrow>
     (\<forall>s \<in> set slots. slot_sound U tadd i s)
     \<and> distinct (map ps_id slots) \<and> set (map ps_id slots) \<inter> A = {}
     \<and> distinct (receipt_ids slots) \<and> set (receipt_ids slots) \<inter> B = {}"
proof (induction slots arbitrary: A B)
  case Nil
  then show ?case by simp
next
  case (Cons s ss)
  show ?case
  proof (cases "ps_receipt s")
    case None
    then show ?thesis
      using Cons by (auto simp: slot_sound_def res_simps not_le)
  next
    case (Some r)
    then show ?thesis
      using Cons by (auto simp: slot_sound_def res_simps not_le)
  qed
qed

lemma validate_browser_binding_state_eq:
  "(case mi_browser_binding i of Some b \<Rightarrow> binding_validate b | None \<Rightarrow> Inr ()) = Inr ()
     \<and> validate_browser_binding_state i = Inr () \<longleftrightarrow> binding_sound i"
  by (auto simp: validate_browser_binding_state_def binding_sound_def list_ex_iff split: option.splits)

lemma restore_record_slot [simp]: "restore_slot (record_slot s) = s"
  by (simp add: restore_slot_def record_slot_def)

lemma intent_collapse [simp]:
  "\<lparr>mi_id = mi_id i, mi_project_id = mi_project_id i, mi_kind = mi_kind i, mi_status = mi_status i,
    mi_intent_revision = mi_intent_revision i, mi_browser_binding = mi_browser_binding i,
    mi_slots = mi_slots i, mi_created_at = mi_created_at i, mi_expires_at = mi_expires_at i\<rparr> = i"
  by simp

lemma restore_record_eq: "restore U tadd (record_for i) = Inr i \<longleftrightarrow> intent_wf U tadd i"
proof -
  have "map (restore_slot \<circ> record_slot) (mi_slots i) = mi_slots i"
    by (simp add: comp_def)
  then have "restore U tadd (record_for i) = Inr i \<longleftrightarrow>
      \<not> is_nil (mi_id i) \<and> \<not> is_nil (mi_project_id i)
      \<and> ((case mi_browser_binding i of Some b \<Rightarrow> binding_validate b | None \<Rightarrow> Inr ()) = Inr ()
         \<and> validate_browser_binding_state i = Inr ())
      \<and> validate_lifetime tadd (mi_created_at i) (mi_expires_at i) = Inr ()
      \<and> 0 < mi_intent_revision i
      \<and> validate_slot_set (mi_project_id i) (mi_kind i) (mi_slots i) = Inr ()
      \<and> validate_restored_slots U tadd i {} {} (mi_slots i) = Inr () \<and> aggregate_state_ok i"
    by (auto simp: restore_def record_for_def validate_restored_def res_simps Let_def)
  then show ?thesis
    unfolding validate_browser_binding_state_eq validate_restored_slots_eq intent_wf_def by auto
qed

lemma restore_wf: "restore U tadd rec = Inr i \<Longrightarrow> intent_wf U tadd i"
proof -
  assume r: "restore U tadd rec = Inr i"
  have "record_for i = rec"
    using r by (cases rec)
      (auto simp: restore_def record_for_def res_simps Let_def comp_def record_slot_def
        restore_slot_def split: if_splits prod.splits intro!: map_idI)
  with r restore_record_eq show ?thesis by blast
qed

section \<open>Every step preserves the invariant\<close>

text \<open>What the transitions never change of a slot and of an intent.\<close>

definition slot_key :: "proof_slot \<Rightarrow> uuid \<times> slot_role \<times> u8 \<times> slot_target \<times> authority" where
  "slot_key s = (ps_id s, ps_role s, ps_ordinal s, ps_target s, ps_authority s)"

definition intent_key ::
    "mutation_intent \<Rightarrow> uuid \<times> uuid \<times> mutation_kind \<times> instant \<times> instant" where
  "intent_key i = (mi_id i, mi_project_id i, mi_kind i, mi_created_at i, mi_expires_at i)"

lemma for_each_shape:
  assumes "map f xs = map f ys" and "\<And>x y. f x = f y \<Longrightarrow> g x = g y"
  shows "for_each g xs = for_each g ys"
  using assms(1)
proof (induction xs arbitrary: ys)
  case Nil
  then show ?case by simp
next
  case (Cons x xs)
  then obtain y zs where ys: "ys = y # zs" "f x = f y" "map f xs = map f zs" by (cases ys) auto
  then have "g x = g y" and "for_each g xs = for_each g zs"
    using assms(2) Cons.IH by blast+
  then show ?case using ys by simp
qed

lemma enumerate_zip_shape:
  assumes "map f xs = map f ys" and "\<And>k x y r. f x = f y \<Longrightarrow> P (k, x, r) = P (k, y, r)"
  shows "list_ex P (enumerate n (zip xs rs)) = list_ex P (enumerate n (zip ys rs))"
  using assms(1)
proof (induction xs arbitrary: ys rs n)
  case Nil
  then show ?case by simp
next
  case (Cons x xs)
  then obtain y zs where ys: "ys = y # zs" "f x = f y" "map f xs = map f zs" by (cases ys) auto
  show ?case
  proof (cases rs)
    case (Cons r rs')
    then show ?thesis
      using ys Cons.IH [of zs "Suc n" rs'] assms(2) [OF ys(2)] by simp
  qed simp
qed

lemma validate_slot_set_shape:
  assumes "map slot_key xs = map slot_key ys"
  shows "validate_slot_set p k xs = validate_slot_set p k ys"
proof -
  have len: "length xs = length ys" using assms by (metis length_map)
  have key: "slot_key (xs ! n) = slot_key (ys ! n)" if "n < length ys" for n
    using assms len that by (metis nth_map)
  have each: "for_each (\<lambda>s. validate_target p (ps_target s)) xs
            = for_each (\<lambda>s. validate_target p (ps_target s)) ys"
    by (rule for_each_shape [OF assms]) (simp add: slot_key_def)
  have roles: "list_ex (\<lambda>(k, s, r). ps_role s \<noteq> r \<or> unat (ps_ordinal s) \<noteq> k + 1
                 \<or> target_project_id (ps_target s) \<noteq> p) (enumerate 0 (zip xs rs))
             = list_ex (\<lambda>(k, s, r). ps_role s \<noteq> r \<or> unat (ps_ordinal s) \<noteq> k + 1
                 \<or> target_project_id (ps_target s) \<noteq> p) (enumerate 0 (zip ys rs))" for rs
    by (rule enumerate_zip_shape [OF assms]) (simp add: slot_key_def)
  have target: "and_then (index xs n) (\<lambda>s. h (ps_target s)) = and_then (index ys n) (\<lambda>s. h (ps_target s))"
    for n and h :: "slot_target \<Rightarrow> (domain_error, 'b) res"
    using key [of n] by (auto simp: index_def len slot_key_def)
  have target2: "and_then (index xs n) (\<lambda>s. and_then (index xs m) (\<lambda>t. Inr (h (ps_target s) (ps_target t))))
      = and_then (index ys n) (\<lambda>s. and_then (index ys m) (\<lambda>t. Inr (h (ps_target s) (ps_target t))
          :: (domain_error, bool) res))" for n m and h :: "slot_target \<Rightarrow> slot_target \<Rightarrow> bool"
    using key [of n] key [of m] by (auto simp: index_def len slot_key_def)
  show ?thesis
    unfolding validate_slot_set_def Let_def each roles len target [of 0 "\<lambda>t. Inr (is_existing t)"]
      target2 [of 0 1 link_targets_ok] target2 [of 0 1 merge_targets_ok]
    by (rule refl)
qed

lemma update_slot_key:
  assumes "\<And>s. slot_key (f s) = slot_key s"
  shows "map slot_key (update_slot role f slots) = map slot_key slots"
  using assms by (simp add: update_slot_def)

lemma map_slot_key_ids: "map slot_key xs = map slot_key ys \<Longrightarrow> map ps_id xs = map ps_id ys"
proof -
  assume "map slot_key xs = map slot_key ys"
  then have "map fst (map slot_key xs) = map fst (map slot_key ys)" by simp
  then show ?thesis by (simp add: comp_def slot_key_def)
qed

lemma validate_receipt_cong:
  assumes "intent_key i = intent_key j" "mi_browser_binding i = mi_browser_binding j"
    and "slot_key s = slot_key t"
  shows "validate_receipt_for_slot tadd i r s = validate_receipt_for_slot tadd j r t"
  using assms unfolding intent_key_def slot_key_def
  by (auto simp: validate_receipt_for_slot_def)

text \<open>
  The parts of the invariant that only depend on keys carry over; what a step has to
  show is the rest.
\<close>

lemma intent_wf_step:
  assumes wf: "intent_wf U tadd i" and key: "intent_key j = intent_key i"
    and shape: "map slot_key (mi_slots j) = map slot_key (mi_slots i)"
    and rev: "mi_intent_revision i \<le> mi_intent_revision j"
    and bind: "binding_sound j" and agg: "aggregate_state_ok j"
    and sound: "\<forall>s \<in> set (mi_slots j). slot_sound U tadd j s"
    and fresh: "distinct (receipt_ids (mi_slots j))"
  shows "intent_wf U tadd j"
  using assms validate_slot_set_shape [OF shape] map_slot_key_ids [OF shape]
  unfolding intent_wf_def intent_key_def by auto

lemma slot_sound_mono:
  assumes "slot_sound U tadd i s" "intent_key j = intent_key i"
    "mi_browser_binding j = mi_browser_binding i" "mi_status j = mi_status i"
    "mi_intent_revision i \<le> mi_intent_revision j"
  shows "slot_sound U tadd j s"
  using assms validate_receipt_cong [of j i s s tadd]
  unfolding slot_sound_def intent_key_def by (auto split: option.splits)

lemma open_receipts_issued:
  assumes "slot_sound U tadd i s" "ps_receipt s = Some r" "\<not> is_terminal (mi_status i)"
  shows "rr_status r = ReceiptIssued \<and> ps_state s = SlotProved"
  using assms by (cases "rr_status r"; cases "mi_status i") (auto simp: slot_sound_def is_terminal_def)

lemma slot_key_updates [simp]:
  "slot_key (s\<lparr>ps_state := a\<rparr>) = slot_key s"
  "slot_key (s\<lparr>ps_receipt := b\<rparr>) = slot_key s"
  "slot_key (s\<lparr>ps_slot_revision := c\<rparr>) = slot_key s"
  "slot_key (expire_slot (s, c)) = slot_key s"
  by (simp_all add: slot_key_def expire_slot_def)

lemma intent_key_updates [simp]:
  "intent_key (i\<lparr>mi_slots := a\<rparr>) = intent_key i"
  "intent_key (i\<lparr>mi_status := b\<rparr>) = intent_key i"
  "intent_key (i\<lparr>mi_intent_revision := c\<rparr>) = intent_key i"
  "intent_key (i\<lparr>mi_browser_binding := d\<rparr>) = intent_key i"
  by (simp_all add: intent_key_def)

lemma receipt_ids_map:
  assumes "\<And>s. ps_receipt (f s) = map_option g (ps_receipt s)"
    and "\<And>r. rr_snapshot (g r) = rr_snapshot r"
  shows "receipt_ids (map f slots) = receipt_ids slots"
  by (induction slots) (auto simp: assms split: option.splits)

lemma wf_terminalized:
  assumes wf: "intent_wf U tadd i" and st: "st \<in> {Expired, Cancelled}"
    and live: "\<not> is_terminal (mi_status i)"
  shows "intent_wf U tadd (terminalized st i)" (is "intent_wf U tadd ?j")
proof (rule intent_wf_step [OF wf])
  show "intent_key ?j = intent_key i" by (simp add: terminalized_def)
  show "map slot_key (mi_slots ?j) = map slot_key (mi_slots i)" by (simp add: terminalized_def)
  show "binding_sound ?j"
    using wf st by (auto simp: intent_wf_def binding_sound_def terminalized_def expire_slot_def
        split: option.splits)
  show "aggregate_state_ok ?j"
    using st by (auto simp: aggregate_state_ok_def terminalized_def list_all_iff expire_slot_def)
  have "receipt_ids (mi_slots ?j) = receipt_ids (mi_slots i)"
    unfolding terminalized_def
    by (simp, rule receipt_ids_map [of _ expire_receipt])
       (simp_all add: expire_slot_def expire_receipt_def)
  then show "distinct (receipt_ids (mi_slots ?j))" using wf by (simp add: intent_wf_def)
  show "\<forall>s \<in> set (mi_slots ?j). slot_sound U tadd ?j s"
  proof
    fix t assume "t \<in> set (mi_slots ?j)"
    then obtain s where s: "s \<in> set (mi_slots i)" "t = expire_slot (s, ps_slot_revision s + 1)"
      by (auto simp: terminalized_def)
    then have sound: "slot_sound U tadd i s" using wf by (simp add: intent_wf_def)
    have "validate_receipt_for_slot tadd ?j r t = validate_receipt_for_slot tadd i r s" for r
      by (rule validate_receipt_cong) (simp_all add: terminalized_def s)
    then show "slot_sound U tadd ?j t"
      using sound open_receipts_issued [OF sound _ live] st s
      by (auto simp: slot_sound_def terminalized_def expire_slot_def expire_receipt_def
          state_matches_authority_def split: option.splits authority.splits)
  qed
qed (simp add: terminalized_def)

lemma find_slot_split:
  assumes "find_slot role slots = Inr s"
  shows "\<exists>xs ys. slots = xs @ s # ys \<and> (\<forall>f. update_slot role f slots = xs @ f s # ys)"
proof -
  from assms obtain xs ys where *: "slots = xs @ s # ys" "\<forall>u \<in> set xs. ps_role u \<noteq> role"
    "ps_role s = role" "filter (\<lambda>s. ps_role s = role) ys = []"
    unfolding find_slot_eq filter_eq_Cons_iff by metis
  have "map (\<lambda>u. if ps_role u = role then f u else u) xs = xs" for f
    using *(2) by (induction xs) auto
  moreover have "map (\<lambda>u. if ps_role u = role then f u else u) ys = ys" for f
    using *(4) by (induction ys) (auto split: if_splits)
  ultimately have "\<forall>f. update_slot role f slots = xs @ f s # ys"
    using *(1,3) by (simp add: update_slot_def)
  with *(1) show ?thesis by blast
qed

lemma wf_slot_change:
  assumes wf: "intent_wf U tadd i" and status: "mi_status i = PendingProof"
    and bound: "mi_browser_binding i \<noteq> None" and found: "find_slot role (mi_slots i) = Inr s"
    and key: "\<And>u. slot_key (f u) = slot_key u"
    and j: "j = i\<lparr>mi_slots := update_slot role f (mi_slots i),
                 mi_intent_revision := mi_intent_revision i + 1\<rparr>"
    and state: "ps_state (f s) \<noteq> SlotExpired"
    and sound: "slot_sound U tadd j (f s)"
    and ids: "distinct (receipt_ids (mi_slots j))"
  shows "intent_wf U tadd j"
proof -
  obtain xs ys where slots: "mi_slots i = xs @ s # ys"
    and at: "\<forall>f. update_slot role f (mi_slots i) = xs @ f s # ys"
    using find_slot_split [OF found] by blast
  have upd: "mi_slots j = xs @ f s # ys" by (simp add: j at)
  show ?thesis
  proof (rule intent_wf_step [OF wf])
    show "map slot_key (mi_slots j) = map slot_key (mi_slots i)" by (simp add: slots upd key)
    show "binding_sound j" using wf bound by (auto simp: intent_wf_def binding_sound_def j)
    show "aggregate_state_ok j"
      using wf status state slots upd by (auto simp: intent_wf_def aggregate_state_ok_def j)
    show "\<forall>u \<in> set (mi_slots j). slot_sound U tadd j u"
    proof
      fix u assume "u \<in> set (mi_slots j)"
      then consider "u = f s" | "u \<in> set (mi_slots i)" using slots upd by auto
      then show "slot_sound U tadd j u"
      proof cases
        case 2
        then have "slot_sound U tadd i u" using wf by (simp add: intent_wf_def)
        then show ?thesis by (rule slot_sound_mono) (simp_all add: j)
      qed (simp add: sound)
    qed
    show "distinct (receipt_ids (mi_slots j))" by (fact ids)
  qed (simp_all add: j)
qed

lemma wf_slot_found:
  assumes "intent_wf U tadd i" and "find_slot role (mi_slots i) = Inr s"
  shows "slot_sound U tadd i s"
proof -
  have "s \<in> set (mi_slots i)" using find_slot_split [OF assms(2)] by auto
  with assms(1) show ?thesis by (simp add: intent_wf_def)
qed

lemma slot_step_state:
  assumes "slot_step p st st'"
  shows "st' \<notin> {SlotProved, SlotExpired}" "st \<noteq> SlotProved"
    and "is_provider (ps_authority s) = p \<Longrightarrow> ps_state s = st'
           \<Longrightarrow> state_matches_authority s"
  using assms
  by (cases "ps_authority s"; auto simp: state_matches_authority_def elim: slot_step.cases)+

lemma wf_moved:
  assumes wf: "intent_wf U tadd i" and pre: "mi_status i = PendingProof" "mi_browser_binding i \<noteq> None"
    and found: "find_slot role (mi_slots i) = Inr s"
    and step: "slot_step (is_provider (ps_authority s)) (ps_state s) st"
  shows "intent_wf U tadd (moved role st i)" (is "intent_wf U tadd ?j")
proof (rule wf_slot_change [OF wf pre found])
  let ?f = "\<lambda>u. u\<lparr>ps_state := st, ps_slot_revision := ps_slot_revision u + 1\<rparr>"
  show "moved role st i = i\<lparr>mi_slots := update_slot role ?f (mi_slots i),
          mi_intent_revision := mi_intent_revision i + 1\<rparr>"
    by (simp add: moved_def)
  note st = slot_step_state [OF step]
  have sound: "slot_sound U tadd i s" using wf_slot_found [OF wf found] .
  have later: "slot_sound U tadd ?j s"
    by (rule slot_sound_mono [OF sound]) (simp_all add: moved_def)
  have none: "ps_receipt s = None"
    using open_receipts_issued [OF sound] pre(1) st(2)
    by (cases "ps_receipt s") (auto simp: is_terminal_def)
  have matches: "state_matches_authority (?f s)" by (rule st(3)) simp_all
  show "slot_sound U tadd ?j (?f s)"
    using later none st(1) matches by (simp add: slot_sound_def)
  show "ps_state (?f s) \<noteq> SlotExpired" using st(1) by simp
  have "receipt_ids (mi_slots ?j) = receipt_ids (mi_slots i)"
    unfolding moved_def update_slot_def
    by (simp, rule receipt_ids_map [of _ id]) (simp_all add: option.map_id)
  then show "distinct (receipt_ids (mi_slots ?j))" using wf by (simp add: intent_wf_def)
qed simp

lemma wf_attached:
  assumes wf: "intent_wf U tadd i" and pre: "mi_status i = PendingProof" "mi_browser_binding i \<noteq> None"
    and found: "find_slot (rc_role receipt) (mi_slots i) = Inr s"
    and valid: "validate_receipt_for_slot tadd i receipt s = Inr ()"
    and captured: "rc_captured_intent_revision receipt = mi_intent_revision i"
    and empty: "ps_receipt s = None"
    and fresh: "rc_id receipt \<notin> set (receipt_ids (mi_slots i))"
  shows "intent_wf U tadd (attached receipt i)" (is "intent_wf U tadd ?j")
proof (rule wf_slot_change [OF wf pre found])
  let ?f = "\<lambda>u. u\<lparr>ps_state := SlotProved,
                 ps_receipt := Some \<lparr>rr_snapshot = receipt, rr_status = ReceiptIssued\<rparr>,
                 ps_slot_revision := ps_slot_revision u + 1\<rparr>"
  show att: "attached receipt i = i\<lparr>mi_slots := update_slot (rc_role receipt) ?f (mi_slots i),
          mi_intent_revision := mi_intent_revision i + 1\<rparr>"
    by (simp add: attached_def)
  have "slot_sound U tadd i s" using wf_slot_found [OF wf found] .
  moreover have "validate_receipt_for_slot tadd ?j receipt (?f s) = Inr ()"
    unfolding valid [symmetric] by (rule validate_receipt_cong) (simp_all add: attached_def)
  ultimately show "slot_sound U tadd ?j (?f s)"
    using captured pre
    by (auto simp: slot_sound_def attached_def state_matches_authority_def split: authority.splits)
  obtain xs ys where slots: "mi_slots i = xs @ s # ys"
    and at: "\<forall>f. update_slot (rc_role receipt) f (mi_slots i) = xs @ f s # ys"
    using find_slot_split [OF found] by blast
  have "mi_slots ?j = xs @ ?f s # ys" by (simp add: att at)
  with slots show "distinct (receipt_ids (mi_slots ?j))"
    using wf fresh empty by (auto simp: intent_wf_def)
qed simp_all

lemma wf_consumed:
  assumes wf: "intent_wf U tadd i" and ready: "mi_status i = Ready"
  shows "intent_wf U tadd (consumed i)" (is "intent_wf U tadd ?j")
proof (rule intent_wf_step [OF wf])
  let ?f = "\<lambda>s. s\<lparr>ps_receipt := map_option (\<lambda>r. r\<lparr>rr_status := ReceiptConsumed\<rparr>) (ps_receipt s),
                 ps_slot_revision := ps_slot_revision s + 1\<rparr>"
  have slots: "mi_slots ?j = map ?f (mi_slots i)" by (simp add: consumed_def)
  have proved: "ps_state s = SlotProved \<and> ps_receipt s \<noteq> None" if "s \<in> set (mi_slots i)" for s
  proof -
    have "aggregate_state_ok i" using wf by (simp add: intent_wf_def)
    with ready that show ?thesis
      by (cases "ps_receipt s") (auto simp: aggregate_state_ok_def list_all_iff)
  qed
  show "binding_sound ?j"
    using wf ready by (auto simp: intent_wf_def binding_sound_def consumed_def split: option.splits)
  show "aggregate_state_ok ?j"
    by (auto simp: aggregate_state_ok_def consumed_def list_all_iff dest!: proved)
  have "receipt_ids (mi_slots ?j) = receipt_ids (mi_slots i)"
    unfolding slots by (rule receipt_ids_map [of _ "\<lambda>r. r\<lparr>rr_status := ReceiptConsumed\<rparr>"]) simp_all
  then show "distinct (receipt_ids (mi_slots ?j))" using wf by (simp add: intent_wf_def)
  show "\<forall>t \<in> set (mi_slots ?j). slot_sound U tadd ?j t"
  proof
    fix t assume "t \<in> set (mi_slots ?j)"
    then obtain s where s: "s \<in> set (mi_slots i)" "t = ?f s" by (auto simp: consumed_def)
    then have "slot_sound U tadd i s" using wf by (simp add: intent_wf_def)
    moreover have "validate_receipt_for_slot tadd ?j r t = validate_receipt_for_slot tadd i r s" for r
      by (rule validate_receipt_cong) (simp_all add: consumed_def s)
    ultimately show "slot_sound U tadd ?j t"
      using proved [OF s(1)] s(2)
      by (cases "ps_receipt s"; cases "ps_authority s")
         (simp_all add: slot_sound_def consumed_def state_matches_authority_def)
  qed
qed (simp_all add: consumed_def)

lemma wf_bound:
  assumes wf: "intent_wf U tadd i" and pre: "mi_status i = PendingProof" "mi_browser_binding i = None"
    and b: "binding_validate b = Inr ()" and n: "n > 1" "mi_intent_revision i \<le> n"
  shows "intent_wf U tadd (i\<lparr>mi_browser_binding := Some b, mi_intent_revision := n\<rparr>)"
    (is "intent_wf U tadd ?j")
proof (rule intent_wf_step [OF wf])
  have none: "ps_receipt s = None" if "s \<in> set (mi_slots i)" for s
    using wf pre(2) that by (simp add: intent_wf_def binding_sound_def)
  show "\<forall>s \<in> set (mi_slots ?j). slot_sound U tadd ?j s"
  proof
    fix s assume "s \<in> set (mi_slots ?j)"
    then have "slot_sound U tadd i s" "ps_receipt s = None" using wf none by (auto simp: intent_wf_def)
    then show "slot_sound U tadd ?j s" by (simp add: slot_sound_def)
  qed
  have "aggregate_state_ok i" using wf by (simp add: intent_wf_def)
  then show "aggregate_state_ok ?j" using pre(1) by (simp add: aggregate_state_ok_def)
qed (use wf b n in \<open>simp_all add: intent_wf_def binding_sound_def\<close>)

lemma wf_confirmed:
  assumes wf: "intent_wf U tadd i" and pre: "mi_status i = PendingProof"
    and all: "list_all (\<lambda>s. ps_state s = SlotProved \<and> has_issued_receipt s) (mi_slots i)"
  shows "intent_wf U tadd (i\<lparr>mi_intent_revision := mi_intent_revision i + 1, mi_status := Ready\<rparr>)"
    (is "intent_wf U tadd ?j")
proof (rule intent_wf_step [OF wf])
  have proved: "ps_state s = SlotProved \<and> (\<exists>r. ps_receipt s = Some r \<and> rr_status r = ReceiptIssued)"
    if "s \<in> set (mi_slots i)" for s
    using all that by (auto simp: list_all_iff has_issued_receipt_def split: option.splits)
  show "\<forall>s \<in> set (mi_slots ?j). slot_sound U tadd ?j s"
  proof
    fix s assume "s \<in> set (mi_slots ?j)"
    then have s: "slot_sound U tadd i s" "s \<in> set (mi_slots i)" using wf by (auto simp: intent_wf_def)
    have "validate_receipt_for_slot tadd ?j r s = validate_receipt_for_slot tadd i r s" for r
      by (rule validate_receipt_cong) simp_all
    with s proved [OF s(2)] show "slot_sound U tadd ?j s"
      by (auto simp: slot_sound_def)
  qed
  show "aggregate_state_ok ?j" by (auto simp: aggregate_state_ok_def list_all_iff dest!: proved)
  have "mi_slots i \<noteq> []"
    using wf by (cases "mi_kind i") (auto simp: intent_wf_def validate_slot_set_def res_simps Let_def)
  then obtain s where "s \<in> set (mi_slots i)" by (cases "mi_slots i") auto
  from proved [OF this] wf this show "binding_sound ?j"
    by (auto simp: intent_wf_def binding_sound_def split: option.splits)
qed (use wf in \<open>simp_all add: intent_wf_def\<close>)

text \<open>
  The one thing an operation takes on trust: the identifier of an attached receipt is
  new (it is drawn by \<open>Uuid::new_v4\<close> and is the primary key of the receipt table).
\<close>

fun receipt_id_fresh :: "intent_op \<Rightarrow> mutation_intent \<Rightarrow> bool" where
  "receipt_id_fresh (OpAttachReceipt receipt) i \<longleftrightarrow> rc_id receipt \<notin> set (receipt_ids (mi_slots i))"
| "receipt_id_fresh _ i \<longleftrightarrow> True"

lemma intent_step_wf:
  assumes "intent_step tadd now x i r j" "intent_wf U tadd i" "receipt_id_fresh x i"
  shows "intent_wf U tadd j"
  using assms(1)
proof cases
  case (bind_overflow b)
  have "mi_intent_revision i > 1"
    using bind_overflow assms(2) by (auto simp: in_i64_def i64_max_value i64_min_value intent_wf_def)
  then have "intent_wf U tadd (i\<lparr>mi_browser_binding := Some b, mi_intent_revision := mi_intent_revision i\<rparr>)"
    using bind_overflow assms(2) by (intro wf_bound) auto
  then show ?thesis using bind_overflow by simp
next
  case (bound b)
  moreover have "0 < mi_intent_revision i" using assms(2) by (simp add: intent_wf_def)
  ultimately show ?thesis using assms(2) by (auto intro!: wf_bound)
qed (use assms(2,3) in \<open>auto intro: wf_terminalized wf_moved wf_attached wf_confirmed wf_consumed\<close>)

text \<open>
  The identifiers drawn for the at most two slots of an intent: not nil, and different.
\<close>

definition fresh_ids :: "(nat \<Rightarrow> uuid) \<Rightarrow> bool" where
  "fresh_ids fresh \<longleftrightarrow> \<not> is_nil (fresh 0) \<and> \<not> is_nil (fresh 1) \<and> fresh 0 \<noteq> fresh 1"

lemma fresh_idsD:
  "fresh_ids fresh \<Longrightarrow> n < 2 \<Longrightarrow> \<not> is_nil (fresh n)"
  "fresh_ids fresh \<Longrightarrow> inj_on fresh {0..<2}"
  by (auto simp: fresh_ids_def less_2_cases_iff inj_on_def)

lemma slot_definitions_length:
  "slot_definitions p plan = Inr (k, defs) \<Longrightarrow> length defs \<le> 2"
  by (auto simp: slot_definitions_def res_simps split: mutation_plan.splits if_splits)

lemma derive_slots_pending:
  assumes "derive_slots U fresh p plan = Inr (k, slots)" and ids: "fresh_ids fresh"
  shows "validate_slot_set p k slots = Inr ()" "distinct (map ps_id slots)" "receipt_ids slots = []"
    and "\<forall>s \<in> set slots. \<not> is_nil (ps_id s) \<and> ps_slot_revision s = 1 \<and> ps_receipt s = None
           \<and> ps_state s = SlotPending
           \<and> authority_validate U (ps_authority s) p (target_identity_kind (ps_target s)) = Inr ()"
proof -
  obtain defs where c: "collect_res (derive_slot U fresh p) (enumerate 0 defs) = Inr slots"
    and v: "validate_slot_set p k slots = Inr ()" and len: "length defs \<le> 2"
    using assms(1) by (auto simp: derive_slots_def res_simps dest: slot_definitions_length)
  from v show "validate_slot_set p k slots = Inr ()" .
  have gen: "map ps_id slots = map fresh [n ..< n + length defs] \<and> receipt_ids slots = []
      \<and> (\<forall>s \<in> set slots. \<not> is_nil (ps_id s) \<and> ps_slot_revision s = 1 \<and> ps_receipt s = None
           \<and> ps_state s = SlotPending
           \<and> authority_validate U (ps_authority s) p (target_identity_kind (ps_target s)) = Inr ())"
    if "collect_res (derive_slot U fresh p) (enumerate n defs) = Inr slots" "n + length defs \<le> 2" for n
    using that
  proof (induction defs arbitrary: n slots)
    case (Cons d ds)
    then obtain s ss where *: "derive_slot U fresh p (n, d) = Inr s"
      "collect_res (derive_slot U fresh p) (enumerate (Suc n) ds) = Inr ss" "slots = s # ss"
      by (auto simp: res_simps)
    have "n < 2" using Cons.prems by simp
    with * Cons.IH [OF *(2)] Cons.prems(2) fresh_idsD(1) [OF ids] show ?case
      by (cases d) (auto simp: derive_slot_def res_simps upt_conv_Cons simp del: upt_Suc)
  qed simp
  have "inj_on fresh {0..<length defs}"
    by (rule inj_on_subset [OF fresh_idsD(2) [OF ids]]) (use len in auto)
  with gen [OF c] len show "distinct (map ps_id slots)" by (simp add: distinct_map)
  from gen [OF c] len show "receipt_ids slots = []"
    and "\<forall>s \<in> set slots. \<not> is_nil (ps_id s) \<and> ps_slot_revision s = 1 \<and> ps_receipt s = None
           \<and> ps_state s = SlotPending
           \<and> authority_validate U (ps_authority s) p (target_identity_kind (ps_target s)) = Inr ()"
    by simp_all
qed

lemma validate_slot_set_facts:
  assumes "validate_slot_set p k slots = Inr ()"
  shows "map ps_role slots = expected_roles k"
    and "\<forall>s \<in> set slots. target_project_id (ps_target s) = p"
proof -
  have len: "length slots = length (expected_roles k)"
    and each: "\<not> list_ex (\<lambda>(n, s, r). ps_role s \<noteq> r \<or> unat (ps_ordinal s) \<noteq> n + 1
          \<or> target_project_id (ps_target s) \<noteq> p) (enumerate 0 (zip slots (expected_roles k)))"
    using assms by (auto simp: validate_slot_set_def and_then_eq_Inr Let_def split: if_splits)
  from len each show "map ps_role slots = expected_roles k"
    and "\<forall>s \<in> set slots. target_project_id (ps_target s) = p"
    by (cases k; auto simp: length_Suc_conv)+
qed

lemma create_wf:
  assumes c: "intent_create U tadd fresh ident p plan created expires = Inr i" and ids: "fresh_ids fresh"
  shows "intent_wf U tadd i"
proof -
  obtain k slots where d: "derive_slots U fresh p plan = Inr (k, slots)"
    and i: "i = \<lparr>mi_id = ident, mi_project_id = p, mi_kind = k, mi_status = PendingProof,
                mi_intent_revision = 1, mi_browser_binding = None, mi_slots = slots,
                mi_created_at = created, mi_expires_at = expires\<rparr>"
    and v: "\<not> is_nil ident" "\<not> is_nil p" "validate_lifetime tadd created expires = Inr ()"
    using c by (auto simp: intent_create_def res_simps)
  note s = derive_slots_pending [OF d ids]
  have "slot_sound U tadd i t" if "t \<in> set slots" for t
    using that s(4) validate_slot_set_facts(2) [OF s(1)]
    by (auto simp: slot_sound_def i state_matches_authority_def split: authority.splits)
  then show ?thesis
    using v s by (auto simp: intent_wf_def i binding_sound_def aggregate_state_ok_def list_all_iff)
qed

section \<open>Reachable intents\<close>

inductive intent_reach ::
    "url_lib \<Rightarrow> (instant \<Rightarrow> duration \<Rightarrow> instant option) \<Rightarrow> mutation_intent \<Rightarrow> bool" for U tadd where
  created: "fresh_ids fresh \<Longrightarrow> intent_create U tadd fresh ident p plan created expires = Inr i
              \<Longrightarrow> intent_reach U tadd i"
| loaded: "restore U tadd stored = Inr i \<Longrightarrow> intent_reach U tadd i"
| operated: "intent_reach U tadd i \<Longrightarrow> receipt_id_fresh x i \<Longrightarrow> intent_apply tadd rv now x i = (r, j)
              \<Longrightarrow> intent_reach U tadd j"

lemma reach_wf: "intent_reach U tadd i \<Longrightarrow> intent_wf U tadd i"
proof (induction rule: intent_reach.induct)
  case (operated i x rv now r j)
  then show ?case using intent_step_wf [OF intent_apply_step] by blast
qed (auto intro: create_wf restore_wf)

section \<open>A complete run\<close>

text \<open>An unlink proved by mail, from creation to completion; the instants are in seconds.\<close>

definition demo_urls :: url_lib where
  "demo_urls = \<lparr>ul_parse = (\<lambda>_. None), ul_push = (\<lambda>_ _. None)\<rparr>"

definition demo_identity :: existing_identity where
  "demo_identity = \<lparr>ei_project_id = 2, ei_user_id = 3, ei_identity_id = 4,
     ei_identity_kind = EmailIdentity, ei_expected_user_revision = 7,
     ei_expected_user_security_revision = 1, ei_expected_identity_revision = 2\<rparr>"

definition demo_authority :: authority where
  "demo_authority = EmailAuthority \<lparr>ea_project_id = 2, ea_application_id = 5,
     ea_application_security_revision = 1, ea_method_policy_revision = 1,
     ea_method_security_revision = 1, ea_assignment_security_revision = 1\<rparr>"

definition demo_binding :: browser_binding where
  "demo_binding = \<lparr>bb_digest = [], bb_digest_key_version = 1, bb_revision = 1\<rparr>"

definition demo_receipt :: receipt_snapshot where
  "demo_receipt = \<lparr>rc_id = 9, rc_project_id = 2, rc_intent_id = 1, rc_slot_id = 10,
     rc_role = IdentityOwner, rc_purpose = ''unlink.identity_owner'',
     rc_browser_binding = demo_binding, rc_proof_user_id = 3, rc_proof_user_revision = 7,
     rc_proof_user_security_revision = 1, rc_captured_intent_revision = 4,
     rc_evidence = ExistingIdentity 4 2, rc_issued_at = seconds 20, rc_expires_at = seconds 200\<rparr>"

definition demo_slot :: "slot_state \<Rightarrow> i64 \<Rightarrow> receipt_status option \<Rightarrow> proof_slot" where
  "demo_slot st n r = \<lparr>ps_id = 10, ps_role = IdentityOwner, ps_ordinal = 1,
     ps_target = Existing demo_identity, ps_authority = demo_authority, ps_state = st,
     ps_slot_revision = n,
     ps_receipt = map_option (\<lambda>status. \<lparr>rr_snapshot = demo_receipt, rr_status = status\<rparr>) r\<rparr>"

definition demo_intent ::
    "mutation_status \<Rightarrow> i64 \<Rightarrow> browser_binding option \<Rightarrow> proof_slot \<Rightarrow> mutation_intent" where
  "demo_intent st n b slot = \<lparr>mi_id = 1, mi_project_id = 2, mi_kind = UnlinkKind, mi_status = st,
     mi_intent_revision = n, mi_browser_binding = b, mi_slots = [slot],
     mi_created_at = 0, mi_expires_at = seconds 600\<rparr>"

lemmas demo_defs = demo_urls_def demo_identity_def demo_authority_def demo_binding_def
  demo_receipt_def demo_slot_def demo_intent_def

lemmas operation_defs = m_some_def slot_op_defs transition_slot_def bind_browser_def
  attach_receipt_def confirm_ready_def complete_def cancel_def intent_expire_def ensure_pending_def
  terminalize_def binding_validate_def INITIAL_BROWSER_BINDING_REVISION_def
  validate_receipt_for_slot_def reject_nil_def is_nil_def find_slot_def update_slot_def slot_move_def
  next_revision_def checked_add_i64_def in_i64_def i64_min_value i64_max_value
  effective_deadline_def receipt_deadlines_def List.map_filter_simps has_issued_receipt_def
  next_slot_revisions_def m_bind_def m_try_def utc_add_def MAX_RECEIPT_LIFETIME_def minutes_def
  seconds_def MAX_INTENT_LIFETIME_def

lemma demo_created:
  "intent_create demo_urls utc_add (\<lambda>n. of_nat (n + 10)) 1 2 (PlanUnlink demo_identity demo_authority)
     0 (seconds 600) = Inr (demo_intent PendingProof 1 None (demo_slot SlotPending 1 None))"
  by (simp add: intent_create_def demo_defs operation_defs validate_lifetime_def derive_slots_def
      slot_definitions_def validate_existing_def derive_slot_def authority_validate_def
      u8_try_from_def validate_slot_set_def index_def)

lemma demo_run:
  "intent_apply utc_add 1 (seconds 1) (OpBindBrowser demo_binding)
     (demo_intent PendingProof 1 None (demo_slot SlotPending 1 None)) =
   (Inr (Some EffectApplied), demo_intent PendingProof 2 (Some demo_binding) (demo_slot SlotPending 1 None))"
  "intent_apply utc_add 2 (seconds 2) (OpBeginEmail IdentityOwner)
     (demo_intent PendingProof 2 (Some demo_binding) (demo_slot SlotPending 1 None)) =
   (Inr (Some EffectApplied), demo_intent PendingProof 3 (Some demo_binding) (demo_slot SlotEmailAddressEntry 2 None))"
  "intent_apply utc_add 3 (seconds 3) (OpMarkEmailChallengePending IdentityOwner)
     (demo_intent PendingProof 3 (Some demo_binding) (demo_slot SlotEmailAddressEntry 2 None)) =
   (Inr (Some EffectApplied), demo_intent PendingProof 4 (Some demo_binding) (demo_slot SlotEmailChallengePending 3 None))"
  "intent_apply utc_add 4 (seconds 25) (OpAttachReceipt demo_receipt)
     (demo_intent PendingProof 4 (Some demo_binding) (demo_slot SlotEmailChallengePending 3 None)) =
   (Inr (Some EffectApplied), demo_intent PendingProof 5 (Some demo_binding) (demo_slot SlotProved 4 (Some ReceiptIssued)))"
  "intent_apply utc_add 5 (seconds 30) OpConfirmReady
     (demo_intent PendingProof 5 (Some demo_binding) (demo_slot SlotProved 4 (Some ReceiptIssued))) =
   (Inr (Some EffectApplied), demo_intent Ready 6 (Some demo_binding) (demo_slot SlotProved 4 (Some ReceiptIssued)))"
  "intent_apply utc_add 6 (seconds 31) OpComplete
     (demo_intent Ready 6 (Some demo_binding) (demo_slot SlotProved 4 (Some ReceiptIssued))) =
   (Inr (Some EffectApplied), demo_intent Completed 7 (Some demo_binding) (demo_slot SlotProved 5 (Some ReceiptConsumed)))"
  by (simp_all add: demo_defs operation_defs)

lemma demo_reach:
  "intent_reach demo_urls utc_add
     (demo_intent Completed 7 (Some demo_binding) (demo_slot SlotProved 5 (Some ReceiptConsumed)))"
proof -
  have "fresh_ids (\<lambda>n. of_nat (n + 10))" by (simp add: fresh_ids_def is_nil_def)
  note r0 = intent_reach.created [OF this demo_created]
  note r1 = intent_reach.operated [OF r0 _ demo_run(1), simplified]
  note r2 = intent_reach.operated [OF r1 _ demo_run(2), simplified]
  note r3 = intent_reach.operated [OF r2 _ demo_run(3), simplified]
  have "receipt_id_fresh (OpAttachReceipt demo_receipt)
      (demo_intent PendingProof 4 (Some demo_binding) (demo_slot SlotEmailChallengePending 3 None))"
    by (simp add: demo_intent_def demo_slot_def)
  note r4 = intent_reach.operated [OF r3 this demo_run(4)]
  note r5 = intent_reach.operated [OF r4 _ demo_run(5), simplified]
  show ?thesis by (rule intent_reach.operated [OF r5 _ demo_run(6)]) simp
qed

section \<open>Properties\<close>

text \<open>
  (C2) Whatever an identity mutation intent becomes, from its creation or from a stored
  record and through any operations, accepted or rejected, the record of it is accepted
  by \<open>restore\<close> and gives the same intent back.
\<close>

theorem reachable_intent_restores:
  assumes "intent_reach U tadd i"
  shows "restore U tadd (record_for i) = Inr i"
  using reach_wf [OF assms] restore_record_eq by blast

theorem reachable_intent_restores_witness:
  "restore demo_urls utc_add (record_for (demo_intent Completed 7 (Some demo_binding)
       (demo_slot SlotProved 5 (Some ReceiptConsumed))))
   = Inr (demo_intent Completed 7 (Some demo_binding) (demo_slot SlotProved 5 (Some ReceiptConsumed)))"
  by (rule reachable_intent_restores [OF demo_reach])

lemma validate_receipt_facts:
  assumes "validate_receipt_for_slot tadd i r s = Inr ()"
  shows "rc_project_id r = mi_project_id i" "rc_intent_id r = mi_id i" "rc_slot_id r = ps_id s"
    "rc_role r = ps_role s" "mi_browser_binding i = Some (rc_browser_binding r)"
    "rc_purpose r = purpose (ps_role s)" "rc_expires_at r \<le> mi_expires_at i"
    "rc_proof_user_id r = target_user_id (ps_target s)"
    "evidence_matches (ps_target s) (rc_evidence r)"
  using assms by (auto simp: validate_receipt_for_slot_def res_simps split: if_splits)

text \<open>
  (C4) A completed intent has exactly the slots its kind requires, and each of them holds
  its own consumed receipt: issued for this intent, slot, role and purpose, in the one
  browser the intent is bound to, for the user the slot targets and with matching
  evidence.  No receipt serves two slots.
\<close>

theorem completed_intent_is_fully_proved:
  assumes "intent_reach U tadd i" and "mi_status i = Completed"
  shows "map ps_role (mi_slots i) = expected_roles (mi_kind i) \<and> distinct (receipt_ids (mi_slots i))
    \<and> (\<forall>s \<in> set (mi_slots i). \<exists>r. ps_receipt s = Some \<lparr>rr_snapshot = r, rr_status = ReceiptConsumed\<rparr>
        \<and> rc_intent_id r = mi_id i \<and> rc_slot_id r = ps_id s \<and> rc_role r = ps_role s
        \<and> rc_purpose r = purpose (ps_role s) \<and> mi_browser_binding i = Some (rc_browser_binding r)
        \<and> rc_proof_user_id r = target_user_id (ps_target s)
        \<and> evidence_matches (ps_target s) (rc_evidence r))"
proof -
  have wf: "intent_wf U tadd i" by (rule reach_wf [OF assms(1)])
  have "\<exists>r. ps_receipt s = Some \<lparr>rr_snapshot = r, rr_status = ReceiptConsumed\<rparr>
        \<and> validate_receipt_for_slot tadd i r s = Inr ()" if s: "s \<in> set (mi_slots i)" for s
  proof -
    have "aggregate_state_ok i" "slot_sound U tadd i s" using wf s by (simp_all add: intent_wf_def)
    with assms(2) s obtain r where r: "ps_receipt s = Some r" "rr_status r = ReceiptConsumed"
        "validate_receipt_for_slot tadd i (rr_snapshot r) s = Inr ()"
      by (cases "ps_receipt s") (auto simp: aggregate_state_ok_def list_all_iff slot_sound_def)
    then have "r = \<lparr>rr_snapshot = rr_snapshot r, rr_status = ReceiptConsumed\<rparr>" by simp
    with r show ?thesis by metis
  qed
  with wf validate_slot_set_facts(1) [of "mi_project_id i" "mi_kind i" "mi_slots i"] show ?thesis
    unfolding intent_wf_def by (metis validate_receipt_facts)
qed

theorem completed_intent_is_fully_proved_witness:
  "distinct (receipt_ids [demo_slot SlotProved 5 (Some ReceiptConsumed)])
   \<and> purpose IdentityOwner = rc_purpose demo_receipt"
  using completed_intent_is_fully_proved [OF demo_reach]
  by (simp add: demo_intent_def demo_slot_def demo_receipt_def)

lemma foldl_min_le: "foldl min (a :: int) xs \<le> a" "x \<in> set xs \<Longrightarrow> foldl min a xs \<le> x"
proof -
  show le: "foldl min a xs \<le> a" for a and xs :: "int list"
  proof (induction xs arbitrary: a)
    case (Cons y ys)
    then show ?case using Cons [of "min a y"] by simp
  qed simp
  show "x \<in> set xs \<Longrightarrow> foldl min a xs \<le> x"
  proof (induction xs arbitrary: a)
    case (Cons y ys)
    then show ?case using le [of "min a y" ys] by auto
  qed simp
qed

lemma effective_deadline_le:
  "effective_deadline i \<le> mi_expires_at i"
  "s \<in> set (mi_slots i) \<Longrightarrow> ps_receipt s = Some r \<Longrightarrow> effective_deadline i \<le> rc_expires_at (rr_snapshot r)"
proof -
  show "effective_deadline i \<le> mi_expires_at i" by (simp add: effective_deadline_def foldl_min_le(1))
  assume "s \<in> set (mi_slots i)" "ps_receipt s = Some r"
  then have "rc_expires_at (rr_snapshot r) \<in> set (receipt_deadlines (mi_slots i))"
    by (force simp: receipt_deadlines_def List.map_filter_def)
  then show "effective_deadline i \<le> rc_expires_at (rr_snapshot r)"
    by (simp add: effective_deadline_def foldl_min_le(2))
qed

text \<open>
  (C20) No operation takes effect at or after the deadline: an applied operation ran
  strictly before the intent expires and before every receipt it already holds expires.
\<close>

theorem applied_before_every_deadline:
  assumes "intent_apply tadd rv now x i = (Inr (Some EffectApplied), j)"
  shows "now < mi_expires_at i
    \<and> (\<forall>s \<in> set (mi_slots i). \<forall>r. ps_receipt s = Some r \<longrightarrow> now < rc_expires_at (rr_snapshot r))"
proof -
  have "now < effective_deadline i"
    using intent_apply_step [OF assms] by (cases rule: intent_step.cases) auto
  then show ?thesis using effective_deadline_le by (meson less_le_trans)
qed

theorem applied_before_every_deadline_witness:
  "seconds 31 < mi_expires_at (demo_intent Ready 6 (Some demo_binding)
                   (demo_slot SlotProved 4 (Some ReceiptIssued)))
   \<and> seconds 31 < rc_expires_at demo_receipt"
  using applied_before_every_deadline [OF demo_run(6)]
  by (simp add: demo_intent_def demo_slot_def)



text \<open>
  (C21) Terminal intents are final: once completed, expired or cancelled, no operation
  reports an effect and none changes anything.
\<close>

theorem terminal_intent_is_final:
  assumes "is_terminal (mi_status i)" and "intent_apply tadd rv now x i = (r, j)"
  shows "j = i \<and> (\<forall>e. r \<noteq> Inr (Some e))"
  using intent_apply_step [OF assms(2)] assms(1)
  by (cases rule: intent_step.cases) (auto simp: is_terminal_def)

theorem terminal_intent_is_final_witness:
  "snd (intent_apply utc_add 7 (seconds 40) OpCancel
     (demo_intent Completed 7 (Some demo_binding) (demo_slot SlotProved 5 (Some ReceiptConsumed)))) =
   demo_intent Completed 7 (Some demo_binding) (demo_slot SlotProved 5 (Some ReceiptConsumed))"
  using terminal_intent_is_final
    [of "demo_intent Completed 7 (Some demo_binding) (demo_slot SlotProved 5 (Some ReceiptConsumed))"
        utc_add 7 "seconds 40" OpCancel]
  by (cases "intent_apply utc_add 7 (seconds 40) OpCancel
       (demo_intent Completed 7 (Some demo_binding) (demo_slot SlotProved 5 (Some ReceiptConsumed)))")
     (simp add: is_terminal_def demo_intent_def)

text \<open>
  (C35) At the last revision \<open>bind_browser\<close> fails but keeps the binding it has already
  assigned, so the receiver of a failed call differs from the one passed in.
\<close>

theorem bind_browser_overflow_keeps_the_binding:
  assumes "mi_status i = PendingProof" "mi_browser_binding i = None" "mi_intent_revision i = i64_max"
    and "list_all (\<lambda>s. ps_state s = SlotPending \<and> ps_receipt s = None) (mi_slots i)"
    and "binding_validate b = Inr ()" "now < effective_deadline i"
  shows "bind_browser i64_max b now i =
           (Inl (Err InvalidTransition), i\<lparr>mi_browser_binding := Some b\<rparr>)"
proof -
  have "\<not> list_ex (\<lambda>s. ps_state s \<noteq> SlotPending \<or> ps_receipt s \<noteq> None) (mi_slots i)"
    using assms(4) by (auto simp: list_ex_iff list_all_iff)
  then show ?thesis
    using assms
    by (simp add: bind_browser_def ensure_pending_def m_bind_def m_try_def Let_def next_revision_if
        in_i64_def i64_max_value i64_min_value)
qed

theorem bind_browser_overflow_keeps_the_binding_witness:
  "bind_browser i64_max demo_binding (seconds 1)
     (demo_intent PendingProof i64_max None (demo_slot SlotPending 1 None)) =
   (Inl (Err InvalidTransition),
    demo_intent PendingProof i64_max (Some demo_binding) (demo_slot SlotPending 1 None))"
  using bind_browser_overflow_keeps_the_binding
    [of "demo_intent PendingProof i64_max None (demo_slot SlotPending 1 None)" demo_binding "seconds 1"]
  by (simp add: demo_intent_def demo_slot_def binding_validate_def demo_binding_def
      INITIAL_BROWSER_BINDING_REVISION_def effective_deadline_def receipt_deadlines_def
      List.map_filter_simps seconds_def)

end
