(* ===== verification/Owl_Email.thy ===== *)
theory Owl_Email
  imports Owl_Lifecycles
begin

text \<open>
  \<open>domain/email.rs\<close>: canonical mailboxes, the proof policy of passwordless mail, the
  challenge state machine and the generator of decimal one-time passwords.  The random
  blocks \<open>getrandom::fill\<close> delivers are an argument of the generator.
\<close>

section \<open>Canonical mailboxes\<close>

definition EMAIL_MAX_BYTES :: nat where "EMAIL_MAX_BYTES = 254"

datatype email_validation_error = EmailValidationError

definition local_byte_ok :: "char \<Rightarrow> bool" where
  "local_byte_ok c \<longleftrightarrow> is_ascii_alphanumeric c \<or>
     c \<in> {CHR ''!'', CHR ''#'', CHR ''$'', CHR ''%'', CHR ''&'', CHR 0x27, CHR ''*'', CHR ''+'',
          CHR ''-'', CHR ''/'', CHR ''='', CHR ''?'', CHR ''^'', CHR ''_'', CHR 0x60,
          CHR ''{'', CHR ''|'', CHR ''}'', CHR ''~'', CHR ''.''}"

definition domain_label_ok :: "string \<Rightarrow> bool" where
  "domain_label_ok label \<longleftrightarrow>
     label \<noteq> [] \<and> length label \<le> 63 \<and> \<not> starts_with ''-'' label \<and> \<not> ends_with ''-'' label
     \<and> list_all (\<lambda>c. is_ascii_alphanumeric c \<or> c = CHR ''-'') label"

definition parse_v1 :: "string \<Rightarrow> (email_validation_error, string) res" where
  "parse_v1 input =
     (if input = [] \<or> length input > EMAIL_MAX_BYTES \<or> \<not> is_ascii input
         \<or> list_ex (\<lambda>c. is_ascii_control c \<or> c = CHR '' '') input
      then Inl (Err EmailValidationError)
      else and_then (ok_or (rsplit_once CHR ''@'' input) EmailValidationError) (\<lambda>(lcl, domain).
        if lcl = [] \<or> length lcl > 64 \<or> domain = [] \<or> length domain > 253
           \<or> contains_str ''@'' lcl
           \<or> starts_with ''.'' lcl \<or> ends_with ''.'' lcl \<or> contains_str ''..'' lcl
           \<or> starts_with ''.'' domain \<or> ends_with ''.'' domain \<or> contains_str ''..'' domain
        then Inl (Err EmailValidationError)
        else
          let valid_local = list_all local_byte_ok lcl;
              valid_domain = list_all domain_label_ok (split_on CHR ''.'' domain)
          in if \<not> valid_local \<or> \<not> valid_domain \<or> \<not> contains_str ''.'' domain
             then Inl (Err EmailValidationError)
             else Inr (lcl @ ''@'' @ to_ascii_lowercase domain)))"

section \<open>The proof policy\<close>

definition OTP_MIN_DIGITS :: u8 where "OTP_MIN_DIGITS = 6"

definition OTP_MAX_DIGITS :: u8 where "OTP_MAX_DIGITS = 10"

definition OTP_MAX_ATTEMPTS :: u8 where "OTP_MAX_ATTEMPTS = 5"

definition EMAIL_MAX_GENERATIONS :: u8 where "EMAIL_MAX_GENERATIONS = 5"

definition EMAIL_MIN_RESEND_SECONDS :: i64 where "EMAIL_MIN_RESEND_SECONDS = 30"

definition EMAIL_MAX_VALIDITY_SECONDS :: i64 where "EMAIL_MAX_VALIDITY_SECONDS = 600"

record email_proof_policy =
  ep_otp_enabled :: bool
  ep_magic_link_enabled :: bool
  ep_otp_digits :: u8
  ep_otp_validity_seconds :: i64
  ep_otp_max_attempts :: u8
  ep_resend_after_seconds :: i64
  ep_max_generations :: u8
  ep_magic_validity_seconds :: i64

definition policy_validate :: "email_proof_policy \<Rightarrow> (domain_error, email_proof_policy) res" where
  "policy_validate p =
     (if (\<not> ep_otp_enabled p \<and> \<not> ep_magic_link_enabled p)
         \<or> \<not> (OTP_MIN_DIGITS \<le> ep_otp_digits p \<and> ep_otp_digits p \<le> OTP_MAX_DIGITS)
         \<or> \<not> (1 \<le> ep_otp_max_attempts p \<and> ep_otp_max_attempts p \<le> OTP_MAX_ATTEMPTS)
         \<or> \<not> (EMAIL_MIN_RESEND_SECONDS \<le> ep_resend_after_seconds p
              \<and> ep_resend_after_seconds p \<le> EMAIL_MAX_VALIDITY_SECONDS)
         \<or> \<not> (1 \<le> ep_max_generations p \<and> ep_max_generations p \<le> EMAIL_MAX_GENERATIONS)
         \<or> \<not> (30 \<le> ep_otp_validity_seconds p \<and> ep_otp_validity_seconds p \<le> EMAIL_MAX_VALIDITY_SECONDS)
         \<or> \<not> (30 \<le> ep_magic_validity_seconds p \<and> ep_magic_validity_seconds p \<le> EMAIL_MAX_VALIDITY_SECONDS)
      then Inl (Err InvalidValue)
      else Inr p)"

definition effective_expiry ::
    "(instant \<Rightarrow> duration \<Rightarrow> instant option) \<Rightarrow> email_proof_policy \<Rightarrow> instant \<Rightarrow> instant
     \<Rightarrow> (domain_error, instant) res" where
  "effective_expiry tadd p issued_at transaction_expires_at =
     and_then (policy_validate p) (\<lambda>_.
       if transaction_expires_at \<le> issued_at then Inl (Err InvalidTransition)
       else
         let proof_seconds =
           (if ep_otp_enabled p \<and> ep_magic_link_enabled p
            then max (ep_otp_validity_seconds p) (ep_magic_validity_seconds p)
            else if ep_otp_enabled p then ep_otp_validity_seconds p
            else ep_magic_validity_seconds p)
         in and_then (expect (tadd issued_at (seconds proof_seconds))) (\<lambda>proof_expires_at.
              Inr (min proof_expires_at transaction_expires_at)))"

section \<open>The challenge\<close>

datatype email_challenge_status =
    ChallengePending
  | ChallengeConsumed
  | ChallengeExhausted
  | ChallengeExpired
  | ChallengeSuperseded
  | ChallengeDeliveryUnavailable

record email_challenge =
  ec_generation :: u8
  ec_status :: email_challenge_status
  ec_otp_attempts :: u8
  ec_otp_max_attempts :: u8
  ec_issued_at :: instant
  ec_expires_at :: instant

definition require_pending :: "email_challenge \<Rightarrow> instant \<Rightarrow> (domain_error, unit) res" where
  "require_pending c now =
     (if ec_status c \<noteq> ChallengePending \<or> now \<ge> ec_expires_at c
      then Inl (Err InvalidTransition) else Inr ())"

definition failed_otp :: "email_challenge \<Rightarrow> instant \<Rightarrow> (domain_error, email_challenge) res" where
  "failed_otp c now =
     and_then (require_pending c now) (\<lambda>_.
       if ec_otp_attempts c \<ge> ec_otp_max_attempts c then Inl (Err InvalidTransition)
       else and_then (expect (checked_add_u8 (ec_otp_attempts c) 1)) (\<lambda>attempts.
         Inr (c\<lparr>ec_otp_attempts := attempts,
                ec_status := (if attempts = ec_otp_max_attempts c then ChallengeExhausted
                              else ec_status c)\<rparr>)))"

definition challenge_consume :: "email_challenge \<Rightarrow> instant \<Rightarrow> (domain_error, email_challenge) res" where
  "challenge_consume c now =
     and_then (require_pending c now) (\<lambda>_. Inr (c\<lparr>ec_status := ChallengeConsumed\<rparr>))"

definition resend ::
    "(instant \<Rightarrow> duration \<Rightarrow> instant option) \<Rightarrow> email_challenge \<Rightarrow> instant \<Rightarrow> email_proof_policy
     \<Rightarrow> instant \<Rightarrow> (domain_error, email_challenge) res" where
  "resend tadd c now policy transaction_expires_at =
     and_then (require_pending c now) (\<lambda>_.
     and_then (policy_validate policy) (\<lambda>_.
     and_then (expect (tadd (ec_issued_at c) (seconds (ep_resend_after_seconds policy)))) (\<lambda>earliest.
       if now < earliest \<or> ec_generation c \<ge> ep_max_generations policy
       then Inl (Err InvalidTransition)
       else and_then (expect (checked_add_u8 (ec_generation c) 1)) (\<lambda>generation.
            and_then (effective_expiry tadd policy now transaction_expires_at) (\<lambda>expires_at.
              Inr \<lparr>ec_generation = generation, ec_status = ChallengePending, ec_otp_attempts = 0,
                   ec_otp_max_attempts = ep_otp_max_attempts policy, ec_issued_at = now,
                   ec_expires_at = expires_at\<rparr>)))))"

section \<open>One-time passwords\<close>

definition otp_digit :: "u8 \<Rightarrow> char" where
  "otp_digit value = char_of (48 + unat value mod 10)"

text \<open>The \<open>for\<close> loop over one random block.\<close>

fun otp_block :: "nat \<Rightarrow> string \<Rightarrow> u8 list \<Rightarrow> string" where
  "otp_block digits result [] = result"
| "otp_block digits result (value # values) =
     otp_block digits
       (if value < 250 \<and> length result < digits then result @ [otp_digit value] else result) values"

text \<open>
  The \<open>while\<close> loop.  The argument lists what each call of \<open>getrandom::fill\<close> gives, a
  block or an error; \<open>None\<close> means that the loop is still running when the list ends.
\<close>

fun otp_loop :: "nat \<Rightarrow> string \<Rightarrow> u8 list option list \<Rightarrow> (domain_error, string) res option" where
  "otp_loop digits result draws =
     (if length result < digits then
        (case draws of
           [] \<Rightarrow> None
         | None # _ \<Rightarrow> Some (Inl (Err InvalidValue))
         | Some block # rest \<Rightarrow> otp_loop digits (otp_block digits result block) rest)
      else Some (Inr result))"

definition generate_decimal_otp :: "u8 \<Rightarrow> u8 list option list \<Rightarrow> (domain_error, string) res option" where
  "generate_decimal_otp digits draws =
     (if \<not> (OTP_MIN_DIGITS \<le> digits \<and> digits \<le> OTP_MAX_DIGITS) then Some (Inl (Err InvalidValue))
      else otp_loop (unat digits) [] draws)"

section \<open>Lower-casing a domain\<close>

lemma byte_inject: "byte c = byte d \<longleftrightarrow> c = d"
  by (simp add: byte_def)

lemma byte_ascii_lower:
  "byte (ascii_lower c) = (if 65 \<le> byte c \<and> byte c \<le> 90 then byte c + 32 else byte c)"
  by (auto simp: ascii_lower_def is_ascii_uppercase_def byte_def)

text \<open>Bytes that are neither lower-case letters nor upper-case letters are only hit by themselves.\<close>

lemma ascii_lower_eq:
  assumes "\<not> is_ascii_lowercase x" "\<not> is_ascii_uppercase x"
  shows "ascii_lower c = x \<longleftrightarrow> c = x"
  using assms unfolding byte_inject [symmetric] byte_ascii_lower
  by (auto simp: is_ascii_lowercase_def is_ascii_uppercase_def)

lemma ascii_lower_punctuation [simp]:
  "ascii_lower c = CHR ''.'' \<longleftrightarrow> c = CHR ''.''" "ascii_lower c = CHR ''-'' \<longleftrightarrow> c = CHR ''-''"
  "ascii_lower c = CHR ''@'' \<longleftrightarrow> c = CHR ''@''" "ascii_lower c = CHR '' '' \<longleftrightarrow> c = CHR '' ''"
  by (auto simp: ascii_lower_eq is_ascii_lowercase_def is_ascii_uppercase_def byte_def)

lemma ascii_lower_classes [simp]:
  "is_ascii_control (ascii_lower c) \<longleftrightarrow> is_ascii_control c"
  "is_ascii_alphanumeric (ascii_lower c) \<longleftrightarrow> is_ascii_alphanumeric c"
  "byte (ascii_lower c) < 128 \<longleftrightarrow> byte c < 128"
  by (auto simp: is_ascii_control_def is_ascii_alphanumeric_def is_ascii_digit_def
      is_ascii_lowercase_def is_ascii_uppercase_def byte_ascii_lower)

lemma map_eq_fixed:
  assumes "\<And>x c. x \<in> set p \<Longrightarrow> f c = x \<longleftrightarrow> c = x"
  shows "map f t = p \<longleftrightarrow> t = p"
  using assms
proof (induction p arbitrary: t)
  case (Cons x xs)
  then show ?case by (cases t) auto
qed simp

lemma lowercase_affix:
  assumes "\<And>x c. x \<in> set p \<Longrightarrow> ascii_lower c = x \<longleftrightarrow> c = x"
  shows "starts_with p (to_ascii_lowercase s) \<longleftrightarrow> starts_with p s"
    and "ends_with p (to_ascii_lowercase s) \<longleftrightarrow> ends_with p s"
    and "contains_str p (to_ascii_lowercase s) \<longleftrightarrow> contains_str p s"
proof -
  note eq = map_eq_fixed [of p ascii_lower, OF assms]
  show st: "starts_with p (to_ascii_lowercase s) \<longleftrightarrow> starts_with p s" for s
    using eq [of "take (length p) s"] by (simp add: starts_with_def to_ascii_lowercase_def take_map)
  show "ends_with p (to_ascii_lowercase s) \<longleftrightarrow> ends_with p s"
    using eq [of "drop (length s - length p) s"]
    by (simp add: ends_with_def to_ascii_lowercase_def drop_map)
  show "contains_str p (to_ascii_lowercase s) \<longleftrightarrow> contains_str p s"
  proof (induction s)
    case (Cons c s)
    then show ?case using st [of "c # s"] by (simp add: to_ascii_lowercase_def)
  qed (simp add: to_ascii_lowercase_def)
qed

lemma lowercase_punctuation [simp]:
  "starts_with ''.'' (to_ascii_lowercase s) \<longleftrightarrow> starts_with ''.'' s"
  "ends_with ''.'' (to_ascii_lowercase s) \<longleftrightarrow> ends_with ''.'' s"
  "contains_str ''.'' (to_ascii_lowercase s) \<longleftrightarrow> contains_str ''.'' s"
  "contains_str ''..'' (to_ascii_lowercase s) \<longleftrightarrow> contains_str ''..'' s"
  "starts_with ''-'' (to_ascii_lowercase s) \<longleftrightarrow> starts_with ''-'' s"
  "ends_with ''-'' (to_ascii_lowercase s) \<longleftrightarrow> ends_with ''-'' s"
  by (rule lowercase_affix; auto)+

lemma split_on_nonempty [simp]: "split_on c s \<noteq> []"
  by (induction s) (auto split: list.splits)

lemma split_on_lowercase:
  "split_on CHR ''.'' (to_ascii_lowercase s) = map to_ascii_lowercase (split_on CHR ''.'' s)"
proof (induction s)
  case (Cons c s)
  obtain q qs where "split_on CHR ''.'' s = q # qs" by (cases "split_on CHR ''.'' s") auto
  with Cons show ?case by (simp add: to_ascii_lowercase_def)
qed (simp add: to_ascii_lowercase_def)

lemma domain_label_lowercase: "domain_label_ok (to_ascii_lowercase l) \<longleftrightarrow> domain_label_ok l"
  unfolding domain_label_ok_def
  by simp (simp add: to_ascii_lowercase_def list_all_iff)

text \<open>What \<open>parse_v1\<close> accepts, in terms of the two parts.\<close>

definition mailbox_ok :: "string \<Rightarrow> string \<Rightarrow> bool" where
  "mailbox_ok l d \<longleftrightarrow>
     length l + 1 + length d \<le> EMAIL_MAX_BYTES \<and> is_ascii d \<and> list_all (\<lambda>c. \<not> is_ascii_control c \<and> c \<noteq> CHR '' '') d
     \<and> is_ascii l \<and> list_all (\<lambda>c. \<not> is_ascii_control c \<and> c \<noteq> CHR '' '') l
     \<and> l \<noteq> [] \<and> length l \<le> 64 \<and> d \<noteq> [] \<and> length d \<le> 253 \<and> \<not> contains_str ''@'' l
     \<and> \<not> starts_with ''.'' l \<and> \<not> ends_with ''.'' l \<and> \<not> contains_str ''..'' l
     \<and> \<not> starts_with ''.'' d \<and> \<not> ends_with ''.'' d \<and> \<not> contains_str ''..'' d
     \<and> list_all local_byte_ok l \<and> list_all domain_label_ok (split_on CHR ''.'' d) \<and> contains_str ''.'' d"

lemma parse_v1_parts:
  assumes "rsplit_once CHR ''@'' s = Some (l, d)"
  shows "parse_v1 s = Inr m \<longleftrightarrow> mailbox_ok l d \<and> m = l @ ''@'' @ to_ascii_lowercase d"
proof -
  have "s = l @ ''@'' @ d" using assms by (simp add: rsplit_once_Some)
  then show ?thesis
    using assms
    by (auto simp: parse_v1_def mailbox_ok_def is_ascii_def list_ex_iff list_all_iff byte_def
        is_ascii_control_def)
qed

lemma mailbox_ok_lowercase: "mailbox_ok l (to_ascii_lowercase d) \<longleftrightarrow> mailbox_ok l d"
proof -
  have "is_ascii (to_ascii_lowercase d) \<longleftrightarrow> is_ascii d"
    and "list_all (\<lambda>c. \<not> is_ascii_control c \<and> c \<noteq> CHR '' '') (to_ascii_lowercase d)
      \<longleftrightarrow> list_all (\<lambda>c. \<not> is_ascii_control c \<and> c \<noteq> CHR '' '') d"
    by (simp_all add: is_ascii_def to_ascii_lowercase_def list_all_iff)
  moreover have "to_ascii_lowercase d = [] \<longleftrightarrow> d = []" by (simp add: to_ascii_lowercase_def)
  moreover have "list_all domain_label_ok (split_on CHR ''.'' (to_ascii_lowercase d))
      \<longleftrightarrow> list_all domain_label_ok (split_on CHR ''.'' d)"
    by (simp add: split_on_lowercase list_all_iff domain_label_lowercase)
  ultimately show ?thesis
    unfolding mailbox_ok_def by simp
qed

lemma parse_v1_split:
  "parse_v1 s = Inr m \<Longrightarrow> \<exists>l d. rsplit_once CHR ''@'' s = Some (l, d)"
  by (auto simp: parse_v1_def res_simps split: if_splits)

lemma at_sign_once:
  assumes "rsplit_once CHR ''@'' s = Some (l, d)" "mailbox_ok l d"
  shows "CHR ''@'' \<notin> set l" "CHR ''@'' \<notin> set d"
proof -
  have "contains_str ''@'' t \<longleftrightarrow> CHR ''@'' \<in> set t" for t
    by (induction t) (auto simp: starts_with_def)
  then show "CHR ''@'' \<notin> set l" using assms(2) by (simp add: mailbox_ok_def)
  show "CHR ''@'' \<notin> set d" using assms(1) by (simp add: rsplit_once_Some)
qed

section \<open>One successful call at a time\<close>

text \<open>
  The challenge methods take their receiver by value, so a failed call leaves the
  challenge the caller holds as it was.
\<close>

datatype challenge_op = OpFailedOtp | OpConsumeChallenge | OpResend

definition by_value :: "('s \<Rightarrow> ('e, 's) res) \<Rightarrow> ('s, 'e, unit) mut" where
  "by_value f s = m_commit (f s) () s"

fun challenge_apply ::
    "(instant \<Rightarrow> duration \<Rightarrow> instant option) \<Rightarrow> email_proof_policy \<Rightarrow> instant
     \<Rightarrow> instant \<times> challenge_op \<Rightarrow> (email_challenge, domain_error, unit) mut" where
  "challenge_apply tadd policy deadline (now, OpFailedOtp) = by_value (\<lambda>c. failed_otp c now)"
| "challenge_apply tadd policy deadline (now, OpConsumeChallenge) = by_value (\<lambda>c. challenge_consume c now)"
| "challenge_apply tadd policy deadline (now, OpResend) =
     by_value (\<lambda>c. resend tadd c now policy deadline)"

lemma by_value_eq:
  "by_value f s = (Inl e, t) \<longleftrightarrow> f s = Inl e \<and> t = s"
  "by_value f s = (Inr u, t) \<longleftrightarrow> f s = Inr t"
  by (auto simp: by_value_def mut_simps)

lemma policy_validate_eq [res_simps]:
  "policy_validate p = Inr q \<longleftrightarrow>
     q = p \<and> (ep_otp_enabled p \<or> ep_magic_link_enabled p)
     \<and> 6 \<le> unat (ep_otp_digits p) \<and> unat (ep_otp_digits p) \<le> 10
     \<and> 1 \<le> unat (ep_otp_max_attempts p) \<and> unat (ep_otp_max_attempts p) \<le> 5
     \<and> 30 \<le> ep_resend_after_seconds p \<and> ep_resend_after_seconds p \<le> 600
     \<and> 1 \<le> unat (ep_max_generations p) \<and> unat (ep_max_generations p) \<le> 5
     \<and> 30 \<le> ep_otp_validity_seconds p \<and> ep_otp_validity_seconds p \<le> 600
     \<and> 30 \<le> ep_magic_validity_seconds p \<and> ep_magic_validity_seconds p \<le> 600"
  by (auto simp: policy_validate_def OTP_MIN_DIGITS_def OTP_MAX_DIGITS_def OTP_MAX_ATTEMPTS_def
      EMAIL_MAX_GENERATIONS_def EMAIL_MIN_RESEND_SECONDS_def EMAIL_MAX_VALIDITY_SECONDS_def
      word_le_nat_alt)

lemma checked_add_u8_succ:
  "checked_add_u8 a 1 = Some b \<Longrightarrow> unat b = unat a + 1"
  by (auto simp: checked_add_u8_def unat_word_ariths split: if_splits)

lemma failed_otp_eq:
  "failed_otp c now = Inr d \<Longrightarrow>
     ec_status c = ChallengePending \<and> now < ec_expires_at c
     \<and> unat (ec_otp_attempts c) < unat (ec_otp_max_attempts c)
     \<and> unat (ec_otp_attempts d) = unat (ec_otp_attempts c) + 1
     \<and> ec_otp_max_attempts d = ec_otp_max_attempts c \<and> ec_generation d = ec_generation c
     \<and> ec_issued_at d = ec_issued_at c \<and> ec_expires_at d = ec_expires_at c
     \<and> ec_status d = (if ec_otp_attempts d = ec_otp_max_attempts d then ChallengeExhausted
                       else ChallengePending)"
  by (auto simp: failed_otp_def require_pending_def res_simps word_le_nat_alt checked_add_u8_succ)

lemma challenge_consume_eq:
  "challenge_consume c now = Inr d \<Longrightarrow>
     ec_status c = ChallengePending \<and> now < ec_expires_at c \<and> d = c\<lparr>ec_status := ChallengeConsumed\<rparr>"
  by (auto simp: challenge_consume_def require_pending_def res_simps split: if_splits)

lemma resend_eq:
  "resend tadd c now p deadline = Inr d \<Longrightarrow>
     ec_status c = ChallengePending \<and> now < ec_expires_at c \<and> policy_validate p = Inr p
     \<and> (\<exists>e. tadd (ec_issued_at c) (seconds (ep_resend_after_seconds p)) = Some e \<and> e \<le> now)
     \<and> unat (ec_generation c) < unat (ep_max_generations p)
     \<and> unat (ec_generation d) = unat (ec_generation c) + 1 \<and> ec_status d = ChallengePending
     \<and> ec_otp_attempts d = 0 \<and> ec_otp_max_attempts d = ep_otp_max_attempts p
     \<and> ec_issued_at d = now \<and> effective_expiry tadd p now deadline = Inr (ec_expires_at d)"
  by (auto simp: resend_def require_pending_def and_then_eq_Inr expect_eq_Inr word_le_nat_alt
      checked_add_u8_succ policy_validate_eq split: if_splits)

lemmas challenge_eqs = failed_otp_eq challenge_consume_eq resend_eq

fun challenge_rank :: "email_challenge \<Rightarrow> nat" where
  "challenge_rank c =
     (if ec_status c = ChallengePending
      then (5 - unat (ec_generation c)) * 6 + (unat (ec_otp_max_attempts c) - unat (ec_otp_attempts c)) + 1
      else 0)"

interpretation challenge_lc: one_way_lifecycle "challenge_apply tadd policy deadline" challenge_rank
  for tadd policy deadline
proof
  fix x :: "instant \<times> challenge_op" and s t and f :: "domain_error fault"
  obtain now y where "x = (now, y)" by (cases x)
  moreover assume "challenge_apply tadd policy deadline x s = (Inl f, t)"
  ultimately show "t = s" by (cases y) (auto simp: by_value_eq)
next
  fix x :: "instant \<times> challenge_op" and s t u
  obtain now y where x: "x = (now, y)" by (cases x)
  assume run: "challenge_apply tadd policy deadline x s = (Inr u, t)"
  show "challenge_rank t < challenge_rank s"
  proof (cases y)
    case OpResend
    then have "resend tadd s now policy deadline = Inr t" using run x by (simp add: by_value_eq)
    from resend_eq [OF this] have "unat (ec_generation s) < 5" "unat (ec_generation t) = unat (ec_generation s) + 1"
      "unat (ec_otp_max_attempts t) \<le> 5" "ec_status s = ChallengePending" "ec_status t = ChallengePending"
      by (auto simp: policy_validate_eq)
    then show ?thesis by simp
  qed (use run x in \<open>auto simp: by_value_eq dest!: failed_otp_eq challenge_consume_eq\<close>)
qed

text \<open>The wrong codes a caller has been allowed to try.\<close>

fun guesses ::
    "(instant \<Rightarrow> duration \<Rightarrow> instant option) \<Rightarrow> email_proof_policy \<Rightarrow> instant
     \<Rightarrow> (instant \<times> challenge_op) list \<Rightarrow> email_challenge \<Rightarrow> nat" where
  "guesses tadd policy deadline [] c = 0"
| "guesses tadd policy deadline (x # xs) c =
     (case challenge_apply tadd policy deadline x c of
        (r, d) \<Rightarrow> (if snd x = OpFailedOtp \<and> r = Inr () then 1 else 0)
                 + guesses tadd policy deadline xs d)"

definition guess_budget :: "email_proof_policy \<Rightarrow> email_challenge \<Rightarrow> nat" where
  "guess_budget p c =
     (unat (ec_otp_max_attempts c) - unat (ec_otp_attempts c))
     + (unat (ep_max_generations p) - unat (ec_generation c)) * unat (ep_otp_max_attempts p)"

lemma challenge_apply_budget:
  assumes "challenge_apply tadd p deadline (now, x) c = (r, d)"
  shows "(if x = OpFailedOtp \<and> r = Inr () then 1 else 0) + guess_budget p d \<le> guess_budget p c"
proof (cases r)
  case (Inl f)
  then have "d = c" using assms challenge_lc.failed_unchanged by blast
  then show ?thesis using Inl by simp
next
  case (Inr u)
  show ?thesis
  proof (cases x)
    case OpFailedOtp
    then have "failed_otp c now = Inr d" using assms Inr by (simp add: by_value_eq)
    from failed_otp_eq [OF this] have "unat (ec_otp_attempts c) < unat (ec_otp_max_attempts c)"
      "unat (ec_otp_attempts d) = unat (ec_otp_attempts c) + 1"
      "ec_otp_max_attempts d = ec_otp_max_attempts c" "ec_generation d = ec_generation c" by auto
    then have "1 + guess_budget p d \<le> guess_budget p c" by (simp add: guess_budget_def)
    then show ?thesis by auto
  next
    case OpConsumeChallenge
    then have "challenge_consume c now = Inr d" using assms Inr by (simp add: by_value_eq)
    from challenge_consume_eq [OF this] show ?thesis using OpConsumeChallenge by (simp add: guess_budget_def)
  next
    case OpResend
    then have "resend tadd c now p deadline = Inr d" using assms Inr by (simp add: by_value_eq)
    from resend_eq [OF this] have d: "unat (ec_generation c) < unat (ep_max_generations p)"
      "unat (ec_generation d) = unat (ec_generation c) + 1" "ec_otp_attempts d = 0"
      "ec_otp_max_attempts d = ep_otp_max_attempts p" by simp_all
    define k where "k = unat (ep_max_generations p) - (unat (ec_generation c) + 1)"
    have "unat (ep_max_generations p) - unat (ec_generation c) = Suc k" using d(1) by (simp add: k_def)
    then have "guess_budget p d \<le> guess_budget p c"
      using d(2-4) by (simp add: guess_budget_def k_def)
    then show ?thesis using OpResend by simp
  qed
qed

lemma guesses_budget: "guesses tadd p deadline xs c \<le> guess_budget p c"
proof (induction xs arbitrary: c)
  case (Cons x xs)
  obtain now y r d where x: "x = (now, y)" "challenge_apply tadd p deadline x c = (r, d)"
    by (metis surj_pair)
  with challenge_apply_budget [of tadd p deadline now y c r d] Cons [of d] show ?case by simp
qed simp

text \<open>
  (C22) A one-time code can be guessed at most twenty-five times: whatever calls are made
  on a first-generation challenge under a valid policy, in whatever order and at whatever
  times, resends included, at most \<open>otp_max_attempts * max_generations\<close> wrong codes are
  accepted for checking.
\<close>

theorem otp_guesses_are_bounded:
  assumes "policy_validate p = Inr p" and "ec_generation c = 1"
    and "ec_otp_max_attempts c = ep_otp_max_attempts p"
  shows "guesses tadd p deadline xs c \<le> unat (ep_otp_max_attempts p) * unat (ep_max_generations p)
       \<and> unat (ep_otp_max_attempts p) * unat (ep_max_generations p) \<le> 25"
proof
  let ?a = "unat (ep_otp_max_attempts p)" and ?g = "unat (ep_max_generations p)"
  have p: "1 \<le> ?g" "?a \<le> 5" "?g \<le> 5" using assms(1) by (auto simp: policy_validate_eq)
  then obtain k where k: "?g = Suc k" by (cases ?g) auto
  have "guesses tadd p deadline xs c \<le> guess_budget p c" by (rule guesses_budget)
  also have "\<dots> \<le> ?a * ?g" using assms(2,3) k by (simp add: guess_budget_def)
  finally show "guesses tadd p deadline xs c \<le> ?a * ?g" .
  have "?a * ?g \<le> 5 * 5" using p by (intro mult_le_mono) auto
  then show "?a * ?g \<le> 25" by simp
qed

definition demo_policy :: email_proof_policy where
  "demo_policy = \<lparr>ep_otp_enabled = True, ep_magic_link_enabled = True, ep_otp_digits = 6,
     ep_otp_validity_seconds = 300, ep_otp_max_attempts = 3, ep_resend_after_seconds = 60,
     ep_max_generations = 2, ep_magic_validity_seconds = 600\<rparr>"

definition demo_challenge :: email_challenge where
  "demo_challenge = \<lparr>ec_generation = 1, ec_status = ChallengePending, ec_otp_attempts = 0,
     ec_otp_max_attempts = 3, ec_issued_at = 0, ec_expires_at = seconds 600\<rparr>"

lemma demo_policy_valid: "policy_validate demo_policy = Inr demo_policy"
  by (simp add: policy_validate_eq demo_policy_def)

theorem otp_guesses_are_bounded_witness:
  "guesses utc_add demo_policy (seconds 900) (replicate 40 (seconds 1, OpFailedOtp)) demo_challenge \<le> 6"
  using otp_guesses_are_bounded [OF demo_policy_valid, of demo_challenge utc_add "seconds 900"
      "replicate 40 (seconds 1, OpFailedOtp)"]
  by (simp add: demo_challenge_def demo_policy_def)

lemma effective_expiry_eq:
  assumes "effective_expiry tadd p issued deadline = Inr e" and "time_add_exact tadd"
  shows "\<exists>n. 30 \<le> n \<and> n \<le> 600 \<and> (ep_otp_enabled p \<longrightarrow> ep_otp_validity_seconds p \<le> n)
    \<and> issued < deadline \<and> e = min (issued + seconds n) deadline"
proof -
  let ?n = "if ep_otp_enabled p \<and> ep_magic_link_enabled p
            then max (ep_otp_validity_seconds p) (ep_magic_validity_seconds p)
            else if ep_otp_enabled p then ep_otp_validity_seconds p else ep_magic_validity_seconds p"
  obtain t where t: "tadd issued (seconds ?n) = Some t" "e = min t deadline" "issued < deadline"
    and p: "policy_validate p = Inr p"
    using assms(1)
    by (auto simp: effective_expiry_def and_then_eq_Inr expect_eq_Inr guard_eq_Inr Let_def policy_validate_eq)
  have "t = issued + seconds ?n" using t(1) assms(2) unfolding time_add_exact_def by blast
  moreover have "30 \<le> ?n" "?n \<le> 600" "ep_otp_enabled p \<longrightarrow> ep_otp_validity_seconds p \<le> ?n"
    using p by (auto simp: policy_validate_eq)
  ultimately show ?thesis using t by blast
qed

lemma effective_expiry_bounds:
  assumes "effective_expiry tadd p issued deadline = Inr e" and "time_add_exact tadd"
  shows "e \<le> deadline" "issued < e" "e \<le> issued + seconds 600"
  using effective_expiry_eq [OF assms] by (auto simp: seconds_def)

fun challenge_in_time :: "instant \<Rightarrow> email_challenge \<Rightarrow> bool" where
  "challenge_in_time deadline c \<longleftrightarrow>
     ec_issued_at c < ec_expires_at c \<and> ec_expires_at c \<le> deadline
     \<and> ec_expires_at c \<le> ec_issued_at c + seconds 600"

text \<open>
  (C23) A challenge never outlives the transaction it belongs to nor ten minutes from its
  issue, whatever happens to it; and a code or link is accepted only strictly before
  its own expiry, hence before the transaction's.
\<close>

theorem challenge_never_outlives_the_transaction:
  assumes "time_add_exact tadd" and "challenge_in_time deadline c"
    and "d = run_ops (challenge_apply tadd p deadline) xs c"
  shows "challenge_in_time deadline d
    \<and> (challenge_consume d now = Inr d' \<longrightarrow> now < deadline \<and> now < ec_issued_at d + seconds 600)"
proof -
  have step: "challenge_in_time deadline b" if "challenge_in_time deadline a"
    "challenge_apply tadd p deadline x a = (r, b)" for a b x r
  proof (cases r)
    case (Inl f)
    then show ?thesis using that challenge_lc.failed_unchanged by metis
  next
    case (Inr u)
    obtain now y where x: "x = (now, y)" by (cases x)
    show ?thesis
    proof (cases y)
      case OpResend
      then have "resend tadd a now p deadline = Inr b" using that(2) Inr x by (simp add: by_value_eq)
      then have "ec_issued_at b = now" "effective_expiry tadd p now deadline = Inr (ec_expires_at b)"
        by (simp_all add: resend_eq)
      with effective_expiry_bounds [OF this(2) assms(1)] show ?thesis by simp
    qed (use that Inr x in \<open>auto simp: by_value_eq dest!: failed_otp_eq challenge_consume_eq\<close>)
  qed
  have "challenge_in_time deadline d"
    using assms(2) unfolding assms(3)
  proof (induction xs arbitrary: c)
    case (Cons x xs)
    then show ?case using step [of c x] by (cases "challenge_apply tadd p deadline x c") simp
  qed simp
  then show ?thesis by (auto dest!: challenge_consume_eq)
qed

theorem challenge_never_outlives_the_transaction_witness:
  "challenge_in_time (seconds 900)
     (run_ops (challenge_apply utc_add demo_policy (seconds 900)) [(seconds 120, OpResend)] demo_challenge)"
  using challenge_never_outlives_the_transaction [of utc_add "seconds 900" demo_challenge _ demo_policy
      "[(seconds 120, OpResend)]"]
  by (simp add: demo_challenge_def seconds_def)

text \<open>
  (C30) Canonical mailboxes: the canonical form of an accepted address is accepted and is
  its own canonical form, so storing and re-reading it never changes the identity it
  names.
\<close>

theorem canonical_email_is_stable:
  assumes "parse_v1 s = Inr m"
  shows "parse_v1 m = Inr m"
proof -
  obtain l d where r: "rsplit_once CHR ''@'' s = Some (l, d)" using parse_v1_split [OF assms] by blast
  with assms have ok: "mailbox_ok l d" and m: "m = l @ ''@'' @ to_ascii_lowercase d"
    by (simp_all add: parse_v1_parts)
  have "CHR ''@'' \<notin> set (to_ascii_lowercase d)"
    using at_sign_once(2) [OF r ok] unfolding to_ascii_lowercase_def
    by (auto dest: sym [of "CHR ''@''"])
  then have "rsplit_once CHR ''@'' m = Some (l, to_ascii_lowercase d)"
    by (simp add: m rsplit_once_append)
  then show ?thesis using ok m by (simp add: parse_v1_parts mailbox_ok_lowercase)
qed

theorem canonical_email_is_stable_witness:
  "parse_v1 ''Ada.L+tag@example.org'' = Inr ''Ada.L+tag@example.org''"
proof -
  have "parse_v1 ''Ada.L+tag@Example.ORG'' = Inr ''Ada.L+tag@example.org''" by code_simp
  then show ?thesis by (rule canonical_email_is_stable)
qed

text \<open>
  (C31) Two accepted addresses are the same mailbox exactly when their local parts agree
  byte for byte and their domains agree up to ASCII case: no dot, plus or case folding
  of the local part can merge two accounts.
\<close>

theorem canonical_email_identity:
  assumes "parse_v1 (l1 @ ''@'' @ d1) = Inr m1" and "parse_v1 (l2 @ ''@'' @ d2) = Inr m2"
  shows "m1 = m2 \<longleftrightarrow> l1 = l2 \<and> to_ascii_lowercase d1 = to_ascii_lowercase d2"
proof -
  have parts: "CHR ''@'' \<notin> set l \<and> m = l @ ''@'' @ to_ascii_lowercase d"
    if p: "parse_v1 (l @ ''@'' @ d) = Inr m" for l d m
  proof -
    obtain l' d' where r: "rsplit_once CHR ''@'' (l @ ''@'' @ d) = Some (l', d')"
      using parse_v1_split [OF p] by blast
    with p have ok: "mailbox_ok l' d'" and m: "m = l' @ ''@'' @ to_ascii_lowercase d'"
      by (simp_all add: parse_v1_parts)
    note at = at_sign_once [OF r ok]
    have eq: "l @ CHR ''@'' # d = l' @ CHR ''@'' # d'" using r by (simp add: rsplit_once_Some)
    have "CHR ''@'' \<notin> set d"
    proof
      assume "CHR ''@'' \<in> set d"
      then obtain a b where "d = a @ CHR ''@'' # b" "CHR ''@'' \<notin> set b" by (metis split_list_last)
      then have "rsplit_once CHR ''@'' ((l @ CHR ''@'' # a) @ CHR ''@'' # b) = Some (l @ CHR ''@'' # a, b)"
        by (simp only: rsplit_once_append not_False_eq_True)
      with r \<open>d = a @ CHR ''@'' # b\<close> have "l' = l @ CHR ''@'' # a" by simp
      with at(1) show False by simp
    qed
    then have "l' = l" "d' = d" using r rsplit_once_append [of "CHR ''@''" d l] by simp_all
    with at m show ?thesis by simp
  qed
  from parts [OF assms(1)] parts [OF assms(2)] show ?thesis
    by (auto simp: append_eq_append_conv2 append_eq_Cons_conv Cons_eq_append_conv)
qed

theorem canonical_email_identity_witness:
  "(''ada@example.org'' = ''Ada@example.org'') \<longleftrightarrow>
     (''ada'' = ''Ada'' \<and> to_ascii_lowercase ''EXAMPLE.org'' = to_ascii_lowercase ''example.org'')"
proof -
  have 1: "parse_v1 (''ada'' @ ''@'' @ ''EXAMPLE.org'') = Inr ''ada@example.org''"
    and 2: "parse_v1 (''Ada'' @ ''@'' @ ''example.org'') = Inr ''Ada@example.org''" by code_simp+
  show ?thesis by (rule canonical_email_identity [OF 1 2])
qed

section \<open>One-time passwords are uniform and complete\<close>

lemma otp_block_eq:
  "length acc \<le> digits \<Longrightarrow>
   otp_block digits acc block =
     take digits (acc @ map otp_digit (filter (\<lambda>v. v < 250) block))"
proof (induction block arbitrary: acc)
  case (Cons v vs)
  show ?case
  proof (cases "v < 250 \<and> length acc < digits")
    case True
    then show ?thesis using Cons by (simp add: take_Cons')
  next
    case False
    then show ?thesis using Cons by auto
  qed
qed simp

lemma otp_loop_eq:
  assumes "length acc \<le> digits"
    and "digits \<le> length acc + length (filter (\<lambda>v. v < 250) (concat blocks))"
  shows "otp_loop digits acc (map Some blocks @ rest) =
     Some (Inr (take digits (acc @ map otp_digit (filter (\<lambda>v. v < 250) (concat blocks)))))"
  using assms
proof (induction blocks arbitrary: acc)
  case (Cons b bs)
  show ?case
  proof (cases "length acc < digits")
    case True
    let ?acc = "otp_block digits acc b"
    have acc: "?acc = take digits (acc @ map otp_digit (filter (\<lambda>v. v < 250) b))"
      using Cons.prems(1) by (rule otp_block_eq)
    have "otp_loop digits ?acc (map Some bs @ rest) =
       Some (Inr (take digits (?acc @ map otp_digit (filter (\<lambda>v. v < 250) (concat bs)))))"
      using Cons.prems(2) by (intro Cons.IH) (auto simp: acc)
    moreover have "take digits (?acc @ map otp_digit (filter (\<lambda>v. v < 250) (concat bs)))
        = take digits (acc @ map otp_digit (filter (\<lambda>v. v < 250) (concat (b # bs))))"
      unfolding acc using Cons.prems(1)
      by (cases "digits \<le> length acc + length (filter (\<lambda>v. v < 250) b)") (auto simp: min_absorb1)
    ultimately show ?thesis using True by (subst otp_loop.simps) simp
  next
    case False
    then show ?thesis using Cons.prems(1) by (subst otp_loop.simps) simp
  qed
next
  case Nil
  then show ?case by (subst otp_loop.simps) simp
qed

lemma byte_otp_digit: "byte (otp_digit v) = 48 + unat v mod 10"
  using mod_less_divisor [of 10 "unat v"] by (simp add: otp_digit_def byte_def)

lemma otp_digit_class:
  assumes n: "n < (10 :: nat)"
  shows "card {v :: u8. v < 250 \<and> otp_digit v = char_of (48 + n)} = 25"
proof -
  have u: "unat (of_nat (10 * k + n) :: u8) = 10 * k + n" if "k < 25" for k
    unfolding unat_of_nat using n that by simp
  have "otp_digit v = char_of (48 + n) \<longleftrightarrow> unat v mod 10 = n" for v :: u8
    using n byte_otp_digit [of v] by (simp add: byte_inject [symmetric] byte_def)
  then have "{v :: u8. v < 250 \<and> otp_digit v = char_of (48 + n)} = {v. v < 250 \<and> unat v mod 10 = n}"
    by simp
  also have "\<dots> = (\<lambda>k. of_nat (10 * k + n)) ` {..<25}"
  proof (intro set_eqI iffI)
    fix v :: u8 assume "v \<in> {v. v < 250 \<and> unat v mod 10 = n}"
    then have "unat v div 10 < 25" "10 * (unat v div 10) + n = unat v"
      by (auto simp: word_less_nat_alt)
    then have "unat v div 10 < 25" "v = of_nat (10 * (unat v div 10) + n)" by simp_all
    then show "v \<in> (\<lambda>k. of_nat (10 * k + n)) ` {..<25}" by blast
  next
    fix v :: u8 assume "v \<in> (\<lambda>k. of_nat (10 * k + n)) ` {..<25}"
    then obtain k where "k < 25" "v = of_nat (10 * k + n)" by blast
    moreover from this have "unat v = 10 * k + n" using u [of k] by simp
    ultimately show "v \<in> {v. v < 250 \<and> unat v mod 10 = n}" using n by (simp add: word_less_nat_alt)
  qed
  also have "card \<dots> = card {..<25::nat}"
  proof (rule card_image, rule inj_onI)
    fix j k :: nat assume "j \<in> {..<25}" "k \<in> {..<25}"
      and eq: "(of_nat (10 * j + n) :: u8) = of_nat (10 * k + n)"
    then have "10 * j + n = 10 * k + n" using u [of j] u [of k] by (metis lessThan_iff)
    then show "j = k" by simp
  qed
  finally show ?thesis by simp
qed

text \<open>
  (C32) The generator ends and gives exactly the requested number of decimal digits as
  soon as the random source has delivered that many bytes below 250; the digits are
  those bytes modulo ten in order, and each of the ten digits comes from exactly
  twenty-five of the accepted bytes, so no digit is more likely than another.
\<close>

theorem otp_is_complete_and_unbiased:
  assumes "6 \<le> digits" "digits \<le> 10"
    and "unat digits \<le> length (filter (\<lambda>v. v < 250) (concat blocks))"
  shows "generate_decimal_otp digits (map Some blocks @ rest) =
           Some (Inr (take (unat digits) (map otp_digit (filter (\<lambda>v. v < 250) (concat blocks)))))
    \<and> length (take (unat digits) (map otp_digit (filter (\<lambda>v. v < 250) (concat blocks)))) = unat digits
    \<and> (\<forall>v. is_ascii_digit (otp_digit v))
    \<and> (\<forall>n < (10 :: nat). card {v :: u8. v < 250 \<and> otp_digit v = char_of (48 + n)} = 25)"
proof (intro conjI)
  show "generate_decimal_otp digits (map Some blocks @ rest) =
          Some (Inr (take (unat digits) (map otp_digit (filter (\<lambda>v. v < 250) (concat blocks)))))"
    using assms otp_loop_eq [of "[]" "unat digits" blocks rest]
    by (simp add: generate_decimal_otp_def OTP_MIN_DIGITS_def OTP_MAX_DIGITS_def)
  show "length (take (unat digits) (map otp_digit (filter (\<lambda>v. v < 250) (concat blocks)))) = unat digits"
    using assms(3) by simp
  have "unat v mod 10 < 10" for v :: u8 by simp
  then show "\<forall>v. is_ascii_digit (otp_digit v)"
    by (auto simp: is_ascii_digit_def byte_otp_digit less_Suc_eq_le [symmetric])
  show "\<forall>n < (10 :: nat). card {v :: u8. v < 250 \<and> otp_digit v = char_of (48 + n)} = 25"
    by (simp add: otp_digit_class)
qed

theorem otp_is_complete_and_unbiased_witness:
  "generate_decimal_otp 6 [Some [255, 7, 12, 250], Some [249, 0, 100, 33, 4]] = Some (Inr ''729003'')"
proof -
  have "[otp_digit 7, otp_digit 12, otp_digit 249, otp_digit 0, otp_digit 100, otp_digit 33] = ''729003''"
    by code_simp
  then show ?thesis
    using otp_is_complete_and_unbiased [of 6 "[[255, 7, 12, 250], [249, 0, 100, 33, 4]]" "[]"] by simp
qed

end
