(* ===== verification/Owl_Managed_Connection.thy ===== *)
theory Owl_Managed_Connection
  imports Owl_Lifecycles "HOL-Library.List_Lexorder" "HOL-Library.Char_ord"
begin

text \<open>
  \<open>domain/managed_connection.rs\<close>: the profile capability an adapter declares, the exact
  comparison of granted scopes, and the fenced lifecycle of a managed provider connection.
\<close>

section \<open>Capabilities and scopes\<close>

definition MAX_MANAGED_SCOPES :: nat where "MAX_MANAGED_SCOPES = 16"

definition MAX_PROFILE_BODY_BYTES :: nat where "MAX_PROFILE_BODY_BYTES = 64 * 1024"

definition MAX_PROVIDER_LATENCY_SECONDS :: nat where "MAX_PROVIDER_LATENCY_SECONDS = 15"

datatype renewal_replay = NeverReplay | StableAttemptId

record managed_profile_capability =
  mp_adapter_key :: string
  mp_adapter_revision :: i64
  mp_exact_scopes :: "string list"
  mp_provider_pkce_required :: bool
  mp_oidc_nonce_required :: bool
  mp_credential_rotates :: bool
  mp_read_retry_safe :: bool
  mp_renewal_replay :: renewal_replay
  mp_supports_revocation :: bool
  mp_profile_schema :: string
  mp_maximum_body_bytes :: nat
  mp_maximum_latency_seconds :: nat

text \<open>
  \<open>sort_unstable\<close> on strings is the lexicographic byte order, so equal elements are
  indistinguishable and it is \<^const>\<open>sort\<close>; \<open>dedup\<close> removes adjacent repetitions.
\<close>

definition managed_capability_validate :: "managed_profile_capability \<Rightarrow> (domain_error, unit) res" where
  "managed_capability_validate cap =
     (if mp_adapter_key cap = [] \<or> mp_adapter_revision cap \<le> 0
         \<or> mp_profile_schema cap \<noteq> ''owlauth.provider-profile.v1''
         \<or> \<not> mp_oidc_nonce_required cap
         \<or> mp_exact_scopes cap = [] \<or> length (mp_exact_scopes cap) > MAX_MANAGED_SCOPES
         \<or> mp_maximum_body_bytes cap = 0 \<or> mp_maximum_body_bytes cap > MAX_PROFILE_BODY_BYTES
         \<or> mp_maximum_latency_seconds cap = 0
         \<or> mp_maximum_latency_seconds cap > MAX_PROVIDER_LATENCY_SECONDS
         \<or> list_ex (\<lambda>scope. scope = [] \<or> length scope > 128 \<or> any_whitespace scope) (mp_exact_scopes cap)
      then Inl (Err InvalidTransition)
      else
        let sorted = remdups_adj (sort (mp_exact_scopes cap))
        in if length sorted \<noteq> length (mp_exact_scopes cap) then Inl (Err InvalidTransition) else Inr ())"

definition scopes_match :: "managed_profile_capability \<Rightarrow> string list \<Rightarrow> bool" where
  "scopes_match cap returned =
     (let expected = sort (mp_exact_scopes cap);
          actual = sort returned;
          actual_count = length actual;
          actual = remdups_adj actual
      in length actual = actual_count \<and> actual = expected)"

section \<open>The lifecycle\<close>

datatype managed_connection_state = McActive | McReauthRequired | McRevoked | McDisconnected

fun managed_state_as_str :: "managed_connection_state \<Rightarrow> string" where
  "managed_state_as_str McActive = ''active''"
| "managed_state_as_str McReauthRequired = ''reauth_required''"
| "managed_state_as_str McRevoked = ''revoked''"
| "managed_state_as_str McDisconnected = ''disconnected''"

definition managed_state_parse :: "string \<Rightarrow> (domain_error, managed_connection_state) res" where
  "managed_state_parse value =
     (if value = ''active'' then Inr McActive
      else if value = ''reauth_required'' then Inr McReauthRequired
      else if value = ''revoked'' then Inr McRevoked
      else if value = ''disconnected'' then Inr McDisconnected
      else Inl (Err InvalidTransition))"

datatype managed_connection_event =
    ReplaceCredential
  | RequireReauthorization
  | ConfirmProviderRevocation
  | Disconnect
  | Reauthorize

record managed_lifecycle =
  ml_state :: managed_connection_state
  ml_revision :: i64
  ml_generation :: i64
  ml_credential_generation :: i64
  ml_updated_at :: instant

fun managed_next :: "managed_connection_state \<Rightarrow> managed_connection_event \<Rightarrow> managed_connection_state option" where
  "managed_next McActive ReplaceCredential = Some McActive"
| "managed_next McActive RequireReauthorization = Some McReauthRequired"
| "managed_next McActive ConfirmProviderRevocation = Some McRevoked"
| "managed_next McActive Disconnect = Some McDisconnected"
| "managed_next McReauthRequired Disconnect = Some McDisconnected"
| "managed_next McRevoked Disconnect = Some McDisconnected"
| "managed_next McReauthRequired Reauthorize = Some McActive"
| "managed_next McRevoked Reauthorize = Some McActive"
| "managed_next McDisconnected Reauthorize = Some McActive"
| "managed_next _ _ = None"

text \<open>
  The counters are advanced one after the other on the receiver, so the receiver given
  with an error shows how far the call got.
\<close>

definition managed_transition ::
    "managed_connection_event \<Rightarrow> i64 \<Rightarrow> i64 \<Rightarrow> instant \<Rightarrow> (managed_lifecycle, domain_error, unit) mut" where
  "managed_transition event expected_revision expected_generation now l =
     (if expected_revision \<noteq> ml_revision l \<or> expected_generation \<noteq> ml_generation l
         \<or> now < ml_updated_at l
      then (Inl (Err InvalidTransition), l)
      else case managed_next (ml_state l) event of
        None \<Rightarrow> (Inl (Err InvalidTransition), l)
      | Some nxt \<Rightarrow>
          m_bind (\<lambda>l. case checked_add_i64 (ml_revision l) 1 of
                    None \<Rightarrow> (Inl (Err InvalidTransition), l)
                  | Some n \<Rightarrow> (Inr (), l\<lparr>ml_revision := n\<rparr>)) (\<lambda>_.
          m_bind (\<lambda>l. if event \<in> {ReplaceCredential, Reauthorize, RequireReauthorization,
                                   ConfirmProviderRevocation, Disconnect}
                  then (case checked_add_i64 (ml_generation l) 1 of
                          None \<Rightarrow> (Inl (Err InvalidTransition), l)
                        | Some n \<Rightarrow> (Inr (), l\<lparr>ml_generation := n\<rparr>))
                  else (Inr (), l)) (\<lambda>_.
          m_bind (\<lambda>l. if event \<in> {ReplaceCredential, Reauthorize}
                  then (case checked_add_i64 (ml_credential_generation l) 1 of
                          None \<Rightarrow> (Inl (Err InvalidTransition), l)
                        | Some n \<Rightarrow> (Inr (), l\<lparr>ml_credential_generation := n\<rparr>))
                  else (Inr (), l)) (\<lambda>_.
          (\<lambda>l. (Inr (), l\<lparr>ml_state := nxt, ml_updated_at := now\<rparr>))))) l)"

section \<open>Laws\<close>

lemma managed_transition_ok:
  assumes "managed_transition event er eg now l = (Inr u, m)"
  shows "er = ml_revision l \<and> eg = ml_generation l \<and> ml_updated_at l \<le> now
    \<and> managed_next (ml_state l) event = Some (ml_state m)
    \<and> ml_revision m = ml_revision l + 1 \<and> ml_generation m = ml_generation l + 1
    \<and> ml_credential_generation m = ml_credential_generation l
        + (if event \<in> {ReplaceCredential, Reauthorize} then 1 else 0)
    \<and> ml_updated_at m = now"
  using assms
  by (cases event)
     (auto simp: managed_transition_def m_bind_eq checked_add_i64_Some split: if_splits option.splits)

lemma managed_transition_failed:
  assumes "managed_transition event er eg now l = (Inl f, m)"
  shows "ml_state m = ml_state l \<and> ml_credential_generation m = ml_credential_generation l
    \<and> ml_updated_at m = ml_updated_at l"
  using assms
  by (auto simp: managed_transition_def m_bind_eq split: if_splits option.splits)

text \<open>
  (C24) Fencing: a successful transition follows the lifecycle graph, raises the revision
  and the connection generation by exactly one and the credential generation exactly
  when a credential was installed; and any other transition that still expects the old
  revision or the old generation is then refused without effect.
\<close>

theorem managed_transitions_are_fenced:
  assumes "managed_transition event er eg now l = (Inr u, m)"
  shows "managed_next (ml_state l) event = Some (ml_state m)
    \<and> ml_revision m = ml_revision l + 1 \<and> ml_generation m = ml_generation l + 1
    \<and> ml_credential_generation m = ml_credential_generation l
        + (if event \<in> {ReplaceCredential, Reauthorize} then 1 else 0)
    \<and> (\<forall>other rv gn later. rv = er \<or> gn = eg
         \<longrightarrow> managed_transition other rv gn later m = (Inl (Err InvalidTransition), m))"
  using managed_transition_ok [OF assms] by (auto simp: managed_transition_def)

definition demo_connection :: managed_lifecycle where
  "demo_connection = \<lparr>ml_state = McActive, ml_revision = 4, ml_generation = 2,
     ml_credential_generation = 1, ml_updated_at = 100\<rparr>"

theorem managed_transitions_are_fenced_witness:
  "managed_transition Disconnect 4 2 130
     (snd (managed_transition RequireReauthorization 4 2 120 demo_connection)) =
   (Inl (Err InvalidTransition), snd (managed_transition RequireReauthorization 4 2 120 demo_connection))"
proof -
  have "managed_transition RequireReauthorization 4 2 120 demo_connection =
      (Inr (), demo_connection\<lparr>ml_state := McReauthRequired, ml_revision := 5, ml_generation := 3,
                              ml_updated_at := 120\<rparr>)"
    by (simp add: managed_transition_def demo_connection_def m_bind_def checked_add_i64_def in_i64_def
        i64_max_value i64_min_value)
  from managed_transitions_are_fenced [OF this] this show ?thesis by simp
qed

text \<open>Any sequence of calls, each with its own expectations.\<close>

fun managed_run ::
    "(managed_connection_event \<times> i64 \<times> i64 \<times> instant) list \<Rightarrow> managed_lifecycle \<Rightarrow> managed_lifecycle" where
  "managed_run [] l = l"
| "managed_run ((event, er, eg, now) # calls) l =
     managed_run calls (snd (managed_transition event er eg now l))"

lemma managed_step_credential:
  assumes "m = snd (managed_transition event er eg now l)"
  shows "ml_credential_generation l \<le> ml_credential_generation m"
    and "ml_state l \<noteq> McActive \<Longrightarrow> ml_state m = McActive
         \<Longrightarrow> ml_credential_generation l < ml_credential_generation m"
proof -
  obtain r where r: "managed_transition event er eg now l = (r, m)" using assms by (metis prod.collapse)
  have "ml_credential_generation l \<le> ml_credential_generation m
    \<and> (ml_state l \<noteq> McActive \<longrightarrow> ml_state m = McActive
       \<longrightarrow> ml_credential_generation l < ml_credential_generation m)"
  proof (cases r)
    case (Inl f)
    then show ?thesis using managed_transition_failed [of event er eg now l f m] r by simp
  next
    case (Inr u)
    then show ?thesis
      using managed_transition_ok [of event er eg now l u m] r by (cases "ml_state l"; cases event) auto
  qed
  then show "ml_credential_generation l \<le> ml_credential_generation m"
    and "ml_state l \<noteq> McActive \<Longrightarrow> ml_state m = McActive
         \<Longrightarrow> ml_credential_generation l < ml_credential_generation m"
    by blast+
qed

text \<open>
  (C25) A connection that lost its authorization never becomes active again with the old
  credential: whatever calls are made on a connection that requires reauthorization, was
  revoked or was disconnected, if it is active afterwards a new credential generation has
  been installed.
\<close>

theorem lost_connection_needs_a_new_credential:
  assumes "ml_state l \<noteq> McActive" and "ml_state (managed_run calls l) = McActive"
  shows "ml_credential_generation l < ml_credential_generation (managed_run calls l)"
  using assms
proof (induction calls arbitrary: l rule: list.induct)
  case (Cons c calls)
  obtain event er eg now where c: "c = (event, er, eg, now)" by (metis prod_cases4)
  let ?m = "snd (managed_transition event er eg now l)"
  have mono: "ml_credential_generation a \<le> ml_credential_generation (managed_run xs a)" for xs a
  proof (induction xs arbitrary: a)
    case (Cons x xs)
    obtain e r g n where x: "x = (e, r, g, n)" by (metis prod_cases4)
    show ?case
      using managed_step_credential(1) [OF refl, of a e r g n] Cons by (force simp: x intro: order_trans)
  qed simp
  show ?case
  proof (cases "ml_state ?m = McActive")
    case True
    then show ?thesis
      using managed_step_credential(2) [of ?m event er eg now l] Cons.prems(1) mono [of ?m calls]
      by (simp add: c)
  next
    case False
    then show ?thesis
      using Cons.IH [of ?m] Cons.prems(2) managed_step_credential(1) [OF refl, of l event er eg now]
      by (simp add: c)
  qed
qed simp

theorem lost_connection_needs_a_new_credential_witness:
  "ml_credential_generation (demo_connection\<lparr>ml_state := McDisconnected\<rparr>)
   < ml_credential_generation (managed_run [(ReplaceCredential, 4, 2, 110), (Reauthorize, 4, 2, 120)]
        (demo_connection\<lparr>ml_state := McDisconnected\<rparr>))"
  by (rule lost_connection_needs_a_new_credential)
     (simp_all add: managed_transition_def demo_connection_def m_bind_def checked_add_i64_def in_i64_def
        i64_max_value i64_min_value)

lemma remdups_adj_sort_distinct:
  fixes xs :: "'a :: linorder list"
  shows "length (remdups_adj (sort xs)) = length xs \<longleftrightarrow> distinct xs"
proof -
  have "sorted ys \<Longrightarrow> distinct (remdups_adj ys)" for ys :: "'a list"
    by (induction ys rule: remdups_adj.induct) auto
  then have d: "distinct (remdups_adj (sort xs))" by simp
  have "length (remdups_adj (sort xs)) = card (set xs)"
    using distinct_card [OF d] by simp
  then show ?thesis by (metis card_distinct distinct_card)
qed

text \<open>
  (C33) Granted scopes are compared as exact sets: for a capability that passes
  validation, the returned scopes match exactly when they list the declared scopes, each
  once, in any order.
\<close>

theorem scopes_match_exactly:
  assumes "managed_capability_validate cap = Inr ()"
  shows "scopes_match cap returned \<longleftrightarrow> distinct returned \<and> set returned = set (mp_exact_scopes cap)"
proof -
  have d: "distinct (mp_exact_scopes cap)"
    using assms by (simp add: managed_capability_validate_def guard_eq_Inr Let_def remdups_adj_sort_distinct)
  have "remdups_adj (sort returned) = sort returned" if "distinct returned"
    using that by (simp add: remdups_adj_distinct)
  moreover have "sort returned = sort (mp_exact_scopes cap) \<longleftrightarrow> set returned = set (mp_exact_scopes cap)"
    if "distinct returned"
    using that d by (metis distinct_sort set_sort sorted_distinct_set_unique sorted_sort)
  ultimately show ?thesis
    by (auto simp: scopes_match_def Let_def remdups_adj_sort_distinct)
qed

definition demo_capability :: managed_profile_capability where
  "demo_capability = \<lparr>mp_adapter_key = ''google'', mp_adapter_revision = 1,
     mp_exact_scopes = [''openid'', ''email'', ''profile''], mp_provider_pkce_required = True,
     mp_oidc_nonce_required = True, mp_credential_rotates = True, mp_read_retry_safe = True,
     mp_renewal_replay = NeverReplay, mp_supports_revocation = True,
     mp_profile_schema = ''owlauth.provider-profile.v1'', mp_maximum_body_bytes = 65536,
     mp_maximum_latency_seconds = 10\<rparr>"

theorem scopes_match_exactly_witness:
  "scopes_match demo_capability [''profile'', ''openid'', ''email'']
   \<and> \<not> scopes_match demo_capability [''profile'', ''openid'', ''email'', ''openid'']"
proof -
  have "\<not> any_whitespace ''openid''" "\<not> any_whitespace ''email''" "\<not> any_whitespace ''profile''"
    by code_simp+
  then have "managed_capability_validate demo_capability = Inr ()"
    unfolding managed_capability_validate_def Let_def remdups_adj_sort_distinct
    by (simp add: demo_capability_def MAX_MANAGED_SCOPES_def MAX_PROFILE_BODY_BYTES_def
        MAX_PROVIDER_LATENCY_SECONDS_def)
  from scopes_match_exactly [OF this] show ?thesis by (auto simp: demo_capability_def)
qed



end
