(* ===== verification/Owl_Store.thy ===== *)
theory Owl_Store
  imports Owl_Lifecycles "HOL-Library.List_Lexorder" "HOL-Library.Char_ord"
begin

text \<open>
  What the repositories of \<open>adapters/postgres\<close> share: the application errors, tables with
  their constraints, database transactions, and JSON documents.

  A table is a list of rows together with the predicate its constraints impose; a statement
  that would break a constraint fails as the driver reports it, with \<open>Persistence\<close>.  A
  transaction is a state transformer that rolls back on every error, except where the code
  commits before it returns one.  The row and advisory locks serialise the transactions on
  one project, so a transaction runs on one database state; what an operation reads
  before it opens its transaction is read from an earlier state, which is an argument.
\<close>

section \<open>Application errors\<close>

datatype application_error =
    EInvalidInput
  | ENotFound
  | EDisabled
  | ERevisionConflict
  | EIdempotencyConflict
  | EOperationInProgress
  | EInvalidTransition
  | ECapacityExceeded
  | EIntegrity
  | EPersistence
  | EProviderPreflightRejected
  | EProviderPreflightUnavailable
  | EExternalStore

text \<open>\<open>impl From<DomainError> for ApplicationError\<close>\<close>

definition from_domain :: "domain_error \<Rightarrow> application_error" where
  "from_domain e = EInvalidInput"

section \<open>Statements and transactions\<close>

type_synonym ('db, 'a) query = "'db \<Rightarrow> (application_error, 'a) res"
type_synonym ('db, 'a) tx = "('db, application_error, 'a) mut"

definition m_read :: "('db, 'a) query \<Rightarrow> ('db, 'a) tx" where
  "m_read q db = (q db, db)"

definition m_return :: "'a \<Rightarrow> ('db, 'a) tx" where
  "m_return a db = (Inr a, db)"

definition m_fail :: "application_error \<Rightarrow> ('db, 'a) tx" where
  "m_fail e db = (Inl (Err e), db)"

definition m_when :: "bool \<Rightarrow> ('db, unit) tx \<Rightarrow> ('db, unit) tx" where
  "m_when b m = (if b then m else m_return ())"

text \<open>
  The body of a transaction ends with \<open>commit\<close>; it then returns a value, or it returns an
  error although the writes are kept.
\<close>

datatype 'a verdict = Return 'a | Reject application_error

definition transaction :: "('db, 'a verdict) tx \<Rightarrow> ('db, 'a) tx" where
  "transaction body db =
     (case body db of
        (Inl f, _) \<Rightarrow> (Inl f, db)
      | (Inr (Return a), db') \<Rightarrow> (Inr a, db')
      | (Inr (Reject e), db') \<Rightarrow> (Inl (Err e), db'))"

fun m_for_each :: "('a \<Rightarrow> ('db, unit) tx) \<Rightarrow> 'a list \<Rightarrow> ('db, unit) tx" where
  "m_for_each g [] = m_return ()"
| "m_for_each g (x # xs) = m_bind (g x) (\<lambda>_. m_for_each g xs)"

lemma m_read_eq [mut_simps]: "m_read q s = (x, t) \<longleftrightarrow> q s = x \<and> t = s"
  by (auto simp: m_read_def)

lemma m_return_eq [mut_simps]: "m_return a s = (x, t) \<longleftrightarrow> x = Inr a \<and> t = s"
  by (auto simp: m_return_def)

lemma m_fail_eq [mut_simps]: "m_fail e s = (x, t) \<longleftrightarrow> x = Inl (Err e) \<and> t = s"
  by (auto simp: m_fail_def)

lemma m_bind_read:
  "m_bind (m_read q) k s = (case q s of Inl f \<Rightarrow> (Inl f, s) | Inr a \<Rightarrow> k a s)"
  by (simp add: m_bind_def m_read_def split: sum.split)

lemma m_bind_return [simp]: "m_bind (m_return a) k s = k a s"
  by (simp add: m_bind_def m_return_def)

lemma m_bind_fail [simp]: "m_bind (m_fail e) k s = (Inl (Err e), s)"
  by (simp add: m_bind_def m_fail_def)

lemma transaction_eq:
  "transaction body s = (Inr a, t) \<longleftrightarrow> body s = (Inr (Return a), t)"
  "transaction body s = (Inl f, t) \<longleftrightarrow>
     (\<exists>u. body s = (Inl f, u) \<and> t = s) \<or> (\<exists>e. body s = (Inr (Reject e), t) \<and> f = Err e)"
  by (auto simp: transaction_def split: prod.splits sum.splits verdict.splits)

section \<open>Relations kept by a statement\<close>

text \<open>A state transformer keeps a relation when it relates the state before and after.\<close>

definition keeps :: "('s \<Rightarrow> 's \<Rightarrow> bool) \<Rightarrow> ('s, 'e, 'a) mut \<Rightarrow> bool" where
  "keeps R m \<longleftrightarrow> (\<forall>s. R s (snd (m s)))"

named_theorems keeps_intros \<open>statements and the relations they keep\<close>

lemma keepsD: "keeps R m \<Longrightarrow> m s = (x, t) \<Longrightarrow> R s t"
  by (auto simp: keeps_def dest: spec [of _ s])

lemma keepsI: "(\<And>s x t. m s = (x, t) \<Longrightarrow> R s t) \<Longrightarrow> keeps R m"
  by (auto simp: keeps_def) (metis prod.collapse)

text \<open>
  A relation between the states of a history: reflexive, because a rolled back or reading
  statement changes nothing, and transitive, because statements are composed.
\<close>

locale history_relation =
  fixes R :: "'s \<Rightarrow> 's \<Rightarrow> bool"
  assumes hr_refl: "R s s"
    and hr_trans: "R s t \<Longrightarrow> R t u \<Longrightarrow> R s u"
begin

lemma keeps_read: "keeps R (m_read q)"
  by (simp add: keeps_def m_read_def hr_refl)

lemma keeps_try: "keeps R (m_try r)"
  by (simp add: keeps_def m_try_def hr_refl)

lemma keeps_return: "keeps R (m_return a)"
  by (simp add: keeps_def m_return_def hr_refl)

lemma keeps_fail: "keeps R (m_fail e)"
  by (simp add: keeps_def m_fail_def hr_refl)

lemma keeps_bind: "keeps R m \<Longrightarrow> (\<And>a. keeps R (k a)) \<Longrightarrow> keeps R (m_bind m k)"
  by (rule keepsI) (auto simp: m_bind_eq intro: hr_trans dest: keepsD)

lemma keeps_when: "keeps R m \<Longrightarrow> keeps R (m_when b m)"
  by (simp add: m_when_def keeps_return)

lemma keeps_if: "keeps R m \<Longrightarrow> keeps R n \<Longrightarrow> keeps R (if b then m else n)"
  by simp

lemma keeps_transaction: "keeps R body \<Longrightarrow> keeps R (transaction body)"
  by (rule keepsI, rename_tac s x t, case_tac x) (auto simp: transaction_eq hr_refl dest: keepsD)

lemma keeps_for_each: "(\<And>x. keeps R (g x)) \<Longrightarrow> keeps R (m_for_each g xs)"
  by (induction xs) (auto intro: keeps_return keeps_bind)

lemmas keeps_rules =
  keeps_read keeps_try keeps_return keeps_fail keeps_bind keeps_when keeps_if keeps_transaction
  keeps_for_each

end

section \<open>Tables\<close>

text \<open>
  A table of the database: where its rows are, their primary key, and the unique
  constraints as a predicate on all rows.
\<close>

record ('db, 'r) table =
  tb_rows :: "'db \<Rightarrow> 'r list"
  tb_put :: "'r list \<Rightarrow> 'db \<Rightarrow> 'db"
  tb_key :: "'r \<Rightarrow> uuid"
  tb_ok :: "'r list \<Rightarrow> bool"

text \<open>\<open>Entity::find().filter(..).one(..)\<close> followed by \<open>ok_or\<close>\<close>

definition select_one :: "('db \<Rightarrow> 'r list) \<Rightarrow> ('r \<Rightarrow> bool) \<Rightarrow> application_error \<Rightarrow> ('db, 'r) query" where
  "select_one rows p e db = ok_or (find p (rows db)) e"

text \<open>\<open>ActiveModel { .. }.insert(..)\<close>\<close>

definition db_insert :: "('db, 'r) table \<Rightarrow> 'r \<Rightarrow> ('db, 'r) tx" where
  "db_insert T r db =
     (let rows = tb_rows T db @ [r]
      in if tb_ok T rows then (Inr r, tb_put T rows db) else (Inl (Err EPersistence), db))"

text \<open>
  \<open>into_active_model\<close>, assignments and \<open>update(..)\<close>: the assigned columns of the row with the
  given key are set, the updated row is returned.
\<close>

definition set_row :: "('r \<Rightarrow> uuid) \<Rightarrow> uuid \<Rightarrow> ('r \<Rightarrow> 'r) \<Rightarrow> 'r list \<Rightarrow> 'r list" where
  "set_row key k g rows = map (\<lambda>r. if key r = k then g r else r) rows"

definition db_update :: "('db, 'r) table \<Rightarrow> uuid \<Rightarrow> ('r \<Rightarrow> 'r) \<Rightarrow> ('db, 'r) tx" where
  "db_update T k g db =
     (case find (\<lambda>r. tb_key T r = k) (tb_rows T db) of
        None \<Rightarrow> (Inl (Err EPersistence), db)
      | Some r \<Rightarrow>
          let rows = set_row (tb_key T) k g (tb_rows T db)
          in if tb_ok T rows then (Inr (g r), tb_put T rows db) else (Inl (Err EPersistence), db))"

text \<open>
  \<open>UPDATE .. WHERE ..\<close> and \<open>DELETE .. WHERE ..\<close> with the number of affected rows.
\<close>

definition db_update_where :: "('db, 'r) table \<Rightarrow> ('r \<Rightarrow> bool) \<Rightarrow> ('r \<Rightarrow> 'r) \<Rightarrow> ('db, nat) tx" where
  "db_update_where T p g db =
     (let rows = map (\<lambda>r. if p r then g r else r) (tb_rows T db)
      in if tb_ok T rows then (Inr (length (filter p (tb_rows T db))), tb_put T rows db)
         else (Inl (Err EPersistence), db))"

definition db_delete_where :: "('db, 'r) table \<Rightarrow> ('r \<Rightarrow> bool) \<Rightarrow> ('db, nat) tx" where
  "db_delete_where T p db =
     (Inr (length (filter p (tb_rows T db))), tb_put T (filter (\<lambda>r. \<not> p r) (tb_rows T db)) db)"

lemma select_one_Inr [res_simps]: "select_one rows p e db = Inr r \<longleftrightarrow> find p (rows db) = Some r"
  by (simp add: select_one_def res_simps)

lemma find_SomeD: "find p xs = Some x \<Longrightarrow> p x \<and> x \<in> set xs"
  by (auto simp: find_Some_iff)

lemma select_one_InrD: "select_one rows p e db = Inr r \<Longrightarrow> p r \<and> r \<in> set (rows db)"
  by (auto simp: select_one_Inr dest: find_SomeD)

lemma select_one_Inl [res_simps]:
  "select_one rows p e db = Inl f \<longleftrightarrow> (\<forall>r \<in> set (rows db). \<not> p r) \<and> f = Err e"
  by (auto simp: select_one_def res_simps find_None_iff)

lemma db_insert_eq [mut_simps]:
  "db_insert T r s = (Inr a, t) \<longleftrightarrow>
     a = r \<and> tb_ok T (tb_rows T s @ [r]) \<and> t = tb_put T (tb_rows T s @ [r]) s"
  by (auto simp: db_insert_def Let_def)

lemma db_insert_fails: "db_insert T r s = (Inl f, t) \<Longrightarrow> f = Err EPersistence \<and> t = s"
  by (auto simp: db_insert_def Let_def split: if_splits)

lemma db_update_eq [mut_simps]:
  "db_update T k g s = (Inr a, t) \<longleftrightarrow>
     (\<exists>r. find (\<lambda>r. tb_key T r = k) (tb_rows T s) = Some r \<and> a = g r)
     \<and> tb_ok T (set_row (tb_key T) k g (tb_rows T s))
     \<and> t = tb_put T (set_row (tb_key T) k g (tb_rows T s)) s"
  by (auto simp: db_update_def Let_def split: option.splits)

lemma db_update_fails: "db_update T k g s = (Inl f, t) \<Longrightarrow> f = Err EPersistence \<and> t = s"
  by (auto simp: db_update_def Let_def split: option.splits if_splits)

lemma db_update_where_eq [mut_simps]:
  "db_update_where T p g s = (Inr n, t) \<longleftrightarrow>
     n = length (filter p (tb_rows T s))
     \<and> tb_ok T (map (\<lambda>r. if p r then g r else r) (tb_rows T s))
     \<and> t = tb_put T (map (\<lambda>r. if p r then g r else r) (tb_rows T s)) s"
  by (auto simp: db_update_where_def Let_def)

lemma db_update_where_fails:
  "db_update_where T p g s = (Inl f, t) \<Longrightarrow> f = Err EPersistence \<and> t = s"
  by (auto simp: db_update_where_def Let_def split: if_splits)

lemma db_delete_where_eq [mut_simps]:
  "db_delete_where T p s = (x, t) \<longleftrightarrow>
     x = Inr (length (filter p (tb_rows T s)))
     \<and> t = tb_put T (filter (\<lambda>r. \<not> p r) (tb_rows T s)) s"
  by (auto simp: db_delete_where_def)

lemma set_set_row: "set (set_row key k g rows) = (\<lambda>r. if key r = k then g r else r) ` set rows"
  by (simp add: set_row_def)

lemma map_set_row: "(\<And>r. h (g r) = h r) \<Longrightarrow> map h (set_row key k g rows) = map h rows"
  by (simp add: set_row_def)

text \<open>The rows of a table only move along a relation and never disappear.\<close>

definition rows_rel :: "('db, 'r) table \<Rightarrow> ('r \<Rightarrow> 'r \<Rightarrow> bool) \<Rightarrow> 'db \<Rightarrow> 'db \<Rightarrow> bool" where
  "rows_rel T rel s t \<longleftrightarrow>
     (\<forall>r \<in> set (tb_rows T s). \<exists>r' \<in> set (tb_rows T t). tb_key T r' = tb_key T r \<and> rel r r')"

lemma rows_relD:
  "rows_rel T rel s t \<Longrightarrow> r \<in> set (tb_rows T s)
   \<Longrightarrow> \<exists>r' \<in> set (tb_rows T t). tb_key T r' = tb_key T r \<and> rel r r'"
  by (simp add: rows_rel_def)

text \<open>
  The contract of a table: reading gives what was put, and the constraints contain the
  primary key.
\<close>

locale db_table =
  fixes T :: "('db, 'r) table"
  assumes rows_put: "tb_rows T (tb_put T rows db) = rows"
    and ok_keys: "tb_ok T rows \<Longrightarrow> distinct (map (tb_key T) rows)"
begin

lemma key_unique:
  "tb_ok T rows \<Longrightarrow> r \<in> set rows \<Longrightarrow> r' \<in> set rows \<Longrightarrow> tb_key T r = tb_key T r' \<Longrightarrow> r = r'"
  using ok_keys by (auto simp: distinct_map dest: inj_onD)

lemma lookup:
  assumes "tb_ok T rows" and "r \<in> set rows"
  shows "find (\<lambda>x. tb_key T x = tb_key T r) rows = Some r"
proof -
  have "find (\<lambda>x. tb_key T x = tb_key T r) rows \<noteq> None"
    using assms by (auto simp: find_None_iff)
  then obtain x where x: "find (\<lambda>x. tb_key T x = tb_key T r) rows = Some x" by auto
  with assms show ?thesis using key_unique [of rows r x] by (auto dest: find_SomeD)
qed

lemma insert_rows: "db_insert T r s = (Inr a, t) \<Longrightarrow> tb_rows T t = tb_rows T s @ [r]"
  by (auto simp: db_insert_eq rows_put)

lemma update_rows:
  "db_update T k g s = (Inr a, t) \<Longrightarrow> tb_rows T t = set_row (tb_key T) k g (tb_rows T s)"
  by (auto simp: db_update_eq rows_put)

lemma insert_ok: "keeps (\<lambda>s t. tb_ok T (tb_rows T s) \<longrightarrow> tb_ok T (tb_rows T t)) (db_insert T r)"
  by (auto simp: keeps_def db_insert_def Let_def rows_put)

lemma update_ok: "keeps (\<lambda>s t. tb_ok T (tb_rows T s) \<longrightarrow> tb_ok T (tb_rows T t)) (db_update T k g)"
  by (auto simp: keeps_def db_update_def Let_def rows_put split: option.split)

lemma insert_keeps:
  assumes "\<And>r. rel r r"
  shows "keeps (rows_rel T rel) (db_insert T x)"
  using assms by (auto simp: keeps_def rows_rel_def db_insert_def Let_def rows_put)

text \<open>An update by key moves exactly the row it was computed from.\<close>

lemma update_row_rel:
  assumes "db_update T (tb_key T m) g s = (x, t)" and "tb_ok T (tb_rows T s)" and "m \<in> set (tb_rows T s)"
    and "rel m (g m)" and "tb_key T (g m) = tb_key T m" and "\<And>r. rel r r"
  shows "rows_rel T rel s t"
proof (cases x)
  case Inl
  then have "t = s" using assms(1) by (auto dest: db_update_fails)
  then show ?thesis using assms(6) by (auto simp: rows_rel_def)
next
  case (Inr a)
  then have rows: "tb_rows T t = set_row (tb_key T) (tb_key T m) g (tb_rows T s)"
    using assms(1) by (auto intro: update_rows)
  show ?thesis
    unfolding rows_rel_def rows set_set_row
  proof
    fix r assume r: "r \<in> set (tb_rows T s)"
    then have "tb_key T r = tb_key T m \<Longrightarrow> r = m" using key_unique [OF assms(2) _ assms(3)] by auto
    then show "\<exists>r' \<in> (\<lambda>r. if tb_key T r = tb_key T m then g r else r) ` set (tb_rows T s).
                 tb_key T r' = tb_key T r \<and> rel r r'"
      using assms r by (intro bexI [of _ "if tb_key T r = tb_key T m then g r else r"]) auto
  qed
qed

lemma update_where_rel:
  assumes "db_update_where T p g s = (x, t)" and "\<And>r. p r \<Longrightarrow> rel r (g r) \<and> tb_key T (g r) = tb_key T r"
    and "\<And>r. rel r r"
  shows "rows_rel T rel s t"
proof (cases x)
  case Inl
  then have "t = s" using assms(1) by (auto dest: db_update_where_fails)
  then show ?thesis using assms(3) by (auto simp: rows_rel_def)
next
  case (Inr a)
  then have rows: "tb_rows T t = map (\<lambda>r. if p r then g r else r) (tb_rows T s)"
    using assms(1) by (auto simp: db_update_where_eq rows_put)
  show ?thesis
    unfolding rows_rel_def rows
  proof
    fix r assume "r \<in> set (tb_rows T s)"
    then show "\<exists>r' \<in> set (map (\<lambda>r. if p r then g r else r) (tb_rows T s)).
                 tb_key T r' = tb_key T r \<and> rel r r'"
      using assms by (intro bexI [of _ "if p r then g r else r"]) auto
  qed
qed

lemma update_keeps:
  assumes "\<And>r. rel r r" and "\<And>r. rel r (g r)" and "\<And>r. tb_key T (g r) = tb_key T r"
  shows "keeps (rows_rel T rel) (db_update T k g)"
proof (rule keepsI)
  fix s x t
  assume u: "db_update T k g s = (x, t)"
  show "rows_rel T rel s t"
  proof (cases x)
    case Inl
    with u have "t = s" by (auto dest: db_update_fails)
    then show ?thesis using assms(1) by (auto simp: rows_rel_def)
  next
    case (Inr a)
    then have rows: "tb_rows T t = set_row (tb_key T) k g (tb_rows T s)"
      using u by (auto intro: update_rows)
    show ?thesis
      unfolding rows_rel_def rows set_set_row
    proof
      fix r assume "r \<in> set (tb_rows T s)"
      then show "\<exists>r' \<in> (\<lambda>r. if tb_key T r = k then g r else r) ` set (tb_rows T s).
                   tb_key T r' = tb_key T r \<and> rel r r'"
        using assms by (intro bexI [of _ "if tb_key T r = k then g r else r"]) auto
    qed
  qed
qed

end

text \<open>A table whose rows move along a preorder: the histories of its rows compose.\<close>

locale row_history = db_table T for T :: "('db, 'r) table" +
  fixes rel :: "'r \<Rightarrow> 'r \<Rightarrow> bool"
  assumes rel_refl: "rel r r"
    and rel_trans: "rel r r' \<Longrightarrow> rel r' r'' \<Longrightarrow> rel r r''"

sublocale row_history \<subseteq> history_relation "rows_rel T rel"
proof
  show "rows_rel T rel s s" for s by (auto simp: rows_rel_def rel_refl)
  show "rows_rel T rel s u" if "rows_rel T rel s t" and "rows_rel T rel t u" for s t u
    unfolding rows_rel_def
  proof
    fix r assume "r \<in> set (tb_rows T s)"
    with that obtain r' where "r' \<in> set (tb_rows T t)" "tb_key T r' = tb_key T r" "rel r r'"
      by (auto dest: rows_relD)
    moreover with that obtain r'' where "r'' \<in> set (tb_rows T u)" "tb_key T r'' = tb_key T r'" "rel r' r''"
      by (auto dest: rows_relD)
    ultimately show "\<exists>r' \<in> set (tb_rows T u). tb_key T r' = tb_key T r \<and> rel r r'"
      using rel_trans by auto
  qed
qed

section \<open>JSON documents\<close>

text \<open>
  \<open>serde_json::Value\<close> as far as the code builds it.  An object is a \<open>BTreeMap\<close>, so it is an
  association list in key order.
\<close>

datatype json =
    JNull
  | JBool bool
  | JInt int
  | JString string
  | JObject "(string \<times> json) list"

fun map_insert :: "string \<Rightarrow> json \<Rightarrow> (string \<times> json) list \<Rightarrow> (string \<times> json) list" where
  "map_insert k v [] = [(k, v)]"
| "map_insert k v ((k', v') # m) =
     (if k = k' then (k, v) # m
      else if k < k' then (k, v) # (k', v') # m
      else (k', v') # map_insert k v m)"

definition json_object :: "(string \<times> json) list \<Rightarrow> json" where
  "json_object kvs = JObject (fold (\<lambda>(k, v). map_insert k v) kvs [])"

definition json_opt :: "string option \<Rightarrow> json" where
  "json_opt x = (case x of None \<Rightarrow> JNull | Some s \<Rightarrow> JString s)"

text \<open>\<open>Value::get(key)\<close> and \<open>as_object_mut().insert(key, value)\<close>; both see only objects.\<close>

fun json_get :: "json \<Rightarrow> string \<Rightarrow> json option" where
  "json_get (JObject m) k = map_of m k"
| "json_get _ k = None"

fun json_insert :: "json \<Rightarrow> string \<Rightarrow> json \<Rightarrow> json option" where
  "json_insert (JObject m) k v = Some (JObject (map_insert k v m))"
| "json_insert _ k v = None"

fun as_i64 :: "json \<Rightarrow> i64 option" where
  "as_i64 (JInt n) = (if in_i64 n then Some n else None)"
| "as_i64 _ = None"

fun as_bool :: "json \<Rightarrow> bool option" where
  "as_bool (JBool b) = Some b"
| "as_bool _ = None"

lemma map_of_map_insert [simp]: "map_of (map_insert k v m) k' = (if k' = k then Some v else map_of m k')"
  by (induction k v m rule: map_insert.induct) auto

lemma map_insert_twice [simp]: "map_insert k w (map_insert k v m) = map_insert k w m"
  by (induction k v m rule: map_insert.induct) auto

definition ordered_object :: "(string \<times> json) list \<Rightarrow> bool" where
  "ordered_object m \<longleftrightarrow> sorted_wrt (<) (map fst m)"

lemma map_insert_keys: "set (map fst (map_insert k v m)) = insert k (set (map fst m))"
  by (induction k v m rule: map_insert.induct) auto

lemma map_insert_ordered: "ordered_object m \<Longrightarrow> ordered_object (map_insert k v m)"
proof (induction k v m rule: map_insert.induct)
  case (1 k v)
  then show ?case by (simp add: ordered_object_def)
next
  case (2 k v k' v' m)
  then have m: "ordered_object m" "\<forall>x \<in> set (map fst m). k' < x" by (auto simp: ordered_object_def)
  consider "k = k'" | "k < k'" | "k' < k" by fastforce
  then show ?case
  proof cases
    case 3
    with 2 m have "ordered_object (map_insert k v m)" by auto
    with 3 m show ?thesis
      using map_insert_keys [of k v m] by (auto simp: ordered_object_def)
  qed (use m 2 in \<open>auto simp: ordered_object_def\<close>)
qed

lemma map_insert_same:
  "ordered_object m \<Longrightarrow> map_of m k = Some v \<Longrightarrow> map_insert k v m = m"
proof (induction k v m rule: map_insert.induct)
  case (2 k v k' v' m)
  show ?case
  proof (cases "k = k'")
    case False
    with 2 have "k \<in> fst ` set m" by (auto dest: map_of_SomeD intro: rev_image_eqI)
    with 2 False have "k' < k" by (auto simp: ordered_object_def)
    with 2 False show ?thesis by (auto simp: ordered_object_def)
  qed (use 2 in simp)
qed simp

end
