(* ===== verification/Owl_Rows.thy ===== *)
theory Owl_Rows
  imports Owl_Store
begin

text \<open>
  The rows of \<open>adapters/postgres/entity.rs\<close> that the session authority, the projection
  store and the outbox use, column by column, the database as the record of their tables,
  and the unique constraints of \<open>migrations/20260806002000_invariants.sql\<close>.  Foreign keys
  and \<open>CHECK\<close> constraints are left out: they can only turn a statement that is modelled as
  succeeding into a failing one, which rolls its transaction back.
\<close>

section \<open>Rows\<close>

record project_row =
  p_id :: uuid
  p_public_id :: string
  p_belongs_to :: "string option"
  p_display_name :: string
  p_status :: string
  p_metadata_revision :: i64
  p_security_revision :: i64
  p_deletion_requested_at :: "instant option"
  p_created_at :: instant
  p_updated_at :: instant

record application_row =
  ap_id :: uuid
  ap_project_id :: uuid
  ap_public_id :: string
  ap_display_name :: string
  ap_application_type :: string
  ap_status :: string
  ap_revision :: i64
  ap_metadata_revision :: i64
  ap_security_revision :: i64
  ap_created_at :: instant
  ap_updated_at :: instant

record key_ring_row =
  kr_id :: uuid
  kr_project_id :: uuid
  kr_issuer :: string
  kr_purpose :: string
  kr_algorithm :: string
  kr_revision :: i64
  kr_signing_epoch :: i64

record signing_key_row =
  sk_id :: uuid
  sk_project_id :: uuid
  sk_ring_id :: uuid
  sk_kid :: string
  sk_public_jwk :: json
  sk_signer_material_id :: uuid
  sk_signer_material_generation :: i64
  sk_state :: string
  sk_ring_revision :: i64
  sk_provisioned_at :: "instant option"
  sk_published_at :: "instant option"
  sk_activated_at :: "instant option"
  sk_sign_not_before :: "instant option"
  sk_retiring_at :: "instant option"
  sk_verify_not_after :: "instant option"
  sk_maintenance_claimed_at :: "instant option"
  sk_retired_at :: "instant option"
  sk_revoked_at :: "instant option"
  sk_created_at :: instant
  sk_updated_at :: instant

record project_policy_row =
  pol_project_id :: uuid
  pol_claims_revision :: i64
  pol_session_revision :: i64
  pol_claims_policy :: json
  pol_session_policy :: json

record provider_row =
  pc_id :: uuid
  pc_project_id :: uuid
  pc_provider_key :: string
  pc_kind :: string
  pc_display_name :: string
  pc_issuer :: string
  pc_client_id :: string
  pc_callback_url :: string
  pc_secret_material_id :: uuid
  pc_secret_generation :: i64
  pc_status :: string
  pc_revision :: i64
  pc_managed_profile_enabled :: bool
  pc_managed_profile_revision :: i64
  pc_onboarding_policy_revision :: "i64 option"

record assignment_row =
  pa_project_id :: uuid
  pa_application_id :: uuid
  pa_provider_id :: uuid
  pa_status :: string
  pa_security_revision :: i64

record user_row =
  u_id :: uuid
  u_project_id :: uuid
  u_public_id :: string
  u_status :: string
  u_merged_into_user_id :: "uuid option"
  u_user_revision :: i64
  u_security_revision :: i64
  u_primary_profile_identity_id :: "uuid option"
  u_primary_email_identity_id :: "uuid option"
  u_primary_source_kind :: string
  u_base_profile_digest :: string
  u_local_display_name_set :: bool
  u_local_display_name :: "string option"
  u_local_picture_url_set :: bool
  u_local_picture_url :: "string option"
  u_local_locale_set :: bool
  u_local_locale :: "string option"
  u_display_name :: "string option"
  u_picture_url :: "string option"
  u_locale :: "string option"
  u_created_at :: instant
  u_updated_at :: instant

record login_row =
  lt_id :: uuid
  lt_project_id :: uuid
  lt_application_id :: uuid
  lt_interaction_digest :: string
  lt_interaction_digest_key_version :: i32
  lt_status :: string
  lt_transaction_revision :: i64
  lt_redirect_uri :: string
  lt_application_pkce_challenge :: string
  lt_application_state_ciphertext :: string
  lt_application_state_key_version :: i32
  lt_presentation_hint :: "string option"
  lt_browser_binding_digest :: "string option"
  lt_browser_binding_digest_key_version :: "i32 option"
  lt_csrf_digest :: "string option"
  lt_csrf_digest_key_version :: "i32 option"
  lt_selected_method :: "string option"
  lt_provider_configuration_id :: "uuid option"
  lt_user_id :: "uuid option"
  lt_callback_url :: "string option"
  lt_upstream_state_digest :: "string option"
  lt_upstream_state_digest_key_version :: "i32 option"
  lt_oidc_nonce_digest :: "string option"
  lt_oidc_nonce_digest_key_version :: "i32 option"
  lt_provider_pkce_ciphertext :: "string option"
  lt_provider_pkce_key_version :: "i32 option"
  lt_project_metadata_revision :: i64
  lt_project_security_revision :: i64
  lt_application_security_revision :: i64
  lt_provider_revision :: "i64 option"
  lt_assignment_security_revision :: "i64 option"
  lt_claims_revision :: i64
  lt_session_revision :: i64
  lt_authenticated_at :: "instant option"
  lt_expires_at :: instant
  lt_terminal_at :: "instant option"
  lt_created_at :: instant
  lt_updated_at :: instant

record browser_session_row =
  bs_id :: uuid
  bs_project_id :: uuid
  bs_user_id :: uuid
  bs_credential_digest :: string
  bs_credential_digest_key_version :: i32
  bs_status :: string
  bs_session_revision :: i64
  bs_project_security_revision :: i64
  bs_user_security_revision :: i64
  bs_policy_session_revision :: i64
  bs_authenticated_at :: instant
  bs_last_activity_at :: instant
  bs_idle_expires_at :: instant
  bs_absolute_expires_at :: instant
  bs_terminated_at :: "instant option"
  bs_created_at :: instant
  bs_updated_at :: instant

record handoff_row =
  ht_id :: uuid
  ht_project_id :: uuid
  ht_login_transaction_id :: uuid
  ht_application_id :: uuid
  ht_user_id :: uuid
  ht_browser_session_id :: uuid
  ht_provider_configuration_id :: "uuid option"
  ht_ticket_digest :: string
  ht_ticket_digest_key_version :: i32
  ht_status :: string
  ht_redirect_uri :: string
  ht_application_pkce_challenge :: string
  ht_authentication_method :: string
  ht_authenticated_at :: instant
  ht_project_security_revision :: i64
  ht_application_security_revision :: i64
  ht_user_security_revision :: i64
  ht_provider_revision :: "i64 option"
  ht_assignment_security_revision :: "i64 option"
  ht_claims_revision :: i64
  ht_policy_session_revision :: i64
  ht_issued_at :: instant
  ht_expires_at :: instant
  ht_consumed_at :: "instant option"
  ht_created_at :: instant

record binding_row =
  bi_id :: uuid
  bi_project_id :: uuid
  bi_application_id :: uuid
  bi_user_id :: uuid
  bi_status :: string
  bi_binding_revision :: i64
  bi_merged_into_binding_id :: "uuid option"
  bi_merged_at :: "instant option"
  bi_created_at :: instant
  bi_updated_at :: instant

record projection_row =
  pj_id :: uuid
  pj_project_id :: uuid
  pj_binding_id :: uuid
  pj_application_id :: uuid
  pj_user_id :: uuid
  pj_schema_name :: string
  pj_projection_revision :: i64
  pj_source_user_revision :: i64
  pj_canonical_digest :: string
  pj_source_base_profile_digest :: string
  pj_verified_email_source_identity_id :: "uuid option"
  pj_verified_email_ciphertext :: "string option"
  pj_verified_email_key_version :: "i32 option"
  pj_document :: json
  pj_created_at :: instant
  pj_updated_at :: instant

record session_row =
  ss_id :: uuid
  ss_project_id :: uuid
  ss_application_id :: uuid
  ss_user_id :: uuid
  ss_binding_id :: uuid
  ss_browser_session_id :: "uuid option"
  ss_status :: string
  ss_session_revision :: i64
  ss_project_security_revision :: i64
  ss_application_security_revision :: i64
  ss_user_security_revision :: i64
  ss_claims_revision :: i64
  ss_policy_session_revision :: i64
  ss_authenticated_at :: instant
  ss_absolute_expires_at :: instant
  ss_revoked_at :: "instant option"
  ss_created_at :: instant
  ss_updated_at :: instant

record family_row =
  rf_id :: uuid
  rf_project_id :: uuid
  rf_application_id :: uuid
  rf_user_id :: uuid
  rf_application_session_id :: uuid
  rf_status :: string
  rf_family_revision :: i64
  rf_current_generation :: i64
  rf_allowed_clock_skew_seconds :: i32
  rf_absolute_expires_at :: instant
  rf_revoked_at :: "instant option"
  rf_revocation_reason :: "string option"
  rf_created_at :: instant
  rf_updated_at :: instant

record generation_row =
  rg_id :: uuid
  rg_project_id :: uuid
  rg_family_id :: uuid
  rg_application_id :: uuid
  rg_user_id :: uuid
  rg_generation :: i64
  rg_token_digest :: string
  rg_token_digest_key_version :: i32
  rg_status :: string
  rg_consumed_at :: "instant option"
  rg_replay_detected_at :: "instant option"
  rg_retain_until :: instant
  rg_created_at :: instant

record logout_row =
  li_id :: uuid
  li_project_id :: uuid
  li_application_id :: uuid
  li_user_id :: uuid
  li_application_session_id :: uuid
  li_browser_session_id :: uuid
  li_preparation_digest :: string
  li_preparation_digest_key_version :: i32
  li_status :: string
  li_interaction_revision :: i64
  li_csrf_digest :: "string option"
  li_csrf_digest_key_version :: "i32 option"
  li_application_session_revision :: i64
  li_browser_session_revision :: i64
  li_expires_at :: instant
  li_csrf_bound_at :: "instant option"
  li_consumed_at :: "instant option"
  li_created_at :: instant
  li_updated_at :: instant

record audit_row =
  au_id :: uuid
  au_project_id :: "uuid option"
  au_actor_kind :: string
  au_action :: string
  au_target_kind :: string
  au_target_id :: "uuid option"
  au_outcome :: string
  au_correlation_id :: uuid
  au_safe_context :: json

record event_row =
  ev_id :: uuid
  ev_event_id :: string
  ev_project_id :: uuid
  ev_application_id :: uuid
  ev_binding_id :: uuid
  ev_user_id :: uuid
  ev_event_type :: string
  ev_user_revision :: i64
  ev_projection_revision :: i64
  ev_projection_schema :: string
  ev_safe_body :: json
  ev_canonical_body_digest :: string
  ev_verified_email_source_identity_id :: "uuid option"
  ev_verified_email_ciphertext :: "string option"
  ev_verified_email_key_version :: "i32 option"
  ev_occurred_at :: instant
  ev_replay_until :: instant
  ev_retain_until :: instant
  ev_created_at :: instant

record endpoint_row =
  we_id :: uuid
  we_project_id :: uuid
  we_application_id :: uuid
  we_public_id :: string
  we_idempotency_key :: string
  we_secret_request_fingerprint :: string
  we_url :: string
  we_subscribed_event_types :: "string list"
  we_status :: string
  we_revision :: i64
  we_current_secret_generation :: "i32 option"
  we_overlap_secret_generation :: "i32 option"
  we_overlap_expires_at :: "instant option"
  we_consecutive_failure_count :: i32
  we_last_delivery_at :: "instant option"
  we_last_success_at :: "instant option"
  we_last_failure_class :: "string option"
  we_last_tested_at :: "instant option"
  we_last_test_succeeded_at :: "instant option"
  we_created_at :: instant
  we_updated_at :: instant
  we_disabled_at :: "instant option"

record delivery_row =
  wd_id :: uuid
  wd_project_id :: uuid
  wd_application_id :: uuid
  wd_endpoint_id :: uuid
  wd_event_id :: uuid
  wd_replay_sequence :: i32
  wd_replay_of_delivery_id :: "uuid option"
  wd_state :: string
  wd_attempt_count :: i32
  wd_next_attempt_at :: instant
  wd_lease_owner :: "string option"
  wd_lease_incarnation :: "uuid option"
  wd_lease_generation :: i64
  wd_lease_expires_at :: "instant option"
  wd_claimed_secret_generation :: "i32 option"
  wd_claimed_overlap_generation :: "i32 option"
  wd_claimed_secret_material_id :: "uuid option"
  wd_claimed_overlap_material_id :: "uuid option"
  wd_last_outcome_class :: "string option"
  wd_last_http_status :: "i32 option"
  wd_created_at :: instant
  wd_updated_at :: instant
  wd_delivered_at :: "instant option"
  wd_terminal_at :: "instant option"

text \<open>Verified email addresses of users and the lookup digests they are found by.\<close>

record email_identity_row =
  ei_id :: uuid
  ei_project_id :: uuid
  ei_user_id :: uuid
  ei_status :: string
  ei_address_ciphertext :: string
  ei_address_key_version :: i32
  ei_verified_at :: "instant option"
  ei_identity_revision :: i64
  ei_canonicalization_version :: i32
  ei_created_at :: instant
  ei_updated_at :: instant

record alias_row =
  al_project_id :: uuid
  al_identity_id :: uuid
  al_canonicalization_version :: i32
  al_digest_key_version :: i32
  al_lookup_digest :: string
  al_created_at :: instant

text \<open>
  What a login is created with: the redirect addresses of the application, the methods and the
  email policy frozen into the login, and the rows these are checked against.  Of the tables
  that are only read by statements in SQL, the records hold the selected columns.
\<close>

record redirect_row =
  ru_project_id :: uuid
  ru_application_id :: uuid
  ru_redirect_uri :: string
  ru_redirect_type :: string

record method_row =
  mt_project_id :: uuid
  mt_transaction_id :: uuid
  mt_method_key :: string
  mt_method_kind :: string
  mt_provider_configuration_id :: "uuid option"
  mt_display_name :: string
  mt_provider_revision :: "i64 option"
  mt_assignment_security_revision :: "i64 option"
  mt_provider_kind :: "string option"
  mt_provider_egress_policy_revision :: "i64 option"
  mt_created_at :: instant

record egress_policy_row =
  eg_project_id :: uuid
  eg_mode :: string
  eg_exact_origins :: json
  eg_revision :: i64
  eg_created_at :: instant
  eg_updated_at :: instant

record email_policy_row =
  ep_project_id :: uuid
  ep_status :: string
  ep_policy_revision :: i64
  ep_security_revision :: i64
  ep_signup_enabled :: bool

record email_assignment_row =
  ea_project_id :: uuid
  ea_application_id :: uuid
  ea_status :: string
  ea_security_revision :: i64

record project_smtp_row =
  sm_id :: uuid
  sm_project_id :: uuid
  sm_status :: string
  sm_generation :: i32
  sm_security_eligibility_revision :: i64
  sm_host :: string
  sm_port :: i32
  sm_tls_mode :: string
  sm_sender_address :: string
  sm_sender_name :: "string option"
  sm_reply_to :: "string option"
  sm_safe_fingerprint :: "string option"
  sm_retained_until :: "instant option"
  sm_credential_material_id :: uuid

text \<open>An element of the list of addresses that is not a JSON string is \<open>None\<close>.\<close>

record deployment_smtp_row =
  ds_generation :: i32
  ds_status :: string
  ds_security_eligibility_revision :: i64
  ds_host :: string
  ds_port :: i32
  ds_tls_mode :: string
  ds_sender_address :: string
  ds_safe_fingerprint :: "string option"
  ds_explicitly_allowed_private_ips :: "string option list"
  ds_retained_until :: "instant option"
  ds_credential_material_id :: uuid

record email_snapshot_row =
  es_project_id :: uuid
  es_transaction_id :: uuid
  es_application_id :: uuid
  es_method_policy_revision :: i64
  es_method_security_revision :: i64
  es_assignment_security_revision :: i64
  es_otp_enabled :: bool
  es_magic_link_enabled :: bool
  es_otp_digits :: int
  es_otp_validity_seconds :: i32
  es_otp_max_attempts :: int
  es_resend_after_seconds :: i32
  es_max_generations :: int
  es_magic_validity_seconds :: i32
  es_signup_enabled :: bool
  es_transferred_magic_link_enabled :: bool
  es_smtp_selection_kind :: string
  es_smtp_configuration_id :: "uuid option"
  es_smtp_generation :: i32
  es_smtp_security_eligibility_revision :: i64
  es_created_at :: instant

record callback_owner_row =
  co_state_id :: uuid
  co_project_id :: uuid
  co_provider_configuration_id :: uuid
  co_owner_kind :: string
  co_login_transaction_id :: "uuid option"

text \<open>Identities linked to users, and the renewable provider credentials kept for them.\<close>

record identity_row =
  id_id :: uuid
  id_project_id :: uuid
  id_user_id :: uuid
  id_created_via_provider_configuration_id :: uuid
  id_issuer :: string
  id_subject :: string
  id_status :: string
  id_identity_revision :: i64
  id_source_kind :: string
  id_source_schema :: string
  id_source_profile_digest :: string
  id_display_name :: "string option"
  id_picture_url :: "string option"
  id_locale :: "string option"
  id_observed_at :: instant
  id_created_at :: instant
  id_updated_at :: instant

record connection_row =
  cn_id :: uuid
  cn_project_id :: uuid
  cn_provider_configuration_id :: uuid
  cn_linked_identity_id :: uuid
  cn_user_id :: uuid
  cn_state :: string
  cn_revision :: i64
  cn_generation :: i64
  cn_credential_generation :: i64
  cn_project_security_revision :: i64
  cn_provider_revision :: i64
  cn_user_security_revision :: i64
  cn_identity_revision :: i64
  cn_managed_profile_revision :: i64
  cn_adapter_key :: string
  cn_adapter_capability_revision :: i64
  cn_required_scopes :: "string list"
  cn_supports_revocation :: bool
  cn_last_safe_outcome :: string
  cn_last_synchronized_at :: "instant option"
  cn_next_synchronize_at :: "instant option"
  cn_next_renewal_at :: "instant option"
  cn_revocation_requested_at :: "instant option"
  cn_revocation_disposition :: "string option"
  cn_revocation_dispatch_started_at :: "instant option"
  cn_revocation_attempt_id :: "uuid option"
  cn_consecutive_failures :: i32
  cn_lease_owner :: "uuid option"
  cn_lease_kind :: "string option"
  cn_lease_expires_at :: "instant option"
  cn_created_at :: instant
  cn_updated_at :: instant
  cn_disconnected_at :: "instant option"

record credential_row =
  ce_project_id :: uuid
  ce_connection_id :: uuid
  ce_connection_generation :: i64
  ce_credential_generation :: i64
  ce_key_version :: i32
  ce_ciphertext :: "string option"
  ce_created_at :: instant
  ce_superseded_at :: "instant option"
  ce_destroyed_at :: "instant option"

record renewal_row =
  rn_id :: uuid
  rn_project_id :: uuid
  rn_connection_id :: uuid
  rn_expected_connection_generation :: i64
  rn_expected_credential_generation :: i64
  rn_state :: string
  rn_lease_owner :: "uuid option"
  rn_lease_expires_at :: "instant option"
  rn_safe_outcome :: string
  rn_terminal_at :: "instant option"
  rn_updated_at :: instant

text \<open>
  Email challenges, the mails that carry them, and the browsers a magic link was opened in.
\<close>

record challenge_row =
  eh_id :: uuid
  eh_project_id :: uuid
  eh_application_id :: uuid
  eh_transaction_id :: "uuid option"
  eh_generation :: int
  eh_status :: string
  eh_canonicalization_version :: i32
  eh_lookup_digest :: string
  eh_lookup_digest_key_version :: i32
  eh_address_ciphertext :: "string option"
  eh_address_key_version :: "i32 option"
  eh_otp_digest :: "string option"
  eh_otp_digest_key_version :: "i32 option"
  eh_otp_attempts :: int
  eh_otp_max_attempts :: int
  eh_magic_digest :: "string option"
  eh_magic_digest_key_version :: "i32 option"
  eh_method_policy_revision :: i64
  eh_method_security_revision :: i64
  eh_assignment_security_revision :: i64
  eh_smtp_selection_kind :: string
  eh_smtp_configuration_id :: "uuid option"
  eh_smtp_generation :: i32
  eh_smtp_security_eligibility_revision :: i64
  eh_browser_binding_required :: bool
  eh_issued_at :: instant
  eh_otp_expires_at :: "instant option"
  eh_magic_expires_at :: "instant option"
  eh_expires_at :: instant
  eh_consumed_at :: "instant option"
  eh_terminal_at :: "instant option"
  eh_redacted_at :: "instant option"
  eh_created_at :: instant
  eh_updated_at :: instant
  eh_owner_kind :: string

record outbox_row =
  ob_id :: uuid
  ob_project_id :: uuid
  ob_transaction_id :: "uuid option"
  ob_challenge_id :: uuid
  ob_challenge_generation :: int
  ob_status :: string
  ob_smtp_selection_kind :: string
  ob_smtp_configuration_id :: "uuid option"
  ob_smtp_generation :: i32
  ob_smtp_security_eligibility_revision :: i64
  ob_message_id :: string
  ob_envelope_ciphertext :: "string option"
  ob_envelope_key_version :: "i32 option"
  ob_body_ciphertext :: "string option"
  ob_body_key_version :: "i32 option"
  ob_attempts :: int
  ob_max_attempts :: int
  ob_next_attempt_at :: instant
  ob_lease_owner :: "string option"
  ob_lease_expires_at :: "instant option"
  ob_safe_outcome :: "string option"
  ob_useful_until :: instant
  ob_delivered_at :: "instant option"
  ob_terminal_at :: "instant option"
  ob_redacted_at :: "instant option"
  ob_created_at :: instant
  ob_updated_at :: instant

record transfer_row =
  tr_id :: uuid
  tr_challenge_id :: uuid
  tr_context_digest :: string
  tr_context_digest_key_version :: i32
  tr_csrf_digest :: string
  tr_csrf_digest_key_version :: i32
  tr_browser_binding_required :: bool
  tr_status :: string
  tr_expires_at :: instant
  tr_consumed_at :: "instant option"
  tr_created_at :: instant

text \<open>Records that only the retention job touches, with the columns its statements read.\<close>

record attempt_row =
  at_delivery_id :: uuid
  at_attempt_number :: i32

record smtp_test_row =
  st_id :: uuid
  st_state :: string
  st_recipient_erased_at :: "instant option"
  st_completed_at :: "instant option"
  st_recipient_material_id :: uuid

record material_row =
  ma_id :: uuid
  ma_owner_kind :: string
  ma_state :: string

section \<open>The database\<close>

record auth_db =
  projects :: "project_row list"
  applications :: "application_row list"
  policies :: "project_policy_row list"
  providers :: "provider_row list"
  assignments :: "assignment_row list"
  key_rings :: "key_ring_row list"
  signing_keys :: "signing_key_row list"
  users :: "user_row list"
  email_identities :: "email_identity_row list"
  logins :: "login_row list"
  browser_sessions :: "browser_session_row list"
  tickets :: "handoff_row list"
  bindings :: "binding_row list"
  projections :: "projection_row list"
  app_sessions :: "session_row list"
  families :: "family_row list"
  generations :: "generation_row list"
  logouts :: "logout_row list"
  audits :: "audit_row list"
  user_events :: "event_row list"
  endpoints :: "endpoint_row list"
  dispatch_states :: "(uuid \<times> uuid) list"
  deliveries :: "delivery_row list"
  redirects :: "redirect_row list"
  methods :: "method_row list"
  egress_policies :: "egress_policy_row list"
  email_policies :: "email_policy_row list"
  email_assignments :: "email_assignment_row list"
  project_smtp :: "project_smtp_row list"
  deployment_smtp :: "deployment_smtp_row list"
  email_snapshots :: "email_snapshot_row list"
  callback_owners :: "callback_owner_row list"
  identities :: "identity_row list"
  connections :: "connection_row list"
  credentials :: "credential_row list"
  renewals :: "renewal_row list"
  challenges :: "challenge_row list"
  outbox :: "outbox_row list"
  transfers :: "transfer_row list"
  aliases :: "alias_row list"
  attempts :: "attempt_row list"
  smtp_tests :: "smtp_test_row list"
  materials :: "material_row list"

section \<open>Tables and their constraints\<close>

definition login_table :: "(auth_db, login_row) table" where
  "login_table = \<lparr>tb_rows = logins, tb_put = \<lambda>rows. logins_update (\<lambda>_. rows), tb_key = lt_id,
     tb_ok = \<lambda>rows.
       distinct (map lt_id rows)
       \<and> distinct (map (\<lambda>r. (lt_interaction_digest_key_version r, lt_interaction_digest r)) rows)
       \<and> distinct (map (\<lambda>r. (lt_upstream_state_digest_key_version r, lt_upstream_state_digest r))
            (filter (\<lambda>r. lt_upstream_state_digest r \<noteq> None) rows))\<rparr>"

definition browser_session_table :: "(auth_db, browser_session_row) table" where
  "browser_session_table = \<lparr>tb_rows = browser_sessions,
     tb_put = \<lambda>rows. browser_sessions_update (\<lambda>_. rows), tb_key = bs_id,
     tb_ok = \<lambda>rows.
       distinct (map bs_id rows)
       \<and> distinct (map (\<lambda>r. (bs_credential_digest_key_version r, bs_credential_digest r)) rows)\<rparr>"

definition handoff_table :: "(auth_db, handoff_row) table" where
  "handoff_table = \<lparr>tb_rows = tickets, tb_put = \<lambda>rows. tickets_update (\<lambda>_. rows), tb_key = ht_id,
     tb_ok = \<lambda>rows.
       distinct (map ht_id rows)
       \<and> distinct (map (\<lambda>r. (ht_project_id r, ht_login_transaction_id r)) rows)
       \<and> distinct (map (\<lambda>r. (ht_ticket_digest_key_version r, ht_ticket_digest r)) rows)\<rparr>"

definition binding_table :: "(auth_db, binding_row) table" where
  "binding_table = \<lparr>tb_rows = bindings, tb_put = \<lambda>rows. bindings_update (\<lambda>_. rows), tb_key = bi_id,
     tb_ok = \<lambda>rows.
       distinct (map bi_id rows)
       \<and> distinct (map (\<lambda>r. (bi_project_id r, bi_application_id r, bi_user_id r)) rows)\<rparr>"

definition projection_table :: "(auth_db, projection_row) table" where
  "projection_table = \<lparr>tb_rows = projections, tb_put = \<lambda>rows. projections_update (\<lambda>_. rows),
     tb_key = pj_id,
     tb_ok = \<lambda>rows.
       distinct (map pj_id rows) \<and> distinct (map (\<lambda>r. (pj_project_id r, pj_binding_id r)) rows)\<rparr>"

definition session_table :: "(auth_db, session_row) table" where
  "session_table = \<lparr>tb_rows = app_sessions, tb_put = \<lambda>rows. app_sessions_update (\<lambda>_. rows),
     tb_key = ss_id, tb_ok = \<lambda>rows. distinct (map ss_id rows)\<rparr>"

definition family_table :: "(auth_db, family_row) table" where
  "family_table = \<lparr>tb_rows = families, tb_put = \<lambda>rows. families_update (\<lambda>_. rows), tb_key = rf_id,
     tb_ok = \<lambda>rows.
       distinct (map rf_id rows)
       \<and> distinct (map (\<lambda>r. (rf_project_id r, rf_application_session_id r)) rows)\<rparr>"

definition generation_table :: "(auth_db, generation_row) table" where
  "generation_table = \<lparr>tb_rows = generations, tb_put = \<lambda>rows. generations_update (\<lambda>_. rows),
     tb_key = rg_id,
     tb_ok = \<lambda>rows.
       distinct (map rg_id rows)
       \<and> distinct (map (\<lambda>r. (rg_project_id r, rg_family_id r, rg_generation r)) rows)
       \<and> distinct (map (\<lambda>r. (rg_token_digest_key_version r, rg_token_digest r)) rows)
       \<and> distinct (map (\<lambda>r. (rg_project_id r, rg_family_id r))
            (filter (\<lambda>r. rg_status r = ''current'') rows))\<rparr>"

definition logout_table :: "(auth_db, logout_row) table" where
  "logout_table = \<lparr>tb_rows = logouts, tb_put = \<lambda>rows. logouts_update (\<lambda>_. rows), tb_key = li_id,
     tb_ok = \<lambda>rows.
       distinct (map li_id rows)
       \<and> distinct (map (\<lambda>r. (li_preparation_digest_key_version r, li_preparation_digest r)) rows)\<rparr>"

definition audit_table :: "(auth_db, audit_row) table" where
  "audit_table = \<lparr>tb_rows = audits, tb_put = \<lambda>rows. audits_update (\<lambda>_. rows), tb_key = au_id,
     tb_ok = \<lambda>rows. distinct (map au_id rows)\<rparr>"

definition event_table :: "(auth_db, event_row) table" where
  "event_table = \<lparr>tb_rows = user_events, tb_put = \<lambda>rows. user_events_update (\<lambda>_. rows), tb_key = ev_id,
     tb_ok = \<lambda>rows.
       distinct (map ev_id rows) \<and> distinct (map ev_event_id rows)
       \<and> distinct (map (\<lambda>r. (ev_binding_id r, ev_projection_revision r)) rows)\<rparr>"

definition delivery_table :: "(auth_db, delivery_row) table" where
  "delivery_table = \<lparr>tb_rows = deliveries, tb_put = \<lambda>rows. deliveries_update (\<lambda>_. rows),
     tb_key = wd_id,
     tb_ok = \<lambda>rows.
       distinct (map wd_id rows)
       \<and> distinct (map (\<lambda>r. (wd_event_id r, wd_endpoint_id r, wd_replay_sequence r)) rows)\<rparr>"

definition callback_owner_table :: "(auth_db, callback_owner_row) table" where
  "callback_owner_table = \<lparr>tb_rows = callback_owners,
     tb_put = \<lambda>rows. callback_owners_update (\<lambda>_. rows), tb_key = co_state_id,
     tb_ok = \<lambda>rows. distinct (map co_state_id rows)\<rparr>"

definition user_table :: "(auth_db, user_row) table" where
  "user_table = \<lparr>tb_rows = users, tb_put = \<lambda>rows. users_update (\<lambda>_. rows), tb_key = u_id,
     tb_ok = \<lambda>rows.
       distinct (map u_id rows) \<and> distinct (map (\<lambda>r. (u_project_id r, u_public_id r)) rows)\<rparr>"

definition identity_table :: "(auth_db, identity_row) table" where
  "identity_table = \<lparr>tb_rows = identities, tb_put = \<lambda>rows. identities_update (\<lambda>_. rows),
     tb_key = id_id,
     tb_ok = \<lambda>rows.
       distinct (map id_id rows)
       \<and> distinct (map (\<lambda>r. (id_project_id r, id_issuer r, id_subject r)) rows)\<rparr>"

definition connection_table :: "(auth_db, connection_row) table" where
  "connection_table = \<lparr>tb_rows = connections, tb_put = \<lambda>rows. connections_update (\<lambda>_. rows),
     tb_key = cn_id,
     tb_ok = \<lambda>rows.
       distinct (map cn_id rows)
       \<and> distinct (map (\<lambda>r. (cn_project_id r, cn_linked_identity_id r)) rows)\<rparr>"

definition renewal_table :: "(auth_db, renewal_row) table" where
  "renewal_table = \<lparr>tb_rows = renewals, tb_put = \<lambda>rows. renewals_update (\<lambda>_. rows),
     tb_key = rn_id, tb_ok = \<lambda>rows. distinct (map rn_id rows)\<rparr>"

definition challenge_table :: "(auth_db, challenge_row) table" where
  "challenge_table = \<lparr>tb_rows = challenges, tb_put = \<lambda>rows. challenges_update (\<lambda>_. rows),
     tb_key = eh_id,
     tb_ok = \<lambda>rows.
       distinct (map eh_id rows)
       \<and> distinct (map (\<lambda>r. (eh_project_id r, eh_transaction_id r, eh_generation r))
            (filter (\<lambda>r. eh_transaction_id r \<noteq> None) rows))
       \<and> distinct (map (\<lambda>r. (eh_project_id r, eh_transaction_id r))
            (filter (\<lambda>r. eh_owner_kind r = ''login'' \<and> eh_status r = ''pending''
                         \<and> eh_transaction_id r \<noteq> None) rows))\<rparr>"

definition outbox_table :: "(auth_db, outbox_row) table" where
  "outbox_table = \<lparr>tb_rows = outbox, tb_put = \<lambda>rows. outbox_update (\<lambda>_. rows), tb_key = ob_id,
     tb_ok = \<lambda>rows.
       distinct (map ob_id rows) \<and> distinct (map ob_message_id rows)
       \<and> distinct (map (\<lambda>r. (ob_project_id r, ob_challenge_id r)) rows)\<rparr>"

definition transfer_table :: "(auth_db, transfer_row) table" where
  "transfer_table = \<lparr>tb_rows = transfers, tb_put = \<lambda>rows. transfers_update (\<lambda>_. rows), tb_key = tr_id,
     tb_ok = \<lambda>rows.
       distinct (map tr_id rows)
       \<and> distinct (map (\<lambda>r. (tr_context_digest_key_version r, tr_context_digest r)) rows)\<rparr>"

definition email_identity_table :: "(auth_db, email_identity_row) table" where
  "email_identity_table = \<lparr>tb_rows = email_identities, tb_put = \<lambda>rows. email_identities_update (\<lambda>_. rows),
     tb_key = ei_id, tb_ok = \<lambda>rows. distinct (map ei_id rows)\<rparr>"

text \<open>
  Four tables have a composite primary key.  Their rows are inserted and overwritten by
  condition, never updated by key, so \<open>tb_key\<close> is only the part that names the owner.
\<close>

definition method_table :: "(auth_db, method_row) table" where
  "method_table = \<lparr>tb_rows = methods, tb_put = \<lambda>rows. methods_update (\<lambda>_. rows),
     tb_key = mt_transaction_id,
     tb_ok = \<lambda>rows.
       distinct (map (\<lambda>r. (mt_project_id r, mt_transaction_id r, mt_method_key r)) rows)\<rparr>"

definition alias_table :: "(auth_db, alias_row) table" where
  "alias_table = \<lparr>tb_rows = aliases, tb_put = \<lambda>rows. aliases_update (\<lambda>_. rows),
     tb_key = al_identity_id,
     tb_ok = \<lambda>rows.
       distinct (map (\<lambda>r. (al_project_id r, al_identity_id r, al_canonicalization_version r,
         al_digest_key_version r)) rows)
       \<and> distinct (map (\<lambda>r. (al_project_id r, al_canonicalization_version r, al_digest_key_version r,
         al_lookup_digest r)) rows)\<rparr>"

definition email_snapshot_table :: "(auth_db, email_snapshot_row) table" where
  "email_snapshot_table = \<lparr>tb_rows = email_snapshots,
     tb_put = \<lambda>rows. email_snapshots_update (\<lambda>_. rows), tb_key = es_transaction_id,
     tb_ok = \<lambda>rows. distinct (map (\<lambda>r. (es_project_id r, es_transaction_id r)) rows)\<rparr>"

definition credential_table :: "(auth_db, credential_row) table" where
  "credential_table = \<lparr>tb_rows = credentials, tb_put = \<lambda>rows. credentials_update (\<lambda>_. rows),
     tb_key = ce_connection_id,
     tb_ok = \<lambda>rows.
       distinct (map (\<lambda>r. (ce_project_id r, ce_connection_id r, ce_credential_generation r)) rows)
       \<and> distinct (map (\<lambda>r. (ce_project_id r, ce_connection_id r))
            (filter (\<lambda>r. ce_ciphertext r \<noteq> None) rows))\<rparr>"

lemmas table_defs =
  challenge_table_def outbox_table_def transfer_table_def email_identity_table_def alias_table_def
  renewal_table_def callback_owner_table_def user_table_def identity_table_def connection_table_def
  method_table_def email_snapshot_table_def credential_table_def
  login_table_def browser_session_table_def handoff_table_def binding_table_def
  projection_table_def session_table_def family_table_def generation_table_def
  logout_table_def audit_table_def event_table_def delivery_table_def

text \<open>Where the tables are, without their constraints.\<close>

lemma table_sel:
  "tb_rows challenge_table = challenges" "tb_put challenge_table rows_challenges = challenges_update (\<lambda>_. rows_challenges)" "tb_key challenge_table = eh_id"
  "tb_rows outbox_table = outbox" "tb_put outbox_table rows_outbox = outbox_update (\<lambda>_. rows_outbox)" "tb_key outbox_table = ob_id"
  "tb_rows transfer_table = transfers" "tb_put transfer_table rows_transfers = transfers_update (\<lambda>_. rows_transfers)" "tb_key transfer_table = tr_id"
  "tb_rows email_identity_table = email_identities" "tb_put email_identity_table rows_email_identities = email_identities_update (\<lambda>_. rows_email_identities)" "tb_key email_identity_table = ei_id"
  "tb_rows alias_table = aliases" "tb_put alias_table rows_aliases = aliases_update (\<lambda>_. rows_aliases)" "tb_key alias_table = al_identity_id"
  "tb_rows renewal_table = renewals" "tb_put renewal_table rows_renewals = renewals_update (\<lambda>_. rows_renewals)" "tb_key renewal_table = rn_id"
  "tb_rows callback_owner_table = callback_owners" "tb_put callback_owner_table rows_callback_owners = callback_owners_update (\<lambda>_. rows_callback_owners)" "tb_key callback_owner_table = co_state_id"
  "tb_rows user_table = users" "tb_put user_table rows_users = users_update (\<lambda>_. rows_users)" "tb_key user_table = u_id"
  "tb_rows identity_table = identities" "tb_put identity_table rows_identities = identities_update (\<lambda>_. rows_identities)" "tb_key identity_table = id_id"
  "tb_rows connection_table = connections" "tb_put connection_table rows_connections = connections_update (\<lambda>_. rows_connections)" "tb_key connection_table = cn_id"
  "tb_rows method_table = methods" "tb_put method_table rows_methods = methods_update (\<lambda>_. rows_methods)" "tb_key method_table = mt_transaction_id"
  "tb_rows email_snapshot_table = email_snapshots" "tb_put email_snapshot_table rows_email_snapshots = email_snapshots_update (\<lambda>_. rows_email_snapshots)" "tb_key email_snapshot_table = es_transaction_id"
  "tb_rows credential_table = credentials" "tb_put credential_table rows_credentials = credentials_update (\<lambda>_. rows_credentials)" "tb_key credential_table = ce_connection_id"
  "tb_rows login_table = logins" "tb_put login_table rows_logins = logins_update (\<lambda>_. rows_logins)" "tb_key login_table = lt_id"
  "tb_rows browser_session_table = browser_sessions" "tb_put browser_session_table rows_browser_sessions = browser_sessions_update (\<lambda>_. rows_browser_sessions)" "tb_key browser_session_table = bs_id"
  "tb_rows handoff_table = tickets" "tb_put handoff_table rows_tickets = tickets_update (\<lambda>_. rows_tickets)" "tb_key handoff_table = ht_id"
  "tb_rows binding_table = bindings" "tb_put binding_table rows_bindings = bindings_update (\<lambda>_. rows_bindings)" "tb_key binding_table = bi_id"
  "tb_rows projection_table = projections" "tb_put projection_table rows_projections = projections_update (\<lambda>_. rows_projections)" "tb_key projection_table = pj_id"
  "tb_rows session_table = app_sessions" "tb_put session_table rows_app_sessions = app_sessions_update (\<lambda>_. rows_app_sessions)" "tb_key session_table = ss_id"
  "tb_rows family_table = families" "tb_put family_table rows_families = families_update (\<lambda>_. rows_families)" "tb_key family_table = rf_id"
  "tb_rows generation_table = generations" "tb_put generation_table rows_generations = generations_update (\<lambda>_. rows_generations)" "tb_key generation_table = rg_id"
  "tb_rows logout_table = logouts" "tb_put logout_table rows_logouts = logouts_update (\<lambda>_. rows_logouts)" "tb_key logout_table = li_id"
  "tb_rows audit_table = audits" "tb_put audit_table rows_audits = audits_update (\<lambda>_. rows_audits)" "tb_key audit_table = au_id"
  "tb_rows event_table = user_events" "tb_put event_table rows_user_events = user_events_update (\<lambda>_. rows_user_events)" "tb_key event_table = ev_id"
  "tb_rows delivery_table = deliveries" "tb_put delivery_table rows_deliveries = deliveries_update (\<lambda>_. rows_deliveries)" "tb_key delivery_table = wd_id"
  by (simp_all add: table_defs)

text \<open>Every table of the database meets the table contract.\<close>

interpretation login_tb: db_table login_table
  by unfold_locales (auto simp: login_table_def)

interpretation browser_tb: db_table browser_session_table
  by unfold_locales (auto simp: browser_session_table_def)

interpretation handoff_tb: db_table handoff_table
  by unfold_locales (auto simp: handoff_table_def)

interpretation binding_tb: db_table binding_table
  by unfold_locales (auto simp: binding_table_def)

interpretation projection_tb: db_table projection_table
  by unfold_locales (auto simp: projection_table_def)

interpretation session_tb: db_table session_table
  by unfold_locales (auto simp: session_table_def)

interpretation family_tb: db_table family_table
  by unfold_locales (auto simp: family_table_def)

interpretation generation_tb: db_table generation_table
  by unfold_locales (auto simp: generation_table_def)

interpretation logout_tb: db_table logout_table
  by unfold_locales (auto simp: logout_table_def)

interpretation audit_tb: db_table audit_table
  by unfold_locales (auto simp: audit_table_def)

interpretation event_tb: db_table event_table
  by unfold_locales (auto simp: event_table_def)

interpretation delivery_tb: db_table delivery_table
  by unfold_locales (auto simp: delivery_table_def)

interpretation challenge_tb: db_table challenge_table
  by unfold_locales (auto simp: challenge_table_def)

interpretation outbox_tb: db_table outbox_table
  by unfold_locales (auto simp: outbox_table_def)

interpretation transfer_tb: db_table transfer_table
  by unfold_locales (auto simp: transfer_table_def)

interpretation email_identity_tb: db_table email_identity_table
  by unfold_locales (auto simp: email_identity_table_def)

interpretation renewal_tb: db_table renewal_table
  by unfold_locales (auto simp: renewal_table_def)

interpretation owner_tb: db_table callback_owner_table
  by unfold_locales (auto simp: callback_owner_table_def)

interpretation user_tb: db_table user_table
  by unfold_locales (auto simp: user_table_def)

interpretation identity_tb: db_table identity_table
  by unfold_locales (auto simp: identity_table_def)

interpretation connection_tb: db_table connection_table
  by unfold_locales (auto simp: connection_table_def)

end
