(* ===== verification/Owl_Projection.thy ===== *)
theory Owl_Projection
  imports Owl_Rows Owl_Values Owl_Urls
begin

text \<open>
  User projections: what an application sees of a user.  The materialisation of
  \<open>domain/projection.rs\<close>, the projection store of \<open>adapters/postgres/projection.rs\<close> (the
  wire document, the stored document without the verified email, the protected email, the
  repair of a stale row) and the outbox entry of \<open>adapters/postgres/webhook.rs\<close>.

  The \<open>ProjectionCryptography\<close> object the code is given, the URL parser, the SHA-256 digest
  of a serialised document, the RFC 3339 formatter, the identifiers drawn at random and the
  clock of the database are the fields of a record \<open>runtime_env\<close>.
\<close>

section \<open>The environment\<close>

record protected_value =
  pv_ciphertext :: string
  pv_key_version :: i32

record runtime_env =
  env_write_version :: i32
  env_readable_versions :: "i32 list"
  env_read_email :: "uuid \<Rightarrow> uuid \<Rightarrow> protected_value \<Rightarrow> (application_error, string) res"
  env_protect :: "uuid \<Rightarrow> uuid \<Rightarrow> uuid \<Rightarrow> i64 \<Rightarrow> string \<Rightarrow> (application_error, protected_value) res"
  env_unprotect :: "uuid \<Rightarrow> uuid \<Rightarrow> uuid \<Rightarrow> i64 \<Rightarrow> protected_value \<Rightarrow> (application_error, string) res"
  env_urls :: url_lib
  env_digest :: "json \<Rightarrow> string"
  env_rfc3339 :: "instant \<Rightarrow> string option"
  env_tadd :: "instant \<Rightarrow> duration \<Rightarrow> instant option"
  env_audit_id :: "uuid \<Rightarrow> uuid"
  env_event_uuid :: uuid
  env_simple :: "uuid \<Rightarrow> string"
  env_delivery_id :: "uuid \<Rightarrow> uuid"
  env_event_window :: "instant \<times> instant \<times> instant"

section \<open>Profile pictures\<close>

definition picture_url_parse :: "url_lib \<Rightarrow> string \<Rightarrow> (domain_error, string) res" where
  "picture_url_parse ul value =
     (if \<not> (8 \<le> length value \<and> length value \<le> 2048)
        \<or> CHR 0x5C \<in> set value
        \<or> list_ex is_ascii_whitespace value
      then Inl (Err InvalidUrl)
      else and_then (ok_or (ul_parse ul value) InvalidUrl) (\<lambda>url.
        if url_scheme url \<noteq> ''https''
          \<or> url_host_str url = None
          \<or> url_username url \<noteq> []
          \<or> url_password url \<noteq> None
          \<or> url_fragment url \<noteq> None
          \<or> (case url_host_str url of None \<Rightarrow> False | Some host \<Rightarrow> CHR ''*'' \<in> set host)
        then Inl (Err InvalidUrl)
        else Inr value))"

section \<open>Materialisation\<close>

definition USER_PROJECTION_SCHEMA_V1 :: string where
  "USER_PROJECTION_SCHEMA_V1 = ''owlauth.user.v1''"

definition MAX_APPLICATION_BINDINGS_PER_USER :: nat where
  "MAX_APPLICATION_BINDINGS_PER_USER = 64"

record user_projection_source =
  us_user_id :: string
  us_status :: project_user_status
  us_display_name :: "string option"
  us_picture_url :: "string option"
  us_locale :: "string option"
  us_verified_email :: "string option"
  us_created_at :: instant
  us_updated_at :: instant
  us_user_revision :: i64

record user_projection =
  up_schema :: string
  up_user_id :: string
  up_status :: project_user_status
  up_display_name :: "string option"
  up_picture_url :: "string option"
  up_locale :: "string option"
  up_verified_email :: "string option"
  up_created_at :: instant
  up_updated_at :: instant
  up_user_revision :: i64
  up_projection_revision :: i64

definition projection_email_ok :: "string \<Rightarrow> bool" where
  "projection_email_ok value \<longleftrightarrow> 3 \<le> length value \<and> length value \<le> 320 \<and> \<not> any_control value"

definition user_projection_materialize ::
    "user_projection_source \<Rightarrow> i64 \<Rightarrow> (domain_error, user_projection) res" where
  "user_projection_materialize source rv =
     (if us_updated_at source < us_created_at source then Inl (Err InvalidTransition)
      else if (case us_verified_email source of None \<Rightarrow> False | Some v \<Rightarrow> \<not> projection_email_ok v)
      then Inl (Err InvalidCharacters)
      else Inr
        \<lparr>up_schema = USER_PROJECTION_SCHEMA_V1,
         up_user_id = us_user_id source,
         up_status = us_status source,
         up_display_name = us_display_name source,
         up_picture_url = us_picture_url source,
         up_locale = us_locale source,
         up_verified_email = us_verified_email source,
         up_created_at = us_created_at source,
         up_updated_at = us_updated_at source,
         up_user_revision = us_user_revision source,
         up_projection_revision = rv\<rparr>)"

section \<open>Documents\<close>

text \<open>\<open>option.map(parse).transpose().map_err(|_| Integrity)\<close>\<close>

definition parse_optional ::
    "(string \<Rightarrow> (domain_error, string) res) \<Rightarrow> string option \<Rightarrow> (application_error, string option) res" where
  "parse_optional parse x =
     (case x of None \<Rightarrow> Inr None
      | Some v \<Rightarrow> map_err (\<lambda>_. EIntegrity) (and_then (parse v) (\<lambda>w. Inr (Some w))))"

definition user_status_parse :: "string \<Rightarrow> (application_error, project_user_status) res" where
  "user_status_parse s =
     (if s = ''active'' then Inr UserActive
      else if s = ''disabled'' then Inr UserDisabled
      else Inl (Err EIntegrity))"

definition projection_document :: "user_projection \<Rightarrow> string \<Rightarrow> string \<Rightarrow> json" where
  "projection_document projection created updated = json_object
     [(''display_name'', json_opt (up_display_name projection)),
      (''picture_url'', json_opt (up_picture_url projection)),
      (''locale'', json_opt (up_locale projection)),
      (''verified_email'', json_opt (up_verified_email projection)),
      (''projection_revision'', JInt (up_projection_revision projection)),
      (''projection_schema'', JString (up_schema projection)),
      (''status'', JString (project_user_status_as_str (up_status projection))),
      (''user_id'', JString (up_user_id projection)),
      (''user_revision'', JInt (up_user_revision projection)),
      (''created_at'', JString created),
      (''updated_at'', JString updated)]"

definition projection_source ::
    "runtime_env \<Rightarrow> user_row \<Rightarrow> string option \<Rightarrow> (application_error, user_projection_source) res" where
  "projection_source env user verified_email =
     and_then (map_err (\<lambda>_. EIntegrity) (public_id_parse (u_public_id user))) (\<lambda>user_id.
     and_then (user_status_parse (u_status user)) (\<lambda>status.
     and_then (parse_optional profile_display_name_parse (u_display_name user)) (\<lambda>display_name.
     and_then (parse_optional (picture_url_parse (env_urls env)) (u_picture_url user)) (\<lambda>picture_url.
     and_then (parse_optional profile_locale_parse (u_locale user)) (\<lambda>loc.
     and_then (map_err (\<lambda>_. EIntegrity) (user_revision_parse (u_user_revision user))) (\<lambda>user_revision.
     Inr
       \<lparr>us_user_id = user_id, us_status = status, us_display_name = display_name,
        us_picture_url = picture_url, us_locale = loc, us_verified_email = verified_email,
        us_created_at = u_created_at user, us_updated_at = u_updated_at user,
        us_user_revision = user_revision\<rparr>))))))"

definition projection_material_with_verified_email ::
    "runtime_env \<Rightarrow> user_row \<Rightarrow> i64 \<Rightarrow> string option \<Rightarrow> (application_error, json \<times> string) res" where
  "projection_material_with_verified_email env user rv verified_email =
     (if rv \<le> 0 then Inl (Err EIntegrity) else
      and_then (projection_source env user verified_email) (\<lambda>source.
      and_then (map_err (\<lambda>_. EIntegrity)
        (and_then (projection_revision_parse rv) (user_projection_materialize source))) (\<lambda>projection.
      and_then (ok_or (env_rfc3339 env (up_created_at projection)) EIntegrity) (\<lambda>created.
      and_then (ok_or (env_rfc3339 env (up_updated_at projection)) EIntegrity) (\<lambda>updated.
      let document = projection_document projection created updated
      in Inr (document, env_digest env document))))))"

text \<open>Only this form of the document is ever stored.\<close>

definition safe_projection_document :: "json \<Rightarrow> (application_error, json) res" where
  "safe_projection_document wire = ok_or (json_insert wire ''verified_email'' JNull) EIntegrity"

section \<open>The protected email\<close>

definition validate_local_projection_ring :: "i32 \<Rightarrow> i32 list \<Rightarrow> (application_error, i32) res" where
  "validate_local_projection_ring write_version readable =
     (if write_version \<le> 0 \<or> write_version \<notin> set readable then Inl (Err EDisabled)
      else Inr write_version)"

definition projection_authority_write_version :: "runtime_env \<Rightarrow> (application_error, i32) res" where
  "projection_authority_write_version env =
     validate_local_projection_ring (env_write_version env) (env_readable_versions env)"

definition assert_projection_crypto_authority :: "runtime_env \<Rightarrow> (application_error, unit) res" where
  "assert_projection_crypto_authority env =
     and_then (projection_authority_write_version env) (\<lambda>_. Inr ())"

definition decrypted_projection_verified_email ::
    "runtime_env \<Rightarrow> projection_row \<Rightarrow> (application_error, string option) res" where
  "decrypted_projection_verified_email env projection =
     (case (pj_verified_email_source_identity_id projection,
            pj_verified_email_ciphertext projection,
            pj_verified_email_key_version projection) of
        (None, None, None) \<Rightarrow> Inr None
      | (Some _, Some ciphertext, Some key_version) \<Rightarrow>
          if key_version > 0 then
            and_then (env_unprotect env (pj_project_id projection) (pj_application_id projection)
                (pj_user_id projection) (pj_projection_revision projection)
                \<lparr>pv_ciphertext = ciphertext, pv_key_version = key_version\<rparr>)
              (\<lambda>plaintext. Inr (Some plaintext))
          else Inl (Err EIntegrity)
      | _ \<Rightarrow> Inl (Err EIntegrity))"

definition wire_projection_document ::
    "runtime_env \<Rightarrow> projection_row \<Rightarrow> (application_error, json) res" where
  "wire_projection_document env projection =
     and_then (decrypted_projection_verified_email env projection) (\<lambda>email.
     and_then (ok_or (json_insert (pj_document projection) ''verified_email'' (json_opt email)) EIntegrity)
       (\<lambda>document.
        if pj_canonical_digest projection \<noteq> env_digest env document then Inl (Err EIntegrity)
        else Inr document))"

definition primary_verified_email ::
    "runtime_env \<Rightarrow> user_row \<Rightarrow> (auth_db, (uuid \<times> string) option) query" where
  "primary_verified_email env user db =
     (if u_status user = ''disabled'' then Inr None
      else if u_status user \<noteq> ''active'' then Inl (Err EIntegrity)
      else if u_primary_source_kind user \<noteq> ''email'' then Inr None
      else and_then (ok_or (u_primary_email_identity_id user) EIntegrity) (\<lambda>identity_id.
        and_then (select_one email_identities
            (\<lambda>r. ei_project_id r = u_project_id user \<and> ei_id r = identity_id) EIntegrity db) (\<lambda>row.
        if ei_user_id row \<noteq> u_id user then Inl (Err EIntegrity)
        else if ei_status row = ''disabled'' \<and> ei_verified_at row \<noteq> None then Inr None
        else if \<not> (ei_status row = ''active'' \<and> ei_verified_at row \<noteq> None) then Inl (Err EIntegrity)
        else and_then (env_read_email env (u_project_id user) identity_id
               \<lparr>pv_ciphertext = ei_address_ciphertext row, pv_key_version = ei_address_key_version row\<rparr>)
             (\<lambda>plaintext. Inr (Some (identity_id, plaintext))))))"

section \<open>The authoritative material and the repair of a stale row\<close>

record projection_material =
  pm_revision :: i64
  pm_document :: json
  pm_storage_document :: json
  pm_digest :: string
  pm_source_identity_id :: "uuid option"
  pm_ciphertext :: "string option"
  pm_key_version :: "i32 option"
  pm_semantic_change :: bool
  pm_storage_repair_required :: bool

text \<open>\<open>semantic_change\<close>: something an application can see has changed since the row was written.\<close>

definition semantic_change ::
    "projection_row option \<Rightarrow> user_row \<Rightarrow> (uuid \<times> string) option \<Rightarrow> bool" where
  "semantic_change projection user source_email =
     (case projection of None \<Rightarrow> True
      | Some existing \<Rightarrow>
          pj_user_id existing \<noteq> u_id user
          \<or> pj_source_user_revision existing \<noteq> u_user_revision user
          \<or> pj_verified_email_source_identity_id existing \<noteq> map_option fst source_email
          \<or> (pj_verified_email_ciphertext existing \<noteq> None) \<noteq> (source_email \<noteq> None)
          \<or> (pj_verified_email_key_version existing \<noteq> None) \<noteq> (source_email \<noteq> None))"

definition can_reuse_protected ::
    "projection_row option \<Rightarrow> user_row \<Rightarrow> (uuid \<times> string) option \<Rightarrow> i32 option \<Rightarrow> bool" where
  "can_reuse_protected projection user source_email write_version =
     (case projection of None \<Rightarrow> False
      | Some existing \<Rightarrow>
          \<not> semantic_change projection user source_email
          \<and> pj_verified_email_source_identity_id existing = map_option fst source_email
          \<and> (pj_verified_email_ciphertext existing \<noteq> None) = (source_email \<noteq> None)
          \<and> (pj_verified_email_key_version existing \<noteq> None) = (source_email \<noteq> None)
          \<and> pj_verified_email_key_version existing = write_version)"

definition material_write_version ::
    "runtime_env \<Rightarrow> projection_row option \<Rightarrow> (uuid \<times> string) option \<Rightarrow> (application_error, i32 option) res" where
  "material_write_version env projection source_email =
     (if source_email \<noteq> None
        \<or> (case projection of None \<Rightarrow> False
            | Some existing \<Rightarrow> pj_verified_email_ciphertext existing \<noteq> None)
      then and_then (projection_authority_write_version env) (\<lambda>v. Inr (Some v))
      else Inr None)"

definition material_revision ::
    "projection_row option \<Rightarrow> bool \<Rightarrow> (application_error, i64) res" where
  "material_revision projection changed =
     (case projection of None \<Rightarrow> Inr 1
      | Some existing \<Rightarrow>
          if changed then ok_or (checked_add_i64 (pj_projection_revision existing) 1) EIntegrity
          else Inr (pj_projection_revision existing))"

definition material_ciphertext ::
    "runtime_env \<Rightarrow> projection_row option \<Rightarrow> uuid \<Rightarrow> user_row \<Rightarrow> i64 \<Rightarrow> (uuid \<times> string) option
     \<Rightarrow> bool \<Rightarrow> (application_error, string option \<times> i32 option) res" where
  "material_ciphertext env projection application_id user rv source_email reuse =
     (case source_email of
        None \<Rightarrow> Inr (None, None)
      | Some (_, email) \<Rightarrow>
          if reuse then
            and_then (ok_or projection EIntegrity) (\<lambda>existing.
              Inr (pj_verified_email_ciphertext existing, pj_verified_email_key_version existing))
          else
            and_then (env_protect env (u_project_id user) application_id (u_id user) rv email) (\<lambda>protected.
              Inr (Some (pv_ciphertext protected), Some (pv_key_version protected))))"

definition check_reused_email ::
    "runtime_env \<Rightarrow> projection_row option \<Rightarrow> bool \<Rightarrow> string option \<Rightarrow> (application_error, unit) res" where
  "check_reused_email env projection reuse email =
     (if reuse then
        and_then (ok_or projection EIntegrity) (\<lambda>existing.
        and_then (decrypted_projection_verified_email env existing) (\<lambda>stored.
          if stored \<noteq> email then Inl (Err EIntegrity) else Inr ()))
      else Inr ())"

definition storage_repair_required ::
    "projection_row option \<Rightarrow> user_row \<Rightarrow> bool \<Rightarrow> json \<Rightarrow> uuid option \<Rightarrow> string option \<Rightarrow> i32 option
     \<Rightarrow> string \<Rightarrow> bool" where
  "storage_repair_required projection user changed storage_document source_identity ciphertext
       key_version digest =
     (case projection of None \<Rightarrow> True
      | Some existing \<Rightarrow>
          changed
          \<or> pj_document existing \<noteq> storage_document
          \<or> pj_verified_email_source_identity_id existing \<noteq> source_identity
          \<or> pj_verified_email_ciphertext existing \<noteq> ciphertext
          \<or> pj_verified_email_key_version existing \<noteq> key_version
          \<or> pj_canonical_digest existing \<noteq> digest
          \<or> pj_source_base_profile_digest existing \<noteq> u_base_profile_digest user)"

definition authoritative_runtime_projection_material ::
    "runtime_env \<Rightarrow> projection_row option \<Rightarrow> uuid \<Rightarrow> user_row \<Rightarrow> (auth_db, projection_material) query" where
  "authoritative_runtime_projection_material env projection application_id user db =
     and_then (primary_verified_email env user db) (\<lambda>source_email.
     and_then (material_write_version env projection source_email) (\<lambda>write_version.
     let source_identity = map_option fst source_email;
         changed = semantic_change projection user source_email;
         reuse = can_reuse_protected projection user source_email write_version;
         email = map_option snd source_email
     in
     and_then (material_revision projection changed) (\<lambda>rv.
     and_then (material_ciphertext env projection application_id user rv source_email reuse)
       (\<lambda>(ciphertext, key_version).
     and_then (projection_material_with_verified_email env user rv email) (\<lambda>(document, digest).
     and_then (check_reused_email env projection reuse email) (\<lambda>_.
     and_then (safe_projection_document document) (\<lambda>storage_document.
     Inr
       \<lparr>pm_revision = rv, pm_document = document, pm_storage_document = storage_document,
        pm_digest = digest, pm_source_identity_id = source_identity, pm_ciphertext = ciphertext,
        pm_key_version = key_version, pm_semantic_change = changed,
        pm_storage_repair_required =
          storage_repair_required projection user changed storage_document source_identity
            ciphertext key_version digest\<rparr>)))))))"

definition repair_row :: "user_row \<Rightarrow> projection_material \<Rightarrow> instant \<Rightarrow> projection_row \<Rightarrow> projection_row" where
  "repair_row user material now r = r
     \<lparr>pj_user_id := u_id user,
      pj_projection_revision := pm_revision material,
      pj_source_user_revision := u_user_revision user,
      pj_canonical_digest := pm_digest material,
      pj_source_base_profile_digest := u_base_profile_digest user,
      pj_verified_email_source_identity_id := pm_source_identity_id material,
      pj_verified_email_ciphertext := pm_ciphertext material,
      pj_verified_email_key_version := pm_key_version material,
      pj_document := pm_storage_document material,
      pj_updated_at := now\<rparr>"

definition repair_runtime_projection ::
    "runtime_env \<Rightarrow> projection_row \<Rightarrow> uuid \<Rightarrow> user_row \<Rightarrow> instant
     \<Rightarrow> (auth_db, projection_row \<times> projection_material) tx" where
  "repair_runtime_projection env projection application_id user now =
     m_bind (m_read (authoritative_runtime_projection_material env (Some projection) application_id user))
       (\<lambda>material.
        m_bind (if pm_storage_repair_required material
                then db_update projection_table (pj_id projection) (repair_row user material now)
                else m_return projection)
          (\<lambda>row. m_return (row, material)))"

section \<open>The outbox\<close>

definition MAX_WEBHOOK_ENDPOINTS_PER_APPLICATION :: nat where
  "MAX_WEBHOOK_ENDPOINTS_PER_APPLICATION = 8"

datatype application_user_event_type = EventCreated | EventUpdated | EventDisabled

fun event_type_as_str :: "application_user_event_type \<Rightarrow> string" where
  "event_type_as_str EventCreated = ''user.projection.created''"
| "event_type_as_str EventUpdated = ''user.projection.updated''"
| "event_type_as_str EventDisabled = ''user.projection.disabled''"

text \<open>\<open>Value::pointer_mut(path)\<close> followed by an assignment; the path must exist.\<close>

fun json_set_at :: "json \<Rightarrow> string list \<Rightarrow> json \<Rightarrow> json option" where
  "json_set_at d [] v = Some v"
| "json_set_at (JObject m) (k # ks) v =
     (case map_of m k of
        None \<Rightarrow> None
      | Some d \<Rightarrow> map_option (\<lambda>d'. JObject (map_insert k d' m)) (json_set_at d ks v))"
| "json_set_at _ (k # ks) v = None"

definition ensure_dispatch_state :: "uuid \<Rightarrow> uuid \<Rightarrow> (auth_db, unit) tx" where
  "ensure_dispatch_state project_id application_id db =
     (Inr (), if (project_id, application_id) \<in> set (dispatch_states db) then db
              else db\<lparr>dispatch_states := dispatch_states db @ [(project_id, application_id)]\<rparr>)"

definition event_body ::
    "string \<Rightarrow> string \<Rightarrow> string \<Rightarrow> string \<Rightarrow> json \<Rightarrow> projection_row \<Rightarrow> string \<Rightarrow> json \<Rightarrow> json" where
  "event_body event_id event_type project application user_id projection occurred_at wire = json_object
     [(''event_id'', JString event_id),
      (''type'', JString event_type),
      (''project_id'', JString project),
      (''application_id'', JString application),
      (''user_id'', user_id),
      (''user_revision'', JInt (pj_source_user_revision projection)),
      (''projection_revision'', JInt (pj_projection_revision projection)),
      (''projection_schema'', JString USER_PROJECTION_SCHEMA_V1),
      (''occurred_at'', JString occurred_at),
      (''data'', json_object [(''projection'', wire)])]"

definition pending_delivery :: "runtime_env \<Rightarrow> event_row \<Rightarrow> endpoint_row \<Rightarrow> delivery_row" where
  "pending_delivery env event endpoint =
     \<lparr>wd_id = env_delivery_id env (we_id endpoint), wd_project_id = ev_project_id event,
      wd_application_id = ev_application_id event, wd_endpoint_id = we_id endpoint,
      wd_event_id = ev_id event, wd_replay_sequence = 0, wd_replay_of_delivery_id = None,
      wd_state = ''pending'', wd_attempt_count = 0, wd_next_attempt_at = ev_occurred_at event,
      wd_lease_owner = None, wd_lease_incarnation = None, wd_lease_generation = 0,
      wd_lease_expires_at = None, wd_claimed_secret_generation = None,
      wd_claimed_overlap_generation = None, wd_claimed_secret_material_id = None,
      wd_claimed_overlap_material_id = None, wd_last_outcome_class = None,
      wd_last_http_status = None, wd_created_at = ev_occurred_at event,
      wd_updated_at = ev_occurred_at event, wd_delivered_at = None, wd_terminal_at = None\<rparr>"

definition subscribed_endpoints :: "projection_row \<Rightarrow> auth_db \<Rightarrow> endpoint_row list" where
  "subscribed_endpoints projection db =
     take (MAX_WEBHOOK_ENDPOINTS_PER_APPLICATION + 1) (sort_key we_id (filter (\<lambda>e.
       we_project_id e = pj_project_id projection
       \<and> we_application_id e = pj_application_id projection
       \<and> we_status e = ''active'') (endpoints db)))"

definition append_projection_event ::
    "runtime_env \<Rightarrow> string \<Rightarrow> string \<Rightarrow> uuid \<Rightarrow> projection_row \<Rightarrow> json \<Rightarrow> application_user_event_type
     \<Rightarrow> (auth_db, event_row) tx" where
  "append_projection_event env project application binding_id projection wire event_type =
     (let (occurred_at, replay_until, retain_until) = env_event_window env;
          event_uuid = env_event_uuid env;
          event_id = ''evt_'' @ env_simple env event_uuid
      in
      m_bind (m_try (ok_or (env_rfc3339 env occurred_at) EIntegrity)) (\<lambda>occurred_at_text.
      m_bind (m_try (ok_or (json_get wire ''user_id'') EIntegrity)) (\<lambda>user_id.
      let body = event_body event_id (event_type_as_str event_type) project application user_id
                   projection occurred_at_text wire
      in
      m_bind (m_try (ok_or (json_set_at body [''data'', ''projection'', ''verified_email''] JNull)
                EIntegrity)) (\<lambda>safe_body.
      m_bind (db_insert event_table
        \<lparr>ev_id = event_uuid, ev_event_id = event_id, ev_project_id = pj_project_id projection,
         ev_application_id = pj_application_id projection, ev_binding_id = binding_id,
         ev_user_id = pj_user_id projection, ev_event_type = event_type_as_str event_type,
         ev_user_revision = pj_source_user_revision projection,
         ev_projection_revision = pj_projection_revision projection,
         ev_projection_schema = USER_PROJECTION_SCHEMA_V1, ev_safe_body = safe_body,
         ev_canonical_body_digest = env_digest env body,
         ev_verified_email_source_identity_id = pj_verified_email_source_identity_id projection,
         ev_verified_email_ciphertext = pj_verified_email_ciphertext projection,
         ev_verified_email_key_version = pj_verified_email_key_version projection,
         ev_occurred_at = occurred_at, ev_replay_until = replay_until,
         ev_retain_until = retain_until, ev_created_at = occurred_at\<rparr>) (\<lambda>event.
      m_bind (m_read (\<lambda>db.
          let es = subscribed_endpoints projection db
          in if length es > MAX_WEBHOOK_ENDPOINTS_PER_APPLICATION then Inl (Err EIntegrity) else Inr es))
        (\<lambda>es.
      m_bind (ensure_dispatch_state (pj_project_id projection) (pj_application_id projection)) (\<lambda>_.
      m_bind (m_for_each (\<lambda>endpoint.
          m_when (event_type_as_str event_type \<in> set (we_subscribed_event_types endpoint))
            (m_bind (db_insert delivery_table (pending_delivery env event endpoint))
              (\<lambda>_. m_return ()))) es) (\<lambda>_.
      m_return event))))))))"

end
