(* ===== verification/Owl_Sessions.thy ===== *)
theory Owl_Sessions
  imports Owl_Projection
begin

text \<open>
  The refresh side of \<open>adapters/postgres/session_authority.rs\<close>: rotation of refresh tokens
  with replay detection, and the logout of an application session.  Every operation is the
  whole method: validation, what is read before the transaction, the locks and checks, the
  writes and the audit record.

  \<open>env\<close> holds what the methods call outside this repository, \<open>db0\<close> is the state that the
  routing reads before the transaction see, and the transaction runs on the state \<open>db\<close>.
  A revision that would leave the range of \<open>i64\<close> ends the call without a commit.
\<close>

section \<open>Digests and audit records\<close>

record versioned_digest =
  vd_value :: string
  vd_key_version :: i32

definition validate_digest :: "versioned_digest \<Rightarrow> (application_error, unit) res" where
  "validate_digest digest = (if vd_key_version digest \<le> 0 then Inl (Err EInvalidInput) else Inr ())"

text \<open>\<open>ct_eq\<close> of the \<open>subtle\<close> crate is equality in constant time.\<close>

definition digest_matches :: "string \<Rightarrow> i32 \<Rightarrow> versioned_digest \<Rightarrow> bool" where
  "digest_matches stored stored_key_version supplied \<longleftrightarrow>
     stored_key_version = vd_key_version supplied
     \<and> length stored = length (vd_value supplied)
     \<and> stored = vd_value supplied"

definition optional_digest_matches :: "string option \<Rightarrow> i32 option \<Rightarrow> versioned_digest \<Rightarrow> bool" where
  "optional_digest_matches stored stored_key_version supplied \<longleftrightarrow>
     stored_key_version = Some (vd_key_version supplied)
     \<and> (case stored of None \<Rightarrow> False
        | Some v \<Rightarrow> length v = length (vd_value supplied) \<and> v = vd_value supplied)"

text \<open>\<open>revision + 1\<close>\<close>

definition bump :: "i64 \<Rightarrow> (application_error, i64) res" where
  "bump n = expect (checked_add_i64 n 1)"

definition append_runtime_audit ::
    "runtime_env \<Rightarrow> uuid \<Rightarrow> string \<Rightarrow> string \<Rightarrow> string \<Rightarrow> uuid option \<Rightarrow> uuid \<Rightarrow> (auth_db, unit) tx" where
  "append_runtime_audit env project_id actor_kind action target_kind target_id correlation_id =
     m_bind (db_insert audit_table
       \<lparr>au_id = env_audit_id env correlation_id, au_project_id = Some project_id,
        au_actor_kind = actor_kind, au_action = action, au_target_kind = target_kind,
        au_target_id = target_id, au_outcome = ''succeeded'', au_correlation_id = correlation_id,
        au_safe_context = JObject []\<rparr>) (\<lambda>_. m_return ())"

section \<open>Signing keys and token lifetime\<close>

record signing_snapshot =
  sg_ring_id :: uuid
  sg_key_id :: uuid
  sg_issuer :: string
  sg_kid :: string
  sg_public_jwk :: json
  sg_material_id :: uuid
  sg_epoch :: i64

text \<open>
  A ring has at most one active key (index \<open>project_signing_keys_one_active_idx\<close>), so the
  order of the query does not matter.
\<close>

definition active_signing_snapshot :: "uuid \<Rightarrow> instant \<Rightarrow> (auth_db, signing_snapshot) query" where
  "active_signing_snapshot project_id now db =
     and_then (select_one key_rings (\<lambda>r. kr_project_id r = project_id
         \<and> kr_purpose r = ''application_tokens'' \<and> kr_algorithm r = ''EdDSA'') ENotFound db) (\<lambda>ring.
     and_then (select_one signing_keys (\<lambda>k. sk_project_id k = project_id
         \<and> sk_ring_id k = kr_id ring \<and> sk_state k = ''active'') ENotFound db) (\<lambda>key.
     if (case sk_sign_not_before key of None \<Rightarrow> True | Some v \<Rightarrow> v > now)
     then Inl (Err ERevisionConflict)
     else Inr
       \<lparr>sg_ring_id = kr_id ring, sg_key_id = sk_id key, sg_issuer = kr_issuer ring,
        sg_kid = sk_kid key, sg_public_jwk = sk_public_jwk key,
        sg_material_id = sk_signer_material_id key, sg_epoch = kr_signing_epoch ring\<rparr>))"

definition lock_signing_epoch :: "uuid \<Rightarrow> uuid \<Rightarrow> uuid \<Rightarrow> i64 \<Rightarrow> instant \<Rightarrow> (auth_db, unit) query" where
  "lock_signing_epoch project_id ring_id key_id signing_epoch now db =
     and_then (select_one key_rings (\<lambda>r. kr_id r = ring_id \<and> kr_project_id r = project_id)
         ENotFound db) (\<lambda>ring.
     and_then (select_one signing_keys (\<lambda>k. sk_id k = key_id \<and> sk_project_id k = project_id
         \<and> sk_ring_id k = ring_id) ENotFound db) (\<lambda>key.
     if kr_signing_epoch ring \<noteq> signing_epoch
       \<or> kr_purpose ring \<noteq> ''application_tokens''
       \<or> kr_algorithm ring \<noteq> ''EdDSA''
       \<or> sk_state key \<noteq> ''active''
       \<or> (case sk_sign_not_before key of None \<Rightarrow> True | Some v \<Rightarrow> v > now)
     then Inl (Err ERevisionConflict)
     else Inr ()))"

definition access_token_lifetime :: "project_policy_row \<Rightarrow> (application_error, i64) res" where
  "access_token_lifetime policy =
     (case Option.bind (json_get (pol_claims_policy policy) ''access_token_lifetime_seconds'') as_i64 of
        Some v \<Rightarrow> if 60 \<le> v \<and> v \<le> 3600 then Inr v else Inl (Err EIntegrity)
      | None \<Rightarrow> Inl (Err EIntegrity))"

section \<open>Commands and results\<close>

record prepare_refresh =
  pr_project_id :: uuid
  pr_application_id :: uuid
  pr_presented_token :: versioned_digest
  pr_now :: instant

record refresh_preparation =
  rp_generation_id :: uuid
  rp_family_id :: uuid
  rp_project_public_id :: string
  rp_project_issuer :: string
  rp_application_public_id :: string
  rp_family_revision :: i64
  rp_generation :: i64
  rp_application_session_id :: uuid
  rp_session_revision :: i64
  rp_binding_id :: uuid
  rp_binding_revision :: i64
  rp_user_id :: uuid
  rp_user_public_id :: string
  rp_user_revision :: i64
  rp_claims_revision :: i64
  rp_projection_revision :: i64
  rp_projection_document :: json
  rp_signing_ring_id :: uuid
  rp_signing_key_id :: uuid
  rp_signing_kid :: string
  rp_signing_public_jwk :: json
  rp_signing_material_id :: uuid
  rp_signing_epoch :: i64
  rp_access_token_lifetime_seconds :: i64
  rp_authenticated_at :: instant
  rp_absolute_expires_at :: instant

datatype refresh_preparation_result =
    RefreshReady refresh_preparation
  | PreparationReplayRevoked uuid

record rotate_refresh =
  rr_project_id :: uuid
  rr_application_id :: uuid
  rr_presented_token :: versioned_digest
  rr_preparation :: refresh_preparation
  rr_successor_generation_id :: uuid
  rr_successor_token :: versioned_digest
  rr_now :: instant

text \<open>\<open>Rotated { user_id, application_session_id, family_id, generation, absolute_expires_at }\<close>\<close>

datatype refresh_rotation_result =
    Rotated uuid uuid uuid i64 instant
  | RotationReplayRevoked uuid

record logout_session =
  ls_project_id :: uuid
  ls_application_id :: uuid
  ls_user_id :: uuid
  ls_application_session_id :: uuid
  ls_now :: instant

section \<open>What a presented refresh token leads to\<close>

text \<open>The routing reads before the transaction.\<close>

definition route_refresh ::
    "uuid \<Rightarrow> uuid \<Rightarrow> versioned_digest \<Rightarrow> (auth_db, generation_row \<times> family_row) query" where
  "route_refresh project_id application_id token db =
     and_then (select_one generations (\<lambda>g. rg_project_id g = project_id
         \<and> rg_application_id g = application_id
         \<and> rg_token_digest g = vd_value token
         \<and> rg_token_digest_key_version g = vd_key_version token) ENotFound db) (\<lambda>g.
     and_then (select_one families (\<lambda>f. rf_id f = rg_family_id g \<and> rf_project_id f = project_id)
         ENotFound db) (\<lambda>f.
     Inr (g, f)))"

text \<open>The rows re-read under lock.\<close>

definition lock_refresh_rows ::
    "uuid \<Rightarrow> uuid \<Rightarrow> versioned_digest \<Rightarrow> generation_row \<Rightarrow> family_row
     \<Rightarrow> (auth_db, session_row \<times> family_row \<times> generation_row) query" where
  "lock_refresh_rows project_id application_id token routed_generation routed_family db =
     and_then (select_one app_sessions (\<lambda>s. ss_id s = rf_application_session_id routed_family
         \<and> ss_project_id s = project_id \<and> ss_application_id s = application_id) ENotFound db) (\<lambda>session.
     and_then (select_one families (\<lambda>f. rf_id f = rf_id routed_family
         \<and> rf_project_id f = project_id \<and> rf_application_id f = application_id) ENotFound db) (\<lambda>family.
     and_then (select_one generations (\<lambda>g. rg_id g = rg_id routed_generation
         \<and> rg_project_id g = project_id \<and> rg_family_id g = rf_id family) ENotFound db) (\<lambda>generation.
     if \<not> digest_matches (rg_token_digest generation) (rg_token_digest_key_version generation) token
     then Inl (Err ENotFound)
     else Inr (session, family, generation))))"

definition refresh_is_dead :: "instant \<Rightarrow> session_row \<Rightarrow> family_row \<Rightarrow> generation_row \<Rightarrow> bool" where
  "refresh_is_dead now session family generation \<longleftrightarrow>
     rg_status generation \<noteq> ''current''
     \<or> rf_status family \<noteq> ''active''
     \<or> ss_status session \<noteq> ''active''
     \<or> rg_generation generation \<noteq> rf_current_generation family
     \<or> rf_absolute_expires_at family \<le> now
     \<or> ss_absolute_expires_at session \<le> now
     \<or> rf_absolute_expires_at family \<noteq> ss_absolute_expires_at session"

definition lock_refresh_owners ::
    "uuid \<Rightarrow> uuid \<Rightarrow> session_row
     \<Rightarrow> (auth_db, project_row \<times> application_row \<times> user_row \<times> project_policy_row) query" where
  "lock_refresh_owners project_id application_id session db =
     and_then (select_one projects (\<lambda>p. p_id p = project_id) ENotFound db) (\<lambda>project.
     and_then (select_one applications (\<lambda>a. ap_id a = application_id \<and> ap_project_id a = project_id)
         ENotFound db) (\<lambda>application.
     and_then (select_one users (\<lambda>u. u_id u = ss_user_id session \<and> u_project_id u = project_id)
         ENotFound db) (\<lambda>user.
     and_then (select_one policies (\<lambda>p. pol_project_id p = project_id) EIntegrity db) (\<lambda>policy.
     Inr (project, application, user, policy)))))"

definition owners_changed ::
    "session_row \<Rightarrow> project_row \<Rightarrow> application_row \<Rightarrow> user_row \<Rightarrow> project_policy_row \<Rightarrow> bool" where
  "owners_changed session project application user policy \<longleftrightarrow>
     p_status project \<noteq> ''active''
     \<or> ap_status application \<noteq> ''active''
     \<or> u_status user \<noteq> ''active''
     \<or> p_security_revision project \<noteq> ss_project_security_revision session
     \<or> ap_security_revision application \<noteq> ss_application_security_revision session
     \<or> u_security_revision user \<noteq> ss_user_security_revision session
     \<or> pol_claims_revision policy \<noteq> ss_claims_revision session
     \<or> pol_session_revision policy \<noteq> ss_policy_session_revision session"

text \<open>A browser session that no longer backs its user at the given revisions.\<close>

definition browser_is_dead ::
    "instant \<Rightarrow> project_row \<Rightarrow> user_row \<Rightarrow> project_policy_row \<Rightarrow> browser_session_row \<Rightarrow> bool" where
  "browser_is_dead now project user policy browser \<longleftrightarrow>
     bs_status browser \<noteq> ''active''
     \<or> bs_idle_expires_at browser \<le> now
     \<or> bs_absolute_expires_at browser \<le> now
     \<or> bs_project_security_revision browser \<noteq> p_security_revision project
     \<or> bs_user_security_revision browser \<noteq> u_security_revision user
     \<or> bs_policy_session_revision browser \<noteq> pol_session_revision policy"

definition check_refresh_browser ::
    "uuid \<Rightarrow> instant \<Rightarrow> session_row \<Rightarrow> project_row \<Rightarrow> user_row \<Rightarrow> project_policy_row \<Rightarrow> (auth_db, unit) query" where
  "check_refresh_browser project_id now session project user policy db =
     (case ss_browser_session_id session of
        None \<Rightarrow> Inr ()
      | Some browser_session_id \<Rightarrow>
          and_then (select_one browser_sessions (\<lambda>b. bs_id b = browser_session_id
              \<and> bs_project_id b = project_id \<and> bs_user_id b = u_id user) EIntegrity db) (\<lambda>browser.
          if browser_is_dead now project user policy browser then Inl (Err EDisabled) else Inr ()))"

definition record_refresh_replay ::
    "runtime_env \<Rightarrow> generation_row \<Rightarrow> family_row \<Rightarrow> uuid \<Rightarrow> instant \<Rightarrow> (auth_db, unit) tx" where
  "record_refresh_replay env generation family project_id now =
     m_bind (if rg_replay_detected_at generation = None
             then m_bind (db_update generation_table (rg_id generation)
                    (\<lambda>r. r\<lparr>rg_replay_detected_at := Some now\<rparr>)) (\<lambda>_. m_return ())
             else m_return ()) (\<lambda>_.
     m_bind (if rf_status family = ''active''
             then m_bind (m_try (bump (rf_family_revision family))) (\<lambda>rv.
                    m_bind (db_update family_table (rf_id family)
                      (\<lambda>r. r\<lparr>rf_status := ''revoked'', rf_family_revision := rv,
                             rf_revoked_at := Some now, rf_revocation_reason := Some ''replay'',
                             rf_updated_at := now\<rparr>)) (\<lambda>_. m_return ()))
             else m_return ()) (\<lambda>_.
     append_runtime_audit env project_id ''system'' ''auth.refresh.replay_detected'' ''refresh_family''
       (Some (rf_id family)) (rf_id family)))"

section \<open>Preparing a rotation\<close>

definition refresh_preparation_of ::
    "project_row \<Rightarrow> application_row \<Rightarrow> user_row \<Rightarrow> project_policy_row \<Rightarrow> session_row \<Rightarrow> family_row
     \<Rightarrow> generation_row \<Rightarrow> binding_row \<Rightarrow> projection_material \<Rightarrow> signing_snapshot \<Rightarrow> i64
     \<Rightarrow> refresh_preparation" where
  "refresh_preparation_of project application user policy session family generation binding
       material signing lifetime =
     \<lparr>rp_generation_id = rg_id generation, rp_family_id = rf_id family,
      rp_project_public_id = p_public_id project, rp_project_issuer = sg_issuer signing,
      rp_application_public_id = ap_public_id application,
      rp_family_revision = rf_family_revision family, rp_generation = rg_generation generation,
      rp_application_session_id = ss_id session, rp_session_revision = ss_session_revision session,
      rp_binding_id = bi_id binding, rp_binding_revision = bi_binding_revision binding,
      rp_user_id = u_id user, rp_user_public_id = u_public_id user,
      rp_user_revision = u_user_revision user, rp_claims_revision = pol_claims_revision policy,
      rp_projection_revision = pm_revision material, rp_projection_document = pm_document material,
      rp_signing_ring_id = sg_ring_id signing, rp_signing_key_id = sg_key_id signing,
      rp_signing_kid = sg_kid signing, rp_signing_public_jwk = sg_public_jwk signing,
      rp_signing_material_id = sg_material_id signing, rp_signing_epoch = sg_epoch signing,
      rp_access_token_lifetime_seconds = lifetime,
      rp_authenticated_at = ss_authenticated_at session,
      rp_absolute_expires_at = rf_absolute_expires_at family\<rparr>"

definition prepare_refresh_body ::
    "runtime_env \<Rightarrow> prepare_refresh \<Rightarrow> generation_row \<Rightarrow> family_row
     \<Rightarrow> (auth_db, refresh_preparation_result verdict) tx" where
  "prepare_refresh_body env c routed_generation routed_family =
     m_bind (m_read (lock_refresh_rows (pr_project_id c) (pr_application_id c) (pr_presented_token c)
               routed_generation routed_family)) (\<lambda>(session, family, generation).
     if rg_status generation = ''consumed'' then
       m_bind (record_refresh_replay env generation family (pr_project_id c) (pr_now c)) (\<lambda>_.
       m_return (Return (PreparationReplayRevoked (rf_id family))))
     else if refresh_is_dead (pr_now c) session family generation then m_fail EInvalidTransition
     else
       m_bind (m_read (lock_refresh_owners (pr_project_id c) (pr_application_id c) session))
         (\<lambda>(project, application, user, policy).
       if owners_changed session project application user policy then m_fail ERevisionConflict
       else
         m_bind (m_read (check_refresh_browser (pr_project_id c) (pr_now c) session project user policy))
           (\<lambda>_.
         m_bind (m_read (select_one bindings (\<lambda>b. bi_id b = ss_binding_id session
             \<and> bi_project_id b = pr_project_id c \<and> bi_application_id b = pr_application_id c
             \<and> bi_user_id b = u_id user) EIntegrity)) (\<lambda>binding.
         if bi_status binding \<noteq> ''active'' then m_fail EDisabled
         else
           m_bind (m_read (select_one projections (\<lambda>p. pj_project_id p = pr_project_id c
               \<and> pj_binding_id p = bi_id binding) EIntegrity)) (\<lambda>projection.
           m_bind (repair_runtime_projection env projection (ap_id application) user (pr_now c))
             (\<lambda>(_, material).
           m_bind (m_read (active_signing_snapshot (pr_project_id c) (pr_now c))) (\<lambda>signing.
           m_bind (m_try (access_token_lifetime policy)) (\<lambda>lifetime.
           m_return (Return (RefreshReady (refresh_preparation_of project application user policy
             session family generation binding material signing lifetime)))))))))))"

definition prepare_refresh_rotation ::
    "runtime_env \<Rightarrow> prepare_refresh \<Rightarrow> auth_db \<Rightarrow> (auth_db, refresh_preparation_result) tx" where
  "prepare_refresh_rotation env c db0 =
     m_bind (m_try (validate_digest (pr_presented_token c))) (\<lambda>_.
     m_bind (m_try (route_refresh (pr_project_id c) (pr_application_id c) (pr_presented_token c) db0))
       (\<lambda>(routed_generation, routed_family).
     transaction (prepare_refresh_body env c routed_generation routed_family)))"

section \<open>Rotating a refresh token\<close>

text \<open>The preparation was made for exactly these rows.\<close>

definition preparation_is_stale ::
    "refresh_preparation \<Rightarrow> session_row \<Rightarrow> family_row \<Rightarrow> generation_row \<Rightarrow> bool" where
  "preparation_is_stale p session family generation \<longleftrightarrow>
     rg_id generation \<noteq> rp_generation_id p
     \<or> rf_id family \<noteq> rp_family_id p
     \<or> rf_family_revision family \<noteq> rp_family_revision p
     \<or> rg_generation generation \<noteq> rp_generation p
     \<or> ss_id session \<noteq> rp_application_session_id p
     \<or> ss_session_revision session \<noteq> rp_session_revision p
     \<or> rf_absolute_expires_at family \<noteq> rp_absolute_expires_at p"

definition rotation_owners_changed ::
    "refresh_preparation \<Rightarrow> session_row \<Rightarrow> project_row \<Rightarrow> application_row \<Rightarrow> user_row
     \<Rightarrow> project_policy_row \<Rightarrow> bool" where
  "rotation_owners_changed p session project application user policy \<longleftrightarrow>
     owners_changed session project application user policy
     \<or> u_id user \<noteq> rp_user_id p
     \<or> u_public_id user \<noteq> rp_user_public_id p
     \<or> u_user_revision user \<noteq> rp_user_revision p
     \<or> pol_claims_revision policy \<noteq> rp_claims_revision p"

definition check_rotation_projection ::
    "runtime_env \<Rightarrow> refresh_preparation \<Rightarrow> user_row \<Rightarrow> projection_row \<Rightarrow> (application_error, unit) res" where
  "check_rotation_projection env p user projection =
     and_then (if pj_verified_email_ciphertext projection \<noteq> None
               then assert_projection_crypto_authority env else Inr ()) (\<lambda>_.
     and_then (wire_projection_document env projection) (\<lambda>document.
     let digest = pj_canonical_digest projection
     in
     and_then (safe_projection_document document) (\<lambda>storage_document.
     if pj_projection_revision projection \<noteq> rp_projection_revision p
       \<or> pj_source_user_revision projection \<noteq> u_user_revision user
       \<or> pj_source_base_profile_digest projection \<noteq> u_base_profile_digest user
       \<or> pj_document projection \<noteq> storage_document
       \<or> document \<noteq> rp_projection_document p
       \<or> pj_canonical_digest projection \<noteq> digest
     then Inl (Err ERevisionConflict)
     else Inr ())))"

text \<open>Everything the rotation reads and checks before its first write.\<close>

definition rotation_checks ::
    "runtime_env \<Rightarrow> rotate_refresh \<Rightarrow> session_row \<Rightarrow> family_row \<Rightarrow> generation_row
     \<Rightarrow> (auth_db, user_row) query" where
  "rotation_checks env c session family generation db =
     (let p = rr_preparation c
      in
      if refresh_is_dead (rr_now c) session family generation
        \<or> preparation_is_stale p session family generation
      then Inl (Err EInvalidTransition)
      else
        and_then (lock_refresh_owners (rr_project_id c) (rr_application_id c) session db)
          (\<lambda>(project, application, user, policy).
        if rotation_owners_changed p session project application user policy
        then Inl (Err ERevisionConflict)
        else
          and_then (access_token_lifetime policy) (\<lambda>lifetime.
          if lifetime \<noteq> rp_access_token_lifetime_seconds p then Inl (Err ERevisionConflict)
          else
            and_then (select_one bindings (\<lambda>b. bi_id b = ss_binding_id session
                \<and> bi_project_id b = rr_project_id c \<and> bi_application_id b = rr_application_id c
                \<and> bi_user_id b = u_id user) EIntegrity db) (\<lambda>binding.
            if bi_id binding \<noteq> rp_binding_id p
              \<or> bi_binding_revision binding \<noteq> rp_binding_revision p
              \<or> bi_status binding \<noteq> ''active''
            then Inl (Err ERevisionConflict)
            else
              and_then (select_one projections (\<lambda>r. pj_project_id r = rr_project_id c
                  \<and> pj_binding_id r = bi_id binding) EIntegrity db) (\<lambda>projection.
              and_then (check_rotation_projection env p user projection) (\<lambda>_.
              and_then (check_refresh_browser (rr_project_id c) (rr_now c) session project user policy db)
                (\<lambda>_.
              and_then (lock_signing_epoch (rr_project_id c) (rp_signing_ring_id p)
                  (rp_signing_key_id p) (rp_signing_epoch p) (rr_now c) db) (\<lambda>_.
              Inr user))))))))"

definition rotate_writes ::
    "runtime_env \<Rightarrow> rotate_refresh \<Rightarrow> session_row \<Rightarrow> family_row \<Rightarrow> generation_row \<Rightarrow> user_row
     \<Rightarrow> (auth_db, refresh_rotation_result verdict) tx" where
  "rotate_writes env c session family generation user =
     m_bind (m_try (bump (rg_generation generation))) (\<lambda>successor_generation.
     m_bind (db_update generation_table (rg_id generation)
       (\<lambda>r. r\<lparr>rg_status := ''consumed'', rg_consumed_at := Some (rr_now c)\<rparr>)) (\<lambda>_.
     m_bind (m_try (expect (env_tadd env (rf_absolute_expires_at family)
       (seconds (rf_allowed_clock_skew_seconds family))))) (\<lambda>retain_until.
     m_bind (db_insert generation_table
       \<lparr>rg_id = rr_successor_generation_id c, rg_project_id = rr_project_id c,
        rg_family_id = rf_id family, rg_application_id = rr_application_id c,
        rg_user_id = u_id user, rg_generation = successor_generation,
        rg_token_digest = vd_value (rr_successor_token c),
        rg_token_digest_key_version = vd_key_version (rr_successor_token c),
        rg_status = ''current'', rg_consumed_at = None, rg_replay_detected_at = None,
        rg_retain_until = retain_until, rg_created_at = rr_now c\<rparr>) (\<lambda>_.
     m_bind (m_try (bump (rf_family_revision family))) (\<lambda>family_revision.
     m_bind (db_update family_table (rf_id family)
       (\<lambda>r. r\<lparr>rf_current_generation := successor_generation, rf_family_revision := family_revision,
              rf_updated_at := rr_now c\<rparr>)) (\<lambda>_.
     m_bind (append_runtime_audit env (rr_project_id c) ''project_user'' ''auth.refresh.rotated''
       ''refresh_family'' (Some (rf_id family)) (rf_id family)) (\<lambda>_.
     m_return (Return (Rotated (u_id user) (ss_id session) (rf_id family) successor_generation
       (rf_absolute_expires_at family))))))))))"

definition rotate_body ::
    "runtime_env \<Rightarrow> rotate_refresh \<Rightarrow> generation_row \<Rightarrow> family_row
     \<Rightarrow> (auth_db, refresh_rotation_result verdict) tx" where
  "rotate_body env c routed_generation routed_family =
     m_bind (m_read (lock_refresh_rows (rr_project_id c) (rr_application_id c) (rr_presented_token c)
               routed_generation routed_family)) (\<lambda>(session, family, generation).
     if rg_status generation = ''consumed'' then
       m_bind (record_refresh_replay env generation family (rr_project_id c) (rr_now c)) (\<lambda>_.
       m_return (Return (RotationReplayRevoked (rf_id family))))
     else
       m_bind (m_read (rotation_checks env c session family generation))
         (rotate_writes env c session family generation))"

definition rotate_refresh_token ::
    "runtime_env \<Rightarrow> rotate_refresh \<Rightarrow> auth_db \<Rightarrow> (auth_db, refresh_rotation_result) tx" where
  "rotate_refresh_token env c db0 =
     m_bind (m_try (validate_digest (rr_presented_token c))) (\<lambda>_.
     m_bind (m_try (validate_digest (rr_successor_token c))) (\<lambda>_.
     if rp_signing_epoch (rr_preparation c) \<le> 0 then m_fail EInvalidInput
     else
       m_bind (m_try (route_refresh (rr_project_id c) (rr_application_id c) (rr_presented_token c) db0))
         (\<lambda>(routed_generation, routed_family).
       transaction (rotate_body env c routed_generation routed_family))))"

section \<open>Logging an application session out\<close>

definition revoke_session :: "logout_session \<Rightarrow> session_row \<Rightarrow> (auth_db, unit) tx" where
  "revoke_session c session =
     m_bind (m_try (bump (ss_session_revision session))) (\<lambda>rv.
     m_bind (db_update session_table (ss_id session)
       (\<lambda>r. r\<lparr>ss_status := ''revoked'', ss_session_revision := rv, ss_revoked_at := Some (ls_now c),
              ss_updated_at := ls_now c\<rparr>)) (\<lambda>_. m_return ()))"

definition revoke_family :: "logout_session \<Rightarrow> family_row \<Rightarrow> (auth_db, unit) tx" where
  "revoke_family c family =
     m_bind (m_try (bump (rf_family_revision family))) (\<lambda>rv.
     m_bind (db_update family_table (rf_id family)
       (\<lambda>r. r\<lparr>rf_status := ''revoked'', rf_family_revision := rv, rf_revoked_at := Some (ls_now c),
              rf_revocation_reason := Some ''logout'', rf_updated_at := ls_now c\<rparr>)) (\<lambda>_. m_return ()))"

definition logout_application_session ::
    "runtime_env \<Rightarrow> logout_session \<Rightarrow> (auth_db, unit) tx" where
  "logout_application_session env c = transaction (
     m_bind (m_read (select_one app_sessions (\<lambda>s. ss_id s = ls_application_session_id c
         \<and> ss_project_id s = ls_project_id c \<and> ss_application_id s = ls_application_id c
         \<and> ss_user_id s = ls_user_id c) ENotFound)) (\<lambda>session.
     m_bind (m_read (select_one families (\<lambda>f. rf_project_id f = ls_project_id c
         \<and> rf_application_session_id f = ls_application_session_id c) EIntegrity)) (\<lambda>family.
     let session_changed = ss_status session = ''active'';
         family_changed = rf_status family = ''active''
     in
     m_bind (m_when session_changed (revoke_session c session)) (\<lambda>_.
     m_bind (m_when family_changed (revoke_family c family)) (\<lambda>_.
     m_bind (m_when (session_changed \<or> family_changed)
       (append_runtime_audit env (ls_project_id c) ''project_user''
         ''auth.application_session.logged_out'' ''application_session''
         (Some (ls_application_session_id c)) (ls_application_session_id c))) (\<lambda>_.
     m_return (Return ())))))))"

end
