(* ===== verification/Owl_Handoffs.thy ===== *)
theory Owl_Handoffs
  imports Owl_Sessions
begin

text \<open>
  The login side of \<open>adapters/postgres/session_authority.rs\<close> with the helpers it takes from
  \<open>adapters/postgres/authentication.rs\<close>: the reuse of a browser session for a login, the
  handoff ticket it issues, the exchange of the ticket for an application session with its
  refresh family, and the recovery of abandoned provider exchanges.
\<close>

section \<open>Login status and expiry\<close>

definition is_pkce_s256_challenge :: "string \<Rightarrow> bool" where
  "is_pkce_s256_challenge value \<longleftrightarrow>
     length value = 43
     \<and> list_all (\<lambda>c. is_ascii_alphanumeric c \<or> c \<in> {CHR ''-'', CHR ''_''}) value"

definition parse_login_status :: "string \<Rightarrow> (application_error, login_transaction_status) res" where
  "parse_login_status value =
     (if value = ''awaiting_browser_binding'' then Inr AwaitingBrowserBinding
      else if value = ''awaiting_method_selection'' then Inr AwaitingMethodSelection
      else if value = ''email_address_entry'' then Inr EmailAddressEntry
      else if value = ''email_challenge_pending'' then Inr EmailChallengePending
      else if value = ''provider_authorization_started'' then Inr ProviderAuthorizationStarted
      else if value = ''provider_exchange_in_progress'' then Inr ProviderExchangeInProgress
      else if value = ''provider_exchange_failed'' then Inr ProviderExchangeFailed
      else if value = ''authenticated'' then Inr Authenticated
      else if value = ''handoff_issued'' then Inr HandoffIssued
      else if value = ''completed'' then Inr LoginCompleted
      else if value = ''expired'' then Inr LoginExpired
      else if value = ''cancelled'' then Inr LoginCancelled
      else Inl (Err EIntegrity))"

definition expire_login :: "runtime_env \<Rightarrow> login_row \<Rightarrow> instant \<Rightarrow> (auth_db, unit) tx" where
  "expire_login env login now =
     m_bind (m_try (parse_login_status (lt_status login))) (\<lambda>status.
     if status \<in> {LoginCompleted, ProviderExchangeFailed, LoginExpired, LoginCancelled} then m_return ()
     else
       m_bind (m_try (bump (lt_transaction_revision login))) (\<lambda>rv.
       m_bind (db_update login_table (lt_id login)
         (\<lambda>r. r\<lparr>lt_status := login_status_as_str LoginExpired, lt_transaction_revision := rv,
                lt_terminal_at := Some now, lt_updated_at := now\<rparr>)) (\<lambda>_.
       append_runtime_audit env (lt_project_id login) ''system'' ''auth.login.expired''
         ''login_transaction'' (Some (lt_id login)) (lt_id login))))"

definition lock_login_application_owners ::
    "login_row \<Rightarrow> (auth_db, project_row \<times> application_row \<times> project_policy_row) query" where
  "lock_login_application_owners login db =
     and_then (select_one projects (\<lambda>p. p_id p = lt_project_id login) ENotFound db) (\<lambda>project.
     and_then (select_one applications (\<lambda>a. ap_id a = lt_application_id login
         \<and> ap_project_id a = lt_project_id login) ENotFound db) (\<lambda>application.
     and_then (select_one policies (\<lambda>p. pol_project_id p = lt_project_id login) EIntegrity db) (\<lambda>policy.
     if p_status project \<noteq> ''active''
       \<or> ap_status application \<noteq> ''active''
       \<or> p_metadata_revision project \<noteq> lt_project_metadata_revision login
       \<or> p_security_revision project \<noteq> lt_project_security_revision login
       \<or> ap_security_revision application \<noteq> lt_application_security_revision login
       \<or> pol_claims_revision policy \<noteq> lt_claims_revision login
       \<or> pol_session_revision policy \<noteq> lt_session_revision login
     then Inl (Err ERevisionConflict)
     else Inr (project, application, policy))))"

section \<open>Abandoned provider exchanges\<close>

record recover_exchanges =
  re_abandoned_before :: instant
  re_limit :: nat
  re_now :: instant

text \<open>
  The abandoned rows, oldest first and then by id, up to the limit.  A row that another
  transaction holds is skipped; \<open>locked\<close> says which.
\<close>

definition abandoned_exchanges :: "recover_exchanges \<Rightarrow> (login_row \<Rightarrow> bool) \<Rightarrow> auth_db \<Rightarrow> login_row list" where
  "abandoned_exchanges c locked db =
     take (re_limit c) (sort_key lt_updated_at (sort_key lt_id (filter (\<lambda>l.
       lt_status l = login_status_as_str ProviderExchangeInProgress
       \<and> lt_updated_at l < re_abandoned_before c
       \<and> \<not> locked l) (logins db))))"

definition fail_exchange ::
    "runtime_env \<Rightarrow> instant \<Rightarrow> string \<Rightarrow> login_row \<Rightarrow> (auth_db, unit) tx" where
  "fail_exchange env now action login =
     m_bind (m_try (bump (lt_transaction_revision login))) (\<lambda>rv.
     m_bind (db_update login_table (lt_id login)
       (\<lambda>r. r\<lparr>lt_status := login_status_as_str ProviderExchangeFailed, lt_transaction_revision := rv,
              lt_terminal_at := Some now, lt_updated_at := now\<rparr>)) (\<lambda>_.
     append_runtime_audit env (lt_project_id login) ''system'' action ''login_transaction''
       (Some (lt_id login)) (lt_id login)))"

definition recover_abandoned_provider_exchanges ::
    "runtime_env \<Rightarrow> recover_exchanges \<Rightarrow> (login_row \<Rightarrow> bool) \<Rightarrow> (auth_db, nat) tx" where
  "recover_abandoned_provider_exchanges env c locked =
     (if re_limit c = 0 \<or> re_limit c > 1000 \<or> re_abandoned_before c > re_now c then m_fail EInvalidInput
      else transaction (
        m_bind (m_read (\<lambda>db. Inr (abandoned_exchanges c locked db))) (\<lambda>abandoned.
        m_bind (m_for_each (fail_exchange env (re_now c) ''auth.provider_exchange.recovered'') abandoned)
          (\<lambda>_.
        m_return (Return (length abandoned))))))"

text \<open>A provider completion that fails after its claim: the failure is kept although it is an error.\<close>

definition terminalize_claimed_provider_exchange ::
    "runtime_env \<Rightarrow> login_row \<Rightarrow> instant \<Rightarrow> (auth_db, unit) tx" where
  "terminalize_claimed_provider_exchange env login now =
     (if lt_status login \<noteq> login_status_as_str ProviderExchangeInProgress then m_fail EInvalidTransition
      else fail_exchange env now ''auth.provider_exchange.failed'' login)"

definition fail_provider_completion ::
    "runtime_env \<Rightarrow> login_row \<Rightarrow> instant \<Rightarrow> application_error \<Rightarrow> (auth_db, 'a verdict) tx" where
  "fail_provider_completion env login now e =
     m_bind (terminalize_claimed_provider_exchange env login now) (\<lambda>_. m_return (Reject e))"

section \<open>Browser sessions\<close>

record browser_completion =
  bc_project_id :: uuid
  bc_user_id :: uuid
  bc_user_security_revision :: i64
  bc_browser_session_id :: uuid
  bc_existing_browser_credential :: "versioned_digest option"
  bc_browser_credential :: versioned_digest
  bc_project_security_revision :: i64
  bc_policy_session_revision :: i64
  bc_now :: instant

definition create_browser_session ::
    "runtime_env \<Rightarrow> browser_completion \<Rightarrow> (auth_db, browser_session_row) tx" where
  "create_browser_session env c =
     m_bind (m_try (expect (env_tadd env (bc_now c) (hours 8)))) (\<lambda>idle.
     m_bind (m_try (expect (env_tadd env (bc_now c) (hours 24)))) (\<lambda>absolute.
     db_insert browser_session_table
       \<lparr>bs_id = bc_browser_session_id c, bs_project_id = bc_project_id c, bs_user_id = bc_user_id c,
        bs_credential_digest = vd_value (bc_browser_credential c),
        bs_credential_digest_key_version = vd_key_version (bc_browser_credential c),
        bs_status = ''active'', bs_session_revision = 1,
        bs_project_security_revision = bc_project_security_revision c,
        bs_user_security_revision = bc_user_security_revision c,
        bs_policy_session_revision = bc_policy_session_revision c,
        bs_authenticated_at = bc_now c, bs_last_activity_at = bc_now c, bs_idle_expires_at = idle,
        bs_absolute_expires_at = absolute, bs_terminated_at = None, bs_created_at = bc_now c,
        bs_updated_at = bc_now c\<rparr>))"

definition rotate_browser_session ::
    "runtime_env \<Rightarrow> browser_completion \<Rightarrow> browser_session_row \<Rightarrow> (auth_db, browser_session_row) tx" where
  "rotate_browser_session env c existing =
     m_bind (m_try (bump (bs_session_revision existing))) (\<lambda>rv.
     m_bind (m_try (expect (env_tadd env (bc_now c) (hours 8)))) (\<lambda>idle.
     m_bind (m_try (expect (env_tadd env (bc_now c) (hours 24)))) (\<lambda>absolute.
     db_update browser_session_table (bs_id existing)
       (\<lambda>r. r\<lparr>bs_credential_digest := vd_value (bc_browser_credential c),
              bs_credential_digest_key_version := vd_key_version (bc_browser_credential c),
              bs_session_revision := rv,
              bs_project_security_revision := bc_project_security_revision c,
              bs_user_security_revision := bc_user_security_revision c,
              bs_policy_session_revision := bc_policy_session_revision c,
              bs_authenticated_at := bc_now c, bs_last_activity_at := bc_now c,
              bs_idle_expires_at := idle, bs_absolute_expires_at := absolute,
              bs_updated_at := bc_now c\<rparr>))))"

definition terminate_browser_session ::
    "browser_completion \<Rightarrow> browser_session_row \<Rightarrow> (auth_db, unit) tx" where
  "terminate_browser_session c existing =
     m_bind (m_try (bump (bs_session_revision existing))) (\<lambda>rv.
     m_bind (db_update browser_session_table (bs_id existing)
       (\<lambda>r. r\<lparr>bs_status := ''terminated'', bs_session_revision := rv,
              bs_terminated_at := Some (bc_now c), bs_updated_at := bc_now c\<rparr>)) (\<lambda>_. m_return ()))"

text \<open>
  A browser session is rotated when the presented credential is the live session of the same
  user; the live session of another user on the project is terminated.
\<close>

definition rotate_or_create_browser_session ::
    "runtime_env \<Rightarrow> browser_completion \<Rightarrow> (auth_db, browser_session_row) tx" where
  "rotate_or_create_browser_session env c =
     m_bind (m_read (\<lambda>db. Inr (case bc_existing_browser_credential c of
         None \<Rightarrow> None
       | Some credential \<Rightarrow> map_option (\<lambda>e. (credential, e)) (find (\<lambda>b.
           bs_credential_digest b = vd_value credential
           \<and> bs_credential_digest_key_version b = vd_key_version credential)
           (browser_sessions db))))) (\<lambda>found.
     case found of
       None \<Rightarrow> create_browser_session env c
     | Some (credential, existing) \<Rightarrow>
         if digest_matches (bs_credential_digest existing) (bs_credential_digest_key_version existing)
              credential
           \<and> bs_project_id existing = bc_project_id c
           \<and> bs_user_id existing = bc_user_id c
           \<and> bs_status existing = ''active''
         then rotate_browser_session env c existing
         else
           m_bind (m_when (bs_project_id existing = bc_project_id c \<and> bs_status existing = ''active'')
             (terminate_browser_session c existing)) (\<lambda>_.
           create_browser_session env c))"

section \<open>Handoff tickets\<close>

definition insert_handoff ::
    "runtime_env \<Rightarrow> uuid \<Rightarrow> versioned_digest \<Rightarrow> login_row \<Rightarrow> uuid \<Rightarrow> uuid \<Rightarrow> string \<Rightarrow> instant
     \<Rightarrow> instant \<Rightarrow> instant \<Rightarrow> i64 \<Rightarrow> (auth_db, handoff_row) tx" where
  "insert_handoff env ticket_id digest login user_id browser_session_id authentication_method
       authenticated_at issued_at expires_at user_security_revision =
     (if expires_at \<le> issued_at then m_fail EIntegrity
      else
        m_bind (m_try (expect (env_tadd env issued_at (seconds 60)))) (\<lambda>deadline.
        if expires_at \<noteq> min deadline (lt_expires_at login) then m_fail EIntegrity
        else
          m_bind (m_try (if authentication_method = ''provider''
                         then and_then (ok_or (lt_provider_configuration_id login) EIntegrity)
                                (\<lambda>p. Inr (Some p))
                         else Inr None)) (\<lambda>provider.
          db_insert handoff_table
            \<lparr>ht_id = ticket_id, ht_project_id = lt_project_id login,
             ht_login_transaction_id = lt_id login, ht_application_id = lt_application_id login,
             ht_user_id = user_id, ht_browser_session_id = browser_session_id,
             ht_provider_configuration_id = provider, ht_ticket_digest = vd_value digest,
             ht_ticket_digest_key_version = vd_key_version digest, ht_status = ''issued'',
             ht_redirect_uri = lt_redirect_uri login,
             ht_application_pkce_challenge = lt_application_pkce_challenge login,
             ht_authentication_method = authentication_method,
             ht_authenticated_at = authenticated_at,
             ht_project_security_revision = lt_project_security_revision login,
             ht_application_security_revision = lt_application_security_revision login,
             ht_user_security_revision = user_security_revision,
             ht_provider_revision =
               (case provider of None \<Rightarrow> None | Some _ \<Rightarrow> lt_provider_revision login),
             ht_assignment_security_revision =
               (case provider of None \<Rightarrow> None | Some _ \<Rightarrow> lt_assignment_security_revision login),
             ht_claims_revision = lt_claims_revision login,
             ht_policy_session_revision = lt_session_revision login,
             ht_issued_at = issued_at, ht_expires_at = expires_at, ht_consumed_at = None,
             ht_created_at = issued_at\<rparr>)))"

record confirm_reuse =
  cr_project_id :: uuid
  cr_transaction_id :: uuid
  cr_expected_transaction_revision :: i64
  cr_browser_binding :: versioned_digest
  cr_csrf :: versioned_digest
  cr_browser_credential :: versioned_digest
  cr_handoff_id :: uuid
  cr_handoff_ticket :: versioned_digest
  cr_now :: instant

record issued_handoff =
  ih_project_id :: uuid
  ih_application_id :: uuid
  ih_user_id :: uuid
  ih_user_public_id :: string
  ih_browser_session_id :: uuid
  ih_handoff_id :: uuid
  ih_redirect_uri :: string
  ih_application_state :: protected_value
  ih_expires_at :: instant

text \<open>The browser session may stand in for a login only while the project's policy allows it.\<close>

definition check_reuse_policy ::
    "project_policy_row \<Rightarrow> instant \<Rightarrow> browser_session_row \<Rightarrow> (application_error, unit) res" where
  "check_reuse_policy policy now session =
     (let reuse_enabled = (case Option.bind (json_get (pol_session_policy policy) ''browser_session_reuse'') as_bool of
                             None \<Rightarrow> False | Some b \<Rightarrow> b)
      in
      and_then (ok_or (Option.bind (json_get (pol_session_policy policy)
          ''browser_session_reuse_max_age_seconds'') as_i64) EIntegrity) (\<lambda>reuse_max_age.
      if \<not> reuse_enabled
        \<or> reuse_max_age < 0
        \<or> now < bs_authenticated_at session
        \<or> now - bs_authenticated_at session > seconds reuse_max_age
      then Inl (Err EDisabled)
      else Inr ()))"

text \<open>What the reuse reads and checks before its first write.\<close>

definition reuse_checks ::
    "confirm_reuse \<Rightarrow> browser_session_row \<Rightarrow> login_row
     \<Rightarrow> (auth_db, login_transaction_status \<times> application_row \<times> user_row \<times> browser_session_row) query" where
  "reuse_checks c routed_session login db =
     (if lt_transaction_revision login \<noteq> cr_expected_transaction_revision c
      then Inl (Err ERevisionConflict)
      else if \<not> optional_digest_matches (lt_browser_binding_digest login)
                (lt_browser_binding_digest_key_version login) (cr_browser_binding c)
        \<or> \<not> optional_digest_matches (lt_csrf_digest login) (lt_csrf_digest_key_version login) (cr_csrf c)
      then Inl (Err ENotFound)
      else
        and_then (parse_login_status (lt_status login)) (\<lambda>status0.
        case login_apply ConfirmSessionReuse status0 of
          (Inl (Err e), _) \<Rightarrow> Inl (Err (from_domain e))
        | (Inl Panic, _) \<Rightarrow> Inl Panic
        | (Inr _, status) \<Rightarrow>
          and_then (lock_login_application_owners login db) (\<lambda>(project, application, policy).
          and_then (select_one users (\<lambda>u. u_id u = bs_user_id routed_session
              \<and> u_project_id u = cr_project_id c) ENotFound db) (\<lambda>user.
          and_then (select_one browser_sessions (\<lambda>b. bs_id b = bs_id routed_session
              \<and> bs_project_id b = cr_project_id c) ENotFound db) (\<lambda>session.
          if \<not> digest_matches (bs_credential_digest session) (bs_credential_digest_key_version session)
                 (cr_browser_credential c)
            \<or> bs_status session \<noteq> ''active''
            \<or> bs_idle_expires_at session \<le> cr_now c
            \<or> bs_absolute_expires_at session \<le> cr_now c
            \<or> u_status user \<noteq> ''active''
            \<or> bs_project_security_revision session \<noteq> p_security_revision project
            \<or> bs_user_security_revision session \<noteq> u_security_revision user
            \<or> bs_policy_session_revision session \<noteq> pol_session_revision policy
          then Inl (Err EDisabled)
          else
            and_then (check_reuse_policy policy (cr_now c) session) (\<lambda>_.
            Inr (status, application, user, session)))))))"

definition reuse_writes ::
    "runtime_env \<Rightarrow> confirm_reuse \<Rightarrow> login_row \<Rightarrow> login_transaction_status \<Rightarrow> application_row \<Rightarrow> user_row
     \<Rightarrow> browser_session_row \<Rightarrow> (auth_db, issued_handoff verdict) tx" where
  "reuse_writes env c login status application user session =
     (let activity_at = max (bs_last_activity_at session) (cr_now c)
      in
      m_bind (m_try (bump (bs_session_revision session))) (\<lambda>session_revision.
      m_bind (m_try (expect (env_tadd env activity_at (hours 8)))) (\<lambda>idle.
      m_bind (db_update browser_session_table (bs_id session)
        (\<lambda>r. r\<lparr>bs_session_revision := session_revision, bs_last_activity_at := activity_at,
               bs_idle_expires_at := min idle (bs_absolute_expires_at session),
               bs_updated_at := cr_now c\<rparr>)) (\<lambda>_.
      m_bind (m_try (expect (env_tadd env (cr_now c) (seconds 60)))) (\<lambda>deadline.
      let expires_at = min deadline (lt_expires_at login)
      in
      if expires_at \<le> cr_now c then m_fail EInvalidTransition
      else
        m_bind (insert_handoff env (cr_handoff_id c) (cr_handoff_ticket c) login (u_id user)
          (bs_id session) ''session_reuse'' (bs_authenticated_at session) (cr_now c) expires_at
          (u_security_revision user)) (\<lambda>handoff.
        m_bind (m_try (bump (cr_expected_transaction_revision c))) (\<lambda>transaction_revision.
        m_bind (db_update login_table (lt_id login)
          (\<lambda>r. r\<lparr>lt_status := login_status_as_str status, lt_transaction_revision := transaction_revision,
                 lt_user_id := Some (u_id user),
                 lt_authenticated_at := Some (bs_authenticated_at session),
                 lt_updated_at := cr_now c\<rparr>)) (\<lambda>_.
        m_bind (append_runtime_audit env (cr_project_id c) ''project_user'' ''auth.login.session_reused''
          ''project_user'' (Some (u_id user)) (cr_transaction_id c)) (\<lambda>_.
        m_return (Return
          \<lparr>ih_project_id = cr_project_id c, ih_application_id = ap_id application,
           ih_user_id = u_id user, ih_user_public_id = u_public_id user,
           ih_browser_session_id = bs_id session, ih_handoff_id = ht_id handoff,
           ih_redirect_uri = lt_redirect_uri login,
           ih_application_state = \<lparr>pv_ciphertext = lt_application_state_ciphertext login,
             pv_key_version = lt_application_state_key_version login\<rparr>,
           ih_expires_at = expires_at\<rparr>))))))))))"

definition confirm_browser_session_reuse ::
    "runtime_env \<Rightarrow> confirm_reuse \<Rightarrow> auth_db \<Rightarrow> (auth_db, issued_handoff) tx" where
  "confirm_browser_session_reuse env c db0 =
     m_bind (m_try (validate_digest (cr_browser_binding c))) (\<lambda>_.
     m_bind (m_try (validate_digest (cr_csrf c))) (\<lambda>_.
     m_bind (m_try (validate_digest (cr_browser_credential c))) (\<lambda>_.
     m_bind (m_try (validate_digest (cr_handoff_ticket c))) (\<lambda>_.
     m_bind (m_try (select_one browser_sessions (\<lambda>b.
         bs_credential_digest b = vd_value (cr_browser_credential c)
         \<and> bs_credential_digest_key_version b = vd_key_version (cr_browser_credential c)) ENotFound db0))
       (\<lambda>routed_session. transaction (
     m_bind (m_read (select_one logins (\<lambda>l. lt_id l = cr_transaction_id c
         \<and> lt_project_id l = cr_project_id c) ENotFound)) (\<lambda>login.
     if lt_expires_at login \<le> cr_now c then
       m_bind (expire_login env login (cr_now c)) (\<lambda>_. m_return (Reject EInvalidTransition))
     else
       m_bind (m_read (reuse_checks c routed_session login)) (\<lambda>(status, application, user, session).
       reuse_writes env c login status application user session))))))))"

section \<open>Exchanging a ticket\<close>

record prepare_handoff =
  ph_project_id :: uuid
  ph_application_id :: uuid
  ph_handoff_ticket :: versioned_digest
  ph_application_pkce_challenge :: string
  ph_now :: instant

record handoff_preparation =
  hp_ticket_id :: uuid
  hp_project_public_id :: string
  hp_project_issuer :: string
  hp_application_public_id :: string
  hp_user_id :: uuid
  hp_user_public_id :: string
  hp_user_revision :: i64
  hp_user_security_revision :: i64
  hp_project_security_revision :: i64
  hp_application_security_revision :: i64
  hp_claims_revision :: i64
  hp_session_revision :: i64
  hp_projection_revision :: i64
  hp_projection_document :: json
  hp_signing_ring_id :: uuid
  hp_signing_key_id :: uuid
  hp_signing_kid :: string
  hp_signing_public_jwk :: json
  hp_signing_material_id :: uuid
  hp_signing_epoch :: i64
  hp_access_token_lifetime_seconds :: i64
  hp_authenticated_at :: instant

record commit_handoff =
  ch_project_id :: uuid
  ch_application_id :: uuid
  ch_handoff_ticket :: versioned_digest
  ch_application_pkce_challenge :: string
  ch_preparation :: handoff_preparation
  ch_binding_id :: uuid
  ch_projection_id :: uuid
  ch_application_session_id :: uuid
  ch_refresh_family_id :: uuid
  ch_refresh_generation_id :: uuid
  ch_refresh_token :: versioned_digest
  ch_allowed_clock_skew_seconds :: i64
  ch_now :: instant

record handoff_session =
  hs_project_id :: uuid
  hs_application_id :: uuid
  hs_user_id :: uuid
  hs_user_public_id :: string
  hs_binding_id :: uuid
  hs_projection_revision :: i64
  hs_application_session_id :: uuid
  hs_refresh_family_id :: uuid
  hs_refresh_generation :: i64
  hs_absolute_expires_at :: instant

definition select_ticket ::
    "uuid \<Rightarrow> uuid \<Rightarrow> versioned_digest \<Rightarrow> (auth_db, handoff_row) query" where
  "select_ticket project_id application_id digest db = select_one tickets (\<lambda>t.
     ht_project_id t = project_id
     \<and> ht_application_id t = application_id
     \<and> ht_ticket_digest t = vd_value digest
     \<and> ht_ticket_digest_key_version t = vd_key_version digest) ENotFound db"

text \<open>Project, application, user, policy and browser session of a ticket.\<close>

definition lock_ticket_owners ::
    "uuid \<Rightarrow> uuid \<Rightarrow> handoff_row
     \<Rightarrow> (auth_db, project_row \<times> application_row \<times> user_row \<times> project_policy_row \<times> browser_session_row) query" where
  "lock_ticket_owners project_id application_id ticket db =
     and_then (select_one projects (\<lambda>p. p_id p = project_id) ENotFound db) (\<lambda>project.
     and_then (select_one applications (\<lambda>a. ap_id a = application_id \<and> ap_project_id a = project_id)
         ENotFound db) (\<lambda>application.
     and_then (select_one users (\<lambda>u. u_id u = ht_user_id ticket \<and> u_project_id u = project_id)
         ENotFound db) (\<lambda>user.
     and_then (select_one policies (\<lambda>p. pol_project_id p = project_id) EIntegrity db) (\<lambda>policy.
     and_then (select_one browser_sessions (\<lambda>b. bs_id b = ht_browser_session_id ticket
         \<and> bs_project_id b = project_id \<and> bs_user_id b = ht_user_id ticket) EIntegrity db) (\<lambda>browser.
     Inr (project, application, user, policy, browser))))))"

text \<open>The owners are live and at the revisions the ticket was issued for.\<close>

definition ticket_owners_changed ::
    "instant \<Rightarrow> handoff_row \<Rightarrow> project_row \<Rightarrow> application_row \<Rightarrow> user_row \<Rightarrow> project_policy_row
     \<Rightarrow> browser_session_row \<Rightarrow> bool" where
  "ticket_owners_changed now ticket project application user policy browser \<longleftrightarrow>
     p_status project \<noteq> ''active''
     \<or> ap_status application \<noteq> ''active''
     \<or> u_status user \<noteq> ''active''
     \<or> p_security_revision project \<noteq> ht_project_security_revision ticket
     \<or> ap_security_revision application \<noteq> ht_application_security_revision ticket
     \<or> u_security_revision user \<noteq> ht_user_security_revision ticket
     \<or> pol_claims_revision policy \<noteq> ht_claims_revision ticket
     \<or> pol_session_revision policy \<noteq> ht_policy_session_revision ticket
     \<or> browser_is_dead now project user policy browser"

definition check_ticket_provider ::
    "uuid \<Rightarrow> uuid \<Rightarrow> handoff_row \<Rightarrow> (auth_db, unit) query" where
  "check_ticket_provider project_id application_id ticket db =
     (if ht_authentication_method ticket = ''provider'' then
        and_then (ok_or (ht_provider_configuration_id ticket) EIntegrity) (\<lambda>provider_id.
        and_then (select_one providers (\<lambda>p. pc_id p = provider_id \<and> pc_project_id p = project_id)
            ENotFound db) (\<lambda>provider.
        and_then (select_one assignments (\<lambda>a. pa_project_id a = project_id
            \<and> pa_application_id a = application_id \<and> pa_provider_id a = provider_id) ENotFound db)
          (\<lambda>assignment.
        if pc_status provider \<noteq> ''active''
          \<or> Some (pc_revision provider) \<noteq> ht_provider_revision ticket
          \<or> pa_status assignment \<noteq> ''active''
          \<or> Some (pa_security_revision assignment) \<noteq> ht_assignment_security_revision ticket
        then Inl (Err ERevisionConflict)
        else Inr ())))
      else Inr ())"

definition find_binding :: "uuid \<Rightarrow> uuid \<Rightarrow> user_row \<Rightarrow> auth_db \<Rightarrow> binding_row option" where
  "find_binding project_id application_id user db = find (\<lambda>b. bi_project_id b = project_id
     \<and> bi_application_id b = application_id \<and> bi_user_id b = u_id user) (bindings db)"

definition find_projection :: "uuid \<Rightarrow> binding_row \<Rightarrow> auth_db \<Rightarrow> projection_row option" where
  "find_projection project_id binding db = find (\<lambda>p. pj_project_id p = project_id
     \<and> pj_binding_id p = bi_id binding) (projections db)"

definition prepare_handoff_query ::
    "runtime_env \<Rightarrow> prepare_handoff \<Rightarrow> (auth_db, handoff_preparation) query" where
  "prepare_handoff_query env c db =
     and_then (select_ticket (ph_project_id c) (ph_application_id c) (ph_handoff_ticket c) db) (\<lambda>ticket.
     if \<not> digest_matches (ht_ticket_digest ticket) (ht_ticket_digest_key_version ticket) (ph_handoff_ticket c)
       \<or> ht_application_pkce_challenge ticket \<noteq> ph_application_pkce_challenge c
     then Inl (Err ENotFound)
     else if ht_status ticket \<noteq> ''issued'' \<or> ht_expires_at ticket \<le> ph_now c
     then Inl (Err EInvalidTransition)
     else
       and_then (select_one logins (\<lambda>l. lt_id l = ht_login_transaction_id ticket
           \<and> lt_project_id l = ph_project_id c) EIntegrity db) (\<lambda>login.
       and_then (lock_ticket_owners (ph_project_id c) (ph_application_id c) ticket db)
         (\<lambda>(project, application, user, policy, browser).
       if lt_status login \<noteq> login_status_as_str HandoffIssued
         \<or> lt_user_id login \<noteq> Some (ht_user_id ticket)
         \<or> lt_application_id login \<noteq> ht_application_id ticket
         \<or> ticket_owners_changed (ph_now c) ticket project application user policy browser
       then Inl (Err ERevisionConflict)
       else
         and_then (check_ticket_provider (ph_project_id c) (ph_application_id c) ticket db) (\<lambda>_.
         let binding = find_binding (ph_project_id c) (ph_application_id c) user db;
             projection = Option.bind binding (\<lambda>b. find_projection (ph_project_id c) b db)
         in
         if (case binding of None \<Rightarrow> False | Some b \<Rightarrow> bi_status b \<noteq> ''active'')
         then Inl (Err EDisabled)
         else if binding \<noteq> None \<and> projection = None then Inl (Err EIntegrity)
         else
           and_then (authoritative_runtime_projection_material env projection (ap_id application) user db)
             (\<lambda>material.
           and_then (active_signing_snapshot (ph_project_id c) (ph_now c) db) (\<lambda>signing.
           and_then (access_token_lifetime policy) (\<lambda>lifetime.
           Inr
             \<lparr>hp_ticket_id = ht_id ticket, hp_project_public_id = p_public_id project,
              hp_project_issuer = sg_issuer signing,
              hp_application_public_id = ap_public_id application, hp_user_id = u_id user,
              hp_user_public_id = u_public_id user, hp_user_revision = u_user_revision user,
              hp_user_security_revision = u_security_revision user,
              hp_project_security_revision = p_security_revision project,
              hp_application_security_revision = ap_security_revision application,
              hp_claims_revision = pol_claims_revision policy,
              hp_session_revision = pol_session_revision policy,
              hp_projection_revision = pm_revision material,
              hp_projection_document = pm_document material,
              hp_signing_ring_id = sg_ring_id signing, hp_signing_key_id = sg_key_id signing,
              hp_signing_kid = sg_kid signing, hp_signing_public_jwk = sg_public_jwk signing,
              hp_signing_material_id = sg_material_id signing, hp_signing_epoch = sg_epoch signing,
              hp_access_token_lifetime_seconds = lifetime,
              hp_authenticated_at = ht_authenticated_at ticket\<rparr>)))))))"

definition prepare_handoff_exchange ::
    "runtime_env \<Rightarrow> prepare_handoff \<Rightarrow> (auth_db, handoff_preparation) tx" where
  "prepare_handoff_exchange env c =
     m_bind (m_try (validate_digest (ph_handoff_ticket c))) (\<lambda>_.
     if \<not> is_pkce_s256_challenge (ph_application_pkce_challenge c) then m_fail EInvalidInput
     else transaction (m_bind (m_read (prepare_handoff_query env c)) (\<lambda>p. m_return (Return p))))"

text \<open>
  The checks of the exchange.  The token lifetime is read in the middle of the condition, so
  an unreadable policy is reported only when everything before it agrees.
\<close>

definition commit_owners_changed ::
    "commit_handoff \<Rightarrow> handoff_row \<Rightarrow> project_row \<Rightarrow> application_row \<Rightarrow> user_row \<Rightarrow> project_policy_row
     \<Rightarrow> browser_session_row \<Rightarrow> bool" where
  "commit_owners_changed c ticket project application user policy browser \<longleftrightarrow>
     p_status project \<noteq> ''active''
     \<or> ap_status application \<noteq> ''active''
     \<or> u_status user \<noteq> ''active''
     \<or> bs_status browser \<noteq> ''active''
     \<or> bs_idle_expires_at browser \<le> ch_now c
     \<or> bs_absolute_expires_at browser \<le> ch_now c
     \<or> p_security_revision project \<noteq> ht_project_security_revision ticket
     \<or> ap_security_revision application \<noteq> ht_application_security_revision ticket
     \<or> u_id user \<noteq> hp_user_id (ch_preparation c)
     \<or> u_public_id user \<noteq> hp_user_public_id (ch_preparation c)
     \<or> p_security_revision project \<noteq> hp_project_security_revision (ch_preparation c)
     \<or> ap_security_revision application \<noteq> hp_application_security_revision (ch_preparation c)
     \<or> u_security_revision user \<noteq> ht_user_security_revision ticket
     \<or> u_security_revision user \<noteq> hp_user_security_revision (ch_preparation c)
     \<or> u_user_revision user \<noteq> hp_user_revision (ch_preparation c)
     \<or> pol_claims_revision policy \<noteq> ht_claims_revision ticket
     \<or> pol_claims_revision policy \<noteq> hp_claims_revision (ch_preparation c)
     \<or> pol_session_revision policy \<noteq> ht_policy_session_revision ticket
     \<or> pol_session_revision policy \<noteq> hp_session_revision (ch_preparation c)
     \<or> ht_authenticated_at ticket \<noteq> hp_authenticated_at (ch_preparation c)"

definition commit_checks ::
    "runtime_env \<Rightarrow> commit_handoff \<Rightarrow> handoff_row
     \<Rightarrow> (auth_db, login_row \<times> project_row \<times> application_row \<times> user_row \<times> project_policy_row
                  \<times> browser_session_row) query" where
  "commit_checks env c ticket db =
     (if ht_application_pkce_challenge ticket \<noteq> ch_application_pkce_challenge c then Inl (Err ENotFound)
      else
        and_then (select_one logins (\<lambda>l. lt_id l = ht_login_transaction_id ticket
            \<and> lt_project_id l = ch_project_id c) EIntegrity db) (\<lambda>login.
        if lt_status login \<noteq> login_status_as_str HandoffIssued
          \<or> lt_user_id login \<noteq> Some (ht_user_id ticket)
          \<or> lt_application_id login \<noteq> ht_application_id ticket
          \<or> lt_redirect_uri login \<noteq> ht_redirect_uri ticket
          \<or> lt_application_pkce_challenge login \<noteq> ht_application_pkce_challenge ticket
        then Inl (Err EIntegrity)
        else
          and_then (expect (env_tadd env (ht_issued_at ticket) (seconds 60))) (\<lambda>deadline.
          if ht_expires_at ticket \<noteq> min deadline (lt_expires_at login) then Inl (Err EIntegrity)
          else
            and_then (lock_ticket_owners (ch_project_id c) (ch_application_id c) ticket db)
              (\<lambda>(project, application, user, policy, browser).
            if commit_owners_changed c ticket project application user policy browser
            then Inl (Err ERevisionConflict)
            else
              and_then (access_token_lifetime policy) (\<lambda>lifetime.
              if lifetime \<noteq> hp_access_token_lifetime_seconds (ch_preparation c)
                \<or> bs_project_security_revision browser \<noteq> p_security_revision project
                \<or> bs_user_security_revision browser \<noteq> u_security_revision user
                \<or> bs_policy_session_revision browser \<noteq> pol_session_revision policy
              then Inl (Err ERevisionConflict)
              else
                and_then (check_ticket_provider (ch_project_id c) (ch_application_id c) ticket db) (\<lambda>_.
                and_then (lock_signing_epoch (ch_project_id c) (hp_signing_ring_id (ch_preparation c))
                    (hp_signing_key_id (ch_preparation c)) (hp_signing_epoch (ch_preparation c))
                    (ch_now c) db) (\<lambda>_.
                Inr (login, project, application, user, policy, browser))))))))"

definition commit_binding ::
    "commit_handoff \<Rightarrow> user_row \<Rightarrow> (auth_db, binding_row) tx" where
  "commit_binding c user =
     m_bind (m_read (\<lambda>db. Inr (find_binding (ch_project_id c) (ch_application_id c) user db))) (\<lambda>found.
     case found of
       Some binding \<Rightarrow> if bi_status binding = ''active'' then m_return binding else m_fail EDisabled
     | None \<Rightarrow>
         m_bind (m_read (\<lambda>db. Inr (take MAX_APPLICATION_BINDINGS_PER_USER (filter (\<lambda>b.
             bi_project_id b = ch_project_id c \<and> bi_user_id b = u_id user) (bindings db))))) (\<lambda>existing.
         if length existing \<ge> MAX_APPLICATION_BINDINGS_PER_USER then m_fail EInvalidTransition
         else db_insert binding_table
           \<lparr>bi_id = ch_binding_id c, bi_project_id = ch_project_id c,
            bi_application_id = ch_application_id c, bi_user_id = u_id user, bi_status = ''active'',
            bi_binding_revision = 1, bi_merged_into_binding_id = None, bi_merged_at = None,
            bi_created_at = ch_now c, bi_updated_at = ch_now c\<rparr>))"

definition projection_event_type ::
    "projection_row option \<Rightarrow> projection_material \<Rightarrow> user_row \<Rightarrow> application_user_event_type option" where
  "projection_event_type existing material user =
     (if existing = None then Some EventCreated
      else if pm_semantic_change material
      then Some (if u_status user = ''disabled'' then EventDisabled else EventUpdated)
      else None)"

definition commit_projection ::
    "runtime_env \<Rightarrow> commit_handoff \<Rightarrow> project_row \<Rightarrow> application_row \<Rightarrow> user_row \<Rightarrow> binding_row
     \<Rightarrow> (auth_db, projection_row) tx" where
  "commit_projection env c project application user binding =
     m_bind (m_read (\<lambda>db. Inr (find_projection (ch_project_id c) binding db))) (\<lambda>existing.
     m_bind (m_read (authoritative_runtime_projection_material env existing (ap_id application) user))
       (\<lambda>material.
     if pm_revision material \<noteq> hp_projection_revision (ch_preparation c)
       \<or> pm_document material \<noteq> hp_projection_document (ch_preparation c)
     then m_fail ERevisionConflict
     else
       m_bind (case existing of
           Some projection \<Rightarrow>
             m_bind (repair_runtime_projection env projection (ap_id application) user (ch_now c))
               (\<lambda>(row, _). m_return row)
         | None \<Rightarrow> db_insert projection_table
             \<lparr>pj_id = ch_projection_id c, pj_project_id = ch_project_id c,
              pj_binding_id = bi_id binding, pj_application_id = ch_application_id c,
              pj_user_id = u_id user, pj_schema_name = USER_PROJECTION_SCHEMA_V1,
              pj_projection_revision = pm_revision material,
              pj_source_user_revision = u_user_revision user,
              pj_canonical_digest = pm_digest material,
              pj_source_base_profile_digest = u_base_profile_digest user,
              pj_verified_email_source_identity_id = pm_source_identity_id material,
              pj_verified_email_ciphertext = pm_ciphertext material,
              pj_verified_email_key_version = pm_key_version material,
              pj_document = pm_storage_document material, pj_created_at = ch_now c,
              pj_updated_at = ch_now c\<rparr>) (\<lambda>projection.
       m_bind (case projection_event_type existing material user of
           None \<Rightarrow> m_return ()
         | Some event_type \<Rightarrow>
             m_bind (append_projection_event env (p_public_id project) (ap_public_id application)
               (bi_id binding) projection (pm_document material) event_type) (\<lambda>_. m_return ())) (\<lambda>_.
       m_return projection))))"

definition to_i32 :: "i64 \<Rightarrow> i32 option" where
  "to_i32 n = (if - (2 ^ 31) \<le> n \<and> n < 2 ^ 31 then Some n else None)"

text \<open>The application session with its refresh family and first generation.\<close>

definition commit_session ::
    "runtime_env \<Rightarrow> commit_handoff \<Rightarrow> handoff_row \<Rightarrow> project_row \<Rightarrow> application_row \<Rightarrow> user_row
     \<Rightarrow> project_policy_row \<Rightarrow> browser_session_row \<Rightarrow> binding_row \<Rightarrow> (auth_db, instant) tx" where
  "commit_session env c ticket project application user policy browser binding =
     m_bind (m_try (expect (env_tadd env (ch_now c) (days 30)))) (\<lambda>absolute_expires_at.
     m_bind (m_try (expect (env_tadd env absolute_expires_at (seconds (ch_allowed_clock_skew_seconds c)))))
       (\<lambda>retain_until.
     m_bind (m_try (ok_or (to_i32 (ch_allowed_clock_skew_seconds c)) EInvalidInput)) (\<lambda>skew.
     m_bind (db_insert session_table
       \<lparr>ss_id = ch_application_session_id c, ss_project_id = ch_project_id c,
        ss_application_id = ch_application_id c, ss_user_id = u_id user, ss_binding_id = bi_id binding,
        ss_browser_session_id = Some (bs_id browser), ss_status = ''active'', ss_session_revision = 1,
        ss_project_security_revision = p_security_revision project,
        ss_application_security_revision = ap_security_revision application,
        ss_user_security_revision = u_security_revision user,
        ss_claims_revision = pol_claims_revision policy,
        ss_policy_session_revision = pol_session_revision policy,
        ss_authenticated_at = ht_authenticated_at ticket,
        ss_absolute_expires_at = absolute_expires_at, ss_revoked_at = None,
        ss_created_at = ch_now c, ss_updated_at = ch_now c\<rparr>) (\<lambda>_.
     m_bind (db_insert family_table
       \<lparr>rf_id = ch_refresh_family_id c, rf_project_id = ch_project_id c,
        rf_application_id = ch_application_id c, rf_user_id = u_id user,
        rf_application_session_id = ch_application_session_id c, rf_status = ''active'',
        rf_family_revision = 1, rf_current_generation = 1, rf_allowed_clock_skew_seconds = skew,
        rf_absolute_expires_at = absolute_expires_at, rf_revoked_at = None,
        rf_revocation_reason = None, rf_created_at = ch_now c, rf_updated_at = ch_now c\<rparr>) (\<lambda>_.
     m_bind (db_insert generation_table
       \<lparr>rg_id = ch_refresh_generation_id c, rg_project_id = ch_project_id c,
        rg_family_id = ch_refresh_family_id c, rg_application_id = ch_application_id c,
        rg_user_id = u_id user, rg_generation = 1, rg_token_digest = vd_value (ch_refresh_token c),
        rg_token_digest_key_version = vd_key_version (ch_refresh_token c), rg_status = ''current'',
        rg_consumed_at = None, rg_replay_detected_at = None, rg_retain_until = retain_until,
        rg_created_at = ch_now c\<rparr>) (\<lambda>_.
     m_return absolute_expires_at))))))"

definition commit_login :: "commit_handoff \<Rightarrow> handoff_row \<Rightarrow> login_row \<Rightarrow> (auth_db, unit) tx" where
  "commit_login c ticket login =
     m_bind (db_update handoff_table (ht_id ticket)
       (\<lambda>r. r\<lparr>ht_status := ''consumed'', ht_consumed_at := Some (ch_now c)\<rparr>)) (\<lambda>_.
     m_bind (m_try (parse_login_status (lt_status login))) (\<lambda>status0.
     m_bind (m_try (case login_apply Complete status0 of
         (Inl (Err e), _) \<Rightarrow> Inl (Err (from_domain e))
       | (Inl Panic, _) \<Rightarrow> Inl Panic
       | (Inr _, status) \<Rightarrow> Inr status)) (\<lambda>status.
     m_bind (m_try (bump (lt_transaction_revision login))) (\<lambda>rv.
     m_bind (db_update login_table (lt_id login)
       (\<lambda>r. r\<lparr>lt_status := login_status_as_str status, lt_transaction_revision := rv,
              lt_terminal_at := Some (ch_now c), lt_updated_at := ch_now c\<rparr>)) (\<lambda>_.
     m_return ())))))"

definition commit_writes ::
    "runtime_env \<Rightarrow> commit_handoff \<Rightarrow> handoff_row \<Rightarrow> login_row \<Rightarrow> project_row \<Rightarrow> application_row \<Rightarrow> user_row
     \<Rightarrow> project_policy_row \<Rightarrow> browser_session_row \<Rightarrow> (auth_db, handoff_session verdict) tx" where
  "commit_writes env c ticket login project application user policy browser =
     m_bind (commit_binding c user) (\<lambda>binding.
     m_bind (commit_projection env c project application user binding) (\<lambda>projection.
     m_bind (commit_session env c ticket project application user policy browser binding) (\<lambda>absolute_expires_at.
     m_bind (commit_login c ticket login) (\<lambda>_.
     m_bind (append_runtime_audit env (ch_project_id c) ''project_user'' ''auth.handoff.exchanged''
       ''application_session'' (Some (ch_application_session_id c)) (ch_application_session_id c)) (\<lambda>_.
     m_return (Return
       \<lparr>hs_project_id = ch_project_id c, hs_application_id = ch_application_id c,
        hs_user_id = u_id user, hs_user_public_id = u_public_id user, hs_binding_id = bi_id binding,
        hs_projection_revision = pj_projection_revision projection,
        hs_application_session_id = ch_application_session_id c,
        hs_refresh_family_id = ch_refresh_family_id c, hs_refresh_generation = 1,
        hs_absolute_expires_at = absolute_expires_at\<rparr>))))))"

definition expire_ticket :: "runtime_env \<Rightarrow> commit_handoff \<Rightarrow> handoff_row \<Rightarrow> (auth_db, unit) tx" where
  "expire_ticket env c ticket =
     m_bind (db_update handoff_table (ht_id ticket) (\<lambda>r. r\<lparr>ht_status := ''expired''\<rparr>)) (\<lambda>_.
     append_runtime_audit env (ch_project_id c) ''system'' ''auth.handoff.expired'' ''handoff_ticket''
       (Some (ht_id ticket)) (ht_id ticket))"

definition commit_handoff_body ::
    "runtime_env \<Rightarrow> commit_handoff \<Rightarrow> (auth_db, handoff_session verdict) tx" where
  "commit_handoff_body env c =
     m_bind (m_read (select_ticket (ch_project_id c) (ch_application_id c) (ch_handoff_ticket c))) (\<lambda>ticket.
     if \<not> digest_matches (ht_ticket_digest ticket) (ht_ticket_digest_key_version ticket) (ch_handoff_ticket c)
     then m_fail ENotFound
     else if ht_id ticket \<noteq> hp_ticket_id (ch_preparation c)
       \<or> ht_status ticket \<noteq> ''issued''
       \<or> ht_expires_at ticket \<le> ch_now c
     then
       if ht_status ticket = ''issued'' \<and> ht_expires_at ticket \<le> ch_now c
       then m_bind (expire_ticket env c ticket) (\<lambda>_. m_return (Reject EInvalidTransition))
       else m_fail EInvalidTransition
     else
       m_bind (m_read (commit_checks env c ticket)) (\<lambda>(login, project, application, user, policy, browser).
       commit_writes env c ticket login project application user policy browser))"

definition commit_handoff_exchange ::
    "runtime_env \<Rightarrow> commit_handoff \<Rightarrow> (auth_db, handoff_session) tx" where
  "commit_handoff_exchange env c =
     m_bind (m_try (validate_digest (ch_handoff_ticket c))) (\<lambda>_.
     m_bind (m_try (validate_digest (ch_refresh_token c))) (\<lambda>_.
     if \<not> is_pkce_s256_challenge (ch_application_pkce_challenge c)
       \<or> hp_user_revision (ch_preparation c) \<le> 0
       \<or> hp_signing_epoch (ch_preparation c) \<le> 0
       \<or> \<not> (0 \<le> ch_allowed_clock_skew_seconds c \<and> ch_allowed_clock_skew_seconds c \<le> 300)
     then m_fail EInvalidInput
     else transaction (commit_handoff_body env c)))"

end
