(* ===== verification/Owl_Logins.thy ===== *)
theory Owl_Logins
  imports Owl_Handoffs Owl_Values
begin

text \<open>
  \<open>adapters/postgres/authentication.rs\<close> with the commands of \<open>application/authentication.rs\<close>:
  the life of a login transaction from its creation to the claim of the provider callback.
  Every operation is the whole method: validation, routing reads before the transaction, the
  locked rows and their checks, the writes and the audit record.
\<close>

section \<open>Commands and results\<close>

record login_revisions =
  lr_project_metadata_revision :: i64
  lr_project_security_revision :: i64
  lr_application_security_revision :: i64
  lr_claims_revision :: i64
  lr_session_revision :: i64

record admitted_provider =
  am_kind :: provider_kind
  am_method_key :: string
  am_provider_id :: uuid
  am_display_name :: string
  am_issuer :: string
  am_provider_revision :: i64
  am_provider_egress_policy_revision :: "i64 option"
  am_assignment_security_revision :: i64

record admitted_email =
  ae_policy_revision :: i64
  ae_security_revision :: i64
  ae_assignment_security_revision :: i64
  ae_otp_enabled :: bool
  ae_magic_link_enabled :: bool
  ae_otp_digits :: int
  ae_otp_validity_seconds :: i32
  ae_otp_max_attempts :: int
  ae_resend_after_seconds :: i32
  ae_max_generations :: int
  ae_magic_validity_seconds :: i32
  ae_signup_enabled :: bool
  ae_transferred_magic_link_enabled :: bool
  ae_smtp_selection_kind :: string
  ae_smtp_configuration_id :: "uuid option"
  ae_smtp_generation :: i32
  ae_smtp_security_eligibility_revision :: i64

record create_login =
  cg_id :: uuid
  cg_project_id :: uuid
  cg_application_id :: uuid
  cg_interaction :: versioned_digest
  cg_redirect_uri :: string
  cg_application_pkce_challenge :: string
  cg_application_state :: protected_value
  cg_presentation_hint :: "string option"
  cg_revisions :: login_revisions
  cg_created_at :: instant
  cg_expires_at :: instant
  cg_admitted_providers :: "admitted_provider list"
  cg_admitted_email :: "admitted_email option"

record login_transaction_record =
  lc_id :: uuid
  lc_project_id :: uuid
  lc_application_id :: uuid
  lc_status :: login_transaction_status
  lc_transaction_revision :: i64
  lc_expires_at :: instant

record bind_hosted =
  bh_interaction :: versioned_digest
  bh_expected_transaction_revision :: i64
  bh_browser_binding :: versioned_digest
  bh_csrf :: versioned_digest
  bh_now :: instant

record select_provider =
  sp_project_id :: uuid
  sp_transaction_id :: uuid
  sp_expected_transaction_revision :: i64
  sp_method_key :: string
  sp_provider_id :: uuid
  sp_browser_binding :: versioned_digest
  sp_csrf :: versioned_digest
  sp_callback_url :: string
  sp_upstream_state :: versioned_digest
  sp_oidc_nonce :: versioned_digest
  sp_provider_pkce :: protected_value
  sp_now :: instant

record provider_callback =
  cb_transaction_id :: uuid
  cb_project_public_id :: string
  cb_provider_key :: string
  cb_upstream_state :: versioned_digest
  cb_browser_binding :: versioned_digest
  cb_now :: instant

text \<open>
  \<open>ClaimProviderCallback\<close> and \<open>DenyProviderCallback\<close> share their first fields; a claim carries
  the readable key versions, a denial the outcome for the audit.
\<close>

record claim_callback = provider_callback +
  cc_readable_key_versions :: "i32 list"

record deny_callback = provider_callback +
  dc_safe_outcome :: string

record fail_login =
  fe_project_id :: uuid
  fe_transaction_id :: uuid
  fe_expected_transaction_revision :: i64
  fe_now :: instant

record claimed_exchange =
  cx_transaction :: login_transaction_record
  cx_provider_id :: uuid
  cx_callback_url :: string
  cx_oidc_nonce :: versioned_digest
  cx_provider_pkce :: protected_value

section \<open>Validation\<close>

definition effective_provider_kind :: "string \<Rightarrow> string \<Rightarrow> (application_error, provider_kind) res" where
  "effective_provider_kind stored_kind issuer =
     and_then (map_err (\<lambda>_. EIntegrity) (provider_kind_parse stored_kind)) (\<lambda>kind.
     if \<not> issuer_matches kind issuer then Inl (Err EIntegrity) else Inr kind)"

definition validate_protected :: "protected_value \<Rightarrow> (application_error, unit) res" where
  "validate_protected value =
     (if pv_key_version value \<le> 0 \<or> \<not> (17 \<le> length (pv_ciphertext value) \<and> length (pv_ciphertext value) \<le> 4096)
      then Inl (Err EInvalidInput) else Inr ())"

definition validate_revisions :: "login_revisions \<Rightarrow> (application_error, unit) res" where
  "validate_revisions revisions =
     (if lr_project_metadata_revision revisions \<le> 0
       \<or> lr_project_security_revision revisions \<le> 0
       \<or> lr_application_security_revision revisions \<le> 0
       \<or> lr_claims_revision revisions \<le> 0
       \<or> lr_session_revision revisions \<le> 0
      then Inl (Err EInvalidInput) else Inr ())"

definition validate_login_command :: "runtime_env \<Rightarrow> create_login \<Rightarrow> (application_error, unit) res" where
  "validate_login_command env c =
     and_then (validate_digest (cg_interaction c)) (\<lambda>_.
     and_then (validate_protected (cg_application_state c)) (\<lambda>_.
     and_then (validate_revisions (cg_revisions c)) (\<lambda>_.
     if \<not> is_pkce_s256_challenge (cg_application_pkce_challenge c)
       \<or> length (cg_redirect_uri c) < 8
       \<or> (cg_admitted_providers c = [] \<and> cg_admitted_email c = None)
     then Inl (Err EInvalidInput)
     else and_then (expect (env_tadd env (cg_created_at c) (minutes 10))) (\<lambda>deadline.
       if cg_expires_at c \<noteq> deadline then Inl (Err EInvalidInput) else Inr ()))))"

definition validate_admitted_email :: "admitted_email \<Rightarrow> (application_error, unit) res" where
  "validate_admitted_email m =
     (if ae_policy_revision m \<le> 0
       \<or> ae_security_revision m \<le> 0
       \<or> ae_assignment_security_revision m \<le> 0
       \<or> (\<not> ae_otp_enabled m \<and> \<not> ae_magic_link_enabled m)
       \<or> \<not> (6 \<le> ae_otp_digits m \<and> ae_otp_digits m \<le> 10)
       \<or> \<not> (30 \<le> ae_otp_validity_seconds m \<and> ae_otp_validity_seconds m \<le> 600)
       \<or> \<not> (1 \<le> ae_otp_max_attempts m \<and> ae_otp_max_attempts m \<le> 5)
       \<or> \<not> (30 \<le> ae_resend_after_seconds m \<and> ae_resend_after_seconds m \<le> 600)
       \<or> \<not> (1 \<le> ae_max_generations m \<and> ae_max_generations m \<le> 5)
       \<or> \<not> (30 \<le> ae_magic_validity_seconds m \<and> ae_magic_validity_seconds m \<le> 600)
       \<or> ae_smtp_selection_kind m \<notin> {''project'', ''deployment_default''}
       \<or> (ae_smtp_selection_kind m = ''project'') \<noteq> (ae_smtp_configuration_id m \<noteq> None)
       \<or> ae_smtp_generation m \<le> 0
       \<or> ae_smtp_security_eligibility_revision m \<le> 0
      then Inl (Err EInvalidInput) else Inr ())"

definition validate_admitted_provider :: "admitted_provider \<Rightarrow> (application_error, unit) res" where
  "validate_admitted_provider m =
     (if am_method_key m = []
       \<or> am_display_name m = []
       \<or> am_issuer m = []
       \<or> length (am_issuer m) > 2048
       \<or> \<not> pc_login (provider_kind_capabilities (am_kind m))
       \<or> \<not> issuer_matches (am_kind m) (am_issuer m)
       \<or> am_provider_revision m \<le> 0
       \<or> am_assignment_security_revision m \<le> 0
      then Inl (Err EInvalidInput) else Inr ())"

definition digest_array :: "string option \<Rightarrow> (application_error, string) res" where
  "digest_array value =
     (case value of
        None \<Rightarrow> Inl (Err EIntegrity)
      | Some v \<Rightarrow> if length v = 32 then Inr v else Inl (Err EIntegrity))"

definition login_record :: "login_row \<Rightarrow> (application_error, login_transaction_record) res" where
  "login_record model =
     and_then (parse_login_status (lt_status model)) (\<lambda>status.
     Inr \<lparr>lc_id = lt_id model, lc_project_id = lt_project_id model,
       lc_application_id = lt_application_id model, lc_status = status,
       lc_transaction_revision = lt_transaction_revision model, lc_expires_at = lt_expires_at model\<rparr>)"

text \<open>A method of \<open>LoginTransactionStatus\<close> with the conversion of its error.\<close>

definition login_move_or ::
    "(domain_error \<Rightarrow> application_error) \<Rightarrow> login_op \<Rightarrow> login_transaction_status
     \<Rightarrow> (application_error, login_transaction_status) res" where
  "login_move_or convert op0 status =
     (case login_apply op0 status of
        (Inr _, nxt) \<Rightarrow> Inr nxt
      | (Inl (Err e), _) \<Rightarrow> Inl (Err (convert e))
      | (Inl Panic, _) \<Rightarrow> Inl Panic)"

abbreviation login_move ::
    "login_op \<Rightarrow> login_transaction_status \<Rightarrow> (application_error, login_transaction_status) res" where
  "login_move \<equiv> login_move_or (\<lambda>_. EInvalidTransition)"

text \<open>The early return of the methods on an expired login: the expiry is committed.\<close>

definition unless_expired ::
    "runtime_env \<Rightarrow> login_row \<Rightarrow> instant \<Rightarrow> (auth_db, 'a verdict) tx \<Rightarrow> (auth_db, 'a verdict) tx" where
  "unless_expired env model now body =
     (if lt_expires_at model \<le> now
      then m_bind (expire_login env model now) (\<lambda>_. m_return (Reject EInvalidTransition))
      else body)"

section \<open>Creating a login\<close>

definition lock_login_application :: "create_login \<Rightarrow> (auth_db, unit) query" where
  "lock_login_application c db =
     and_then (select_one projects (\<lambda>p. p_id p = cg_project_id c) ENotFound db) (\<lambda>project.
     if p_status project \<noteq> ''active'' then Inl (Err EDisabled)
     else if p_metadata_revision project \<noteq> lr_project_metadata_revision (cg_revisions c)
       \<or> p_security_revision project \<noteq> lr_project_security_revision (cg_revisions c)
     then Inl (Err ERevisionConflict)
     else
     and_then (select_one applications (\<lambda>a. ap_id a = cg_application_id c
         \<and> ap_project_id a = cg_project_id c) ENotFound db) (\<lambda>application.
     if ap_status application \<noteq> ''active'' then Inl (Err EDisabled)
     else if ap_security_revision application \<noteq> lr_application_security_revision (cg_revisions c)
     then Inl (Err ERevisionConflict)
     else if find (\<lambda>r. ru_project_id r = cg_project_id c \<and> ru_application_id r = cg_application_id c
         \<and> ru_redirect_uri r = cg_redirect_uri c) (redirects db) = None
     then Inl (Err EInvalidInput)
     else
     and_then (select_one policies (\<lambda>p. pol_project_id p = cg_project_id c) EIntegrity db) (\<lambda>policy.
     if pol_claims_revision policy \<noteq> lr_claims_revision (cg_revisions c)
       \<or> pol_session_revision policy \<noteq> lr_session_revision (cg_revisions c)
     then Inl (Err ERevisionConflict)
     else Inr ())))"

definition active_assignments :: "create_login \<Rightarrow> auth_db \<Rightarrow> assignment_row list" where
  "active_assignments c db = filter (\<lambda>a. pa_project_id a = cg_project_id c
     \<and> pa_application_id a = cg_application_id c \<and> pa_status a = ''active'') (assignments db)"

definition check_admitted_provider ::
    "create_login \<Rightarrow> assignment_row list \<Rightarrow> admitted_provider \<Rightarrow> (auth_db, unit) query" where
  "check_admitted_provider c active m db =
     and_then (validate_admitted_provider m) (\<lambda>_.
     and_then (ok_or (find (\<lambda>a. pa_provider_id a = am_provider_id m) active) ERevisionConflict) (\<lambda>assignment.
     if pa_security_revision assignment \<noteq> am_assignment_security_revision m
     then Inl (Err ERevisionConflict)
     else
     and_then (select_one providers (\<lambda>p. pc_id p = am_provider_id m
         \<and> pc_project_id p = cg_project_id c) ERevisionConflict db) (\<lambda>provider.
     and_then (effective_provider_kind (pc_kind provider) (pc_issuer provider)) (\<lambda>kind.
     if pc_status provider \<noteq> ''active''
       \<or> pc_revision provider \<noteq> am_provider_revision m
       \<or> pc_provider_key provider \<noteq> am_method_key m
       \<or> pc_display_name provider \<noteq> am_display_name m
       \<or> pc_issuer provider \<noteq> am_issuer m
       \<or> kind \<noteq> am_kind m
     then Inl (Err ERevisionConflict)
     else Inr ()))))"

definition smtp_usable :: "string \<Rightarrow> instant option \<Rightarrow> instant \<Rightarrow> bool" where
  "smtp_usable status retained_until now \<longleftrightarrow>
     status = ''active''
     \<or> (status = ''retained'' \<and> (case retained_until of None \<Rightarrow> False | Some t \<Rightarrow> t > now))"

definition smtp_eligible :: "create_login \<Rightarrow> admitted_email \<Rightarrow> auth_db \<Rightarrow> bool" where
  "smtp_eligible c m db =
     (if ae_smtp_selection_kind m = ''project'' then
        find (\<lambda>r. sm_project_id r = cg_project_id c
          \<and> ae_smtp_configuration_id m = Some (sm_id r)
          \<and> sm_generation r = ae_smtp_generation m
          \<and> sm_security_eligibility_revision r = ae_smtp_security_eligibility_revision m
          \<and> smtp_usable (sm_status r) (sm_retained_until r) (cg_created_at c)) (project_smtp db) \<noteq> None
      else if ae_smtp_selection_kind m = ''deployment_default'' then
        find (\<lambda>r. ds_generation r = ae_smtp_generation m
          \<and> ds_security_eligibility_revision r = ae_smtp_security_eligibility_revision m
          \<and> smtp_usable (ds_status r) (ds_retained_until r) (cg_created_at c)) (deployment_smtp db) \<noteq> None
      else False)"

text \<open>The join of the two tables is the pair of the rows of this project and application.\<close>

definition check_admitted_email :: "create_login \<Rightarrow> admitted_email \<Rightarrow> (auth_db, unit) query" where
  "check_admitted_email c m db =
     and_then (validate_admitted_email m) (\<lambda>_.
     and_then (select_one email_policies (\<lambda>p. ep_project_id p = cg_project_id c
         \<and> ep_status p = ''enabled'') ERevisionConflict db) (\<lambda>policy.
     and_then (select_one email_assignments (\<lambda>a. ea_project_id a = cg_project_id c
         \<and> ea_application_id a = cg_application_id c \<and> ea_status a = ''active'') ERevisionConflict db)
       (\<lambda>assignment.
     if ep_policy_revision policy \<noteq> ae_policy_revision m
       \<or> ep_security_revision policy \<noteq> ae_security_revision m
       \<or> ea_security_revision assignment \<noteq> ae_assignment_security_revision m
     then Inl (Err ERevisionConflict)
     else if \<not> smtp_eligible c m db then Inl (Err EDisabled)
     else Inr ())))"

definition new_login :: "create_login \<Rightarrow> login_row" where
  "new_login c =
     \<lparr>lt_id = cg_id c, lt_project_id = cg_project_id c, lt_application_id = cg_application_id c,
      lt_interaction_digest = vd_value (cg_interaction c),
      lt_interaction_digest_key_version = vd_key_version (cg_interaction c),
      lt_status = login_status_as_str AwaitingBrowserBinding, lt_transaction_revision = 1,
      lt_redirect_uri = cg_redirect_uri c,
      lt_application_pkce_challenge = cg_application_pkce_challenge c,
      lt_application_state_ciphertext = pv_ciphertext (cg_application_state c),
      lt_application_state_key_version = pv_key_version (cg_application_state c),
      lt_presentation_hint = cg_presentation_hint c, lt_browser_binding_digest = None,
      lt_browser_binding_digest_key_version = None, lt_csrf_digest = None,
      lt_csrf_digest_key_version = None, lt_selected_method = None,
      lt_provider_configuration_id = None, lt_user_id = None, lt_callback_url = None,
      lt_upstream_state_digest = None, lt_upstream_state_digest_key_version = None,
      lt_oidc_nonce_digest = None, lt_oidc_nonce_digest_key_version = None,
      lt_provider_pkce_ciphertext = None, lt_provider_pkce_key_version = None,
      lt_project_metadata_revision = lr_project_metadata_revision (cg_revisions c),
      lt_project_security_revision = lr_project_security_revision (cg_revisions c),
      lt_application_security_revision = lr_application_security_revision (cg_revisions c),
      lt_provider_revision = None, lt_assignment_security_revision = None,
      lt_claims_revision = lr_claims_revision (cg_revisions c),
      lt_session_revision = lr_session_revision (cg_revisions c),
      lt_authenticated_at = None, lt_expires_at = cg_expires_at c, lt_terminal_at = None,
      lt_created_at = cg_created_at c, lt_updated_at = cg_created_at c\<rparr>"

definition provider_method :: "create_login \<Rightarrow> login_row \<Rightarrow> admitted_provider \<Rightarrow> method_row" where
  "provider_method c model m =
     \<lparr>mt_project_id = lt_project_id model, mt_transaction_id = lt_id model,
      mt_method_key = am_method_key m, mt_method_kind = ''provider'',
      mt_provider_configuration_id = Some (am_provider_id m), mt_display_name = am_display_name m,
      mt_provider_revision = Some (am_provider_revision m),
      mt_assignment_security_revision = Some (am_assignment_security_revision m),
      mt_provider_kind = Some (provider_kind_as_str (am_kind m)),
      mt_provider_egress_policy_revision = am_provider_egress_policy_revision m,
      mt_created_at = cg_created_at c\<rparr>"

definition email_method :: "create_login \<Rightarrow> login_row \<Rightarrow> method_row" where
  "email_method c model =
     \<lparr>mt_project_id = lt_project_id model, mt_transaction_id = lt_id model,
      mt_method_key = ''email'', mt_method_kind = ''email'', mt_provider_configuration_id = None,
      mt_display_name = ''Email'', mt_provider_revision = None,
      mt_assignment_security_revision = None, mt_provider_kind = None,
      mt_provider_egress_policy_revision = None, mt_created_at = cg_created_at c\<rparr>"

definition email_snapshot :: "create_login \<Rightarrow> login_row \<Rightarrow> admitted_email \<Rightarrow> email_snapshot_row" where
  "email_snapshot c model m =
     \<lparr>es_project_id = lt_project_id model, es_transaction_id = lt_id model,
      es_application_id = lt_application_id model, es_method_policy_revision = ae_policy_revision m,
      es_method_security_revision = ae_security_revision m,
      es_assignment_security_revision = ae_assignment_security_revision m,
      es_otp_enabled = ae_otp_enabled m, es_magic_link_enabled = ae_magic_link_enabled m,
      es_otp_digits = ae_otp_digits m, es_otp_validity_seconds = ae_otp_validity_seconds m,
      es_otp_max_attempts = ae_otp_max_attempts m, es_resend_after_seconds = ae_resend_after_seconds m,
      es_max_generations = ae_max_generations m, es_magic_validity_seconds = ae_magic_validity_seconds m,
      es_signup_enabled = ae_signup_enabled m,
      es_transferred_magic_link_enabled = ae_transferred_magic_link_enabled m,
      es_smtp_selection_kind = ae_smtp_selection_kind m,
      es_smtp_configuration_id = ae_smtp_configuration_id m,
      es_smtp_generation = ae_smtp_generation m,
      es_smtp_security_eligibility_revision = ae_smtp_security_eligibility_revision m,
      es_created_at = cg_created_at c\<rparr>"

definition create_checks :: "create_login \<Rightarrow> (auth_db, unit) tx" where
  "create_checks c =
     m_bind (m_read (lock_login_application c)) (\<lambda>_.
     m_bind (m_read (\<lambda>db. Inr (active_assignments c db))) (\<lambda>active.
     if length (cg_admitted_providers c) > length active then m_fail ERevisionConflict
     else
     m_bind (m_for_each (\<lambda>m. m_read (check_admitted_provider c active m)) (cg_admitted_providers c)) (\<lambda>_.
     case cg_admitted_email c of
       None \<Rightarrow> m_return ()
     | Some m \<Rightarrow> m_read (check_admitted_email c m))))"

definition create_writes :: "runtime_env \<Rightarrow> create_login \<Rightarrow> (auth_db, login_row) tx" where
  "create_writes env c =
     m_bind (db_insert login_table (new_login c)) (\<lambda>model.
     m_bind (m_for_each (\<lambda>m. m_bind (db_insert method_table (provider_method c model m)) (\<lambda>_. m_return ()))
       (cg_admitted_providers c)) (\<lambda>_.
     m_bind (case cg_admitted_email c of
         None \<Rightarrow> m_return ()
       | Some m \<Rightarrow>
           m_bind (db_insert method_table (email_method c model)) (\<lambda>_.
           m_bind (db_insert email_snapshot_table (email_snapshot c model m)) (\<lambda>_. m_return ()))) (\<lambda>_.
     m_bind (append_runtime_audit env (lt_project_id model) ''system'' ''auth.login.started''
       ''login_transaction'' (Some (lt_id model)) (lt_id model)) (\<lambda>_.
     m_return model))))"

definition create_login_transaction ::
    "runtime_env \<Rightarrow> create_login \<Rightarrow> (auth_db, login_transaction_record) tx" where
  "create_login_transaction env c =
     m_bind (m_try (validate_login_command env c)) (\<lambda>_.
     m_bind (transaction (
       m_bind (create_checks c) (\<lambda>_.
       m_bind (create_writes env c) (\<lambda>model. m_return (Return model))))) (\<lambda>model.
     m_try (login_record model)))"

section \<open>Binding the browser\<close>

definition bind_row ::
    "bind_hosted \<Rightarrow> login_transaction_status \<Rightarrow> i64 \<Rightarrow> login_row \<Rightarrow> login_row" where
  "bind_row c status revision r = r
     \<lparr>lt_status := login_status_as_str status, lt_transaction_revision := revision,
      lt_browser_binding_digest := Some (vd_value (bh_browser_binding c)),
      lt_browser_binding_digest_key_version := Some (vd_key_version (bh_browser_binding c)),
      lt_csrf_digest := Some (vd_value (bh_csrf c)),
      lt_csrf_digest_key_version := Some (vd_key_version (bh_csrf c)),
      lt_updated_at := bh_now c\<rparr>"

text \<open>The last steps the methods share: the update of the login row and its audit record.\<close>

definition save_login :: "runtime_env \<Rightarrow> login_row \<Rightarrow> (login_row \<Rightarrow> login_row) \<Rightarrow> string
     \<Rightarrow> (auth_db, login_row verdict) tx" where
  "save_login env model g action =
     m_bind (db_update login_table (lt_id model) g) (\<lambda>updated.
     m_bind (append_runtime_audit env (lt_project_id updated) ''system'' action
       ''login_transaction'' (Some (lt_id updated)) (lt_id updated)) (\<lambda>_.
     m_return (Return updated)))"

definition bind_hosted_browser ::
    "runtime_env \<Rightarrow> bind_hosted \<Rightarrow> (auth_db, login_transaction_record) tx" where
  "bind_hosted_browser env c =
     m_bind (m_try (validate_digest (bh_interaction c))) (\<lambda>_.
     m_bind (m_try (validate_digest (bh_browser_binding c))) (\<lambda>_.
     m_bind (m_try (validate_digest (bh_csrf c))) (\<lambda>_.
     m_bind (transaction (
       m_bind (m_read (select_one logins (\<lambda>l.
           lt_interaction_digest l = vd_value (bh_interaction c)
           \<and> lt_interaction_digest_key_version l = vd_key_version (bh_interaction c)) ENotFound)) (\<lambda>model.
       unless_expired env model (bh_now c) (
       if lt_transaction_revision model \<noteq> bh_expected_transaction_revision c then m_fail ERevisionConflict
       else
       m_bind (m_try (parse_login_status (lt_status model))) (\<lambda>status0.
       m_bind (m_try (login_move BindBrowser status0)) (\<lambda>status.
       m_bind (m_try (bump (bh_expected_transaction_revision c))) (\<lambda>revision.
       save_login env model (bind_row c status revision) ''auth.login.browser_bound''))))))) (\<lambda>updated.
     m_try (login_record updated)))))"

section \<open>Selecting a provider\<close>

definition method_row_of :: "uuid \<Rightarrow> uuid \<Rightarrow> string \<Rightarrow> application_error \<Rightarrow> (auth_db, method_row) query" where
  "method_row_of project_id transaction_id method_key =
     select_one methods (\<lambda>m. mt_project_id m = project_id \<and> mt_transaction_id m = transaction_id
       \<and> mt_method_key m = method_key)"

definition revalidate_login_owners ::
    "login_row \<Rightarrow> uuid \<Rightarrow> method_row \<Rightarrow> (auth_db, unit) query" where
  "revalidate_login_owners login provider_id m db =
     and_then (select_one projects (\<lambda>p. p_id p = lt_project_id login) ENotFound db) (\<lambda>project.
     if p_status project \<noteq> ''active''
       \<or> p_metadata_revision project \<noteq> lt_project_metadata_revision login
       \<or> p_security_revision project \<noteq> lt_project_security_revision login
     then Inl (Err ERevisionConflict)
     else
     and_then (select_one applications (\<lambda>a. ap_id a = lt_application_id login
         \<and> ap_project_id a = lt_project_id login) ENotFound db) (\<lambda>application.
     if ap_status application \<noteq> ''active''
       \<or> ap_security_revision application \<noteq> lt_application_security_revision login
     then Inl (Err ERevisionConflict)
     else
     and_then (select_one providers (\<lambda>p. pc_id p = provider_id
         \<and> pc_project_id p = lt_project_id login) ENotFound db) (\<lambda>provider.
     if pc_status provider \<noteq> ''active'' \<or> Some (pc_revision provider) \<noteq> mt_provider_revision m
     then Inl (Err ERevisionConflict)
     else
     and_then (effective_provider_kind (pc_kind provider) (pc_issuer provider)) (\<lambda>kind.
     and_then (and_then (ok_or (mt_provider_kind m) EIntegrity)
         (\<lambda>k. map_err (\<lambda>_. EIntegrity) (provider_kind_parse k))) (\<lambda>snapshot_kind.
     if snapshot_kind \<noteq> kind then Inl (Err ERevisionConflict)
     else
     and_then (if kind = Oidc then
           and_then (select_one egress_policies (\<lambda>p. eg_project_id p = lt_project_id login) EIntegrity db)
             (\<lambda>policy. if mt_provider_egress_policy_revision m \<noteq> Some (eg_revision policy)
                       then Inl (Err ERevisionConflict) else Inr ())
         else if mt_provider_egress_policy_revision m \<noteq> None then Inl (Err EIntegrity)
         else Inr ()) (\<lambda>_.
     and_then (select_one assignments (\<lambda>a. pa_project_id a = lt_project_id login
         \<and> pa_application_id a = lt_application_id login
         \<and> pa_provider_id a = provider_id) ERevisionConflict db) (\<lambda>assignment.
     if pa_status assignment \<noteq> ''active''
       \<or> Some (pa_security_revision assignment) \<noteq> mt_assignment_security_revision m
     then Inl (Err ERevisionConflict)
     else
     and_then (select_one policies (\<lambda>p. pol_project_id p = lt_project_id login) EIntegrity db) (\<lambda>policy.
     if pol_claims_revision policy \<noteq> lt_claims_revision login
       \<or> pol_session_revision policy \<noteq> lt_session_revision login
     then Inl (Err ERevisionConflict)
     else Inr ()))))))))"

definition select_checks ::
    "select_provider \<Rightarrow> login_row \<Rightarrow> (auth_db, login_transaction_status \<times> method_row \<times> provider_row) query" where
  "select_checks c model db =
     (if lt_transaction_revision model \<noteq> sp_expected_transaction_revision c then Inl (Err ERevisionConflict)
      else if \<not> optional_digest_matches (lt_browser_binding_digest model)
                (lt_browser_binding_digest_key_version model) (sp_browser_binding c)
        \<or> \<not> optional_digest_matches (lt_csrf_digest model) (lt_csrf_digest_key_version model) (sp_csrf c)
      then Inl (Err ENotFound)
      else
      and_then (parse_login_status (lt_status model)) (\<lambda>status0.
      and_then (login_move SelectProvider status0) (\<lambda>status.
      and_then (method_row_of (sp_project_id c) (sp_transaction_id c) (sp_method_key c)
          EInvalidTransition db) (\<lambda>m.
      if mt_method_kind m \<noteq> ''provider'' \<or> mt_provider_configuration_id m \<noteq> Some (sp_provider_id c)
      then Inl (Err EInvalidTransition)
      else
      and_then (revalidate_login_owners model (sp_provider_id c) m db) (\<lambda>_.
      and_then (select_one providers (\<lambda>p. pc_id p = sp_provider_id c
          \<and> pc_project_id p = sp_project_id c) ERevisionConflict db) (\<lambda>provider.
      if pc_callback_url provider \<noteq> sp_callback_url c then Inl (Err EInvalidInput)
      else Inr (status, m, provider)))))))"

definition select_row ::
    "select_provider \<Rightarrow> login_transaction_status \<Rightarrow> method_row \<Rightarrow> provider_row \<Rightarrow> i64 \<Rightarrow> login_row \<Rightarrow> login_row" where
  "select_row c status m provider revision r = r
     \<lparr>lt_status := login_status_as_str status, lt_transaction_revision := revision,
      lt_selected_method := Some ''provider'',
      lt_provider_configuration_id := Some (sp_provider_id c),
      lt_callback_url := Some (pc_callback_url provider),
      lt_upstream_state_digest := Some (vd_value (sp_upstream_state c)),
      lt_upstream_state_digest_key_version := Some (vd_key_version (sp_upstream_state c)),
      lt_oidc_nonce_digest := Some (vd_value (sp_oidc_nonce c)),
      lt_oidc_nonce_digest_key_version := Some (vd_key_version (sp_oidc_nonce c)),
      lt_provider_pkce_ciphertext := Some (pv_ciphertext (sp_provider_pkce c)),
      lt_provider_pkce_key_version := Some (pv_key_version (sp_provider_pkce c)),
      lt_provider_revision := mt_provider_revision m,
      lt_assignment_security_revision := mt_assignment_security_revision m,
      lt_updated_at := sp_now c\<rparr>"

definition select_writes ::
    "runtime_env \<Rightarrow> select_provider \<Rightarrow> login_row \<Rightarrow> login_transaction_status \<Rightarrow> method_row \<Rightarrow> provider_row
     \<Rightarrow> (auth_db, login_row verdict) tx" where
  "select_writes env c model status m provider =
     m_bind (m_try (bump (sp_expected_transaction_revision c))) (\<lambda>revision.
     m_bind (db_update login_table (lt_id model) (select_row c status m provider revision)) (\<lambda>updated.
     m_bind (db_insert callback_owner_table
       \<lparr>co_state_id = lt_id updated, co_project_id = lt_project_id updated,
        co_provider_configuration_id = sp_provider_id c, co_owner_kind = ''login'',
        co_login_transaction_id = Some (lt_id updated)\<rparr>) (\<lambda>_.
     m_bind (append_runtime_audit env (lt_project_id updated) ''system'' ''auth.login.provider_selected''
       ''login_transaction'' (Some (lt_id updated)) (lt_id updated)) (\<lambda>_.
     m_return (Return updated)))))"

definition select_provider_method ::
    "runtime_env \<Rightarrow> select_provider \<Rightarrow> (auth_db, login_transaction_record) tx" where
  "select_provider_method env c =
     m_bind (m_try (validate_digest (sp_browser_binding c))) (\<lambda>_.
     m_bind (m_try (validate_digest (sp_csrf c))) (\<lambda>_.
     m_bind (m_try (validate_digest (sp_upstream_state c))) (\<lambda>_.
     m_bind (m_try (validate_digest (sp_oidc_nonce c))) (\<lambda>_.
     m_bind (m_try (validate_protected (sp_provider_pkce c))) (\<lambda>_.
     m_bind (transaction (
       m_bind (m_read (select_one logins (\<lambda>l. lt_id l = sp_transaction_id c
           \<and> lt_project_id l = sp_project_id c) ENotFound)) (\<lambda>model.
       unless_expired env model (sp_now c) (
       m_bind (m_read (select_checks c model)) (\<lambda>(status, m, provider).
       select_writes env c model status m provider))))) (\<lambda>updated.
     m_try (login_record updated)))))))"

section \<open>The provider callback\<close>

definition route_callback ::
    "('a provider_callback_scheme) \<Rightarrow> (auth_db, project_row \<times> provider_row) query" where
  "route_callback c db =
     and_then (select_one projects (\<lambda>p. p_public_id p = cb_project_public_id c) ENotFound db) (\<lambda>project.
     and_then (select_one providers (\<lambda>p. pc_project_id p = p_id project
         \<and> pc_provider_key p = cb_provider_key c) ENotFound db) (\<lambda>provider.
     Inr (project, provider)))"

definition lock_callback_login ::
    "('a provider_callback_scheme) \<Rightarrow> project_row \<Rightarrow> provider_row \<Rightarrow> (auth_db, login_row) query" where
  "lock_callback_login c project provider =
     select_one logins (\<lambda>l. lt_id l = cb_transaction_id c
       \<and> lt_project_id l = p_id project
       \<and> lt_provider_configuration_id l = Some (pc_id provider)
       \<and> lt_upstream_state_digest l = Some (vd_value (cb_upstream_state c))
       \<and> lt_upstream_state_digest_key_version l = Some (vd_key_version (cb_upstream_state c))) ENotFound"

definition claim_checks ::
    "claim_callback \<Rightarrow> provider_row \<Rightarrow> login_row
     \<Rightarrow> (auth_db, login_transaction_status \<times> string \<times> versioned_digest \<times> protected_value) query" where
  "claim_checks c provider model db =
     (if \<not> optional_digest_matches (lt_browser_binding_digest model)
           (lt_browser_binding_digest_key_version model) (cb_browser_binding c)
      then Inl (Err ENotFound)
      else
      and_then (ok_or (lt_oidc_nonce_digest_key_version model) EIntegrity) (\<lambda>nonce_version.
      and_then (ok_or (lt_provider_pkce_key_version model) EIntegrity) (\<lambda>pkce_version.
      if nonce_version \<notin> set (cc_readable_key_versions c) \<or> pkce_version \<notin> set (cc_readable_key_versions c)
      then Inl (Err EIntegrity)
      else
      and_then (parse_login_status (lt_status model)) (\<lambda>status0.
      and_then (login_move ClaimProviderCallback status0) (\<lambda>status.
      and_then (method_row_of (lt_project_id model) (lt_id model) (pc_provider_key provider) EIntegrity db)
        (\<lambda>m.
      and_then (revalidate_login_owners model (pc_id provider) m db) (\<lambda>_.
      and_then (ok_or (lt_callback_url model) EIntegrity) (\<lambda>callback_url.
      and_then (digest_array (lt_oidc_nonce_digest model)) (\<lambda>nonce.
      and_then (ok_or (lt_provider_pkce_ciphertext model) EIntegrity) (\<lambda>ciphertext.
      Inr (status, callback_url, \<lparr>vd_value = nonce, vd_key_version = nonce_version\<rparr>,
           \<lparr>pv_ciphertext = ciphertext, pv_key_version = pkce_version\<rparr>)))))))))))"

definition claim_row :: "instant \<Rightarrow> login_transaction_status \<Rightarrow> i64 \<Rightarrow> login_row \<Rightarrow> login_row" where
  "claim_row now status revision r = r
     \<lparr>lt_status := login_status_as_str status, lt_transaction_revision := revision, lt_updated_at := now\<rparr>"

definition claim_provider_callback_tx ::
    "runtime_env \<Rightarrow> claim_callback \<Rightarrow> auth_db \<Rightarrow> (auth_db, claimed_exchange) tx" where
  "claim_provider_callback_tx env c db0 =
     m_bind (m_try (validate_digest (cb_upstream_state c))) (\<lambda>_.
     m_bind (m_try (validate_digest (cb_browser_binding c))) (\<lambda>_.
     m_bind (m_try (route_callback c db0)) (\<lambda>(project, provider).
     m_bind (transaction (
       m_bind (m_read (lock_callback_login c project provider)) (\<lambda>model.
       unless_expired env model (cb_now c) (
       m_bind (m_read (claim_checks c provider model)) (\<lambda>(status, url, nonce, pkce).
       m_bind (m_try (bump (lt_transaction_revision model))) (\<lambda>revision.
       m_bind (save_login env model (claim_row (cb_now c) status revision) ''auth.callback.claimed'') (\<lambda>v.
       m_return (case v of Return updated \<Rightarrow> Return (updated, url, nonce, pkce) | Reject e \<Rightarrow> Reject e)))))))) (\<lambda>(updated, url, nonce, pkce).
     m_bind (m_try (login_record updated)) (\<lambda>record.
     m_return \<lparr>cx_transaction = record, cx_provider_id = pc_id provider, cx_callback_url = url,
       cx_oidc_nonce = nonce, cx_provider_pkce = pkce\<rparr>)))))"

definition deny_checks ::
    "deny_callback \<Rightarrow> provider_row \<Rightarrow> login_row \<Rightarrow> (auth_db, unit) query" where
  "deny_checks c provider model db =
     (if \<not> optional_digest_matches (lt_browser_binding_digest model)
           (lt_browser_binding_digest_key_version model) (cb_browser_binding c)
      then Inl (Err ENotFound)
      else
      and_then (parse_login_status (lt_status model)) (\<lambda>status.
      if status \<noteq> ProviderAuthorizationStarted then Inl (Err EInvalidTransition)
      else
      and_then (method_row_of (lt_project_id model) (lt_id model) (pc_provider_key provider) EIntegrity db)
        (\<lambda>m. revalidate_login_owners model (pc_id provider) m db)))"

definition deny_row :: "instant \<Rightarrow> i64 \<Rightarrow> login_row \<Rightarrow> login_row" where
  "deny_row now revision r = r
     \<lparr>lt_status := login_status_as_str ProviderExchangeFailed, lt_transaction_revision := revision,
      lt_browser_binding_digest := None, lt_browser_binding_digest_key_version := None,
      lt_csrf_digest := None, lt_csrf_digest_key_version := None,
      lt_upstream_state_digest := None, lt_upstream_state_digest_key_version := None,
      lt_oidc_nonce_digest := None, lt_oidc_nonce_digest_key_version := None,
      lt_provider_pkce_ciphertext := None, lt_provider_pkce_key_version := None,
      lt_terminal_at := Some now, lt_updated_at := now\<rparr>"

definition delete_callback_owner :: "uuid \<Rightarrow> (auth_db, nat) tx" where
  "delete_callback_owner login_id =
     db_delete_where callback_owner_table (\<lambda>x. co_state_id x = login_id
       \<and> co_owner_kind x = ''login'' \<and> co_login_transaction_id x = Some login_id)"

definition deny_writes :: "runtime_env \<Rightarrow> deny_callback \<Rightarrow> login_row \<Rightarrow> (auth_db, login_row verdict) tx" where
  "deny_writes env c model =
     m_bind (m_try (bump (lt_transaction_revision model))) (\<lambda>revision.
     m_bind (db_update login_table (lt_id model) (deny_row (cb_now c) revision)) (\<lambda>updated.
     m_bind (delete_callback_owner (lt_id model)) (\<lambda>_.
     m_bind (append_runtime_audit env (lt_project_id model) ''system'' (dc_safe_outcome c)
       ''login_transaction'' (Some (lt_id model)) (lt_id model)) (\<lambda>_.
     m_return (Return updated)))))"

definition deny_provider_callback ::
    "runtime_env \<Rightarrow> deny_callback \<Rightarrow> auth_db \<Rightarrow> (auth_db, login_transaction_record) tx" where
  "deny_provider_callback env c db0 =
     m_bind (m_try (validate_digest (cb_upstream_state c))) (\<lambda>_.
     m_bind (m_try (validate_digest (cb_browser_binding c))) (\<lambda>_.
     if dc_safe_outcome c = [] \<or> length (dc_safe_outcome c) > 64 then m_fail EInvalidInput
     else
     m_bind (m_try (route_callback c db0)) (\<lambda>(project, provider).
     m_bind (transaction (
       m_bind (m_read (lock_callback_login c project provider)) (\<lambda>model.
       unless_expired env model (cb_now c) (
       m_bind (m_read (deny_checks c provider model)) (\<lambda>_.
       deny_writes env c model))))) (\<lambda>updated.
     m_try (login_record updated)))))"

text \<open>\<open>fail_provider_exchange\<close>; here the error of the status is the generic conversion.\<close>

definition fail_row :: "instant \<Rightarrow> login_transaction_status \<Rightarrow> i64 \<Rightarrow> login_row \<Rightarrow> login_row" where
  "fail_row now status revision r = r
     \<lparr>lt_status := login_status_as_str status, lt_transaction_revision := revision,
      lt_terminal_at := Some now, lt_updated_at := now\<rparr>"

definition fail_provider_exchange_tx ::
    "runtime_env \<Rightarrow> fail_login \<Rightarrow> (auth_db, login_transaction_record) tx" where
  "fail_provider_exchange_tx env c =
     m_bind (transaction (
       m_bind (m_read (select_one logins (\<lambda>l. lt_id l = fe_transaction_id c
           \<and> lt_project_id l = fe_project_id c) ENotFound)) (\<lambda>model.
       if lt_transaction_revision model \<noteq> fe_expected_transaction_revision c then m_fail ERevisionConflict
       else
       m_bind (m_try (parse_login_status (lt_status model))) (\<lambda>status0.
       m_bind (m_try (login_move_or from_domain FailProviderExchange status0)) (\<lambda>status.
       m_bind (m_try (bump (fe_expected_transaction_revision c))) (\<lambda>revision.
       save_login env model (fail_row (fe_now c) status revision) ''auth.callback.failed'')))))) (\<lambda>updated.
     m_try (login_record updated))"

end
