(* ===== verification/Owl_Completion.thy ===== *)
theory Owl_Completion
  imports Owl_Logins
begin

text \<open>
  \<open>complete_authenticated_identity\<close> of \<open>adapters/postgres/session_authority.rs\<close>: the provider
  has authenticated somebody, and the claimed login becomes a user with a browser session and
  a handoff ticket.  With it the two operations it calls: \<open>fan_out_projected_user\<close> of
  \<open>adapters/postgres/projection.rs\<close>, which brings the applications of a changed user up to date,
  and \<open>upsert_managed_connection\<close>, which keeps the renewable provider credential.
\<close>

section \<open>Commands\<close>

record managed_capability =
  mc_adapter_key :: string
  mc_adapter_revision :: i64
  mc_exact_scopes :: "string list"
  mc_supports_revocation :: bool

record renewable_credential =
  rc_value :: string
  rc_granted_scopes :: "string list"
  rc_supports_revocation :: bool

record verified_identity =
  vi_issuer :: string
  vi_subject :: string
  vi_display_name :: "string option"
  vi_picture_url :: "string option"
  vi_locale :: "string option"
  vi_renewable_credential :: "renewable_credential option"
  vi_managed_capability :: "managed_capability option"

record complete_identity =
  ci_project_id :: uuid
  ci_transaction_id :: uuid
  ci_expected_transaction_revision :: i64
  ci_evidence :: verified_identity
  ci_new_user_id :: uuid
  ci_new_user_public_id :: string
  ci_new_identity_id :: uuid
  ci_browser_session_id :: uuid
  ci_existing_browser_credential :: "versioned_digest option"
  ci_browser_credential :: versioned_digest
  ci_handoff_id :: uuid
  ci_handoff_ticket :: versioned_digest
  ci_now :: instant

record credential_context =
  kc_project_id :: uuid
  kc_provider_configuration_id :: uuid
  kc_linked_identity_id :: uuid
  kc_connection_id :: uuid
  kc_connection_generation :: i64
  kc_credential_generation :: i64

text \<open>
  What the method takes from outside: the credential protector, if one is configured, and the
  identifiers drawn for a new connection and for the event of each binding.
\<close>

record completion_env =
  cd_protector :: "(credential_context \<Rightarrow> string \<Rightarrow> (application_error, protected_value) res) option"
  cd_connection_id :: uuid
  cd_event_uuid :: "uuid \<Rightarrow> uuid"

section \<open>Bringing the applications of a user up to date\<close>

definition base_profile_digest ::
    "runtime_env \<Rightarrow> string option \<Rightarrow> string option \<Rightarrow> string option \<Rightarrow> string" where
  "base_profile_digest env display_name picture_url loc =
     env_digest env (json_object
       ([(''display_name'', json_opt display_name), (''picture_url'', json_opt picture_url)]
        @ (if loc \<noteq> None then [(''locale'', json_opt loc)] else [])))"

definition assert_projection_write_authority :: "runtime_env \<Rightarrow> (application_error, unit) res" where
  "assert_projection_write_authority env =
     and_then (validate_local_projection_ring (env_write_version env) (env_readable_versions env))
       (\<lambda>_. Inr ())"

definition active_bindings :: "user_row \<Rightarrow> auth_db \<Rightarrow> binding_row list" where
  "active_bindings user db =
     take (MAX_APPLICATION_BINDINGS_PER_USER + 1)
       (sort_key bi_application_id (filter (\<lambda>b. bi_project_id b = u_project_id user
          \<and> bi_user_id b = u_id user \<and> bi_status b = ''active'') (bindings db)))"

definition fan_out_binding ::
    "runtime_env \<Rightarrow> completion_env \<Rightarrow> project_row \<Rightarrow> user_row \<Rightarrow> instant \<Rightarrow> binding_row \<Rightarrow> (auth_db, unit) tx" where
  "fan_out_binding env cenv project user now binding =
     m_bind (m_read (select_one applications (\<lambda>a. ap_id a = bi_application_id binding
         \<and> ap_project_id a = u_project_id user) EIntegrity)) (\<lambda>application.
     if ap_status application \<noteq> ''active'' then m_return ()
     else
       m_bind (m_read (select_one projections (\<lambda>p. pj_project_id p = u_project_id user
           \<and> pj_binding_id p = bi_id binding) EIntegrity)) (\<lambda>projection.
       m_bind (repair_runtime_projection env projection (ap_id application) user now) (\<lambda>(repaired, material).
       m_when (pm_semantic_change material)
         (m_bind (append_projection_event (env\<lparr>env_event_uuid := cd_event_uuid cenv (bi_id binding)\<rparr>)
            (p_public_id project) (ap_public_id application) (pj_binding_id projection) repaired
            (pm_document material)
            (if u_status user = ''disabled'' then EventDisabled else EventUpdated))
          (\<lambda>_. m_return ())))))"

definition fan_out_projected_user ::
    "runtime_env \<Rightarrow> completion_env \<Rightarrow> user_row \<Rightarrow> instant \<Rightarrow> (auth_db, unit) tx" where
  "fan_out_projected_user env cenv user now =
     m_bind (m_read (select_one projects (\<lambda>p. p_id p = u_project_id user) EIntegrity)) (\<lambda>project.
     if p_status project \<noteq> ''active'' then m_return ()
     else
       m_bind (m_read (\<lambda>db. Inr (active_bindings user db))) (\<lambda>found.
       if length found > MAX_APPLICATION_BINDINGS_PER_USER then m_fail EIntegrity
       else m_for_each (fan_out_binding env cenv project user now) found))"

definition fan_out_user ::
    "runtime_env \<Rightarrow> completion_env \<Rightarrow> user_row \<Rightarrow> instant \<Rightarrow> (auth_db, unit) tx" where
  "fan_out_user env cenv user now =
     m_bind (m_try (assert_projection_write_authority env)) (\<lambda>_. fan_out_projected_user env cenv user now)"

section \<open>Keeping the renewable credential\<close>

definition revocation_shape_valid :: "connection_row \<Rightarrow> bool" where
  "revocation_shape_valid r \<longleftrightarrow>
     (cn_revocation_requested_at r \<noteq> None) = (cn_revocation_disposition r \<noteq> None)
     \<and> (cn_revocation_dispatch_started_at r \<noteq> None) = (cn_revocation_attempt_id r \<noteq> None)
     \<and> (case cn_revocation_dispatch_started_at r of
          None \<Rightarrow> True
        | Some started \<Rightarrow>
            (case cn_revocation_requested_at r of None \<Rightarrow> False | Some requested \<Rightarrow> started \<ge> requested))
     \<and> (cn_lease_kind r \<noteq> None) = (cn_lease_owner r \<noteq> None)
     \<and> (cn_lease_kind r \<noteq> None) = (cn_lease_expires_at r \<noteq> None)"

definition revocation_pending :: "connection_row \<Rightarrow> bool" where
  "revocation_pending r \<longleftrightarrow>
     cn_revocation_requested_at r \<noteq> None
     \<or> cn_revocation_dispatch_started_at r \<noteq> None
     \<or> cn_lease_kind r = Some ''revocation''"

definition insert_connection ::
    "completion_env \<Rightarrow> provider_row \<Rightarrow> identity_row \<Rightarrow> user_row \<Rightarrow> i64 \<Rightarrow> managed_capability \<Rightarrow> uuid
     \<Rightarrow> instant \<Rightarrow> (auth_db, unit) tx" where
  "insert_connection cenv provider identity user project_security_revision capability connection_id now =
     m_bind (db_insert connection_table
       \<lparr>cn_id = connection_id, cn_project_id = pc_project_id provider,
        cn_provider_configuration_id = pc_id provider, cn_linked_identity_id = id_id identity,
        cn_user_id = u_id user, cn_state = ''active'', cn_revision = 1, cn_generation = 1,
        cn_credential_generation = 1, cn_project_security_revision = project_security_revision,
        cn_provider_revision = pc_revision provider,
        cn_user_security_revision = u_security_revision user,
        cn_identity_revision = id_identity_revision identity,
        cn_managed_profile_revision = pc_managed_profile_revision provider,
        cn_adapter_key = mc_adapter_key capability,
        cn_adapter_capability_revision = mc_adapter_revision capability,
        cn_required_scopes = mc_exact_scopes capability,
        cn_supports_revocation = mc_supports_revocation capability,
        cn_last_safe_outcome = ''callback_credential_committed'', cn_last_synchronized_at = None,
        cn_next_synchronize_at = Some now, cn_next_renewal_at = Some (now + days 30),
        cn_revocation_requested_at = None, cn_revocation_disposition = None,
        cn_revocation_dispatch_started_at = None, cn_revocation_attempt_id = None,
        cn_consecutive_failures = 0, cn_lease_owner = None, cn_lease_kind = None,
        cn_lease_expires_at = None, cn_created_at = now, cn_updated_at = now,
        cn_disconnected_at = None\<rparr>) (\<lambda>_. m_return ())"

definition supersede_renewals :: "connection_row \<Rightarrow> instant \<Rightarrow> (auth_db, unit) tx" where
  "supersede_renewals existing now =
     m_bind (db_update_where renewal_table (\<lambda>r. rn_project_id r = cn_project_id existing
         \<and> rn_connection_id r = cn_id existing
         \<and> rn_expected_connection_generation r = cn_generation existing
         \<and> rn_expected_credential_generation r = cn_credential_generation existing
         \<and> rn_state r \<in> {''prepared'', ''submitted''})
       (\<lambda>r. r\<lparr>rn_state := ''superseded_by_login'', rn_safe_outcome := ''superseded_by_login'',
              rn_terminal_at := Some now, rn_lease_owner := None, rn_lease_expires_at := None,
              rn_updated_at := now\<rparr>)) (\<lambda>_. m_return ())"

definition destroy_credentials :: "uuid \<Rightarrow> uuid \<Rightarrow> instant \<Rightarrow> (auth_db, unit) tx" where
  "destroy_credentials project_id connection_id now =
     m_bind (db_update_where credential_table (\<lambda>r. ce_project_id r = project_id
         \<and> ce_connection_id r = connection_id \<and> ce_ciphertext r \<noteq> None)
       (\<lambda>r. r\<lparr>ce_ciphertext := None, ce_superseded_at := Some now, ce_destroyed_at := Some now\<rparr>))
       (\<lambda>_. m_return ())"

text \<open>The increments of the statement fail in the database when they leave \<open>bigint\<close>.\<close>

definition replace_connection_row ::
    "provider_row \<Rightarrow> identity_row \<Rightarrow> user_row \<Rightarrow> i64 \<Rightarrow> managed_capability \<Rightarrow> instant \<Rightarrow> connection_row
     \<Rightarrow> connection_row" where
  "replace_connection_row provider identity user project_security_revision capability now r = r
     \<lparr>cn_provider_configuration_id := pc_id provider, cn_user_id := u_id user, cn_state := ''active'',
      cn_revision := cn_revision r + 1, cn_generation := cn_generation r + 1,
      cn_credential_generation := cn_credential_generation r + 1,
      cn_provider_revision := pc_revision provider,
      cn_user_security_revision := u_security_revision user,
      cn_identity_revision := id_identity_revision identity,
      cn_managed_profile_revision := pc_managed_profile_revision provider,
      cn_project_security_revision := project_security_revision,
      cn_adapter_key := mc_adapter_key capability,
      cn_adapter_capability_revision := mc_adapter_revision capability,
      cn_required_scopes := mc_exact_scopes capability,
      cn_supports_revocation := mc_supports_revocation capability,
      cn_last_safe_outcome := ''callback_credential_committed'',
      cn_next_synchronize_at := Some now, cn_next_renewal_at := Some (now + days 30),
      cn_consecutive_failures := 0, cn_lease_owner := None, cn_lease_kind := None,
      cn_lease_expires_at := None, cn_disconnected_at := None, cn_updated_at := now\<rparr>"

definition replace_connection ::
    "provider_row \<Rightarrow> identity_row \<Rightarrow> user_row \<Rightarrow> i64 \<Rightarrow> managed_capability \<Rightarrow> connection_row \<Rightarrow> instant
     \<Rightarrow> (auth_db, unit) tx" where
  "replace_connection provider identity user project_security_revision capability existing now =
     m_bind (supersede_renewals existing now) (\<lambda>_.
     m_bind (destroy_credentials (pc_project_id provider) (cn_id existing) now) (\<lambda>_.
     if \<not> in_i64 (cn_revision existing + 1) then m_fail EPersistence
     else
       m_bind (db_update_where connection_table (\<lambda>r. cn_project_id r = pc_project_id provider
           \<and> cn_id r = cn_id existing \<and> cn_revision r = cn_revision existing
           \<and> cn_generation r = cn_generation existing
           \<and> cn_credential_generation r = cn_credential_generation existing)
         (replace_connection_row provider identity user project_security_revision capability now)) (\<lambda>updated.
       if updated \<noteq> 1 then m_fail ERevisionConflict else m_return ())))"

definition upsert_managed_connection ::
    "completion_env \<Rightarrow> (credential_context \<Rightarrow> string \<Rightarrow> (application_error, protected_value) res)
     \<Rightarrow> provider_row \<Rightarrow> uuid \<Rightarrow> user_row \<Rightarrow> i64 \<Rightarrow> managed_capability \<Rightarrow> string \<Rightarrow> instant \<Rightarrow> (auth_db, unit) tx" where
  "upsert_managed_connection cenv protect provider identity_id user project_security_revision capability
       renewable now =
     (if renewable = [] \<or> length renewable > 8192 then m_fail EInvalidInput
      else
      m_bind (m_read (select_one identities (\<lambda>i. id_id i = identity_id
          \<and> id_project_id i = pc_project_id provider \<and> id_user_id i = u_id user) EIntegrity)) (\<lambda>identity.
      m_bind (m_read (\<lambda>db. Inr (find (\<lambda>r. cn_project_id r = pc_project_id provider
          \<and> cn_linked_identity_id r = identity_id) (connections db)))) (\<lambda>existing.
      if (case existing of None \<Rightarrow> False | Some r \<Rightarrow> \<not> revocation_shape_valid r) then m_fail EIntegrity
      else if (case existing of None \<Rightarrow> False | Some r \<Rightarrow> revocation_pending r) then m_return ()
      else
        let (connection_id, revision, generation, credential_generation) =
          (case existing of None \<Rightarrow> (cd_connection_id cenv, 0, 0, 0)
           | Some r \<Rightarrow> (cn_id r, cn_revision r, cn_generation r, cn_credential_generation r))
        in
        m_bind (m_try (ok_or (checked_add_i64 generation 1) EIntegrity)) (\<lambda>next_generation.
        m_bind (m_try (ok_or (checked_add_i64 credential_generation 1) EIntegrity)) (\<lambda>next_credential.
        m_bind (m_try (protect
          \<lparr>kc_project_id = pc_project_id provider, kc_provider_configuration_id = pc_id provider,
           kc_linked_identity_id = identity_id, kc_connection_id = connection_id,
           kc_connection_generation = next_generation,
           kc_credential_generation = next_credential\<rparr> renewable)) (\<lambda>protected.
        m_bind (case existing of
            Some r \<Rightarrow>
              if revision = 0 then
                insert_connection cenv provider identity user project_security_revision capability
                  connection_id now
              else replace_connection provider identity user project_security_revision capability r now
          | None \<Rightarrow>
              insert_connection cenv provider identity user project_security_revision capability
                connection_id now) (\<lambda>_.
        m_bind (db_insert credential_table
          \<lparr>ce_project_id = pc_project_id provider, ce_connection_id = connection_id,
           ce_connection_generation = next_generation, ce_credential_generation = next_credential,
           ce_key_version = pv_key_version protected, ce_ciphertext = Some (pv_ciphertext protected),
           ce_created_at = now, ce_superseded_at = None, ce_destroyed_at = None\<rparr>) (\<lambda>_.
        m_return ()))))))))"

section \<open>Resolving the user\<close>

text \<open>A refused resolution fails the exchange; a database error ends the call.\<close>

datatype resolution = Refused application_error | Resolved user_row bool uuid

definition observe_identity ::
    "runtime_env \<Rightarrow> complete_identity \<Rightarrow> identity_row \<Rightarrow> (auth_db, unit) tx" where
  "observe_identity env c identity =
     (let e = ci_evidence c;
          source_digest = base_profile_digest env (vi_display_name e) (vi_picture_url e) (vi_locale e);
          profile_changed = id_display_name identity \<noteq> vi_display_name e
            \<or> id_picture_url identity \<noteq> vi_picture_url e
            \<or> id_locale identity \<noteq> vi_locale e;
          digest_changed = id_source_profile_digest identity \<noteq> source_digest
      in
      m_bind (m_try (if profile_changed then bump (id_identity_revision identity)
                     else Inr (id_identity_revision identity))) (\<lambda>revision.
      m_bind (db_update identity_table (id_id identity) (\<lambda>r.
        let r1 = if profile_changed
                 then r\<lparr>id_identity_revision := revision, id_display_name := vi_display_name e,
                        id_picture_url := vi_picture_url e, id_locale := vi_locale e,
                        id_updated_at := ci_now c\<rparr>
                 else r;
            r2 = if profile_changed \<or> digest_changed
                 then r1\<lparr>id_source_profile_digest := source_digest\<rparr> else r1
        in r2\<lparr>id_observed_at := ci_now c\<rparr>)) (\<lambda>_. m_return ())))"

definition effective_field :: "bool \<Rightarrow> 'a option \<Rightarrow> bool \<Rightarrow> 'a option \<Rightarrow> 'a option \<Rightarrow> 'a option" where
  "effective_field local_set local_value primary observed current =
     (if local_set then local_value else if primary then observed else current)"

definition refresh_user ::
    "runtime_env \<Rightarrow> complete_identity \<Rightarrow> uuid \<Rightarrow> user_row \<Rightarrow> (auth_db, resolution) tx" where
  "refresh_user env c identity_id user =
     (let e = ci_evidence c;
          primary = u_primary_source_kind user = ''provider''
            \<and> u_primary_profile_identity_id user = Some identity_id;
          display_name = effective_field (u_local_display_name_set user) (u_local_display_name user)
            primary (vi_display_name e) (u_display_name user);
          picture_url = effective_field (u_local_picture_url_set user) (u_local_picture_url user)
            primary (vi_picture_url e) (u_picture_url user);
          loc = effective_field (u_local_locale_set user) (u_local_locale user)
            primary (vi_locale e) (u_locale user);
          base_digest = base_profile_digest env display_name picture_url loc;
          changed = u_display_name user \<noteq> display_name \<or> u_picture_url user \<noteq> picture_url
            \<or> u_locale user \<noteq> loc;
          digest_changed = u_base_profile_digest user \<noteq> base_digest
      in
      if primary \<and> (changed \<or> digest_changed) then
        m_bind (m_try (if changed then bump (u_user_revision user) else Inr (u_user_revision user))) (\<lambda>revision.
        m_bind (db_update user_table (u_id user) (\<lambda>r.
          let r1 = r\<lparr>u_base_profile_digest := base_digest\<rparr>
          in if changed
             then r1\<lparr>u_user_revision := revision, u_display_name := display_name,
                     u_picture_url := picture_url, u_locale := loc, u_updated_at := ci_now c\<rparr>
             else r1)) (\<lambda>updated.
        m_return (Resolved updated changed identity_id)))
      else m_return (Resolved user False identity_id))"

definition resolve_known_identity ::
    "runtime_env \<Rightarrow> complete_identity \<Rightarrow> identity_row \<Rightarrow> (auth_db, resolution) tx" where
  "resolve_known_identity env c owner_hint =
     m_bind (m_read (\<lambda>db. Inr (find (\<lambda>u. u_id u = id_user_id owner_hint
         \<and> u_project_id u = ci_project_id c) (users db)))) (\<lambda>found_user.
     case found_user of
       None \<Rightarrow> m_return (Refused EIntegrity)
     | Some user \<Rightarrow>
         m_bind (m_read (\<lambda>db. Inr (find (\<lambda>i. id_project_id i = ci_project_id c
             \<and> id_issuer i = vi_issuer (ci_evidence c)
             \<and> id_subject i = vi_subject (ci_evidence c)) (identities db)))) (\<lambda>found_identity.
         case found_identity of
           None \<Rightarrow> m_return (Refused EIntegrity)
         | Some identity \<Rightarrow>
             if id_id identity \<noteq> id_id owner_hint \<or> id_user_id identity \<noteq> id_user_id owner_hint
             then m_return (Refused ERevisionConflict)
             else if id_status identity \<noteq> ''active'' then m_return (Refused EDisabled)
             else if u_status user \<noteq> ''active'' then m_return (Refused EDisabled)
             else
               m_bind (observe_identity env c identity) (\<lambda>_.
               refresh_user env c (id_id identity) user)))"

definition new_user :: "runtime_env \<Rightarrow> complete_identity \<Rightarrow> string \<Rightarrow> user_row" where
  "new_user env c public_id =
     (let e = ci_evidence c
      in \<lparr>u_id = ci_new_user_id c, u_project_id = ci_project_id c, u_public_id = public_id,
          u_status = ''active'', u_merged_into_user_id = None, u_user_revision = 1,
          u_security_revision = 1, u_primary_profile_identity_id = None,
          u_primary_email_identity_id = None, u_primary_source_kind = ''provider'',
          u_base_profile_digest =
            base_profile_digest env (vi_display_name e) (vi_picture_url e) (vi_locale e),
          u_local_display_name_set = False, u_local_display_name = None,
          u_local_picture_url_set = False, u_local_picture_url = None,
          u_local_locale_set = False, u_local_locale = None,
          u_display_name = vi_display_name e, u_picture_url = vi_picture_url e,
          u_locale = vi_locale e, u_created_at = ci_now c, u_updated_at = ci_now c\<rparr>)"

definition new_identity :: "runtime_env \<Rightarrow> complete_identity \<Rightarrow> uuid \<Rightarrow> uuid \<Rightarrow> identity_row" where
  "new_identity env c user_id provider_id =
     (let e = ci_evidence c
      in \<lparr>id_id = ci_new_identity_id c, id_project_id = ci_project_id c, id_user_id = user_id,
          id_created_via_provider_configuration_id = provider_id, id_issuer = vi_issuer e,
          id_subject = vi_subject e, id_status = ''active'', id_identity_revision = 1,
          id_source_kind = ''provider'', id_source_schema = ''owlauth.provider-profile.v1'',
          id_source_profile_digest =
            base_profile_digest env (vi_display_name e) (vi_picture_url e) (vi_locale e),
          id_display_name = vi_display_name e, id_picture_url = vi_picture_url e,
          id_locale = vi_locale e, id_observed_at = ci_now c, id_created_at = ci_now c,
          id_updated_at = ci_now c\<rparr>)"

definition resolve_new_identity ::
    "runtime_env \<Rightarrow> complete_identity \<Rightarrow> uuid \<Rightarrow> (auth_db, resolution) tx" where
  "resolve_new_identity env c provider_id =
     (case public_id_parse (ci_new_user_public_id c) of
        Inl Panic \<Rightarrow> m_try (Inl Panic)
      | Inl (Err _) \<Rightarrow> m_return (Refused EInvalidInput)
      | Inr public_id \<Rightarrow>
          m_bind (db_insert user_table (new_user env c public_id)) (\<lambda>user.
          m_bind (db_insert identity_table (new_identity env c (u_id user) provider_id)) (\<lambda>_.
          m_bind (db_update user_table (u_id user)
            (\<lambda>r. r\<lparr>u_primary_profile_identity_id := Some (ci_new_identity_id c)\<rparr>)) (\<lambda>updated.
          m_return (Resolved updated False (ci_new_identity_id c))))))"

definition resolve_identity ::
    "runtime_env \<Rightarrow> complete_identity \<Rightarrow> uuid \<Rightarrow> (auth_db, resolution) tx" where
  "resolve_identity env c provider_id =
     m_bind (m_read (\<lambda>db. Inr (find (\<lambda>i. id_project_id i = ci_project_id c
         \<and> id_issuer i = vi_issuer (ci_evidence c)
         \<and> id_subject i = vi_subject (ci_evidence c)) (identities db)))) (\<lambda>owner.
     case owner of
       Some owner_hint \<Rightarrow> resolve_known_identity env c owner_hint
     | None \<Rightarrow> resolve_new_identity env c provider_id)"

section \<open>Completing the login\<close>

text \<open>
  The checks before the identity is resolved, with the reason that fails the exchange.  A
  database error among them would end the call without failing the exchange.
\<close>

definition completion_checks ::
    "complete_identity \<Rightarrow> login_row \<Rightarrow> auth_db \<Rightarrow> (application_error, provider_row) res" where
  "completion_checks c login db =
     (if lt_transaction_revision login \<noteq> ci_expected_transaction_revision c then Inl (Err ERevisionConflict)
      else
      and_then (validate_digest (ci_browser_credential c)) (\<lambda>_.
      and_then (validate_digest (ci_handoff_ticket c)) (\<lambda>_.
      and_then (case ci_existing_browser_credential c of None \<Rightarrow> Inr () | Some d \<Rightarrow> validate_digest d) (\<lambda>_.
      and_then (ok_or (lt_provider_configuration_id login) EIntegrity) (\<lambda>provider_id.
      and_then (select_one methods (\<lambda>m. mt_project_id m = lt_project_id login
          \<and> mt_transaction_id m = lt_id login
          \<and> mt_provider_configuration_id m = Some provider_id) EIntegrity db) (\<lambda>m.
      and_then (revalidate_login_owners login provider_id m db) (\<lambda>_.
      and_then (select_one providers (\<lambda>p. pc_id p = provider_id
          \<and> pc_project_id p = ci_project_id c) EIntegrity db) (\<lambda>provider.
      if pc_issuer provider \<noteq> vi_issuer (ci_evidence c) then Inl (Err EInvalidInput)
      else Inr provider))))))))"

definition keep_credential ::
    "completion_env \<Rightarrow> complete_identity \<Rightarrow> login_row \<Rightarrow> provider_row \<Rightarrow> uuid \<Rightarrow> user_row \<Rightarrow> (auth_db, unit) tx" where
  "keep_credential cenv c login provider identity_id user =
     (case (vi_renewable_credential (ci_evidence c), vi_managed_capability (ci_evidence c)) of
        (Some credential, Some capability) \<Rightarrow>
          if \<not> pc_managed_profile_enabled provider
            \<or> rc_granted_scopes credential \<noteq> mc_exact_scopes capability
          then m_return ()
          else
            m_bind (m_try (ok_or (cd_protector cenv) EIntegrity)) (\<lambda>protect.
            upsert_managed_connection cenv protect provider identity_id user
              (lt_project_security_revision login) capability (rc_value credential) (ci_now c))
      | _ \<Rightarrow> m_return ())"

definition authenticated_row :: "complete_identity \<Rightarrow> login_transaction_status \<Rightarrow> i64 \<Rightarrow> uuid \<Rightarrow> login_row \<Rightarrow> login_row" where
  "authenticated_row c status revision user_id r = r
     \<lparr>lt_status := login_status_as_str status, lt_transaction_revision := revision,
      lt_user_id := Some user_id, lt_authenticated_at := Some (ci_now c), lt_updated_at := ci_now c\<rparr>"

definition issue_completed_handoff ::
    "runtime_env \<Rightarrow> complete_identity \<Rightarrow> login_row \<Rightarrow> user_row \<Rightarrow> (auth_db, issued_handoff verdict) tx" where
  "issue_completed_handoff env c login user =
     m_bind (rotate_or_create_browser_session env
       \<lparr>bc_project_id = ci_project_id c, bc_user_id = u_id user,
        bc_user_security_revision = u_security_revision user,
        bc_browser_session_id = ci_browser_session_id c,
        bc_existing_browser_credential = ci_existing_browser_credential c,
        bc_browser_credential = ci_browser_credential c,
        bc_project_security_revision = lt_project_security_revision login,
        bc_policy_session_revision = lt_session_revision login, bc_now = ci_now c\<rparr>) (\<lambda>browser_session.
     m_bind (m_try (expect (env_tadd env (ci_now c) (seconds 60)))) (\<lambda>deadline.
     let expires_at = min deadline (lt_expires_at login)
     in
     if expires_at \<le> ci_now c then m_fail EInvalidTransition
     else
       m_bind (insert_handoff env (ci_handoff_id c) (ci_handoff_ticket c) login (u_id user)
         (bs_id browser_session) ''provider'' (ci_now c) (ci_now c) expires_at
         (u_security_revision user)) (\<lambda>handoff.
       m_bind (m_try (login_move_or from_domain Authenticate ProviderExchangeInProgress)) (\<lambda>authenticated.
       m_bind (m_try (login_move_or from_domain IssueHandoff authenticated)) (\<lambda>status.
       m_bind (m_try (bump (lt_transaction_revision login))) (\<lambda>revision.
       m_bind (db_update login_table (lt_id login)
         (authenticated_row c status revision (u_id user))) (\<lambda>_.
       m_bind (append_runtime_audit env (ci_project_id c) ''system'' ''auth.callback.completed''
         ''project_user'' (Some (u_id user)) (ci_transaction_id c)) (\<lambda>_.
       m_return (Return
         \<lparr>ih_project_id = ci_project_id c, ih_application_id = ht_application_id handoff,
          ih_user_id = u_id user, ih_user_public_id = u_public_id user,
          ih_browser_session_id = bs_id browser_session, ih_handoff_id = ht_id handoff,
          ih_redirect_uri = lt_redirect_uri login,
          ih_application_state = \<lparr>pv_ciphertext = lt_application_state_ciphertext login,
            pv_key_version = lt_application_state_key_version login\<rparr>,
          ih_expires_at = expires_at\<rparr>)))))))))"

definition complete_claimed_login ::
    "runtime_env \<Rightarrow> completion_env \<Rightarrow> complete_identity \<Rightarrow> login_row \<Rightarrow> provider_row
     \<Rightarrow> (auth_db, issued_handoff verdict) tx" where
  "complete_claimed_login env cenv c login provider =
     m_bind (resolve_identity env c (pc_id provider)) (\<lambda>resolution.
     case resolution of
       Refused e \<Rightarrow> fail_provider_completion env login (ci_now c) e
     | Resolved user projection_changed identity_id \<Rightarrow>
         m_bind (m_when projection_changed (fan_out_user env cenv user (ci_now c))) (\<lambda>_.
         m_bind (keep_credential cenv c login provider identity_id user) (\<lambda>_.
         issue_completed_handoff env c login user)))"

definition complete_authenticated_identity ::
    "runtime_env \<Rightarrow> completion_env \<Rightarrow> complete_identity \<Rightarrow> (auth_db, issued_handoff) tx" where
  "complete_authenticated_identity env cenv c =
     transaction (
       m_bind (m_read (select_one logins (\<lambda>l. lt_id l = ci_transaction_id c
           \<and> lt_project_id l = ci_project_id c) ENotFound)) (\<lambda>login.
       unless_expired env login (ci_now c) (
       m_bind (m_try (parse_login_status (lt_status login))) (\<lambda>status.
       if status \<noteq> ProviderExchangeInProgress then m_fail EInvalidTransition
       else
         m_bind (m_read (\<lambda>db. Inr (completion_checks c login db))) (\<lambda>checked.
         case checked of
           Inl Panic \<Rightarrow> m_try (Inl Panic)
         | Inl (Err EPersistence) \<Rightarrow> m_fail EPersistence
         | Inl (Err e) \<Rightarrow> fail_provider_completion env login (ci_now c) e
         | Inr provider \<Rightarrow> complete_claimed_login env cenv c login provider)))))"

end
