(* ===== verification/Owl_Passwordless.thy ===== *)
theory Owl_Passwordless
  imports Owl_Completion
begin

text \<open>
  The passwordless email repository: \<open>PasswordlessEmailRepository\<close> of
  \<open>adapters/postgres/email.rs\<close> with \<open>mail_delivery_safety.rs\<close> and \<open>email_identity_lookup.rs\<close>.
  A login selects the email method, challenges are issued in generations and mailed, and a
  presented code or link is verified and completes the login.

  \<open>clk\<close> holds the readings of the database clock; an increment inside a statement fails in
  the database when it leaves its column type.
\<close>

section \<open>Commands\<close>

record select_email =
  se_project_id :: uuid
  se_transaction_id :: uuid
  se_expected_transaction_revision :: i64
  se_browser_binding :: versioned_digest
  se_csrf :: versioned_digest
  se_now :: instant

record email_generation_preparation =
  eg_prep_project_id :: uuid
  eg_prep_application_id :: uuid
  eg_prep_transaction_id :: uuid
  eg_prep_next_generation :: int
  eg_prep_transaction_expires_at :: instant
  eg_prep_policy :: admitted_email

record commit_generation =
  gn_project_id :: uuid
  gn_application_id :: uuid
  gn_transaction_id :: uuid
  gn_expected_transaction_revision :: i64
  gn_expected_generation :: int
  gn_challenge_id :: uuid
  gn_outbox_id :: uuid
  gn_canonicalization_version :: i32
  gn_lookup_digest :: versioned_digest
  gn_recipient_digests :: "versioned_digest list"
  gn_address :: protected_value
  gn_otp_digest :: "versioned_digest option"
  gn_magic_digest :: "versioned_digest option"
  gn_envelope :: protected_value
  gn_body :: protected_value
  gn_message_id :: string
  gn_issued_at :: instant
  gn_otp_expires_at :: "instant option"
  gn_magic_expires_at :: "instant option"
  gn_expires_at :: instant

datatype email_proof_kind = ProofOtp | ProofMagicLink

record verify_proof =
  vp_project_id :: uuid
  vp_transaction_id :: uuid
  vp_challenge_id :: uuid
  vp_proof_kind :: email_proof_kind
  vp_proof_digest :: versioned_digest
  vp_browser_binding :: "versioned_digest option"
  vp_csrf :: versioned_digest
  vp_transfer_context :: "versioned_digest option"
  vp_expected_transaction_revision :: i64
  vp_now :: instant

record establish_transfer =
  et_id :: uuid
  et_challenge_id :: uuid
  et_context :: versioned_digest
  et_csrf :: versioned_digest
  et_now :: instant

record resolve_transfer =
  rt_challenge_id :: uuid
  rt_project_public_id :: string
  rt_transaction_id :: uuid
  rt_context :: versioned_digest
  rt_csrf :: versioned_digest
  rt_now :: instant

datatype application_type = AppWeb | AppNative

record resolved_transfer =
  rx_project_id :: uuid
  rx_project_public_id :: string
  rx_transaction_id :: uuid
  rx_application_type :: application_type
  rx_browser_binding_required :: bool

record verified_challenge =
  vc_project_id :: uuid
  vc_application_id :: uuid
  vc_transaction_id :: uuid
  vc_challenge_id :: uuid
  vc_address :: protected_value
  vc_canonicalization_version :: i32
  vc_lookup_digest :: versioned_digest

datatype email_proof_decision = ProofAccepted verified_challenge | ProofInvalid

record complete_proof =
  cp_verification :: verify_proof
  cp_new_user_id :: uuid
  cp_new_user_public_id :: string
  cp_new_identity_id :: uuid
  cp_durable_address :: protected_value
  cp_verified_challenge_lookup :: versioned_digest
  cp_lookup_aliases :: "versioned_digest list"
  cp_active_alias :: versioned_digest
  cp_alias_authority_revision :: i64
  cp_browser_session_id :: uuid
  cp_existing_browser_credential :: "versioned_digest option"
  cp_browser_credential :: versioned_digest
  cp_handoff_id :: uuid
  cp_handoff_ticket :: versioned_digest

text \<open>
  The readings of \<open>clock_timestamp()\<close> in one call, in the order of the statements that take them.
\<close>

record clock_readings =
  ck_now :: instant
  ck_lease :: instant
  ck_recent :: instant

definition sql_bump :: "i64 \<Rightarrow> (application_error, i64) res" where
  "sql_bump n = (if in_i64 (n + 1) then Inr (n + 1) else Inl (Err EPersistence))"

definition sql_max :: "'a::linorder list \<Rightarrow> 'a option" where
  "sql_max xs = (case xs of [] \<Rightarrow> None | y # ys \<Rightarrow> Some (foldr max ys y))"

definition MAX_MAGIC_TRANSFER_CONTEXTS_PER_CHALLENGE :: nat where
  "MAX_MAGIC_TRANSFER_CONTEXTS_PER_CHALLENGE = 8"

definition MAX_ACTIVE_MAIL_OUTBOX_PER_PROJECT :: int where
  "MAX_ACTIVE_MAIL_OUTBOX_PER_PROJECT = 1000"

section \<open>Validation\<close>

definition validate_all :: "versioned_digest list \<Rightarrow> (application_error, unit) res" where
  "validate_all ds = (if list_ex (\<lambda>d. vd_key_version d \<le> 0) ds then Inl (Err EInvalidInput) else Inr ())"

definition validate_optional :: "versioned_digest option \<Rightarrow> (application_error, unit) res" where
  "validate_optional d = (case d of None \<Rightarrow> Inr () | Some v \<Rightarrow> validate_digest v)"

definition expiry_outside :: "instant \<Rightarrow> instant \<Rightarrow> instant option \<Rightarrow> bool" where
  "expiry_outside issued_at expires_at e \<longleftrightarrow>
     (case e of None \<Rightarrow> False | Some t \<Rightarrow> t \<le> issued_at \<or> t > expires_at)"

definition validate_generation :: "runtime_env \<Rightarrow> commit_generation \<Rightarrow> (application_error, unit) res" where
  "validate_generation env c =
     and_then (validate_digest (gn_lookup_digest c)) (\<lambda>_.
     if gn_recipient_digests c = [] \<or> length (gn_recipient_digests c) > 16
       \<or> gn_lookup_digest c \<notin> set (gn_recipient_digests c)
     then Inl (Err EInvalidInput)
     else
     and_then (validate_all (gn_recipient_digests c)) (\<lambda>_.
     if gn_expected_generation c < 1 \<or> gn_expected_generation c > 5 \<or> gn_expires_at c \<le> gn_issued_at c
     then Inl (Err EInvalidInput)
     else
     and_then (expect (env_tadd env (gn_issued_at c) (minutes 10))) (\<lambda>deadline.
     if gn_expires_at c > deadline
       \<or> (gn_otp_digest c = None \<and> gn_magic_digest c = None)
       \<or> (gn_otp_digest c \<noteq> None) \<noteq> (gn_otp_expires_at c \<noteq> None)
       \<or> (gn_magic_digest c \<noteq> None) \<noteq> (gn_magic_expires_at c \<noteq> None)
       \<or> expiry_outside (gn_issued_at c) (gn_expires_at c) (gn_otp_expires_at c)
       \<or> expiry_outside (gn_issued_at c) (gn_expires_at c) (gn_magic_expires_at c)
       \<or> length (gn_message_id c) < 16
       \<or> length (gn_message_id c) > 255
     then Inl (Err EInvalidInput)
     else
     and_then (validate_optional (gn_otp_digest c)) (\<lambda>_.
     validate_optional (gn_magic_digest c)))))"

text \<open>\<open>require_stored_digest\<close>; \<open>ct_eq\<close> of slices of different length is false.\<close>

definition require_stored_digest ::
    "string option \<Rightarrow> i32 option \<Rightarrow> versioned_digest \<Rightarrow> (application_error, unit) res" where
  "require_stored_digest value version presented =
     (if version \<noteq> Some (vd_key_version presented) \<or> value \<noteq> Some (vd_value presented)
      then Inl (Err ENotFound) else Inr ())"

section \<open>The authority of the email method\<close>

text \<open>
  The columns \<open>revalidate_policy_and_smtp\<close> reads from its row: the captured revisions of the
  login and the method snapshot, which a challenge repeats.
\<close>

record frozen_email_authority =
  xa_application_id :: uuid
  xa_project_metadata_revision :: i64
  xa_project_security_revision :: i64
  xa_application_security_revision :: i64
  xa_method_policy_revision :: i64
  xa_method_security_revision :: i64
  xa_assignment_security_revision :: i64
  xa_smtp_selection_kind :: string
  xa_smtp_configuration_id :: "uuid option"
  xa_smtp_generation :: i32
  xa_smtp_security_eligibility_revision :: i64

definition snapshot_authority :: "login_row \<Rightarrow> email_snapshot_row \<Rightarrow> frozen_email_authority" where
  "snapshot_authority login s =
     \<lparr>xa_application_id = lt_application_id login,
      xa_project_metadata_revision = lt_project_metadata_revision login,
      xa_project_security_revision = lt_project_security_revision login,
      xa_application_security_revision = lt_application_security_revision login,
      xa_method_policy_revision = es_method_policy_revision s,
      xa_method_security_revision = es_method_security_revision s,
      xa_assignment_security_revision = es_assignment_security_revision s,
      xa_smtp_selection_kind = es_smtp_selection_kind s,
      xa_smtp_configuration_id = es_smtp_configuration_id s,
      xa_smtp_generation = es_smtp_generation s,
      xa_smtp_security_eligibility_revision = es_smtp_security_eligibility_revision s\<rparr>"

definition challenge_authority :: "login_row \<Rightarrow> challenge_row \<Rightarrow> frozen_email_authority" where
  "challenge_authority login h =
     \<lparr>xa_application_id = eh_application_id h,
      xa_project_metadata_revision = lt_project_metadata_revision login,
      xa_project_security_revision = lt_project_security_revision login,
      xa_application_security_revision = lt_application_security_revision login,
      xa_method_policy_revision = eh_method_policy_revision h,
      xa_method_security_revision = eh_method_security_revision h,
      xa_assignment_security_revision = eh_assignment_security_revision h,
      xa_smtp_selection_kind = eh_smtp_selection_kind h,
      xa_smtp_configuration_id = eh_smtp_configuration_id h,
      xa_smtp_generation = eh_smtp_generation h,
      xa_smtp_security_eligibility_revision = eh_smtp_security_eligibility_revision h\<rparr>"

definition revalidate_policy_and_smtp ::
    "frozen_email_authority \<Rightarrow> uuid \<Rightarrow> instant \<Rightarrow> (auth_db, unit) query" where
  "revalidate_policy_and_smtp a project_id now db =
     and_then (select_one projects (\<lambda>p. p_id p = project_id) ERevisionConflict db) (\<lambda>project.
     and_then (select_one applications (\<lambda>x. ap_project_id x = project_id
         \<and> ap_id x = xa_application_id a) ERevisionConflict db) (\<lambda>application.
     if p_status project \<noteq> ''active''
       \<or> p_metadata_revision project \<noteq> xa_project_metadata_revision a
       \<or> p_security_revision project \<noteq> xa_project_security_revision a
       \<or> ap_status application \<noteq> ''active''
       \<or> ap_security_revision application \<noteq> xa_application_security_revision a
     then Inl (Err ERevisionConflict)
     else
     and_then (select_one email_policies (\<lambda>p. ep_project_id p = project_id
         \<and> ep_status p = ''enabled'') ERevisionConflict db) (\<lambda>policy.
     and_then (select_one email_assignments (\<lambda>x. ea_project_id x = project_id
         \<and> ea_application_id x = xa_application_id a \<and> ea_status x = ''active'') ERevisionConflict db)
       (\<lambda>assignment.
     if ep_policy_revision policy \<noteq> xa_method_policy_revision a
       \<or> ep_security_revision policy \<noteq> xa_method_security_revision a
       \<or> ea_security_revision assignment \<noteq> xa_assignment_security_revision a
     then Inl (Err ERevisionConflict)
     else
       let eligible =
         (if xa_smtp_selection_kind a = ''project'' then
            find (\<lambda>r. sm_project_id r = project_id
              \<and> xa_smtp_configuration_id a = Some (sm_id r)
              \<and> sm_generation r = xa_smtp_generation a
              \<and> sm_security_eligibility_revision r = xa_smtp_security_eligibility_revision a
              \<and> smtp_usable (sm_status r) (sm_retained_until r) now) (project_smtp db) \<noteq> None
          else
            find (\<lambda>r. ds_generation r = xa_smtp_generation a
              \<and> ds_security_eligibility_revision r = xa_smtp_security_eligibility_revision a
              \<and> smtp_usable (ds_status r) (ds_retained_until r) now) (deployment_smtp db) \<noteq> None)
       in if \<not> eligible then Inl (Err EDisabled) else Inr ()))))"

definition lock_email_method_owners :: "uuid \<Rightarrow> uuid \<Rightarrow> (auth_db, unit) query" where
  "lock_email_method_owners project_id application_id db =
     and_then (select_one email_policies (\<lambda>p. ep_project_id p = project_id) ERevisionConflict db) (\<lambda>_.
     and_then (select_one email_assignments (\<lambda>x. ea_project_id x = project_id
         \<and> ea_application_id x = application_id) ERevisionConflict db) (\<lambda>_.
     Inr ()))"

text \<open>The join of a login with its email snapshot.\<close>

definition login_with_snapshot :: "uuid \<Rightarrow> uuid \<Rightarrow> (auth_db, login_row \<times> email_snapshot_row) query" where
  "login_with_snapshot project_id transaction_id db =
     and_then (select_one logins (\<lambda>l. lt_project_id l = project_id \<and> lt_id l = transaction_id) ENotFound db)
       (\<lambda>login.
     and_then (select_one email_snapshots (\<lambda>s. es_project_id s = project_id
         \<and> es_transaction_id s = transaction_id) ENotFound db) (\<lambda>snapshot.
     Inr (login, snapshot)))"

definition challenges_of :: "uuid \<Rightarrow> uuid \<Rightarrow> auth_db \<Rightarrow> challenge_row list" where
  "challenges_of project_id transaction_id db =
     filter (\<lambda>h. eh_project_id h = project_id \<and> eh_transaction_id h = Some transaction_id) (challenges db)"

definition newest_generation :: "uuid \<Rightarrow> uuid \<Rightarrow> auth_db \<Rightarrow> int option" where
  "newest_generation project_id transaction_id db =
     sql_max (map eh_generation (challenges_of project_id transaction_id db))"

definition current_generation :: "uuid \<Rightarrow> uuid \<Rightarrow> auth_db \<Rightarrow> int" where
  "current_generation project_id transaction_id db =
     (case newest_generation project_id transaction_id db of None \<Rightarrow> 0 | Some g \<Rightarrow> g)"

definition last_issued_at :: "uuid \<Rightarrow> uuid \<Rightarrow> auth_db \<Rightarrow> instant option" where
  "last_issued_at project_id transaction_id db =
     sql_max (map eh_issued_at (challenges_of project_id transaction_id db))"

text \<open>\<open>is_some_and(|last| now < last + resend_after)\<close>\<close>

definition too_early ::
    "runtime_env \<Rightarrow> instant option \<Rightarrow> i32 \<Rightarrow> instant \<Rightarrow> (application_error, bool) res" where
  "too_early env latest resend_after now =
     (case latest of
        None \<Rightarrow> Inr False
      | Some t \<Rightarrow> and_then (expect (env_tadd env t (seconds resend_after))) (\<lambda>u. Inr (now < u)))"

section \<open>Selecting the method\<close>

definition select_email_row :: "instant \<Rightarrow> i64 \<Rightarrow> login_row \<Rightarrow> login_row" where
  "select_email_row now revision r = r
     \<lparr>lt_status := ''email_address_entry'', lt_selected_method := Some ''email'',
      lt_transaction_revision := revision, lt_updated_at := now\<rparr>"

definition select_email_checks :: "select_email \<Rightarrow> login_row \<Rightarrow> email_snapshot_row \<Rightarrow> (auth_db, unit) query" where
  "select_email_checks c login snapshot db =
     (if lt_expires_at login \<le> se_now c \<or> lt_status login \<noteq> ''awaiting_method_selection''
      then Inl (Err EInvalidTransition)
      else if lt_transaction_revision login \<noteq> se_expected_transaction_revision c
      then Inl (Err ERevisionConflict)
      else
      and_then (require_stored_digest (lt_browser_binding_digest login)
          (lt_browser_binding_digest_key_version login) (se_browser_binding c)) (\<lambda>_.
      and_then (require_stored_digest (lt_csrf_digest login) (lt_csrf_digest_key_version login)
          (se_csrf c)) (\<lambda>_.
      revalidate_policy_and_smtp (snapshot_authority login snapshot) (se_project_id c) (se_now c) db)))"

definition select_email_method ::
    "select_email \<Rightarrow> (auth_db, login_transaction_status \<times> i64) tx" where
  "select_email_method c =
     m_bind (m_try (validate_digest (se_browser_binding c))) (\<lambda>_.
     m_bind (m_try (validate_digest (se_csrf c))) (\<lambda>_. transaction (
     m_bind (m_read (login_with_snapshot (se_project_id c) (se_transaction_id c))) (\<lambda>(login, snapshot).
     m_bind (m_read (select_email_checks c login snapshot)) (\<lambda>_.
     m_bind (m_try (sql_bump (lt_transaction_revision login))) (\<lambda>revision.
     m_bind (db_update_where login_table (\<lambda>l. lt_project_id l = se_project_id c
         \<and> lt_id l = se_transaction_id c \<and> lt_status l = ''awaiting_method_selection''
         \<and> lt_transaction_revision l = lt_transaction_revision login)
       (select_email_row (se_now c) revision)) (\<lambda>updated.
     if updated = 0 then m_fail ERevisionConflict
     else m_return (Return (EmailAddressEntry, revision)))))))))"

section \<open>Issuing a challenge\<close>

definition prepared_policy :: "email_snapshot_row \<Rightarrow> admitted_email" where
  "prepared_policy s =
     \<lparr>ae_policy_revision = es_method_policy_revision s,
      ae_security_revision = es_method_security_revision s,
      ae_assignment_security_revision = es_assignment_security_revision s,
      ae_otp_enabled = es_otp_enabled s, ae_magic_link_enabled = es_magic_link_enabled s,
      ae_otp_digits = es_otp_digits s, ae_otp_validity_seconds = es_otp_validity_seconds s,
      ae_otp_max_attempts = es_otp_max_attempts s,
      ae_resend_after_seconds = es_resend_after_seconds s,
      ae_max_generations = es_max_generations s,
      ae_magic_validity_seconds = es_magic_validity_seconds s,
      ae_signup_enabled = es_signup_enabled s,
      ae_transferred_magic_link_enabled = es_transferred_magic_link_enabled s,
      ae_smtp_selection_kind = es_smtp_selection_kind s,
      ae_smtp_configuration_id = es_smtp_configuration_id s,
      ae_smtp_generation = es_smtp_generation s,
      ae_smtp_security_eligibility_revision = es_smtp_security_eligibility_revision s\<rparr>"

definition prepare_email_generation ::
    "runtime_env \<Rightarrow> uuid \<Rightarrow> uuid \<Rightarrow> i64 \<Rightarrow> versioned_digest \<Rightarrow> versioned_digest \<Rightarrow> instant
     \<Rightarrow> (auth_db, email_generation_preparation) query" where
  "prepare_email_generation env project_id transaction_id expected_revision browser_binding csrf now db =
     and_then (validate_digest browser_binding) (\<lambda>_.
     and_then (validate_digest csrf) (\<lambda>_.
     and_then (login_with_snapshot project_id transaction_id db) (\<lambda>(login, snapshot).
     if lt_expires_at login \<le> now
       \<or> lt_status login \<notin> {''email_address_entry'', ''email_challenge_pending''}
     then Inl (Err EInvalidTransition)
     else if lt_transaction_revision login \<noteq> expected_revision then Inl (Err ERevisionConflict)
     else
     and_then (require_stored_digest (lt_browser_binding_digest login)
         (lt_browser_binding_digest_key_version login) browser_binding) (\<lambda>_.
     and_then (require_stored_digest (lt_csrf_digest login) (lt_csrf_digest_key_version login) csrf) (\<lambda>_.
     let current = current_generation project_id transaction_id db
     in
     if current \<ge> es_max_generations snapshot \<or> current \<ge> 5 then Inl (Err EInvalidTransition)
     else
     and_then (too_early env (last_issued_at project_id transaction_id db)
         (es_resend_after_seconds snapshot) now) (\<lambda>early.
     if early then Inl (Err EInvalidTransition)
     else Inr
       \<lparr>eg_prep_project_id = project_id, eg_prep_application_id = lt_application_id login,
        eg_prep_transaction_id = transaction_id, eg_prep_next_generation = current + 1,
        eg_prep_transaction_expires_at = lt_expires_at login,
        eg_prep_policy = prepared_policy snapshot\<rparr>))))))"

datatype mail_delivery_authorization = Dispatch | RecipientSuppressed | ProjectBacklogFull

definition validate_mail_inputs :: "i32 \<Rightarrow> versioned_digest list \<Rightarrow> i32 \<Rightarrow> (application_error, unit) res" where
  "validate_mail_inputs canonicalization_version digests suppression_seconds =
     (if canonicalization_version \<le> 0 \<or> digests = [] \<or> length digests > 16
       \<or> \<not> (30 \<le> suppression_seconds \<and> suppression_seconds \<le> 600)
      then Inl (Err EInvalidInput)
      else if list_ex (\<lambda>d. vd_key_version d \<le> 0) digests \<or> \<not> distinct (map vd_key_version digests)
      then Inl (Err EInvalidInput)
      else Inr ())"

definition recipient_was_recently_enqueued ::
    "uuid \<Rightarrow> i32 \<Rightarrow> versioned_digest list \<Rightarrow> i32 \<Rightarrow> instant \<Rightarrow> auth_db \<Rightarrow> bool" where
  "recipient_was_recently_enqueued project_id canonicalization_version digests suppression_seconds clock db =
     list_ex (\<lambda>h. eh_project_id h = project_id
       \<and> eh_canonicalization_version h = canonicalization_version
       \<and> list_ex (\<lambda>d. eh_lookup_digest_key_version h = vd_key_version d
                     \<and> eh_lookup_digest h = vd_value d) digests
       \<and> list_ex (\<lambda>m. ob_project_id m = eh_project_id h \<and> ob_challenge_id m = eh_id h
                     \<and> ob_challenge_generation m = eh_generation h
                     \<and> ob_created_at m > clock - seconds suppression_seconds) (outbox db))
       (challenges db)"

definition authorize_mail_delivery_with_limit ::
    "uuid \<Rightarrow> i32 \<Rightarrow> versioned_digest list \<Rightarrow> i32 \<Rightarrow> int \<Rightarrow> instant
     \<Rightarrow> (auth_db, mail_delivery_authorization) query" where
  "authorize_mail_delivery_with_limit project_id canonicalization_version digests suppression_seconds
       limit clock db =
     and_then (validate_mail_inputs canonicalization_version digests suppression_seconds) (\<lambda>_.
     if limit \<le> 0 \<or> limit > MAX_ACTIVE_MAIL_OUTBOX_PER_PROJECT then Inl (Err EInvalidInput)
     else if int (length (filter (\<lambda>m. ob_project_id m = project_id
         \<and> ob_status m \<in> {''pending'', ''leased'', ''retry'', ''ambiguous''}) (outbox db))) \<ge> limit
     then Inr ProjectBacklogFull
     else if recipient_was_recently_enqueued project_id canonicalization_version digests
         suppression_seconds clock db
     then Inr RecipientSuppressed
     else Inr Dispatch)"

definition authorize_mail_delivery ::
    "uuid \<Rightarrow> i32 \<Rightarrow> versioned_digest list \<Rightarrow> i32 \<Rightarrow> instant \<Rightarrow> (auth_db, mail_delivery_authorization) query" where
  "authorize_mail_delivery project_id canonicalization_version digests suppression_seconds clock =
     authorize_mail_delivery_with_limit project_id canonicalization_version digests suppression_seconds
       MAX_ACTIVE_MAIL_OUTBOX_PER_PROJECT clock"

definition commit_generation_checks ::
    "runtime_env \<Rightarrow> clock_readings \<Rightarrow> commit_generation \<Rightarrow> login_row \<Rightarrow> email_snapshot_row \<Rightarrow> (auth_db, unit) query" where
  "commit_generation_checks env clk c login snapshot db =
     (if lt_transaction_revision login \<noteq> gn_expected_transaction_revision c
       \<or> current_generation (gn_project_id c) (gn_transaction_id c) db + 1 \<noteq> gn_expected_generation c
       \<or> gn_expected_generation c > es_max_generations snapshot
       \<or> gn_expected_generation c > 5
      then Inl (Err ERevisionConflict)
      else
      and_then (too_early env (last_issued_at (gn_project_id c) (gn_transaction_id c) db)
          (es_resend_after_seconds snapshot) (ck_now clk)) (\<lambda>early.
      if early then Inl (Err EInvalidTransition)
      else if lt_expires_at login \<le> gn_issued_at c
        \<or> lt_status login \<notin> {''email_address_entry'', ''email_challenge_pending''}
      then Inl (Err EInvalidTransition)
      else revalidate_policy_and_smtp (snapshot_authority login snapshot) (gn_project_id c)
             (gn_issued_at c) db))"

definition cancel_stale_mail :: "clock_readings \<Rightarrow> commit_generation \<Rightarrow> (auth_db, nat) tx" where
  "cancel_stale_mail clk c db =
     db_update_where outbox_table (\<lambda>m. list_ex (\<lambda>h. eh_owner_kind h = ''login''
         \<and> eh_project_id h = gn_project_id c \<and> eh_transaction_id h = Some (gn_transaction_id c)
         \<and> ob_project_id m = eh_project_id h \<and> ob_challenge_id m = eh_id h
         \<and> ob_challenge_generation m = eh_generation h) (challenges db)
       \<and> (ob_status m \<in> {''pending'', ''retry'', ''ambiguous''}
          \<or> (ob_status m = ''leased''
             \<and> (case ob_lease_expires_at m of None \<Rightarrow> False | Some t \<Rightarrow> t \<le> ck_lease clk))))
       (\<lambda>m. m\<lparr>ob_status := ''cancelled'', ob_safe_outcome := Some ''expired'', ob_lease_owner := None,
              ob_lease_expires_at := None, ob_terminal_at := Some (ck_now clk),
              ob_updated_at := ck_now clk\<rparr>) db"

definition supersede_row :: "instant \<Rightarrow> challenge_row \<Rightarrow> challenge_row" where
  "supersede_row now h = h\<lparr>eh_status := ''superseded'', eh_terminal_at := Some now, eh_updated_at := now\<rparr>"

definition supersede_challenges :: "clock_readings \<Rightarrow> commit_generation \<Rightarrow> (auth_db, nat) tx" where
  "supersede_challenges clk c =
     db_update_where challenge_table (\<lambda>h. eh_project_id h = gn_project_id c
         \<and> eh_transaction_id h = Some (gn_transaction_id c)
         \<and> eh_status h \<in> {''pending'', ''delivery_unavailable''})
       (supersede_row (ck_now clk))"

definition new_challenge ::
    "clock_readings \<Rightarrow> commit_generation \<Rightarrow> email_snapshot_row \<Rightarrow> bool \<Rightarrow> challenge_row" where
  "new_challenge clk c s dispatch =
     \<lparr>eh_id = gn_challenge_id c, eh_project_id = gn_project_id c,
      eh_application_id = gn_application_id c, eh_transaction_id = Some (gn_transaction_id c),
      eh_generation = gn_expected_generation c,
      eh_status = (if dispatch then ''pending'' else ''delivery_unavailable''),
      eh_canonicalization_version = gn_canonicalization_version c,
      eh_lookup_digest = vd_value (gn_lookup_digest c),
      eh_lookup_digest_key_version = vd_key_version (gn_lookup_digest c),
      eh_address_ciphertext = Some (pv_ciphertext (gn_address c)),
      eh_address_key_version = Some (pv_key_version (gn_address c)),
      eh_otp_digest = map_option vd_value (gn_otp_digest c),
      eh_otp_digest_key_version = map_option vd_key_version (gn_otp_digest c),
      eh_otp_attempts = 0, eh_otp_max_attempts = es_otp_max_attempts s,
      eh_magic_digest = map_option vd_value (gn_magic_digest c),
      eh_magic_digest_key_version = map_option vd_key_version (gn_magic_digest c),
      eh_method_policy_revision = es_method_policy_revision s,
      eh_method_security_revision = es_method_security_revision s,
      eh_assignment_security_revision = es_assignment_security_revision s,
      eh_smtp_selection_kind = es_smtp_selection_kind s,
      eh_smtp_configuration_id = es_smtp_configuration_id s,
      eh_smtp_generation = es_smtp_generation s,
      eh_smtp_security_eligibility_revision = es_smtp_security_eligibility_revision s,
      eh_browser_binding_required = (\<not> es_transferred_magic_link_enabled s),
      eh_issued_at = gn_issued_at c, eh_otp_expires_at = gn_otp_expires_at c,
      eh_magic_expires_at = gn_magic_expires_at c, eh_expires_at = gn_expires_at c,
      eh_consumed_at = None, eh_terminal_at = (if dispatch then None else Some (ck_now clk)),
      eh_redacted_at = None, eh_created_at = gn_issued_at c, eh_updated_at = gn_issued_at c,
      eh_owner_kind = ''login''\<rparr>"

definition new_mail :: "clock_readings \<Rightarrow> commit_generation \<Rightarrow> email_snapshot_row \<Rightarrow> outbox_row" where
  "new_mail clk c s =
     \<lparr>ob_id = gn_outbox_id c, ob_project_id = gn_project_id c,
      ob_transaction_id = Some (gn_transaction_id c), ob_challenge_id = gn_challenge_id c,
      ob_challenge_generation = gn_expected_generation c, ob_status = ''pending'',
      ob_smtp_selection_kind = es_smtp_selection_kind s,
      ob_smtp_configuration_id = es_smtp_configuration_id s,
      ob_smtp_generation = es_smtp_generation s,
      ob_smtp_security_eligibility_revision = es_smtp_security_eligibility_revision s,
      ob_message_id = gn_message_id c,
      ob_envelope_ciphertext = Some (pv_ciphertext (gn_envelope c)),
      ob_envelope_key_version = Some (pv_key_version (gn_envelope c)),
      ob_body_ciphertext = Some (pv_ciphertext (gn_body c)),
      ob_body_key_version = Some (pv_key_version (gn_body c)),
      ob_attempts = 0, ob_max_attempts = 5, ob_next_attempt_at = ck_now clk,
      ob_lease_owner = None, ob_lease_expires_at = None, ob_safe_outcome = None,
      ob_useful_until = gn_expires_at c, ob_delivered_at = None, ob_terminal_at = None,
      ob_redacted_at = None, ob_created_at = ck_now clk, ob_updated_at = ck_now clk\<rparr>"

definition pending_login_row :: "instant \<Rightarrow> i64 \<Rightarrow> login_row \<Rightarrow> login_row" where
  "pending_login_row now revision r = r
     \<lparr>lt_status := ''email_challenge_pending'', lt_transaction_revision := revision, lt_updated_at := now\<rparr>"

definition commit_generation_writes ::
    "clock_readings \<Rightarrow> commit_generation \<Rightarrow> login_row \<Rightarrow> email_snapshot_row \<Rightarrow> (auth_db, unit verdict) tx" where
  "commit_generation_writes clk c login snapshot =
     m_bind (cancel_stale_mail clk c) (\<lambda>_.
     m_bind (supersede_challenges clk c) (\<lambda>_.
     m_bind (m_read (authorize_mail_delivery (gn_project_id c) (gn_canonicalization_version c)
         (gn_recipient_digests c) (es_resend_after_seconds snapshot) (ck_recent clk))) (\<lambda>authorization.
     let dispatch = (authorization = Dispatch)
     in
     m_bind (db_insert challenge_table (new_challenge clk c snapshot dispatch)) (\<lambda>_.
     m_bind (m_when dispatch (m_bind (db_insert outbox_table (new_mail clk c snapshot)) (\<lambda>_. m_return ()))) (\<lambda>_.
     m_bind (m_try (sql_bump (lt_transaction_revision login))) (\<lambda>revision.
     m_bind (db_update_where login_table (\<lambda>l. lt_project_id l = gn_project_id c
         \<and> lt_id l = gn_transaction_id c \<and> lt_transaction_revision l = lt_transaction_revision login)
       (pending_login_row (ck_now clk) revision)) (\<lambda>updated.
     if updated \<noteq> 1 then m_fail ERevisionConflict else m_return (Return ()))))))))"

definition commit_email_generation ::
    "runtime_env \<Rightarrow> clock_readings \<Rightarrow> commit_generation \<Rightarrow> (auth_db, unit) tx" where
  "commit_email_generation env clk c =
     m_bind (m_try (validate_generation env c)) (\<lambda>_. transaction (
     m_bind (m_read (login_with_snapshot (gn_project_id c) (gn_transaction_id c))) (\<lambda>(login, snapshot).
     m_bind (m_read (commit_generation_checks env clk c login snapshot)) (\<lambda>_.
     commit_generation_writes clk c login snapshot))))"

section \<open>Opening a magic link\<close>

definition transferable_challenge :: "establish_transfer \<Rightarrow> (auth_db, challenge_row \<times> login_row) query" where
  "transferable_challenge c db =
     and_then (select_one challenges (\<lambda>h. eh_id h = et_challenge_id c \<and> eh_status h = ''pending''
         \<and> eh_magic_digest h \<noteq> None \<and> eh_expires_at h > et_now c
         \<and> \<not> list_ex (\<lambda>n. eh_project_id n = eh_project_id h \<and> eh_transaction_id h \<noteq> None
                \<and> eh_transaction_id n = eh_transaction_id h
                \<and> eh_generation n > eh_generation h) (challenges db)) ENotFound db) (\<lambda>h.
     and_then (select_one logins (\<lambda>l. lt_project_id l = eh_project_id h
         \<and> Some (lt_id l) = eh_transaction_id h \<and> lt_expires_at l > et_now c
         \<and> lt_status l = ''email_challenge_pending'') ENotFound db) (\<lambda>login.
     Inr (h, login)))"

definition pending_transfers :: "establish_transfer \<Rightarrow> auth_db \<Rightarrow> nat" where
  "pending_transfers c db = length (filter (\<lambda>t. tr_challenge_id t = et_challenge_id c
     \<and> tr_status t = ''pending'' \<and> tr_expires_at t > et_now c) (transfers db))"

definition establish_magic_transfer_context ::
    "runtime_env \<Rightarrow> establish_transfer \<Rightarrow> (auth_db, unit) tx" where
  "establish_magic_transfer_context env c =
     m_bind (m_try (validate_digest (et_context c))) (\<lambda>_.
     m_bind (m_try (validate_digest (et_csrf c))) (\<lambda>_. transaction (
     m_bind (m_read (transferable_challenge c)) (\<lambda>(h, login).
     m_bind (db_update_where transfer_table (\<lambda>t. tr_challenge_id t = et_challenge_id c
         \<and> tr_status t = ''pending'' \<and> tr_expires_at t \<le> et_now c)
       (\<lambda>t. t\<lparr>tr_status := ''expired''\<rparr>)) (\<lambda>_.
     m_bind (m_read (\<lambda>db. Inr (pending_transfers c db))) (\<lambda>count.
     if count \<ge> MAX_MAGIC_TRANSFER_CONTEXTS_PER_CHALLENGE then m_fail ENotFound
     else
     m_bind (m_try (expect (env_tadd env (et_now c) (minutes 5)))) (\<lambda>limit.
     m_bind (db_insert transfer_table
       \<lparr>tr_id = et_id c, tr_challenge_id = et_challenge_id c,
        tr_context_digest = vd_value (et_context c),
        tr_context_digest_key_version = vd_key_version (et_context c),
        tr_csrf_digest = vd_value (et_csrf c), tr_csrf_digest_key_version = vd_key_version (et_csrf c),
        tr_browser_binding_required = eh_browser_binding_required h, tr_status = ''pending'',
        tr_expires_at = min (min limit (eh_expires_at h)) (lt_expires_at login),
        tr_consumed_at = None, tr_created_at = et_now c\<rparr>) (\<lambda>_.
     m_return (Return ())))))))))"

definition application_type_of :: "string \<Rightarrow> (application_error, application_type) res" where
  "application_type_of s =
     (if s = ''web'' then Inr AppWeb else if s = ''native'' then Inr AppNative else Inl (Err EIntegrity))"

definition resolve_magic_transfer_context ::
    "resolve_transfer \<Rightarrow> (auth_db, resolved_transfer) query" where
  "resolve_magic_transfer_context c db =
     and_then (validate_digest (rt_context c)) (\<lambda>_.
     and_then (validate_digest (rt_csrf c)) (\<lambda>_.
     and_then (select_one transfers (\<lambda>t. tr_challenge_id t = rt_challenge_id c
         \<and> tr_context_digest t = vd_value (rt_context c)
         \<and> tr_context_digest_key_version t = vd_key_version (rt_context c)
         \<and> tr_csrf_digest t = vd_value (rt_csrf c)
         \<and> tr_csrf_digest_key_version t = vd_key_version (rt_csrf c)
         \<and> tr_status t = ''pending'' \<and> tr_expires_at t > rt_now c) ENotFound db) (\<lambda>t.
     and_then (select_one challenges (\<lambda>h. eh_id h = tr_challenge_id t \<and> eh_status h = ''pending''
         \<and> eh_expires_at h > rt_now c \<and> eh_transaction_id h = Some (rt_transaction_id c)) ENotFound db) (\<lambda>h.
     and_then (select_one logins (\<lambda>l. lt_project_id l = eh_project_id h
         \<and> Some (lt_id l) = eh_transaction_id h \<and> lt_status l = ''email_challenge_pending''
         \<and> lt_expires_at l > rt_now c) ENotFound db) (\<lambda>login.
     and_then (select_one projects (\<lambda>p. p_id p = eh_project_id h
         \<and> p_public_id p = rt_project_public_id c \<and> p_status p = ''active'') ENotFound db) (\<lambda>project.
     and_then (select_one applications (\<lambda>a. ap_project_id a = lt_project_id login
         \<and> ap_id a = lt_application_id login) ENotFound db) (\<lambda>application.
     and_then (application_type_of (ap_application_type application)) (\<lambda>ty.
     Inr \<lparr>rx_project_id = eh_project_id h, rx_project_public_id = p_public_id project,
          rx_transaction_id = rt_transaction_id c, rx_application_type = ty,
          rx_browser_binding_required = tr_browser_binding_required t\<rparr>))))))))"

section \<open>Verifying a proof\<close>

definition lock_challenge :: "verify_proof \<Rightarrow> (auth_db, challenge_row) query" where
  "lock_challenge v = select_one challenges (\<lambda>h. eh_project_id h = vp_project_id v
     \<and> eh_transaction_id h = Some (vp_transaction_id v) \<and> eh_id h = vp_challenge_id v) ENotFound"

definition email_proof_key_version ::
    "uuid \<Rightarrow> uuid \<Rightarrow> uuid \<Rightarrow> email_proof_kind \<Rightarrow> (auth_db, i32 option) query" where
  "email_proof_key_version project_id transaction_id challenge_id kind db =
     and_then (select_one challenges (\<lambda>h. eh_project_id h = project_id
         \<and> eh_transaction_id h = Some transaction_id \<and> eh_id h = challenge_id) ENotFound db) (\<lambda>h.
     Inr (case kind of ProofOtp \<Rightarrow> eh_otp_digest_key_version h
                     | ProofMagicLink \<Rightarrow> eh_magic_digest_key_version h))"

definition validate_email_confirmation_authority ::
    "verify_proof \<Rightarrow> login_row \<Rightarrow> challenge_row \<Rightarrow> (auth_db, unit) query" where
  "validate_email_confirmation_authority v login h db =
     (let bound = require_stored_digest (lt_browser_binding_digest login)
                    (lt_browser_binding_digest_key_version login)
      in
      case vp_transfer_context v of
        Some context \<Rightarrow>
          if vp_proof_kind v \<noteq> ProofMagicLink then Inl (Err ENotFound)
          else
          and_then (select_one transfers (\<lambda>t. tr_challenge_id t = vp_challenge_id v
              \<and> tr_context_digest t = vd_value context
              \<and> tr_context_digest_key_version t = vd_key_version context
              \<and> tr_csrf_digest t = vd_value (vp_csrf v)
              \<and> tr_csrf_digest_key_version t = vd_key_version (vp_csrf v)
              \<and> tr_status t = ''pending'' \<and> tr_expires_at t > vp_now v) ENotFound db) (\<lambda>t.
          if tr_browser_binding_required t \<noteq> eh_browser_binding_required h then Inl (Err EIntegrity)
          else if tr_browser_binding_required t \<and> vp_browser_binding v = None then Inl (Err ENotFound)
          else (case vp_browser_binding v of None \<Rightarrow> Inr () | Some b \<Rightarrow> bound b))
      | None \<Rightarrow>
          and_then (require_stored_digest (lt_csrf_digest login) (lt_csrf_digest_key_version login) (vp_csrf v)) (\<lambda>_.
          and_then (ok_or (vp_browser_binding v) ENotFound) bound))"

text \<open>What makes a challenge answerable: it is the newest and nothing has expired.\<close>

definition challenge_open :: "verify_proof \<Rightarrow> login_row \<Rightarrow> challenge_row \<Rightarrow> auth_db \<Rightarrow> bool" where
  "challenge_open v login h db \<longleftrightarrow>
     \<not> (eh_status h \<noteq> ''pending''
        \<or> lt_status login \<noteq> ''email_challenge_pending''
        \<or> Some (eh_generation h) \<noteq> newest_generation (vp_project_id v) (vp_transaction_id v) db
        \<or> eh_expires_at h \<le> vp_now v
        \<or> lt_expires_at login \<le> vp_now v)"

definition proof_expires_at :: "email_proof_kind \<Rightarrow> challenge_row \<Rightarrow> instant option" where
  "proof_expires_at kind h = (case kind of ProofOtp \<Rightarrow> eh_otp_expires_at h | ProofMagicLink \<Rightarrow> eh_magic_expires_at h)"

definition proof_alive :: "verify_proof \<Rightarrow> challenge_row \<Rightarrow> bool" where
  "proof_alive v h \<longleftrightarrow>
     (case proof_expires_at (vp_proof_kind v) h of None \<Rightarrow> False | Some t \<Rightarrow> \<not> t \<le> vp_now v)"

definition proof_matches :: "verify_proof \<Rightarrow> challenge_row \<Rightarrow> bool" where
  "proof_matches v h \<longleftrightarrow>
     (let (stored, version) =
        (case vp_proof_kind v of
           ProofOtp \<Rightarrow> (eh_otp_digest h, eh_otp_digest_key_version h)
         | ProofMagicLink \<Rightarrow> (eh_magic_digest h, eh_magic_digest_key_version h))
      in version = Some (vd_key_version (vp_proof_digest v))
         \<and> stored = Some (vd_value (vp_proof_digest v)))"

definition count_attempt_row :: "instant \<Rightarrow> challenge_row \<Rightarrow> challenge_row" where
  "count_attempt_row now h = h
     \<lparr>eh_otp_attempts := eh_otp_attempts h + 1,
      eh_status := (if eh_otp_attempts h + 1 \<ge> eh_otp_max_attempts h then ''exhausted'' else eh_status h),
      eh_terminal_at :=
        (if eh_otp_attempts h + 1 \<ge> eh_otp_max_attempts h then Some now else eh_terminal_at h),
      eh_updated_at := now\<rparr>"

definition count_attempt :: "verify_proof \<Rightarrow> (auth_db, nat) tx" where
  "count_attempt v =
     db_update_where challenge_table (\<lambda>h. eh_id h = vp_challenge_id v \<and> eh_status h = ''pending'')
       (count_attempt_row (vp_now v))"

definition verified_challenge_of :: "verify_proof \<Rightarrow> challenge_row \<Rightarrow> (application_error, verified_challenge) res" where
  "verified_challenge_of v h =
     and_then (ok_or (eh_address_ciphertext h) EPersistence) (\<lambda>ciphertext.
     and_then (ok_or (eh_address_key_version h) EPersistence) (\<lambda>version.
     and_then (digest_array (Some (eh_lookup_digest h))) (\<lambda>lookup.
     Inr \<lparr>vc_project_id = vp_project_id v, vc_application_id = eh_application_id h,
          vc_transaction_id = vp_transaction_id v, vc_challenge_id = vp_challenge_id v,
          vc_address = \<lparr>pv_ciphertext = ciphertext, pv_key_version = version\<rparr>,
          vc_canonicalization_version = eh_canonicalization_version h,
          vc_lookup_digest = \<lparr>vd_value = lookup,
            vd_key_version = eh_lookup_digest_key_version h\<rparr>\<rparr>)))"

text \<open>The rows a proof is checked against, before anything depends on the proof itself.\<close>

definition lock_proof_owners :: "verify_proof \<Rightarrow> bool \<Rightarrow> (auth_db, login_row \<times> challenge_row) query" where
  "lock_proof_owners v lock_method db =
     and_then (select_one logins (\<lambda>l. lt_id l = vp_transaction_id v \<and> lt_project_id l = vp_project_id v)
         ENotFound db) (\<lambda>login.
     and_then (lock_login_application_owners login db) (\<lambda>_.
     and_then (if lock_method
               then lock_email_method_owners (lt_project_id login) (lt_application_id login) db
               else Inr ()) (\<lambda>_.
     and_then (lock_challenge v db) (\<lambda>h.
     if lt_transaction_revision login \<noteq> vp_expected_transaction_revision v then Inl (Err ERevisionConflict)
     else
     and_then (validate_email_confirmation_authority v login h db) (\<lambda>_. Inr (login, h))))))"

definition verify_email_proof :: "verify_proof \<Rightarrow> (auth_db, email_proof_decision) tx" where
  "verify_email_proof v =
     m_bind (m_try (validate_digest (vp_proof_digest v))) (\<lambda>_.
     m_bind (m_try (validate_digest (vp_csrf v))) (\<lambda>_.
     m_bind (m_try (validate_optional (vp_transfer_context v))) (\<lambda>_. transaction (
     m_bind (m_read (lock_proof_owners v True)) (\<lambda>(login, h).
     m_bind (m_read (\<lambda>db. Inr (challenge_open v login h db))) (\<lambda>is_open.
     if \<not> is_open then m_return (Return ProofInvalid)
     else
     m_bind (m_read (revalidate_policy_and_smtp (challenge_authority login h) (vp_project_id v) (vp_now v))) (\<lambda>_.
     if \<not> proof_alive v h then m_return (Return ProofInvalid)
     else if \<not> proof_matches v h then
       m_bind (if vp_proof_kind v = ProofOtp
               then m_bind (count_attempt v) (\<lambda>_. m_return ()) else m_return ()) (\<lambda>_.
       m_return (Return ProofInvalid))
     else
       m_bind (m_try (verified_challenge_of v h)) (\<lambda>accepted.
       m_return (Return (ProofAccepted accepted))))))))))"

section \<open>Completing a login with a proof\<close>

definition validate_completion :: "complete_proof \<Rightarrow> (application_error, unit) res" where
  "validate_completion c =
     (let v = cp_verification c
      in
      and_then (validate_digest (vp_proof_digest v)) (\<lambda>_.
      and_then (validate_digest (vp_csrf v)) (\<lambda>_.
      and_then (validate_optional (vp_transfer_context v)) (\<lambda>_.
      and_then (validate_digest (cp_browser_credential c)) (\<lambda>_.
      and_then (validate_digest (cp_handoff_ticket c)) (\<lambda>_.
      and_then (validate_digest (cp_verified_challenge_lookup c)) (\<lambda>_.
      and_then (validate_all (cp_lookup_aliases c)) (\<lambda>_.
      and_then (validate_digest (cp_active_alias c)) (\<lambda>_.
      if cp_alias_authority_revision c \<noteq> 1
        \<or> \<not> distinct (map vd_key_version (cp_lookup_aliases c))
        \<or> cp_active_alias c \<notin> set (cp_lookup_aliases c)
      then Inl (Err EInvalidInput)
      else if pv_key_version (cp_durable_address c) \<le> 0 \<or> length (pv_ciphertext (cp_durable_address c)) < 41
      then Inl (Err EInvalidInput)
      else Inr ())))))))))"

definition completion_proof_checks :: "complete_proof \<Rightarrow> (auth_db, login_row \<times> challenge_row) query" where
  "completion_proof_checks c db =
     (let v = cp_verification c
      in
      and_then (lock_proof_owners v False db) (\<lambda>(login, h).
      if \<not> challenge_open v login h db then Inl (Err EInvalidTransition)
      else
      and_then (revalidate_policy_and_smtp (challenge_authority login h) (vp_project_id v) (vp_now v) db) (\<lambda>_.
      if \<not> proof_alive v h then Inl (Err EInvalidTransition)
      else if \<not> proof_matches v h then Inl (Err EInvalidTransition)
      else if cp_lookup_aliases c = [] \<or> length (cp_lookup_aliases c) > 16 then Inl (Err EInvalidInput)
      else if vd_key_version (cp_verified_challenge_lookup c) \<noteq> eh_lookup_digest_key_version h
        \<or> vd_value (cp_verified_challenge_lookup c) \<noteq> eh_lookup_digest h
      then Inl (Err EIntegrity)
      else Inr (login, h))))"

definition alias_owner ::
    "uuid \<Rightarrow> i32 \<Rightarrow> auth_db \<Rightarrow> versioned_digest \<Rightarrow> (email_identity_row \<times> user_row) option" where
  "alias_owner project_id version db d =
     Option.bind (find (\<lambda>a. al_project_id a = project_id \<and> al_canonicalization_version a = version
         \<and> al_digest_key_version a = vd_key_version d \<and> al_lookup_digest a = vd_value d) (aliases db)) (\<lambda>a.
     Option.bind (find (\<lambda>i. ei_project_id i = project_id \<and> ei_id i = al_identity_id a) (email_identities db)) (\<lambda>i.
     map_option (\<lambda>u. (i, u)) (find (\<lambda>u. u_project_id u = project_id \<and> u_id u = ei_user_id i) (users db))))"

fun alias_owners ::
    "(versioned_digest \<Rightarrow> (email_identity_row \<times> user_row) option) \<Rightarrow> (email_identity_row \<times> user_row) option
     \<Rightarrow> versioned_digest list \<Rightarrow> (application_error, (email_identity_row \<times> user_row) option) res" where
  "alias_owners owner existing [] = Inr existing"
| "alias_owners owner existing (d # ds) =
     (case owner d of
        None \<Rightarrow> alias_owners owner existing ds
      | Some found \<Rightarrow>
          if (case existing of None \<Rightarrow> False | Some (i, _) \<Rightarrow> ei_id i \<noteq> ei_id (fst found))
          then Inl (Err EIntegrity)
          else alias_owners owner (Some found) ds)"

definition new_alias :: "complete_proof \<Rightarrow> i32 \<Rightarrow> uuid \<Rightarrow> alias_row" where
  "new_alias c version identity_id =
     \<lparr>al_project_id = vp_project_id (cp_verification c), al_identity_id = identity_id,
      al_canonicalization_version = version, al_digest_key_version = vd_key_version (cp_active_alias c),
      al_lookup_digest = vd_value (cp_active_alias c), al_created_at = vp_now (cp_verification c)\<rparr>"

text \<open>\<open>INSERT .. ON CONFLICT DO NOTHING\<close>, and who the alias then belongs to.\<close>

definition ensure_alias :: "complete_proof \<Rightarrow> i32 \<Rightarrow> uuid \<Rightarrow> (auth_db, unit) tx" where
  "ensure_alias c version identity_id db =
     (let row = new_alias c version identity_id;
          db' = (if tb_ok alias_table (aliases db @ [row]) then db\<lparr>aliases := aliases db @ [row]\<rparr> else db)
      in case find (\<lambda>a. al_project_id a = al_project_id row
             \<and> al_canonicalization_version a = version
             \<and> al_digest_key_version a = al_digest_key_version row
             \<and> al_lookup_digest a = al_lookup_digest row) (aliases db') of
           None \<Rightarrow> (Inl (Err EIntegrity), db')
         | Some a \<Rightarrow> if al_identity_id a \<noteq> identity_id then (Inl (Err EIntegrity), db') else (Inr (), db'))"

definition new_email_user :: "runtime_env \<Rightarrow> complete_proof \<Rightarrow> user_row" where
  "new_email_user env c =
     (let v = cp_verification c
      in \<lparr>u_id = cp_new_user_id c, u_project_id = vp_project_id v, u_public_id = cp_new_user_public_id c,
          u_status = ''active'', u_merged_into_user_id = None, u_user_revision = 1,
          u_security_revision = 1, u_primary_profile_identity_id = None,
          u_primary_email_identity_id = None, u_primary_source_kind = ''email'',
          u_base_profile_digest = base_profile_digest env None None None,
          u_local_display_name_set = False, u_local_display_name = None,
          u_local_picture_url_set = False, u_local_picture_url = None, u_local_locale_set = False,
          u_local_locale = None, u_display_name = None, u_picture_url = None, u_locale = None,
          u_created_at = vp_now v, u_updated_at = vp_now v\<rparr>)"

definition new_email_identity :: "complete_proof \<Rightarrow> i32 \<Rightarrow> email_identity_row" where
  "new_email_identity c version =
     (let v = cp_verification c
      in \<lparr>ei_id = cp_new_identity_id c, ei_project_id = vp_project_id v,
          ei_user_id = cp_new_user_id c, ei_status = ''active'',
          ei_address_ciphertext = pv_ciphertext (cp_durable_address c),
          ei_address_key_version = pv_key_version (cp_durable_address c),
          ei_verified_at = Some (vp_now v), ei_identity_revision = 1,
          ei_canonicalization_version = version, ei_created_at = vp_now v, ei_updated_at = vp_now v\<rparr>)"

text \<open>The user behind the address: its id, public id and security revision.\<close>

definition sign_up_email_user ::
    "runtime_env \<Rightarrow> complete_proof \<Rightarrow> i32 \<Rightarrow> (auth_db, uuid \<times> string \<times> i64) tx" where
  "sign_up_email_user env c version =
     m_bind (m_read (select_one email_policies (\<lambda>p. ep_project_id p = vp_project_id (cp_verification c))
         EIntegrity)) (\<lambda>policy.
     if \<not> ep_signup_enabled policy then m_fail EDisabled
     else
     m_bind (db_insert user_table (new_email_user env c)) (\<lambda>_.
     m_bind (db_insert email_identity_table (new_email_identity c version)) (\<lambda>_.
     m_bind (db_insert alias_table (new_alias c version (cp_new_identity_id c))) (\<lambda>_.
     m_bind (db_update_where user_table (\<lambda>u. u_id u = cp_new_user_id c)
       (\<lambda>u. u\<lparr>u_primary_email_identity_id := Some (cp_new_identity_id c)\<rparr>)) (\<lambda>_.
     m_return (cp_new_user_id c, cp_new_user_public_id c, 1))))))"

definition resolve_email_user ::
    "runtime_env \<Rightarrow> complete_proof \<Rightarrow> i32 \<Rightarrow> (auth_db, uuid \<times> string \<times> i64) tx" where
  "resolve_email_user env c version =
     m_bind (m_read (\<lambda>db. alias_owners (alias_owner (vp_project_id (cp_verification c)) version db) None
         (cp_lookup_aliases c))) (\<lambda>existing.
     case existing of
       Some (identity, user) \<Rightarrow>
         if ei_status identity \<noteq> ''active'' \<or> u_status user \<noteq> ''active'' then m_fail EDisabled
         else
           m_bind (ensure_alias c version (ei_id identity)) (\<lambda>_.
           m_return (ei_user_id identity, u_public_id user, u_security_revision user))
     | None \<Rightarrow> sign_up_email_user env c version)"

definition consume_transfer :: "complete_proof \<Rightarrow> (auth_db, unit) tx" where
  "consume_transfer c =
     (let v = cp_verification c
      in case vp_transfer_context v of
           None \<Rightarrow> m_return ()
         | Some context \<Rightarrow>
             m_bind (db_update_where transfer_table (\<lambda>t. tr_challenge_id t = vp_challenge_id v
                 \<and> tr_context_digest t = vd_value context
                 \<and> tr_context_digest_key_version t = vd_key_version context
                 \<and> tr_csrf_digest t = vd_value (vp_csrf v)
                 \<and> tr_status t = ''pending'' \<and> tr_expires_at t > vp_now v)
               (\<lambda>t. t\<lparr>tr_status := ''consumed'', tr_consumed_at := Some (vp_now v)\<rparr>)) (\<lambda>n.
             if n \<noteq> 1 then m_fail EInvalidTransition else m_return ()))"

definition consume_row :: "instant \<Rightarrow> challenge_row \<Rightarrow> challenge_row" where
  "consume_row now h = h\<lparr>eh_status := ''consumed'', eh_consumed_at := Some now,
     eh_terminal_at := Some now, eh_updated_at := now\<rparr>"

definition consume_challenge :: "complete_proof \<Rightarrow> (auth_db, unit) tx" where
  "consume_challenge c =
     (let v = cp_verification c
      in m_bind (db_update_where challenge_table (\<lambda>h. eh_id h = vp_challenge_id v \<and> eh_status h = ''pending'')
           (consume_row (vp_now v))) (\<lambda>n.
         if n \<noteq> 1 then m_fail EInvalidTransition else m_return ()))"

definition email_handoff_row :: "instant \<Rightarrow> i64 \<Rightarrow> uuid \<Rightarrow> login_row \<Rightarrow> login_row" where
  "email_handoff_row now revision user_id r = r
     \<lparr>lt_status := ''handoff_issued'', lt_transaction_revision := revision, lt_user_id := Some user_id,
      lt_authenticated_at := Some now, lt_updated_at := now\<rparr>"

definition issue_email_handoff ::
    "runtime_env \<Rightarrow> complete_proof \<Rightarrow> login_row \<Rightarrow> uuid \<Rightarrow> i64 \<Rightarrow> (auth_db, browser_session_row \<times> instant) tx" where
  "issue_email_handoff env c login user_id security_revision =
     (let v = cp_verification c
      in
      m_bind (rotate_or_create_browser_session env
        \<lparr>bc_project_id = vp_project_id v, bc_user_id = user_id,
         bc_user_security_revision = security_revision,
         bc_browser_session_id = cp_browser_session_id c,
         bc_existing_browser_credential = cp_existing_browser_credential c,
         bc_browser_credential = cp_browser_credential c,
         bc_project_security_revision = lt_project_security_revision login,
         bc_policy_session_revision = lt_session_revision login, bc_now = vp_now v\<rparr>) (\<lambda>browser_session.
      m_bind (m_try (expect (env_tadd env (vp_now v) (seconds 60)))) (\<lambda>deadline.
      let expires_at = min deadline (lt_expires_at login)
      in
      m_bind (insert_handoff env (cp_handoff_id c) (cp_handoff_ticket c) login user_id
        (bs_id browser_session) ''email'' (vp_now v) (vp_now v) expires_at security_revision) (\<lambda>_.
      m_return (browser_session, expires_at)))))"

definition finish_email_login ::
    "runtime_env \<Rightarrow> complete_proof \<Rightarrow> login_row \<Rightarrow> uuid \<Rightarrow> (auth_db, unit) tx" where
  "finish_email_login env c login user_id =
     (let v = cp_verification c
      in
      m_bind (consume_transfer c) (\<lambda>_.
      m_bind (consume_challenge c) (\<lambda>_.
      m_bind (m_try (sql_bump (lt_transaction_revision login))) (\<lambda>revision.
      m_bind (db_update_where login_table (\<lambda>l. lt_project_id l = vp_project_id v
          \<and> lt_id l = vp_transaction_id v \<and> lt_status l = ''email_challenge_pending''
          \<and> lt_transaction_revision l = lt_transaction_revision login)
        (email_handoff_row (vp_now v) revision user_id)) (\<lambda>n.
      if n \<noteq> 1 then m_fail ERevisionConflict
      else append_runtime_audit env (vp_project_id v) ''system'' ''auth.email.completed''
             ''project_user'' (Some user_id) (vp_transaction_id v))))))"

definition complete_email_proof ::
    "runtime_env \<Rightarrow> complete_proof \<Rightarrow> (auth_db, issued_handoff) tx" where
  "complete_email_proof env c =
     m_bind (m_try (validate_completion c)) (\<lambda>_. transaction (
     m_bind (m_read (completion_proof_checks c)) (\<lambda>(login, h).
     m_bind (resolve_email_user env c (eh_canonicalization_version h)) (\<lambda>(user_id, public_id, security_revision).
     m_bind (issue_email_handoff env c login user_id security_revision) (\<lambda>(browser_session, expires_at).
     m_bind (finish_email_login env c login user_id) (\<lambda>_.
     m_return (Return
       \<lparr>ih_project_id = vp_project_id (cp_verification c), ih_application_id = eh_application_id h,
        ih_user_id = user_id, ih_user_public_id = public_id,
        ih_browser_session_id = bs_id browser_session, ih_handoff_id = cp_handoff_id c,
        ih_redirect_uri = lt_redirect_uri login,
        ih_application_state = \<lparr>pv_ciphertext = lt_application_state_ciphertext login,
          pv_key_version = lt_application_state_key_version login\<rparr>,
        ih_expires_at = expires_at\<rparr>)))))))"

section \<open>Finding a user by address\<close>

definition active_alias_user :: "uuid \<Rightarrow> auth_db \<Rightarrow> versioned_digest \<Rightarrow> uuid option" where
  "active_alias_user project_id db d =
     Option.bind (find (\<lambda>a. al_project_id a = project_id \<and> al_canonicalization_version a = 1
         \<and> al_digest_key_version a = vd_key_version d \<and> al_lookup_digest a = vd_value d) (aliases db)) (\<lambda>a.
     map_option ei_user_id (find (\<lambda>i. ei_project_id i = project_id \<and> ei_id i = al_identity_id a
         \<and> ei_status i = ''active'') (email_identities db)))"

definition resolve_active_email_user_id ::
    "uuid \<Rightarrow> versioned_digest list \<Rightarrow> (auth_db, uuid option) query" where
  "resolve_active_email_user_id project_id candidates db =
     (if candidates = [] \<or> length candidates > 32 then Inl (Err EInvalidInput)
      else if list_ex (\<lambda>d. vd_key_version d \<le> 0) candidates
        \<or> \<not> distinct (map vd_key_version candidates)
      then Inl (Err EInvalidInput)
      else
        let user_ids = remdups (List.map_filter (active_alias_user project_id db) candidates)
        in if length user_ids > 1 then Inl (Err EIntegrity)
           else Inr (case user_ids of [] \<Rightarrow> None | u # _ \<Rightarrow> Some u))"

end
