(* ===== verification/Owl_Machines.thy ===== *)
theory Owl_Machines
  imports Owl_Store
begin

text \<open>
  The rows of a table as state machines.  A transaction first reads a row and decides, then
  updates the row it decided on; the move of the row is allowed because of what was read.
  \<open>fenced T rel ok P m\<close> states that \<open>m\<close>, started where the constraints of the table, the row
  invariant \<open>ok\<close> and the knowledge \<open>P\<close> about its rows hold, keeps constraints and invariant
  and moves every row along \<open>rel\<close>.  The rules follow the shape of the methods: a read adds to
  the knowledge, a statement on another table leaves it, an update uses it.
\<close>

section \<open>Statements that leave a table\<close>

definition same_rows :: "('db, 'r) table \<Rightarrow> 'db \<Rightarrow> 'db \<Rightarrow> bool" where
  "same_rows T s t \<longleftrightarrow> tb_rows T t = tb_rows T s"

interpretation same: history_relation "same_rows T" for T :: "('db, 'r) table"
  by unfold_locales (auto simp: same_rows_def)

lemma update_cases:
  "db_update T k g s = (x, t) \<Longrightarrow>
     t = s \<or> tb_ok T (set_row (tb_key T) k g (tb_rows T s))
            \<and> t = tb_put T (set_row (tb_key T) k g (tb_rows T s)) s"
  by (auto simp: db_update_def Let_def split: option.splits if_splits)

lemma insert_cases:
  "db_insert T r s = (x, t) \<Longrightarrow>
     t = s \<or> tb_ok T (tb_rows T s @ [r]) \<and> t = tb_put T (tb_rows T s @ [r]) s"
  by (auto simp: db_insert_def Let_def split: if_splits)

lemma where_cases:
  "db_update_where T p g s = (x, t) \<Longrightarrow> t = s \<or> (\<exists>rows. tb_ok T rows \<and> t = tb_put T rows s)"
  by (auto simp: db_update_where_def Let_def split: if_splits)

lemma keeps_prod: "(\<And>a b. keeps R (m a b)) \<Longrightarrow> keeps R (case x of (a, b) \<Rightarrow> m a b)"
  by (cases x) simp

lemma keeps_option: "keeps R m \<Longrightarrow> (\<And>a. keeps R (n a)) \<Longrightarrow> keeps R (case x of None \<Rightarrow> m | Some a \<Rightarrow> n a)"
  by (cases x) simp_all

lemma leaves_put:
  assumes "\<And>rows s. tb_rows T (tb_put U rows s) = tb_rows T s"
  shows "keeps (same_rows T) (db_insert U r)" "keeps (same_rows T) (db_update U k g)"
    "keeps (same_rows T) (db_update_where U p g)" "keeps (same_rows T) (db_delete_where U p)"
  using assms
  by (auto simp: keeps_def same_rows_def db_insert_def db_update_def db_update_where_def
      db_delete_where_def Let_def split: option.split)

section \<open>Fenced transactions\<close>

definition fenced ::
    "('db, 'r) table \<Rightarrow> ('r \<Rightarrow> 'r \<Rightarrow> bool) \<Rightarrow> ('r \<Rightarrow> bool) \<Rightarrow> ('r list \<Rightarrow> bool) \<Rightarrow> ('db, 'a) tx \<Rightarrow> bool" where
  "fenced T rel ok P m \<longleftrightarrow>
     (\<forall>s. tb_ok T (tb_rows T s) \<longrightarrow> list_all ok (tb_rows T s) \<longrightarrow> P (tb_rows T s) \<longrightarrow>
        tb_ok T (tb_rows T (snd (m s))) \<and> list_all ok (tb_rows T (snd (m s)))
        \<and> rows_rel T rel s (snd (m s)))"

lemma fencedI:
  "(\<And>s x t. m s = (x, t) \<Longrightarrow> tb_ok T (tb_rows T s) \<Longrightarrow> list_all ok (tb_rows T s) \<Longrightarrow> P (tb_rows T s) \<Longrightarrow>
      tb_ok T (tb_rows T t) \<and> list_all ok (tb_rows T t) \<and> rows_rel T rel s t)
   \<Longrightarrow> fenced T rel ok P m"
  unfolding fenced_def by (metis prod.collapse)

lemma fencedD:
  "fenced T rel ok P m \<Longrightarrow> m s = (x, t) \<Longrightarrow> tb_ok T (tb_rows T s) \<Longrightarrow> list_all ok (tb_rows T s)
   \<Longrightarrow> P (tb_rows T s)
   \<Longrightarrow> tb_ok T (tb_rows T t) \<and> list_all ok (tb_rows T t) \<and> rows_rel T rel s t"
  unfolding fenced_def by (metis snd_conv)

lemma fenced_weaken: "fenced T rel ok P m \<Longrightarrow> (\<And>rows. Q rows \<Longrightarrow> P rows) \<Longrightarrow> fenced T rel ok Q m"
  unfolding fenced_def by blast

lemma fenced_if:
  "(b \<Longrightarrow> fenced T rel ok P m) \<Longrightarrow> (\<not> b \<Longrightarrow> fenced T rel ok P n)
   \<Longrightarrow> fenced T rel ok P (if b then m else n)"
  by simp

lemma fenced_prod:
  "(\<And>a b. x = (a, b) \<Longrightarrow> fenced T rel ok P (m a b))
   \<Longrightarrow> fenced T rel ok P (case x of (a, b) \<Rightarrow> m a b)"
  by (cases x) simp

lemma fenced_option:
  "(x = None \<Longrightarrow> fenced T rel ok P m) \<Longrightarrow> (\<And>a. x = Some a \<Longrightarrow> fenced T rel ok P (n a))
   \<Longrightarrow> fenced T rel ok P (case x of None \<Rightarrow> m | Some a \<Rightarrow> n a)"
  by (cases x) simp_all

lemma fenced_read:
  assumes "\<And>a. fenced T rel ok (\<lambda>rows. P rows \<and> (\<exists>s. tb_rows T s = rows \<and> q s = Inr a)) (k a)"
    and "\<And>r. rel r r"
  shows "fenced T rel ok P (m_bind (m_read q) k)"
proof (rule fencedI)
  fix s x t
  assume run: "m_bind (m_read q) k s = (x, t)" and pre: "tb_ok T (tb_rows T s)"
    "list_all ok (tb_rows T s)" "P (tb_rows T s)"
  show "tb_ok T (tb_rows T t) \<and> list_all ok (tb_rows T t) \<and> rows_rel T rel s t"
  proof (cases "q s")
    case (Inl f)
    then have "t = s" using run by (simp add: m_bind_read)
    then show ?thesis using pre assms(2) by (auto simp: rows_rel_def)
  next
    case (Inr a)
    then have "k a s = (x, t)" using run by (simp add: m_bind_read)
    from fencedD [OF assms(1) this] pre Inr show ?thesis by blast
  qed
qed

text \<open>A read of one row of the table, by the columns the query compares.\<close>

lemma find_row: "\<exists>s. rows s = xs \<and> select_one rows p e s = Inr r \<Longrightarrow> r \<in> set xs \<and> p r"
  by (auto dest: select_one_InrD)

locale row_machine = row_history T rel for T :: "('db, 'r) table" and rel :: "'r \<Rightarrow> 'r \<Rightarrow> bool" +
  fixes ok :: "'r \<Rightarrow> bool"
begin

lemma rows_refl: "rows_rel T rel s s"
  by (rule hr_refl)

lemma rows_eq_rel: "tb_rows T t = tb_rows T s \<Longrightarrow> rows_rel T rel s t"
  by (auto simp: rows_rel_def rel_refl)

lemma leave: "keeps (same_rows T) m \<Longrightarrow> fenced T rel ok P m"
  by (rule fencedI, drule (1) keepsD) (auto simp: same_rows_def rows_eq_rel)

lemma read:
  "(\<And>a. fenced T rel ok (\<lambda>rows. P rows \<and> (\<exists>s. tb_rows T s = rows \<and> q s = Inr a)) (k a))
   \<Longrightarrow> fenced T rel ok P (m_bind (m_read q) k)"
  by (rule fenced_read) (auto simp: rel_refl)

lemma attempt: "(\<And>a. r = Inr a \<Longrightarrow> fenced T rel ok P (k a)) \<Longrightarrow> fenced T rel ok P (m_bind (m_try r) k)"
  by (rule fencedI) (auto simp: m_bind_def m_try_def rows_refl split: sum.split_asm dest: fencedD)

lemma seq:
  assumes "fenced T rel ok P m" and "\<And>a. fenced T rel ok (\<lambda>_. True) (k a)"
  shows "fenced T rel ok P (m_bind m k)"
proof (rule fencedI)
  fix s x t
  assume run: "m_bind m k s = (x, t)" and pre: "tb_ok T (tb_rows T s)"
    "list_all ok (tb_rows T s)" "P (tb_rows T s)"
  obtain y u where u: "m s = (y, u)" by fastforce
  note first = fencedD [OF assms(1) u pre]
  show "tb_ok T (tb_rows T t) \<and> list_all ok (tb_rows T t) \<and> rows_rel T rel s t"
  proof (cases y)
    case Inl
    with run u first show ?thesis by (simp add: m_bind_def)
  next
    case (Inr a)
    with run u have "k a u = (x, t)" by (simp add: m_bind_def)
    from fencedD [OF assms(2) this] first show ?thesis by (auto intro: hr_trans)
  qed
qed

lemma skip:
  assumes "keeps (same_rows T) m" and "\<And>a. fenced T rel ok P (k a)"
  shows "fenced T rel ok P (m_bind m k)"
proof (rule fencedI)
  fix s x t
  assume run: "m_bind m k s = (x, t)" and pre: "tb_ok T (tb_rows T s)"
    "list_all ok (tb_rows T s)" "P (tb_rows T s)"
  obtain y u where u: "m s = (y, u)" by fastforce
  then have same: "tb_rows T u = tb_rows T s" using keepsD [OF assms(1)] by (auto simp: same_rows_def)
  show "tb_ok T (tb_rows T t) \<and> list_all ok (tb_rows T t) \<and> rows_rel T rel s t"
  proof (cases y)
    case Inl
    with run u have "t = u" by (simp add: m_bind_def)
    with pre same show ?thesis by (auto intro: rows_eq_rel)
  next
    case (Inr a)
    with run u have "k a u = (x, t)" by (simp add: m_bind_def)
    from fencedD [OF assms(2) this] pre same show ?thesis by (auto simp: rows_rel_def)
  qed
qed

lemma last_write: "fenced T rel ok P m \<Longrightarrow> (\<And>a. keeps (same_rows T) (k a)) \<Longrightarrow> fenced T rel ok P (m_bind m k)"
  by (rule seq) (auto intro: leave)

lemma commit: "fenced T rel ok P m \<Longrightarrow> fenced T rel ok P (transaction m)"
  by (rule fencedI, rename_tac s x t, case_tac x)
    (auto simp: transaction_eq rows_refl dest: fencedD)

lemma update_by_key:
  assumes "\<And>rows. P rows \<Longrightarrow> list_all ok rows \<Longrightarrow>
      m \<in> set rows \<and> rel m (g m) \<and> tb_key T (g m) = tb_key T m \<and> (ok m \<longrightarrow> ok (g m))"
    and "k = tb_key T m"
  shows "fenced T rel ok P (db_update T k g)"
proof (rule fencedI)
  fix s x t
  assume run: "db_update T k g s = (x, t)" and tok: "tb_ok T (tb_rows T s)"
    and oks: "list_all ok (tb_rows T s)" and P: "P (tb_rows T s)"
  note m = assms(1) [OF P oks]
  have rel: "rows_rel T rel s t"
    using run tok m assms(2) by (intro update_row_rel [of m g s x t]) (auto simp: rel_refl)
  have "tb_ok T (tb_rows T t) \<and> list_all ok (tb_rows T t)"
  proof (cases x)
    case Inl
    with run tok oks show ?thesis by (auto dest: db_update_fails)
  next
    case (Inr a)
    have "ok (g r)" if "r \<in> set (tb_rows T s)" and "tb_key T r = k" for r
      using that m oks assms(2) key_unique [OF tok, of r m] by (auto simp: list_all_iff)
    with run tok oks Inr show ?thesis
      by (auto simp: db_update_eq rows_put list_all_iff set_set_row)
  qed
  with rel show "tb_ok T (tb_rows T t) \<and> list_all ok (tb_rows T t) \<and> rows_rel T rel s t" by blast
qed

lemma update_where:
  assumes "\<And>rows r. P rows \<Longrightarrow> tb_ok T rows \<Longrightarrow> r \<in> set rows \<Longrightarrow> p r \<Longrightarrow> ok r \<Longrightarrow>
      rel r (g r) \<and> tb_key T (g r) = tb_key T r \<and> ok (g r)"
  shows "fenced T rel ok P (db_update_where T p g)"
proof (rule fencedI)
  fix s x t
  assume run: "db_update_where T p g s = (x, t)" and tok: "tb_ok T (tb_rows T s)"
    and oks: "list_all ok (tb_rows T s)" and P: "P (tb_rows T s)"
  show "tb_ok T (tb_rows T t) \<and> list_all ok (tb_rows T t) \<and> rows_rel T rel s t"
  proof (cases x)
    case Inl
    with run tok oks show ?thesis by (auto simp: rows_refl dest!: db_update_where_fails)
  next
    case (Inr a)
    with run have rows: "tb_rows T t = map (\<lambda>r. if p r then g r else r) (tb_rows T s)"
      and "tb_ok T (tb_rows T t)" by (auto simp: db_update_where_eq rows_put)
    moreover have "rows_rel T rel s t"
      unfolding rows_rel_def rows
    proof
      fix r assume r: "r \<in> set (tb_rows T s)"
      then show "\<exists>r' \<in> set (map (\<lambda>r. if p r then g r else r) (tb_rows T s)).
          tb_key T r' = tb_key T r \<and> rel r r'"
        using assms [OF P tok r] oks
        by (intro bexI [of _ "if p r then g r else r"]) (auto simp: rel_refl list_all_iff)
    qed
    moreover have "list_all ok (tb_rows T t)"
      using assms [OF P tok] oks by (auto simp: rows list_all_iff)
    ultimately show ?thesis by blast
  qed
qed

lemma insert_row: "ok r \<Longrightarrow> fenced T rel ok P (db_insert T r)"
  by (rule fencedI, rename_tac s x t, case_tac x)
    (auto simp: db_insert_eq rows_put rows_refl rows_rel_def rel_refl dest: db_insert_fails)

text \<open>A loop over rows that were read together and are then moved one by one.\<close>

lemma each_row:
  assumes "\<And>x. x \<in> set xs \<Longrightarrow> fenced T rel ok (\<lambda>rows. x \<in> set rows) (f x)"
    and "\<And>x s y r. x \<in> set xs \<Longrightarrow> r \<in> set (tb_rows T s) \<Longrightarrow> tb_key T r \<noteq> tb_key T x
        \<Longrightarrow> r \<in> set (tb_rows T (snd (f x s)))"
    and "distinct (map (tb_key T) xs)"
  shows "fenced T rel ok (\<lambda>rows. set xs \<subseteq> set rows) (m_for_each f xs)"
  using assms
proof (induction xs)
  case Nil
  then show ?case by (auto intro: leave same.keeps_rules)
next
  case (Cons x xs)
  show ?case
  proof (rule fencedI)
    fix s y t
    assume run: "m_for_each f (x # xs) s = (y, t)" and pre: "tb_ok T (tb_rows T s)"
      "list_all ok (tb_rows T s)" "set (x # xs) \<subseteq> set (tb_rows T s)"
    obtain z u where u: "f x s = (z, u)" by fastforce
    have first: "tb_ok T (tb_rows T u) \<and> list_all ok (tb_rows T u) \<and> rows_rel T rel s u"
      using fencedD [OF Cons.prems(1) u] pre by auto
    have rest: "set xs \<subseteq> set (tb_rows T u)"
    proof
      fix r assume r: "r \<in> set xs"
      then have "tb_key T r \<in> tb_key T ` set xs" by (rule imageI)
      then have "tb_key T r \<noteq> tb_key T x" using Cons.prems(3) by auto
      then show "r \<in> set (tb_rows T u)" using Cons.prems(2) [of x r s] pre r u by auto
    qed
    show "tb_ok T (tb_rows T t) \<and> list_all ok (tb_rows T t) \<and> rows_rel T rel s t"
    proof (cases z)
      case Inl
      with run u first show ?thesis by (simp add: m_bind_def)
    next
      case (Inr a)
      with run u have k: "m_for_each f xs u = (y, t)" by (simp add: m_bind_def)
      have "fenced T rel ok (\<lambda>rows. set xs \<subseteq> set rows) (m_for_each f xs)"
        using Cons.prems by (intro Cons.IH) auto
      from fencedD [OF this k] first rest show ?thesis by (auto intro: hr_trans)
    qed
  qed
qed

end

end
