(* ===== verification/Owl_Frames.thy ===== *)
theory Owl_Frames
  imports Owl_Passwordless Owl_Machines
begin

text \<open>
  Which tables the login methods write.  A relation between database states that tolerates
  writes to the identity tables, to the login tables, or to the email tables is kept by the
  methods that write no other table.  The methods are examined once here; the relations of
  the later theories are instances: that session rows are never lost, that refresh chains
  stay whole, that a table is not written at all.
\<close>

text \<open>A table beside those of sessions, tickets and event dispatch is not written by their statements.\<close>

lemma untouched:
  assumes "\<And>rows s. tb_rows T (tb_put browser_session_table rows s) = tb_rows T s"
    and "\<And>rows s. tb_rows T (tb_put handoff_table rows s) = tb_rows T s"
    and "\<And>x s. tb_rows T (s\<lparr>dispatch_states := x\<rparr>) = tb_rows T s"
  shows "keeps (same_rows T) (ensure_dispatch_state p ap)"
    and "keeps (same_rows T) (db_insert handoff_table h)"
    and "keeps (same_rows T) (rotate_or_create_browser_session env bc)"
proof -
  show "keeps (same_rows T) (ensure_dispatch_state p ap)"
    using assms(3) by (auto simp: keeps_def same_rows_def ensure_dispatch_state_def)
  show "keeps (same_rows T) (db_insert handoff_table h)"
    using assms(2) by (rule leaves_put)
  show "keeps (same_rows T) (rotate_or_create_browser_session env bc)"
    unfolding rotate_or_create_browser_session_def rotate_browser_session_def
      terminate_browser_session_def create_browser_session_def
    by (intro same.keeps_rules keeps_prod keeps_option leaves_put assms(1))
qed

section \<open>Users, identities, connections and projections\<close>

locale identity_frame = history_relation R for R :: "auth_db \<Rightarrow> auth_db \<Rightarrow> bool" +
  assumes put_users: "R s (tb_put user_table users' s)"
    and put_identities: "R s (tb_put identity_table identities' s)"
    and put_connections: "R s (tb_put connection_table connections' s)"
    and put_renewals: "R s (tb_put renewal_table renewals' s)"
    and put_credentials: "R s (tb_put credential_table credentials' s)"
    and put_email_identities: "R s (tb_put email_identity_table email_identities' s)"
    and put_aliases: "R s (tb_put alias_table aliases' s)"
    and put_projections: "R s (tb_put projection_table projections' s)"
    and put_events: "R s (tb_put event_table events' s)"
    and put_deliveries: "R s (tb_put delivery_table deliveries' s)"
    and put_audits: "R s (tb_put audit_table (tb_rows audit_table s @ [a]) s)"
    and dispatch_law: "keeps R (ensure_dispatch_state p ap)"
    and handoff_law: "keeps R (db_insert handoff_table h)"
    and browser_law: "keeps R (rotate_or_create_browser_session env bc)"
begin

lemma frame_inserts:
  "keeps R (db_insert user_table i1)" "keeps R (db_insert identity_table i2)"
  "keeps R (db_insert connection_table i3)" "keeps R (db_insert credential_table i4)"
  "keeps R (db_insert email_identity_table i5)" "keeps R (db_insert alias_table i6)"
  "keeps R (db_insert event_table i7)" "keeps R (db_insert delivery_table i8)"
  "keeps R (db_insert audit_table i9)"
  by (rule keepsI, drule insert_cases, auto intro: hr_refl put_users put_identities put_connections
      put_credentials put_email_identities put_aliases put_events put_deliveries put_audits)+

lemma frame_updates:
  "keeps R (db_update user_table k g1)" "keeps R (db_update identity_table k g2)"
  "keeps R (db_update projection_table k g3)"
  by (rule keepsI, drule update_cases, auto intro: hr_refl put_users put_identities put_projections)+

lemma frame_wheres:
  "keeps R (db_update_where user_table p1 g1)" "keeps R (db_update_where connection_table p2 g2)"
  "keeps R (db_update_where renewal_table p3 g3)" "keeps R (db_update_where credential_table p4 g4)"
  by (rule keepsI, drule where_cases, auto intro: hr_refl put_users put_connections put_renewals put_credentials)+

lemmas identity_rules =
  keeps_rules keeps_prod keeps_option frame_inserts frame_updates frame_wheres dispatch_law
  handoff_law browser_law

lemma frame_audit: "keeps R (append_runtime_audit env p k a tk t i)"
  unfolding append_runtime_audit_def by (intro identity_rules)

lemma frame_repair: "keeps R (repair_runtime_projection env p a u now)"
  unfolding repair_runtime_projection_def by (intro identity_rules)

lemma frame_event: "keeps R (append_projection_event env p a b r w e)"
  unfolding append_projection_event_def Let_def by (intro identity_rules)

lemma frame_fan_out: "keeps R (fan_out_user env cenv u now)"
  unfolding fan_out_user_def fan_out_projected_user_def fan_out_binding_def
  by (intro identity_rules frame_repair frame_event)

lemma frame_resolve: "keeps R (resolve_identity env c p)"
  unfolding resolve_identity_def resolve_known_identity_def resolve_new_identity_def
    observe_identity_def refresh_user_def Let_def
  by (auto intro!: identity_rules split: sum.split fault.split)

lemma frame_upsert: "keeps R (upsert_managed_connection cenv f p i u r m x now)"
  unfolding upsert_managed_connection_def insert_connection_def replace_connection_def
    supersede_renewals_def destroy_credentials_def Let_def
  by (intro identity_rules)

lemma frame_credential: "keeps R (keep_credential cenv c l p i u)"
  unfolding keep_credential_def by (auto intro!: identity_rules frame_upsert split: prod.split option.split)

lemma frame_handoff: "keeps R (insert_handoff env i d l u b m a ia ea sr)"
  unfolding insert_handoff_def by (intro identity_rules)

lemma frame_ensure_alias: "keeps R (ensure_alias c v i)"
proof -
  have "db\<lparr>aliases := rows\<rparr> = tb_put alias_table rows db" for db rows
    by (simp add: alias_table_def)
  then show ?thesis
    by (auto simp: keeps_def ensure_alias_def Let_def hr_refl put_aliases split: option.split)
qed

lemma frame_resolve_email: "keeps R (resolve_email_user env c v)"
  unfolding resolve_email_user_def sign_up_email_user_def
  by (auto intro!: identity_rules frame_ensure_alias split: prod.split)

lemma frame_email_handoff: "keeps R (issue_email_handoff env c l u sr)"
  unfolding issue_email_handoff_def Let_def by (intro identity_rules frame_handoff)

end

section \<open>Logins\<close>

locale login_frame = identity_frame +
  assumes put_logins: "tb_ok login_table rows \<Longrightarrow> R s (tb_put login_table rows s)"
    and put_owners: "R s (tb_put callback_owner_table owners' s)"
begin

lemma frame_login_writes:
  "keeps R (db_insert login_table i1)" "keeps R (db_insert callback_owner_table i2)"
  "keeps R (db_update login_table k g)" "keeps R (db_update_where login_table p w)"
  by (rule keepsI, (drule insert_cases update_cases where_cases),
      auto intro: hr_refl put_logins put_owners)+

lemma frame_delete_owner: "keeps R (delete_callback_owner i)"
  unfolding delete_callback_owner_def by (rule keepsI) (auto simp: db_delete_where_eq intro: put_owners)

lemmas login_rules = identity_rules frame_login_writes frame_delete_owner frame_audit frame_handoff

lemma frame_expire: "keeps R (expire_login env l now)"
  unfolding expire_login_def by (intro login_rules)

lemma frame_unless_expired: "keeps R m \<Longrightarrow> keeps R (unless_expired env l now m)"
  unfolding unless_expired_def by (intro login_rules frame_expire)

lemma frame_save: "keeps R (save_login env l g a)"
  unfolding save_login_def by (intro login_rules)

lemma frame_bind: "keeps R (bind_hosted_browser env c)"
  unfolding bind_hosted_browser_def by (intro login_rules frame_unless_expired frame_save)

lemma frame_select_provider: "keeps R (select_provider_method env c)"
  unfolding select_provider_method_def select_writes_def by (intro login_rules frame_unless_expired)

lemma frame_claim: "keeps R (claim_provider_callback_tx env c db0)"
  unfolding claim_provider_callback_tx_def by (intro login_rules frame_unless_expired frame_save)

lemma frame_deny: "keeps R (deny_provider_callback env c db0)"
  unfolding deny_provider_callback_def deny_writes_def by (intro login_rules frame_unless_expired)

lemma frame_fail: "keeps R (fail_provider_exchange_tx env c)"
  unfolding fail_provider_exchange_tx_def by (intro login_rules frame_save)

lemma frame_fail_completion: "keeps R (fail_provider_completion env l now e)"
  unfolding fail_provider_completion_def terminalize_claimed_provider_exchange_def fail_exchange_def
  by (intro login_rules)

lemma frame_completed_handoff: "keeps R (issue_completed_handoff env c l u)"
  unfolding issue_completed_handoff_def Let_def by (intro login_rules)

lemma frame_complete: "keeps R (complete_authenticated_identity env cenv c)"
  unfolding complete_authenticated_identity_def complete_claimed_login_def
  by (auto intro!: login_rules frame_unless_expired frame_resolve frame_fan_out frame_credential
      frame_completed_handoff frame_fail_completion
      split: sum.split fault.split application_error.split resolution.split)

lemma frame_select_email: "keeps R (select_email_method c)"
  unfolding select_email_method_def by (intro login_rules)

lemmas provider_frame =
  frame_bind frame_select_provider frame_claim frame_deny frame_fail frame_complete frame_select_email

end

locale creation_frame = login_frame +
  assumes put_methods: "R s (tb_put method_table methods' s)"
    and put_snapshots: "R s (tb_put email_snapshot_table snapshots' s)"
begin

lemma frame_method_writes:
  "keeps R (db_insert method_table i1)" "keeps R (db_insert email_snapshot_table i2)"
  by (rule keepsI, drule insert_cases, auto intro: hr_refl put_methods put_snapshots)+

lemma frame_create: "keeps R (create_login_transaction env c)"
  unfolding create_login_transaction_def create_checks_def create_writes_def
  by (intro login_rules frame_method_writes)

end

section \<open>Sessions\<close>

locale session_frame = login_frame +
  assumes put_browsers: "R s (tb_put browser_session_table browsers' s)"
    and put_tickets: "R s (tb_put handoff_table tickets' s)"
    and put_bindings: "R s (tb_put binding_table bindings' s)"
    and put_sessions: "R s (tb_put session_table sessions' s)"
    and put_families: "R s (tb_put family_table families' s)"
    and put_generations: "R s (tb_put generation_table generations' s)"
begin

lemma frame_session_writes:
  "keeps R (db_update browser_session_table k g1)" "keeps R (db_update handoff_table k g2)"
  "keeps R (db_insert binding_table i1)" "keeps R (db_insert projection_table i2)"
  "keeps R (db_insert session_table i3)" "keeps R (db_insert family_table i4)"
  "keeps R (db_insert generation_table i5)"
  by (rule keepsI, (drule insert_cases update_cases), auto intro: hr_refl put_browsers put_tickets
      put_bindings put_projections put_sessions put_families put_generations)+

lemma frame_reuse: "keeps R (confirm_browser_session_reuse env c db0)"
  unfolding confirm_browser_session_reuse_def reuse_writes_def Let_def
  by (intro login_rules frame_expire frame_session_writes)

lemma frame_exchange: "keeps R (commit_handoff_exchange env c)"
  unfolding commit_handoff_exchange_def commit_handoff_body_def commit_writes_def commit_binding_def
    commit_projection_def commit_session_def commit_login_def expire_ticket_def
  by (intro login_rules frame_repair frame_event frame_session_writes)

lemma frame_recover: "keeps R (recover_abandoned_provider_exchanges env c locked)"
  unfolding recover_abandoned_provider_exchanges_def fail_exchange_def by (intro login_rules)

lemmas session_operations = frame_reuse frame_exchange frame_recover

end

section \<open>Email challenges\<close>

locale email_frame = login_frame +
  assumes put_challenges: "R s (tb_put challenge_table challenges' s)"
    and put_outbox: "R s (tb_put outbox_table outbox' s)"
    and put_transfers: "R s (tb_put transfer_table transfers' s)"
begin

lemma frame_email_writes:
  "keeps R (db_insert challenge_table i1)" "keeps R (db_insert outbox_table i2)"
  "keeps R (db_insert transfer_table i3)" "keeps R (db_update_where challenge_table p1 g1)"
  "keeps R (db_update_where outbox_table p2 g2)" "keeps R (db_update_where transfer_table p3 g3)"
  by (rule keepsI, (drule insert_cases where_cases),
      auto intro: hr_refl put_challenges put_outbox put_transfers)+

lemmas email_rules = login_rules frame_email_writes

lemma frame_cancel_mail: "keeps R (cancel_stale_mail clk c)"
  unfolding keeps_def cancel_stale_mail_def using frame_email_writes(5) by (auto simp: keeps_def)

lemma frame_commit_generation: "keeps R (commit_email_generation env clk c)"
  unfolding commit_email_generation_def commit_generation_writes_def supersede_challenges_def Let_def
  by (intro email_rules frame_cancel_mail)

lemma frame_establish: "keeps R (establish_magic_transfer_context env c)"
  unfolding establish_magic_transfer_context_def by (intro email_rules)

lemma frame_verify: "keeps R (verify_email_proof v)"
  unfolding verify_email_proof_def count_attempt_def by (intro email_rules)

lemma frame_complete_email: "keeps R (complete_email_proof env c)"
  unfolding complete_email_proof_def finish_email_login_def consume_transfer_def
    consume_challenge_def Let_def
  by (intro email_rules frame_resolve_email frame_email_handoff)

lemmas email_operations =
  frame_commit_generation frame_establish frame_verify frame_complete_email

end

locale database_frame = creation_frame + email_frame
begin

lemmas frame_operations = frame_create provider_frame email_operations

end

end
