(* ===== verification/Owl_Browser_Logout.thy ===== *)
theory Owl_Browser_Logout
  imports Owl_Sessions
begin

text \<open>
  The browser logout of \<open>adapters/postgres/session_authority.rs\<close>: an application prepares an
  interaction, the browser binds it to a CSRF token with its credential, and confirms it
  with both, which terminates the browser session.
\<close>

section \<open>Commands and results\<close>

record prepare_logout =
  pl_id :: uuid
  pl_project_id :: uuid
  pl_application_id :: uuid
  pl_user_id :: uuid
  pl_application_session_id :: uuid
  pl_browser_session_id :: uuid
  pl_preparation :: versioned_digest
  pl_now :: instant

record bind_logout =
  bl_preparation :: versioned_digest
  bl_browser_credential :: versioned_digest
  bl_expected_interaction_revision :: i64
  bl_csrf :: versioned_digest
  bl_now :: instant

record confirm_logout =
  cl_preparation :: versioned_digest
  cl_browser_credential :: versioned_digest
  cl_csrf :: versioned_digest
  cl_expected_interaction_revision :: i64
  cl_now :: instant

record logout_record =
  lo_id :: uuid
  lo_project_id :: uuid
  lo_browser_session_id :: uuid
  lo_interaction_revision :: i64
  lo_expires_at :: instant

definition browser_logout_record :: "logout_row \<Rightarrow> logout_record" where
  "browser_logout_record i =
     \<lparr>lo_id = li_id i, lo_project_id = li_project_id i, lo_browser_session_id = li_browser_session_id i,
      lo_interaction_revision = li_interaction_revision i, lo_expires_at = li_expires_at i\<rparr>"

section \<open>Owners\<close>

record logout_owners =
  lw_project :: project_row
  lw_user :: user_row
  lw_policy :: project_policy_row
  lw_session :: session_row

definition lock_logout_owners ::
    "uuid \<Rightarrow> uuid \<Rightarrow> uuid \<Rightarrow> uuid \<Rightarrow> i64 option \<Rightarrow> instant \<Rightarrow> (auth_db, logout_owners) query" where
  "lock_logout_owners project_id application_id user_id application_session_id expected now db =
     and_then (select_one projects (\<lambda>p. p_id p = project_id) ENotFound db) (\<lambda>project.
     and_then (select_one applications (\<lambda>a. ap_id a = application_id \<and> ap_project_id a = project_id)
         ENotFound db) (\<lambda>application.
     and_then (select_one users (\<lambda>u. u_id u = user_id \<and> u_project_id u = project_id) ENotFound db)
       (\<lambda>user.
     and_then (select_one policies (\<lambda>p. pol_project_id p = project_id) EIntegrity db) (\<lambda>policy.
     and_then (select_one app_sessions (\<lambda>s. ss_id s = application_session_id
         \<and> ss_project_id s = project_id \<and> ss_application_id s = application_id
         \<and> ss_user_id s = user_id) ENotFound db) (\<lambda>session.
     if p_status project \<noteq> ''active''
       \<or> ap_status application \<noteq> ''active''
       \<or> u_status user \<noteq> ''active''
       \<or> ss_status session \<noteq> ''active''
       \<or> ss_absolute_expires_at session \<le> now
       \<or> p_security_revision project \<noteq> ss_project_security_revision session
       \<or> ap_security_revision application \<noteq> ss_application_security_revision session
       \<or> u_security_revision user \<noteq> ss_user_security_revision session
       \<or> pol_claims_revision policy \<noteq> ss_claims_revision session
       \<or> pol_session_revision policy \<noteq> ss_policy_session_revision session
       \<or> (case expected of None \<Rightarrow> False | Some rv \<Rightarrow> rv \<noteq> ss_session_revision session)
     then Inl (Err ERevisionConflict)
     else Inr \<lparr>lw_project = project, lw_user = user, lw_policy = policy, lw_session = session\<rparr>)))))"

definition logout_browser_is_dead :: "instant \<Rightarrow> logout_owners \<Rightarrow> browser_session_row \<Rightarrow> bool" where
  "logout_browser_is_dead now owners browser \<longleftrightarrow>
     ss_browser_session_id (lw_session owners) \<noteq> Some (bs_id browser)
     \<or> browser_is_dead now (lw_project owners) (lw_user owners) (lw_policy owners) browser"

section \<open>Operations\<close>

definition prepare_browser_logout ::
    "runtime_env \<Rightarrow> prepare_logout \<Rightarrow> (auth_db, logout_record) tx" where
  "prepare_browser_logout env c =
     m_bind (m_try (validate_digest (pl_preparation c))) (\<lambda>_. transaction (
     m_bind (m_read (lock_logout_owners (pl_project_id c) (pl_application_id c) (pl_user_id c)
         (pl_application_session_id c) None (pl_now c))) (\<lambda>owners.
     m_bind (m_read (select_one browser_sessions (\<lambda>b. bs_id b = pl_browser_session_id c
         \<and> bs_project_id b = pl_project_id c \<and> bs_user_id b = pl_user_id c) ENotFound)) (\<lambda>browser.
     if logout_browser_is_dead (pl_now c) owners browser then m_fail EInvalidTransition
     else
       m_bind (m_try (expect (env_tadd env (pl_now c) (seconds 60)))) (\<lambda>deadline.
       let expires_at = min deadline (min (ss_absolute_expires_at (lw_session owners))
             (min (bs_idle_expires_at browser) (bs_absolute_expires_at browser)))
       in
       if expires_at \<le> pl_now c then m_fail EInvalidTransition
       else
         m_bind (db_insert logout_table
           \<lparr>li_id = pl_id c, li_project_id = pl_project_id c, li_application_id = pl_application_id c,
            li_user_id = pl_user_id c, li_application_session_id = pl_application_session_id c,
            li_browser_session_id = pl_browser_session_id c,
            li_preparation_digest = vd_value (pl_preparation c),
            li_preparation_digest_key_version = vd_key_version (pl_preparation c),
            li_status = ''prepared'', li_interaction_revision = 1, li_csrf_digest = None,
            li_csrf_digest_key_version = None,
            li_application_session_revision = ss_session_revision (lw_session owners),
            li_browser_session_revision = bs_session_revision browser, li_expires_at = expires_at,
            li_csrf_bound_at = None, li_consumed_at = None, li_created_at = pl_now c,
            li_updated_at = pl_now c\<rparr>) (\<lambda>interaction.
         m_bind (append_runtime_audit env (pl_project_id c) ''project_user''
           ''auth.browser_logout.prepared'' ''browser_logout_interaction''
           (Some (li_id interaction)) (pl_application_session_id c)) (\<lambda>_.
         m_return (Return (browser_logout_record interaction)))))))))"

text \<open>The opaque preparation only routes to a candidate, which is read again under lock.\<close>

definition route_logout :: "versioned_digest \<Rightarrow> (auth_db, logout_row) query" where
  "route_logout preparation db = select_one logouts (\<lambda>i.
     li_preparation_digest i = vd_value preparation
     \<and> li_preparation_digest_key_version i = vd_key_version preparation) ENotFound db"

definition lock_logout :: "uuid \<Rightarrow> versioned_digest \<Rightarrow> (auth_db, logout_row) query" where
  "lock_logout interaction_id preparation db = select_one logouts (\<lambda>i. li_id i = interaction_id
     \<and> li_preparation_digest i = vd_value preparation
     \<and> li_preparation_digest_key_version i = vd_key_version preparation) ENotFound db"

definition expire_browser_logout :: "runtime_env \<Rightarrow> logout_row \<Rightarrow> instant \<Rightarrow> (auth_db, bool) tx" where
  "expire_browser_logout env interaction now =
     (if li_status interaction \<notin> {''prepared'', ''csrf_bound''} then m_return False
      else
        m_bind (m_try (bump (li_interaction_revision interaction))) (\<lambda>rv.
        m_bind (db_update logout_table (li_id interaction)
          (\<lambda>r. r\<lparr>li_status := ''expired'', li_interaction_revision := rv, li_updated_at := now\<rparr>)) (\<lambda>_.
        m_bind (append_runtime_audit env (li_project_id interaction) ''system''
          ''auth.browser_logout.expired'' ''browser_logout_interaction'' (Some (li_id interaction))
          (li_application_session_id interaction)) (\<lambda>_.
        m_return True))))"

definition logout_browser ::
    "logout_row \<Rightarrow> versioned_digest \<Rightarrow> instant \<Rightarrow> logout_owners \<Rightarrow> (auth_db, browser_session_row) query" where
  "logout_browser interaction credential now owners db =
     and_then (select_one browser_sessions (\<lambda>b. bs_id b = li_browser_session_id interaction
         \<and> bs_project_id b = li_project_id interaction \<and> bs_user_id b = li_user_id interaction)
         ENotFound db) (\<lambda>browser.
     if \<not> digest_matches (bs_credential_digest browser) (bs_credential_digest_key_version browser) credential
       \<or> bs_session_revision browser \<noteq> li_browser_session_revision interaction
       \<or> logout_browser_is_dead now owners browser
     then Inl (Err ENotFound)
     else Inr browser)"

definition bind_browser_logout ::
    "runtime_env \<Rightarrow> bind_logout \<Rightarrow> auth_db \<Rightarrow> (auth_db, logout_record) tx" where
  "bind_browser_logout env c db0 =
     m_bind (m_try (validate_digest (bl_preparation c))) (\<lambda>_.
     m_bind (m_try (validate_digest (bl_browser_credential c))) (\<lambda>_.
     m_bind (m_try (validate_digest (bl_csrf c))) (\<lambda>_.
     m_bind (m_try (route_logout (bl_preparation c) db0)) (\<lambda>routed. transaction (
     m_bind (m_read (lock_logout (li_id routed) (bl_preparation c))) (\<lambda>interaction.
     if li_expires_at interaction \<le> bl_now c then
       m_bind (expire_browser_logout env interaction (bl_now c)) (\<lambda>expired.
       m_return (Reject (if expired then EInvalidTransition else ENotFound)))
     else if li_status interaction \<noteq> ''prepared''
       \<or> li_interaction_revision interaction \<noteq> bl_expected_interaction_revision c
     then m_fail ERevisionConflict
     else
       m_bind (m_read (lock_logout_owners (li_project_id interaction) (li_application_id interaction)
           (li_user_id interaction) (li_application_session_id interaction)
           (Some (li_application_session_revision interaction)) (bl_now c))) (\<lambda>owners.
       m_bind (m_read (logout_browser interaction (bl_browser_credential c) (bl_now c) owners)) (\<lambda>_.
       m_bind (m_try (bump (li_interaction_revision interaction))) (\<lambda>rv.
       m_bind (db_update logout_table (li_id interaction)
         (\<lambda>r. r\<lparr>li_status := ''csrf_bound'', li_interaction_revision := rv,
                li_csrf_digest := Some (vd_value (bl_csrf c)),
                li_csrf_digest_key_version := Some (vd_key_version (bl_csrf c)),
                li_csrf_bound_at := Some (bl_now c), li_updated_at := bl_now c\<rparr>)) (\<lambda>updated.
       m_bind (append_runtime_audit env (li_project_id updated) ''project_user''
         ''auth.browser_logout.csrf_bound'' ''browser_logout_interaction'' (Some (li_id updated))
         (li_application_session_id updated)) (\<lambda>_.
       m_return (Return (browser_logout_record updated)))))))))))))"

definition confirm_logout_writes ::
    "runtime_env \<Rightarrow> confirm_logout \<Rightarrow> logout_row \<Rightarrow> browser_session_row \<Rightarrow> (auth_db, logout_record verdict) tx" where
  "confirm_logout_writes env c interaction browser =
     m_bind (m_try (bump (bs_session_revision browser))) (\<lambda>browser_revision.
     m_bind (db_update browser_session_table (bs_id browser)
       (\<lambda>r. r\<lparr>bs_status := ''terminated'', bs_session_revision := browser_revision,
              bs_terminated_at := Some (cl_now c), bs_updated_at := cl_now c\<rparr>)) (\<lambda>_.
     m_bind (m_try (bump (li_interaction_revision interaction))) (\<lambda>rv.
     m_bind (db_update logout_table (li_id interaction)
       (\<lambda>r. r\<lparr>li_status := ''consumed'', li_interaction_revision := rv,
              li_consumed_at := Some (cl_now c), li_updated_at := cl_now c\<rparr>)) (\<lambda>updated.
     m_bind (append_runtime_audit env (li_project_id updated) ''project_user''
       ''auth.browser_logout.confirmed'' ''project_browser_session''
       (Some (li_browser_session_id updated)) (li_application_session_id updated)) (\<lambda>_.
     m_return (Return (browser_logout_record updated)))))))"

definition confirm_browser_logout ::
    "runtime_env \<Rightarrow> confirm_logout \<Rightarrow> auth_db \<Rightarrow> (auth_db, logout_record) tx" where
  "confirm_browser_logout env c db0 =
     m_bind (m_try (validate_digest (cl_preparation c))) (\<lambda>_.
     m_bind (m_try (validate_digest (cl_browser_credential c))) (\<lambda>_.
     m_bind (m_try (validate_digest (cl_csrf c))) (\<lambda>_.
     m_bind (m_try (route_logout (cl_preparation c) db0)) (\<lambda>routed. transaction (
     m_bind (m_read (lock_logout (li_id routed) (cl_preparation c))) (\<lambda>interaction.
     if li_expires_at interaction \<le> cl_now c then
       m_bind (expire_browser_logout env interaction (cl_now c)) (\<lambda>_.
       m_return (Reject EInvalidTransition))
     else if li_status interaction \<noteq> ''csrf_bound''
       \<or> li_interaction_revision interaction \<noteq> cl_expected_interaction_revision c
       \<or> \<not> optional_digest_matches (li_csrf_digest interaction)
            (li_csrf_digest_key_version interaction) (cl_csrf c)
     then m_fail ENotFound
     else
       m_bind (m_read (lock_logout_owners (li_project_id interaction) (li_application_id interaction)
           (li_user_id interaction) (li_application_session_id interaction)
           (Some (li_application_session_revision interaction)) (cl_now c))) (\<lambda>owners.
       m_bind (m_read (logout_browser interaction (cl_browser_credential c) (cl_now c) owners))
         (confirm_logout_writes env c interaction))))))))"

end
