(* ===== verification/Owl_Session_History.thy ===== *)
theory Owl_Session_History
  imports Owl_Frames Owl_Browser_Logout
begin

text \<open>
  What every operation of the session authority keeps of the database: rows are never lost,
  their identity never changes, and their status moves only towards its end.  The relation
  \<open>db_le\<close> between a state and a later one is shown for every operation, statement by
  statement, and extends to histories in which the operations are interleaved with
  arbitrary changes of the administrative tables.
\<close>

section \<open>How rows may move\<close>

definition generation_le :: "generation_row \<Rightarrow> generation_row \<Rightarrow> bool" where
  "generation_le g g' \<longleftrightarrow>
     rg_id g' = rg_id g \<and> rg_project_id g' = rg_project_id g \<and> rg_family_id g' = rg_family_id g
     \<and> rg_application_id g' = rg_application_id g \<and> rg_user_id g' = rg_user_id g
     \<and> rg_generation g' = rg_generation g \<and> rg_token_digest g' = rg_token_digest g
     \<and> rg_token_digest_key_version g' = rg_token_digest_key_version g
     \<and> (rg_status g' = rg_status g \<or> rg_status g' = ''consumed'')"

definition family_le :: "family_row \<Rightarrow> family_row \<Rightarrow> bool" where
  "family_le f f' \<longleftrightarrow>
     rf_id f' = rf_id f \<and> rf_project_id f' = rf_project_id f
     \<and> rf_application_id f' = rf_application_id f \<and> rf_user_id f' = rf_user_id f
     \<and> rf_application_session_id f' = rf_application_session_id f
     \<and> rf_absolute_expires_at f' = rf_absolute_expires_at f
     \<and> (rf_status f' = rf_status f \<or> rf_status f' = ''revoked'')"

definition session_le :: "session_row \<Rightarrow> session_row \<Rightarrow> bool" where
  "session_le s s' \<longleftrightarrow>
     ss_id s' = ss_id s \<and> ss_project_id s' = ss_project_id s
     \<and> ss_application_id s' = ss_application_id s \<and> ss_user_id s' = ss_user_id s
     \<and> ss_browser_session_id s' = ss_browser_session_id s
     \<and> ss_authenticated_at s' = ss_authenticated_at s
     \<and> ss_absolute_expires_at s' = ss_absolute_expires_at s
     \<and> (ss_status s' = ss_status s \<or> ss_status s' = ''revoked'')"

definition ticket_le :: "handoff_row \<Rightarrow> handoff_row \<Rightarrow> bool" where
  "ticket_le t t' \<longleftrightarrow>
     ht_id t' = ht_id t \<and> ht_ticket_digest t' = ht_ticket_digest t
     \<and> ht_ticket_digest_key_version t' = ht_ticket_digest_key_version t
     \<and> (ht_status t' = ht_status t \<or> ht_status t' \<in> {''consumed'', ''expired''})"

definition browser_le :: "browser_session_row \<Rightarrow> browser_session_row \<Rightarrow> bool" where
  "browser_le b b' \<longleftrightarrow>
     bs_id b' = bs_id b \<and> bs_project_id b' = bs_project_id b \<and> bs_user_id b' = bs_user_id b
     \<and> (bs_status b' = bs_status b \<or> bs_status b' = ''terminated'')"

lemmas row_le_defs = generation_le_def family_le_def session_le_def ticket_le_def browser_le_def

interpretation generation_history: row_history generation_table generation_le
  by unfold_locales (auto simp: generation_le_def)

interpretation family_history: row_history family_table family_le
  by unfold_locales (auto simp: family_le_def)

interpretation session_history: row_history session_table session_le
  by unfold_locales (auto simp: session_le_def)

interpretation ticket_history: row_history handoff_table ticket_le
  by unfold_locales (auto simp: ticket_le_def)

interpretation browser_history: row_history browser_session_table browser_le
  by unfold_locales (auto simp: browser_le_def)

section \<open>The constraints hold in every committed state\<close>

definition constraints :: "auth_db \<Rightarrow> bool" where
  "constraints db \<longleftrightarrow>
     tb_ok generation_table (generations db) \<and> tb_ok family_table (families db)
     \<and> tb_ok session_table (app_sessions db) \<and> tb_ok handoff_table (tickets db)
     \<and> tb_ok browser_session_table (browser_sessions db) \<and> tb_ok logout_table (logouts db)
     \<and> tb_ok login_table (logins db)"

definition db_le :: "auth_db \<Rightarrow> auth_db \<Rightarrow> bool" where
  "db_le s t \<longleftrightarrow>
     rows_rel generation_table generation_le s t \<and> rows_rel family_table family_le s t
     \<and> rows_rel session_table session_le s t \<and> rows_rel handoff_table ticket_le s t
     \<and> rows_rel browser_session_table browser_le s t
     \<and> (\<exists>new. audits t = audits s @ new)
     \<and> (constraints s \<longrightarrow> constraints t)"

interpretation db_history: history_relation db_le
proof
  show "db_le s s" for s
    by (simp add: db_le_def generation_history.hr_refl family_history.hr_refl
        session_history.hr_refl ticket_history.hr_refl browser_history.hr_refl)
  show "db_le s u" if "db_le s t" "db_le t u" for s t u
    using that unfolding db_le_def
    by (auto intro: generation_history.hr_trans family_history.hr_trans
        session_history.hr_trans ticket_history.hr_trans browser_history.hr_trans)
qed

section \<open>Statements\<close>

lemma rows_same: "(\<And>r. rel r r) \<Longrightarrow> tb_rows T t = tb_rows T s \<Longrightarrow> rows_rel T rel s t"
  by (auto simp: rows_rel_def)

lemma row_le_refl [simp]:
  "generation_le g g" "family_le f f" "session_le s s" "ticket_le t t" "browser_le b b"
  by (simp_all add: row_le_defs)

text \<open>A new content of one table, when its rows moved as allowed.\<close>

lemma put_generations:
  "rows_rel generation_table generation_le s (tb_put generation_table rows s)
   \<Longrightarrow> tb_ok generation_table rows \<Longrightarrow> db_le s (tb_put generation_table rows s)"
  by (auto simp: db_le_def constraints_def table_defs intro!: rows_same)

lemma put_families:
  "rows_rel family_table family_le s (tb_put family_table rows s)
   \<Longrightarrow> tb_ok family_table rows \<Longrightarrow> db_le s (tb_put family_table rows s)"
  by (auto simp: db_le_def constraints_def table_defs intro!: rows_same)

lemma put_sessions:
  "rows_rel session_table session_le s (tb_put session_table rows s)
   \<Longrightarrow> tb_ok session_table rows \<Longrightarrow> db_le s (tb_put session_table rows s)"
  by (auto simp: db_le_def constraints_def table_defs intro!: rows_same)

lemma put_tickets:
  "rows_rel handoff_table ticket_le s (tb_put handoff_table rows s)
   \<Longrightarrow> tb_ok handoff_table rows \<Longrightarrow> db_le s (tb_put handoff_table rows s)"
  by (auto simp: db_le_def constraints_def table_defs intro!: rows_same)

lemma put_browsers:
  "rows_rel browser_session_table browser_le s (tb_put browser_session_table rows s)
   \<Longrightarrow> tb_ok browser_session_table rows \<Longrightarrow> db_le s (tb_put browser_session_table rows s)"
  by (auto simp: db_le_def constraints_def table_defs intro!: rows_same)

lemma put_audit: "db_le s (tb_put audit_table (tb_rows audit_table s @ [r]) s)"
  by (auto simp: db_le_def constraints_def table_defs intro!: rows_same)

lemma put_others:
  "tb_ok login_table ls \<Longrightarrow> db_le s (tb_put login_table ls s)"
  "tb_ok logout_table is \<Longrightarrow> db_le s (tb_put logout_table is s)"
  "db_le s (tb_put binding_table bs s)"
  "db_le s (tb_put projection_table ps s)"
  "db_le s (tb_put event_table es s)"
  "db_le s (tb_put delivery_table ds s)"
  by (auto simp: db_le_def constraints_def table_defs intro!: rows_same)

text \<open>The tables of identities, connections and email challenges.\<close>

lemma put_identity_tables:
  "db_le s (tb_put callback_owner_table r1 s)" "db_le s (tb_put user_table r2 s)"
  "db_le s (tb_put identity_table r3 s)" "db_le s (tb_put connection_table r4 s)"
  "db_le s (tb_put renewal_table r5 s)" "db_le s (tb_put challenge_table r6 s)"
  "db_le s (tb_put outbox_table r7 s)" "db_le s (tb_put transfer_table r8 s)"
  "db_le s (tb_put email_identity_table r9 s)" "db_le s (tb_put method_table r10 s)"
  "db_le s (tb_put alias_table r11 s)" "db_le s (tb_put email_snapshot_table r12 s)"
  "db_le s (tb_put credential_table r13 s)"
  by (auto simp: db_le_def constraints_def table_defs intro!: rows_same)

lemma keeps_update_generation:
  assumes "\<And>r. generation_le r (g r)"
  shows "keeps db_le (db_update generation_table k g)"
proof (rule keepsI)
  fix s x t assume u: "db_update generation_table k g s = (x, t)"
  have "keeps (rows_rel generation_table generation_le) (db_update generation_table k g)"
    using assms by (intro generation_tb.update_keeps) (auto simp: row_le_defs generation_table_def)
  from keepsD [OF this u] update_cases [OF u] show "db_le s t"
    by (auto intro: put_generations db_history.hr_refl)
qed

lemma keeps_insert_generation: "keeps db_le (db_insert generation_table r)"
proof (rule keepsI)
  fix s x t assume u: "db_insert generation_table r s = (x, t)"
  have "keeps (rows_rel generation_table generation_le) (db_insert generation_table r)"
    by (intro generation_tb.insert_keeps) simp
  from keepsD [OF this u] insert_cases [OF u] show "db_le s t"
    by (auto intro: put_generations db_history.hr_refl)
qed

lemma keeps_update_family:
  assumes "\<And>r. family_le r (g r)"
  shows "keeps db_le (db_update family_table k g)"
proof (rule keepsI)
  fix s x t assume u: "db_update family_table k g s = (x, t)"
  have "keeps (rows_rel family_table family_le) (db_update family_table k g)"
    using assms by (intro family_tb.update_keeps) (auto simp: row_le_defs family_table_def)
  from keepsD [OF this u] update_cases [OF u] show "db_le s t"
    by (auto intro: put_families db_history.hr_refl)
qed

lemma keeps_insert_family: "keeps db_le (db_insert family_table r)"
proof (rule keepsI)
  fix s x t assume u: "db_insert family_table r s = (x, t)"
  have "keeps (rows_rel family_table family_le) (db_insert family_table r)"
    by (intro family_tb.insert_keeps) simp
  from keepsD [OF this u] insert_cases [OF u] show "db_le s t"
    by (auto intro: put_families db_history.hr_refl)
qed

lemma keeps_update_session:
  assumes "\<And>r. session_le r (g r)"
  shows "keeps db_le (db_update session_table k g)"
proof (rule keepsI)
  fix s x t assume u: "db_update session_table k g s = (x, t)"
  have "keeps (rows_rel session_table session_le) (db_update session_table k g)"
    using assms by (intro session_tb.update_keeps) (auto simp: row_le_defs session_table_def)
  from keepsD [OF this u] update_cases [OF u] show "db_le s t"
    by (auto intro: put_sessions db_history.hr_refl)
qed

lemma keeps_insert_session: "keeps db_le (db_insert session_table r)"
proof (rule keepsI)
  fix s x t assume u: "db_insert session_table r s = (x, t)"
  have "keeps (rows_rel session_table session_le) (db_insert session_table r)"
    by (intro session_tb.insert_keeps) simp
  from keepsD [OF this u] insert_cases [OF u] show "db_le s t"
    by (auto intro: put_sessions db_history.hr_refl)
qed

lemma keeps_update_ticket:
  assumes "\<And>r. ticket_le r (g r)"
  shows "keeps db_le (db_update handoff_table k g)"
proof (rule keepsI)
  fix s x t assume u: "db_update handoff_table k g s = (x, t)"
  have "keeps (rows_rel handoff_table ticket_le) (db_update handoff_table k g)"
    using assms by (intro handoff_tb.update_keeps) (auto simp: row_le_defs handoff_table_def)
  from keepsD [OF this u] update_cases [OF u] show "db_le s t"
    by (auto intro: put_tickets db_history.hr_refl)
qed

lemma keeps_insert_ticket: "keeps db_le (db_insert handoff_table r)"
proof (rule keepsI)
  fix s x t assume u: "db_insert handoff_table r s = (x, t)"
  have "keeps (rows_rel handoff_table ticket_le) (db_insert handoff_table r)"
    by (intro handoff_tb.insert_keeps) simp
  from keepsD [OF this u] insert_cases [OF u] show "db_le s t"
    by (auto intro: put_tickets db_history.hr_refl)
qed

lemma keeps_update_browser:
  assumes "\<And>r. browser_le r (g r)"
  shows "keeps db_le (db_update browser_session_table k g)"
proof (rule keepsI)
  fix s x t assume u: "db_update browser_session_table k g s = (x, t)"
  have "keeps (rows_rel browser_session_table browser_le) (db_update browser_session_table k g)"
    using assms by (intro browser_tb.update_keeps) (auto simp: row_le_defs browser_session_table_def)
  from keepsD [OF this u] update_cases [OF u] show "db_le s t"
    by (auto intro: put_browsers db_history.hr_refl)
qed

lemma keeps_insert_browser: "keeps db_le (db_insert browser_session_table r)"
proof (rule keepsI)
  fix s x t assume u: "db_insert browser_session_table r s = (x, t)"
  have "keeps (rows_rel browser_session_table browser_le) (db_insert browser_session_table r)"
    by (intro browser_tb.insert_keeps) simp
  from keepsD [OF this u] insert_cases [OF u] show "db_le s t"
    by (auto intro: put_browsers db_history.hr_refl)
qed

lemma keeps_update_others:
  "keeps db_le (db_update login_table k g1)" "keeps db_le (db_update logout_table k g2)"
  "keeps db_le (db_update projection_table k g3)"
  by (rule keepsI, drule update_cases, auto intro: put_others db_history.hr_refl)+

lemma keeps_insert_others:
  "keeps db_le (db_insert audit_table a)" "keeps db_le (db_insert logout_table l)"
  "keeps db_le (db_insert binding_table b)" "keeps db_le (db_insert projection_table p)"
  "keeps db_le (db_insert event_table e)" "keeps db_le (db_insert delivery_table d)"
  by (rule keepsI, drule insert_cases, auto intro: put_others put_audit db_history.hr_refl)+

lemma keeps_dispatch: "keeps db_le (ensure_dispatch_state p a)"
  by (auto simp: keeps_def ensure_dispatch_state_def db_le_def constraints_def table_defs
      intro!: rows_same db_history.hr_refl)

lemmas db_le_rules =
  db_history.keeps_rules keeps_prod keeps_option keeps_dispatch
  keeps_update_generation keeps_update_family keeps_update_session keeps_update_ticket
  keeps_update_browser keeps_update_others
  keeps_insert_generation keeps_insert_family keeps_insert_session keeps_insert_ticket
  keeps_insert_browser keeps_insert_others

section \<open>Operations\<close>

lemma keeps_audit: "keeps db_le (append_runtime_audit env p k a tk t i)"
  unfolding append_runtime_audit_def by (intro db_le_rules)

lemma keeps_replay: "keeps db_le (record_refresh_replay env g f p now)"
  unfolding record_refresh_replay_def
  by (intro db_le_rules keeps_audit) (simp_all add: row_le_defs)

lemma keeps_repair: "keeps db_le (repair_runtime_projection env p a u now)"
  unfolding repair_runtime_projection_def by (intro db_le_rules)

lemma keeps_event: "keeps db_le (append_projection_event env p a b r w e)"
  unfolding append_projection_event_def Let_def by (intro db_le_rules)

lemma prepare_refresh_keeps: "keeps db_le (prepare_refresh_rotation env c db0)"
  unfolding prepare_refresh_rotation_def prepare_refresh_body_def
  by (intro db_le_rules keeps_replay keeps_repair)

lemma rotate_keeps: "keeps db_le (rotate_refresh_token env c db0)"
  unfolding rotate_refresh_token_def rotate_body_def rotate_writes_def
  by (intro db_le_rules keeps_replay keeps_audit) (simp_all add: row_le_defs)

lemma logout_keeps: "keeps db_le (logout_application_session env c)"
  unfolding logout_application_session_def revoke_session_def revoke_family_def Let_def
  by (intro db_le_rules keeps_audit) (simp_all add: row_le_defs)

lemma prepare_logout_keeps: "keeps db_le (prepare_browser_logout env c)"
  unfolding prepare_browser_logout_def Let_def by (intro db_le_rules keeps_audit)

lemma keeps_expire_logout: "keeps db_le (expire_browser_logout env i now)"
  unfolding expire_browser_logout_def by (intro db_le_rules keeps_audit)

lemma bind_logout_keeps: "keeps db_le (bind_browser_logout env c db0)"
  unfolding bind_browser_logout_def by (intro db_le_rules keeps_expire_logout keeps_audit)

lemma confirm_logout_keeps: "keeps db_le (confirm_browser_logout env c db0)"
  unfolding confirm_browser_logout_def confirm_logout_writes_def
  by (intro db_le_rules keeps_expire_logout keeps_audit) (simp_all add: row_le_defs)

lemma keeps_expire_login: "keeps db_le (expire_login env l now)"
  unfolding expire_login_def by (intro db_le_rules keeps_audit)

lemma recover_keeps: "keeps db_le (recover_abandoned_provider_exchanges env c locked)"
  unfolding recover_abandoned_provider_exchanges_def fail_exchange_def
  by (intro db_le_rules keeps_audit)

lemma keeps_insert_handoff: "keeps db_le (insert_handoff env i d l u b m a ia ea sr)"
  unfolding insert_handoff_def by (intro db_le_rules)

lemma reuse_keeps: "keeps db_le (confirm_browser_session_reuse env c db0)"
  unfolding confirm_browser_session_reuse_def reuse_writes_def Let_def
  by (intro db_le_rules keeps_expire_login keeps_insert_handoff keeps_audit)
    (simp_all add: row_le_defs)

lemma prepare_handoff_keeps: "keeps db_le (prepare_handoff_exchange env c)"
  unfolding prepare_handoff_exchange_def by (intro db_le_rules)

lemma commit_handoff_keeps: "keeps db_le (commit_handoff_exchange env c)"
  unfolding commit_handoff_exchange_def commit_handoff_body_def commit_writes_def
    commit_binding_def commit_projection_def commit_session_def commit_login_def expire_ticket_def
  by (intro db_le_rules keeps_audit keeps_repair keeps_event) (simp_all add: row_le_defs)

lemma browser_rotation_keeps: "keeps db_le (rotate_or_create_browser_session env c)"
  unfolding rotate_or_create_browser_session_def rotate_browser_session_def
    terminate_browser_session_def create_browser_session_def
  by (intro db_le_rules) (simp_all add: row_le_defs)

text \<open>The login and email methods.\<close>

interpretation db_frame: database_frame db_le
  by unfold_locales (auto intro: put_identity_tables put_others put_audit keeps_dispatch
      keeps_insert_ticket browser_rotation_keeps)

section \<open>Histories\<close>

text \<open>
  Other parts of the server change projects, applications, policies, providers, keys, users,
  identities, bindings and projections at any time.  Of the session tables they only move
  existing rows: identity mutations and the session control of the console revoke sessions
  and families, terminate browser sessions and expire tickets.
\<close>

definition administrative :: "auth_db \<Rightarrow> auth_db \<Rightarrow> bool" where
  "administrative s t \<longleftrightarrow>
     generations t = generations s
     \<and> list_all2 (\<lambda>f f'. family_le f f' \<and> rf_current_generation f' = rf_current_generation f)
         (families s) (families t)
     \<and> list_all2 session_le (app_sessions s) (app_sessions t)
     \<and> list_all2 ticket_le (tickets s) (tickets t)
     \<and> list_all2 browser_le (browser_sessions s) (browser_sessions t)
     \<and> (\<exists>new. audits t = audits s @ new)
     \<and> (constraints s \<longrightarrow> constraints t)"

inductive authority_step :: "auth_db \<Rightarrow> auth_db \<Rightarrow> bool" where
  st_administrative: "administrative s t \<Longrightarrow> authority_step s t"
| st_prepare_refresh: "authority_step s (snd (prepare_refresh_rotation env1 c1 db0 s))"
| st_rotate: "authority_step s (snd (rotate_refresh_token env2 c2 db0 s))"
| st_logout: "authority_step s (snd (logout_application_session env3 c3 s))"
| st_prepare_logout: "authority_step s (snd (prepare_browser_logout env4 c4 s))"
| st_bind_logout: "authority_step s (snd (bind_browser_logout env5 c5 db0 s))"
| st_confirm_logout: "authority_step s (snd (confirm_browser_logout env6 c6 db0 s))"
| st_reuse: "authority_step s (snd (confirm_browser_session_reuse env7 c7 db0 s))"
| st_prepare_handoff: "authority_step s (snd (prepare_handoff_exchange env8 c8 s))"
| st_commit_handoff: "authority_step s (snd (commit_handoff_exchange env9 c9 s))"
| st_recover: "authority_step s (snd (recover_abandoned_provider_exchanges env10 c10 locked s))"
| st_browser: "authority_step s (snd (rotate_or_create_browser_session env11 c11 s))"
| st_create_login: "authority_step s (snd (create_login_transaction env12 c12 s))"
| st_bind_login: "authority_step s (snd (bind_hosted_browser env13 c13 s))"
| st_select_provider: "authority_step s (snd (select_provider_method env14 c14 s))"
| st_claim: "authority_step s (snd (claim_provider_callback_tx env15 c15 db0 s))"
| st_deny: "authority_step s (snd (deny_provider_callback env16 c16 db0 s))"
| st_fail_exchange: "authority_step s (snd (fail_provider_exchange_tx env17 c17 s))"
| st_complete: "authority_step s (snd (complete_authenticated_identity env18 cenv c18 s))"
| st_select_email: "authority_step s (snd (select_email_method c19 s))"
| st_commit_generation: "authority_step s (snd (commit_email_generation env20 clk c20 s))"
| st_establish_transfer: "authority_step s (snd (establish_magic_transfer_context env21 c21 s))"
| st_verify_proof: "authority_step s (snd (verify_email_proof c22 s))"
| st_complete_email: "authority_step s (snd (complete_email_proof env23 c23 s))"

abbreviation later :: "auth_db \<Rightarrow> auth_db \<Rightarrow> bool" where
  "later \<equiv> authority_step\<^sup>*\<^sup>*"

lemma list_all2_rows:
  "list_all2 P xs ys \<Longrightarrow> x \<in> set xs \<Longrightarrow> \<exists>y \<in> set ys. P x y"
  by (induction rule: list_all2_induct) auto

lemma rows_rel_all2:
  "list_all2 P (tb_rows T s) (tb_rows T t) \<Longrightarrow> (\<And>r r'. P r r' \<Longrightarrow> rel r r' \<and> tb_key T r' = tb_key T r)
   \<Longrightarrow> rows_rel T rel s t"
  unfolding rows_rel_def by (blast dest: list_all2_rows)

lemma administrative_le:
  assumes "administrative s t"
  shows "db_le s t"
proof -
  have "rows_rel generation_table generation_le s t"
    using assms by (intro rows_same) (auto simp: administrative_def table_sel)
  moreover have "rows_rel family_table family_le s t"
    using assms by (intro rows_rel_all2 [where P = "\<lambda>f f'. family_le f f' \<and> rf_current_generation f' = rf_current_generation f"])
      (simp_all add: administrative_def table_sel row_le_defs)
  moreover have "rows_rel session_table session_le s t"
    using assms by (intro rows_rel_all2 [where P = "session_le"])
      (simp_all add: administrative_def table_sel row_le_defs)
  moreover have "rows_rel handoff_table ticket_le s t"
    using assms by (intro rows_rel_all2 [where P = "ticket_le"])
      (simp_all add: administrative_def table_sel row_le_defs)
  moreover have "rows_rel browser_session_table browser_le s t"
    using assms by (intro rows_rel_all2 [where P = "browser_le"])
      (simp_all add: administrative_def table_sel row_le_defs)
  ultimately show ?thesis using assms by (simp add: db_le_def administrative_def)
qed

lemmas operation_keeps =
  prepare_refresh_keeps rotate_keeps logout_keeps prepare_logout_keeps bind_logout_keeps
  confirm_logout_keeps reuse_keeps prepare_handoff_keeps commit_handoff_keeps recover_keeps
  browser_rotation_keeps db_frame.frame_operations

lemma step_le: "authority_step s t \<Longrightarrow> db_le s t"
  by (induction rule: authority_step.induct)
    (use operation_keeps in \<open>auto simp: keeps_def administrative_le\<close>)

lemma later_le: "later s t \<Longrightarrow> db_le s t"
  by (induction rule: rtranclp_induct) (auto intro: db_history.hr_refl db_history.hr_trans step_le)

section \<open>What a later state still knows\<close>

lemma later_constraints: "later s t \<Longrightarrow> constraints s \<Longrightarrow> constraints t"
  using later_le by (auto simp: db_le_def)

lemma later_generation:
  "later s t \<Longrightarrow> g \<in> set (generations s) \<Longrightarrow> \<exists>g' \<in> set (generations t). generation_le g g'"
  using later_le [of s t] rows_relD [of generation_table generation_le s t g]
  by (auto simp: db_le_def generation_table_def)

lemma later_family:
  "later s t \<Longrightarrow> f \<in> set (families s) \<Longrightarrow> \<exists>f' \<in> set (families t). family_le f f'"
  using later_le [of s t] rows_relD [of family_table family_le s t f]
  by (auto simp: db_le_def family_table_def)

lemma later_session:
  "later s t \<Longrightarrow> x \<in> set (app_sessions s) \<Longrightarrow> \<exists>x' \<in> set (app_sessions t). session_le x x'"
  using later_le [of s t] rows_relD [of session_table session_le s t x]
  by (auto simp: db_le_def session_table_def)

lemma later_ticket:
  "later s t \<Longrightarrow> x \<in> set (tickets s) \<Longrightarrow> \<exists>x' \<in> set (tickets t). ticket_le x x'"
  using later_le [of s t] rows_relD [of handoff_table ticket_le s t x]
  by (auto simp: db_le_def handoff_table_def)

lemma later_browser:
  "later s t \<Longrightarrow> b \<in> set (browser_sessions s) \<Longrightarrow> \<exists>b' \<in> set (browser_sessions t). browser_le b b'"
  using later_le [of s t] rows_relD [of browser_session_table browser_le s t b]
  by (auto simp: db_le_def browser_session_table_def)

lemma unique_generation:
  "constraints db \<Longrightarrow> g \<in> set (generations db) \<Longrightarrow> g' \<in> set (generations db)
   \<Longrightarrow> rg_token_digest g = rg_token_digest g'
   \<Longrightarrow> rg_token_digest_key_version g = rg_token_digest_key_version g' \<Longrightarrow> g = g'"
  by (auto simp: constraints_def generation_table_def distinct_map dest: inj_onD)

lemma unique_family:
  "constraints db \<Longrightarrow> f \<in> set (families db) \<Longrightarrow> f' \<in> set (families db) \<Longrightarrow> rf_id f = rf_id f' \<Longrightarrow> f = f'"
  by (auto simp: constraints_def family_table_def distinct_map dest: inj_onD)

lemma unique_session:
  "constraints db \<Longrightarrow> x \<in> set (app_sessions db) \<Longrightarrow> x' \<in> set (app_sessions db) \<Longrightarrow> ss_id x = ss_id x' \<Longrightarrow> x = x'"
  by (auto simp: constraints_def session_table_def distinct_map dest: inj_onD)

lemma unique_ticket:
  "constraints db \<Longrightarrow> x \<in> set (tickets db) \<Longrightarrow> x' \<in> set (tickets db)
   \<Longrightarrow> ht_ticket_digest x = ht_ticket_digest x'
   \<Longrightarrow> ht_ticket_digest_key_version x = ht_ticket_digest_key_version x' \<Longrightarrow> x = x'"
  by (auto simp: constraints_def handoff_table_def distinct_map dest: inj_onD)

lemma unique_browser:
  "constraints db \<Longrightarrow> b \<in> set (browser_sessions db) \<Longrightarrow> b' \<in> set (browser_sessions db)
   \<Longrightarrow> bs_id b = bs_id b' \<Longrightarrow> b = b'"
  by (auto simp: constraints_def browser_session_table_def distinct_map dest: inj_onD)

end
