(* ===== verification/Owl_Projection_Laws.thy ===== *)
theory Owl_Projection_Laws
  imports Owl_Projection
begin

text \<open>
  Laws of the projection store: the stored document is independent of the verified email,
  a repaired row reads back as the document that was materialised, the public revision
  moves exactly with what an application can see, and a repair is idempotent.
\<close>

section \<open>Documents in key order\<close>

lemma string_less_simps:
  "(c # s < d # t) = (c < d \<or> c = d \<and> s < (t :: string))"
  "([] < d # t) = True"
  "(s < ([] :: string)) = False"
  by simp_all

lemma projection_document_eq:
  "projection_document p created updated = JObject
     [(''created_at'', JString created),
      (''display_name'', json_opt (up_display_name p)),
      (''locale'', json_opt (up_locale p)),
      (''picture_url'', json_opt (up_picture_url p)),
      (''projection_revision'', JInt (up_projection_revision p)),
      (''projection_schema'', JString (up_schema p)),
      (''status'', JString (project_user_status_as_str (up_status p))),
      (''updated_at'', JString updated),
      (''user_id'', JString (up_user_id p)),
      (''user_revision'', JInt (up_user_revision p)),
      (''verified_email'', json_opt (up_verified_email p))]"
  by (simp add: projection_document_def json_object_def string_less_simps less_char_def)

text \<open>The document with the email set, and the email cleared: only that member differs.\<close>

lemma insert_email_document:
  "json_insert (projection_document p created updated) ''verified_email'' (json_opt e) =
     Some (projection_document (p\<lparr>up_verified_email := e\<rparr>) created updated)"
  by (simp add: projection_document_eq)

lemma safe_document:
  "safe_projection_document (projection_document p created updated) =
     Inr (projection_document (p\<lparr>up_verified_email := None\<rparr>) created updated)"
  using insert_email_document [of p created updated None]
  by (simp add: safe_projection_document_def json_opt_def)

section \<open>What the material is made of\<close>

lemma materialize_Inr:
  "user_projection_materialize src rv = Inr p \<Longrightarrow>
     up_verified_email p = us_verified_email src \<and> up_projection_revision p = rv
     \<and> user_projection_materialize (src\<lparr>us_verified_email := None\<rparr>) rv
       = Inr (p\<lparr>up_verified_email := None\<rparr>)"
  by (auto simp: user_projection_materialize_def split: if_splits option.splits)

lemma projection_source_Inr:
  "projection_source env user e = Inr src \<Longrightarrow>
     us_verified_email src = e
     \<and> projection_source env user e' = Inr (src\<lparr>us_verified_email := e'\<rparr>)"
  by (auto simp: projection_source_def res_simps)

text \<open>
  A document is the projection of the user at the revision, and without the email it is the
  same for every email.
\<close>

lemma projection_material_Inr:
  assumes "projection_material_with_verified_email env user rv e = Inr (d, g)"
  shows "\<exists>p created updated.
    d = projection_document p created updated
    \<and> g = env_digest env d
    \<and> up_verified_email p = e
    \<and> projection_material_with_verified_email env user rv None
      = Inr (projection_document (p\<lparr>up_verified_email := None\<rparr>) created updated,
             env_digest env (projection_document (p\<lparr>up_verified_email := None\<rparr>) created updated))"
proof -
  from assms obtain src p created updated where
    rv: "\<not> rv \<le> 0"
    and src: "projection_source env user e = Inr src"
    and p: "map_err (\<lambda>_. EIntegrity) (and_then (projection_revision_parse rv) (user_projection_materialize src)) = Inr p"
    and created: "env_rfc3339 env (up_created_at p) = Some created"
    and updated: "env_rfc3339 env (up_updated_at p) = Some updated"
    and d: "d = projection_document p created updated" "g = env_digest env d"
    by (auto simp: projection_material_with_verified_email_def res_simps Let_def)
  from p have parsed: "projection_revision_parse rv = Inr rv"
    and mat: "user_projection_materialize src rv = Inr p"
    by (auto simp: res_simps projection_revision_parse_def split: if_splits)
  note facts = materialize_Inr [OF mat] projection_source_Inr [OF src, of None]
  have "projection_material_with_verified_email env user rv None
      = Inr (projection_document (p\<lparr>up_verified_email := None\<rparr>) created updated,
             env_digest env (projection_document (p\<lparr>up_verified_email := None\<rparr>) created updated))"
    using rv facts parsed created updated
    by (simp add: projection_material_with_verified_email_def Let_def)
  with d facts show ?thesis by blast
qed

text \<open>The steps of \<open>authoritative_runtime_projection_material\<close> for a row that exists.\<close>

lemma material_Inr:
  assumes "authoritative_runtime_projection_material env projection application_id user db = Inr m"
  shows "\<exists>source_email wv.
    primary_verified_email env user db = Inr source_email
    \<and> material_write_version env projection source_email = Inr wv
    \<and> pm_source_identity_id m = map_option fst source_email
    \<and> pm_semantic_change m = semantic_change projection user source_email
    \<and> material_revision projection (pm_semantic_change m) = Inr (pm_revision m)
    \<and> material_ciphertext env projection application_id user (pm_revision m) source_email
          (can_reuse_protected projection user source_email wv)
        = Inr (pm_ciphertext m, pm_key_version m)
    \<and> projection_material_with_verified_email env user (pm_revision m) (map_option snd source_email)
        = Inr (pm_document m, pm_digest m)
    \<and> check_reused_email env projection (can_reuse_protected projection user source_email wv)
          (map_option snd source_email) = Inr ()
    \<and> safe_projection_document (pm_document m) = Inr (pm_storage_document m)
    \<and> pm_storage_repair_required m
        = storage_repair_required projection user (pm_semantic_change m) (pm_storage_document m)
            (pm_source_identity_id m) (pm_ciphertext m) (pm_key_version m) (pm_digest m)"
  using assms
  unfolding authoritative_runtime_projection_material_def Let_def
  by (clarsimp simp: and_then_eq_Inr)

section \<open>A repaired row\<close>

text \<open>
  What the code relies on of the protector: it encrypts under its write version, and
  decryption in the same context gives the plaintext back.
\<close>

definition sound_crypto :: "runtime_env \<Rightarrow> bool" where
  "sound_crypto env \<longleftrightarrow>
     (\<forall>p a u rv e pv. env_protect env p a u rv e = Inr pv \<longrightarrow>
        pv_key_version pv = env_write_version env \<and> env_unprotect env p a u rv pv = Inr e)"

text \<open>The columns of a row that carry the material.\<close>

definition row_carries :: "user_row \<Rightarrow> projection_material \<Rightarrow> projection_row \<Rightarrow> bool" where
  "row_carries user m r \<longleftrightarrow>
     pj_user_id r = u_id user
     \<and> pj_projection_revision r = pm_revision m
     \<and> pj_source_user_revision r = u_user_revision user
     \<and> pj_canonical_digest r = pm_digest m
     \<and> pj_source_base_profile_digest r = u_base_profile_digest user
     \<and> pj_verified_email_source_identity_id r = pm_source_identity_id m
     \<and> pj_verified_email_ciphertext r = pm_ciphertext m
     \<and> pj_verified_email_key_version r = pm_key_version m
     \<and> pj_document r = pm_storage_document m"

definition same_place :: "projection_row \<Rightarrow> projection_row \<Rightarrow> bool" where
  "same_place r r' \<longleftrightarrow>
     pj_id r' = pj_id r \<and> pj_project_id r' = pj_project_id r
     \<and> pj_application_id r' = pj_application_id r \<and> pj_binding_id r' = pj_binding_id r"

lemma unrepaired_carries:
  assumes "authoritative_runtime_projection_material env (Some r) a user db = Inr m"
    and "\<not> pm_storage_repair_required m"
  shows "row_carries user m r \<and> \<not> pm_semantic_change m"
proof -
  from material_Inr [OF assms(1)] obtain source_email wv where
    ch: "pm_semantic_change m = semantic_change (Some r) user source_email"
    and rv: "material_revision (Some r) (pm_semantic_change m) = Inr (pm_revision m)"
    and req: "pm_storage_repair_required m
        = storage_repair_required (Some r) user (pm_semantic_change m) (pm_storage_document m)
            (pm_source_identity_id m) (pm_ciphertext m) (pm_key_version m) (pm_digest m)"
    by blast
  from req assms(2) have "\<not> pm_semantic_change m" by (simp add: storage_repair_required_def)
  with ch rv req assms(2) show ?thesis
    by (simp add: storage_repair_required_def material_revision_def semantic_change_def row_carries_def)
qed

lemma repair_Inr:
  assumes "repair_runtime_projection env r a user now db = (Inr (row, m), db')"
    and "tb_ok projection_table (projections db)" and "r \<in> set (projections db)"
  shows "authoritative_runtime_projection_material env (Some r) a user db = Inr m
    \<and> row_carries user m row \<and> same_place r row
    \<and> (if pm_storage_repair_required m
        then row = repair_row user m now r
             \<and> db' = db\<lparr>projections := set_row pj_id (pj_id r) (repair_row user m now) (projections db)\<rparr>
             \<and> tb_ok projection_table (projections db')
        else row = r \<and> db' = db)"
proof -
  from assms(1) have m: "authoritative_runtime_projection_material env (Some r) a user db = Inr m"
    by (auto simp: repair_runtime_projection_def mut_simps split: sum.splits if_splits)
  show ?thesis
  proof (cases "pm_storage_repair_required m")
    case True
    have "find (\<lambda>x. pj_id x = pj_id r) (projections db) = Some r"
      using projection_tb.lookup [OF assms(2,3)] by (simp add: projection_table_def)
    with assms(1) m True show ?thesis
      by (auto simp: repair_runtime_projection_def mut_simps row_carries_def same_place_def repair_row_def
          projection_table_def)
  next
    case False
    with assms(1) m unrepaired_carries [OF m] show ?thesis
      by (auto simp: repair_runtime_projection_def mut_simps same_place_def)
  qed
qed

text \<open>The protected email of a row that carries the material decrypts to the source email.\<close>

lemma carried_email:
  assumes m: "authoritative_runtime_projection_material env (Some r) a user db = Inr m"
    and "sound_crypto env" and row: "row_carries user m row" "same_place r row"
    and "pj_project_id r = u_project_id user" "pj_application_id r = a"
    and src: "primary_verified_email env user db = Inr source_email"
  shows "decrypted_projection_verified_email env row = Inr (map_option snd source_email)"
proof -
  from material_Inr [OF m] src obtain wv where
    wv: "material_write_version env (Some r) source_email = Inr wv"
    and id: "pm_source_identity_id m = map_option fst source_email"
    and ct: "material_ciphertext env (Some r) a user (pm_revision m) source_email
          (can_reuse_protected (Some r) user source_email wv) = Inr (pm_ciphertext m, pm_key_version m)"
    and ch: "check_reused_email env (Some r) (can_reuse_protected (Some r) user source_email wv)
          (map_option snd source_email) = Inr ()"
    and rv: "material_revision (Some r) (semantic_change (Some r) user source_email) = Inr (pm_revision m)"
    by auto
  show ?thesis
  proof (cases source_email)
    case None
    with id ct row show ?thesis
      by (simp add: material_ciphertext_def decrypted_projection_verified_email_def row_carries_def)
  next
    case (Some x)
    obtain i e where x: "x = (i, e)" by (cases x)
    show ?thesis
    proof (cases "can_reuse_protected (Some r) user source_email wv")
      case True
      then have "\<not> semantic_change (Some r) user source_email" by (simp add: can_reuse_protected_def)
      then have same: "pj_user_id r = u_id user" "pm_revision m = pj_projection_revision r"
        using rv by (simp_all add: semantic_change_def material_revision_def)
      from True ch have dec: "decrypted_projection_verified_email env r = Inr (map_option snd source_email)"
        by (auto simp: check_reused_email_def res_simps split: if_splits)
      have "pj_verified_email_source_identity_id r = map_option fst source_email"
        using True by (simp add: can_reuse_protected_def)
      moreover have "pj_verified_email_ciphertext r = pm_ciphertext m"
        "pj_verified_email_key_version r = pm_key_version m"
        using True ct Some x by (simp_all add: material_ciphertext_def)
      ultimately have cols:
        "pj_verified_email_source_identity_id row = pj_verified_email_source_identity_id r"
        "pj_verified_email_ciphertext row = pj_verified_email_ciphertext r"
        "pj_verified_email_key_version row = pj_verified_email_key_version r"
        "pj_project_id row = pj_project_id r" "pj_application_id row = pj_application_id r"
        "pj_user_id row = pj_user_id r" "pj_projection_revision row = pj_projection_revision r"
        using id row same by (simp_all add: row_carries_def same_place_def)
      have "decrypted_projection_verified_email env row = decrypted_projection_verified_email env r"
        unfolding decrypted_projection_verified_email_def cols by (rule refl)
      with dec show ?thesis by simp
    next
      case False
      with ct Some x obtain pv where
        pv: "env_protect env (u_project_id user) a (u_id user) (pm_revision m) e = Inr pv"
        "pm_ciphertext m = Some (pv_ciphertext pv)" "pm_key_version m = Some (pv_key_version pv)"
        by (auto simp: material_ciphertext_def res_simps)
      with assms(2) have un: "env_unprotect env (u_project_id user) a (u_id user) (pm_revision m) pv = Inr e"
        and kv: "pv_key_version pv = env_write_version env" by (auto simp: sound_crypto_def)
      from wv Some have "env_write_version env > 0"
        by (auto simp: material_write_version_def res_simps projection_authority_write_version_def
            validate_local_projection_ring_def split: if_splits)
      moreover have eta: "\<lparr>pv_ciphertext = pv_ciphertext pv, pv_key_version = env_write_version env\<rparr> = pv"
        using kv by (cases pv) simp
      ultimately show ?thesis
        using assms(5,6) id Some x pv un kv row
        by (simp add: decrypted_projection_verified_email_def row_carries_def same_place_def eta)
    qed
  qed
qed

text \<open>A row that carries the material is up to date: the material computed from it writes nothing.\<close>

lemma carried_presence:
  assumes "material_ciphertext env (Some r) a user rv source_email
      (can_reuse_protected (Some r) user source_email wv) = Inr (c, k)"
    and "material_write_version env (Some r) source_email = Inr wv" and "sound_crypto env"
  shows "(c \<noteq> None) = (source_email \<noteq> None) \<and> (k \<noteq> None) = (source_email \<noteq> None)
    \<and> (source_email \<noteq> None \<longrightarrow> k = wv)"
proof (cases source_email)
  case None
  with assms show ?thesis by (simp add: material_ciphertext_def)
next
  case (Some x)
  obtain i e where x: "x = (i, e)" by (cases x)
  from assms(2) Some have wv: "wv = Some (env_write_version env)"
    by (auto simp: material_write_version_def res_simps projection_authority_write_version_def
        validate_local_projection_ring_def split: if_splits)
  show ?thesis
  proof (cases "can_reuse_protected (Some r) user source_email wv")
    case True
    then have "pj_verified_email_key_version r = wv" "pj_verified_email_ciphertext r \<noteq> None"
      using Some by (simp_all add: can_reuse_protected_def)
    with True assms(1) Some x wv have "k = wv" "c \<noteq> None" by (simp_all add: material_ciphertext_def)
    with Some wv show ?thesis by simp
  next
    case False
    with assms(1,3) Some x wv show ?thesis
      by (auto simp: material_ciphertext_def res_simps sound_crypto_def)
  qed
qed

lemma carried_material:
  assumes m: "authoritative_runtime_projection_material env (Some r) a user db = Inr m"
    and crypto: "sound_crypto env" and row: "row_carries user m row" "same_place r row"
    and place: "pj_project_id r = u_project_id user" "pj_application_id r = a"
    and same: "email_identities db' = email_identities db"
  shows "authoritative_runtime_projection_material env (Some row) a user db'
    = Inr (m\<lparr>pm_semantic_change := False, pm_storage_repair_required := False\<rparr>)"
proof -
  from material_Inr [OF m] obtain source_email wv where
    src: "primary_verified_email env user db = Inr source_email"
    and wv: "material_write_version env (Some r) source_email = Inr wv"
    and id: "pm_source_identity_id m = map_option fst source_email"
    and ct: "material_ciphertext env (Some r) a user (pm_revision m) source_email
          (can_reuse_protected (Some r) user source_email wv) = Inr (pm_ciphertext m, pm_key_version m)"
    and doc: "projection_material_with_verified_email env user (pm_revision m) (map_option snd source_email)
        = Inr (pm_document m, pm_digest m)"
    and safe: "safe_projection_document (pm_document m) = Inr (pm_storage_document m)"
    by auto
  note pres = carried_presence [OF ct wv crypto]
  have "primary_verified_email env user db' = primary_verified_email env user db"
    unfolding primary_verified_email_def select_one_def same by (rule refl)
  with src have src': "primary_verified_email env user db' = Inr source_email" by simp
  have ch: "\<not> semantic_change (Some row) user source_email"
    using row id pres by (simp add: semantic_change_def row_carries_def)
  obtain wv' where wv': "material_write_version env (Some row) source_email = Inr wv'"
    and k: "pm_key_version m = wv'"
    using wv pres row
    by (cases source_email) (auto simp: material_write_version_def row_carries_def)
  have reuse: "can_reuse_protected (Some row) user source_email wv'"
    using ch row id pres k by (simp add: can_reuse_protected_def row_carries_def)
  have rv: "material_revision (Some row) False = Inr (pm_revision m)"
    using row by (simp add: material_revision_def row_carries_def)
  have ct': "material_ciphertext env (Some row) a user (pm_revision m) source_email True
      = Inr (pm_ciphertext m, pm_key_version m)"
    using row pres by (cases source_email) (auto simp: material_ciphertext_def row_carries_def)
  have check: "check_reused_email env (Some row) True (map_option snd source_email) = Inr ()"
    using carried_email [OF m crypto row place src] by (simp add: check_reused_email_def)
  have req: "\<not> storage_repair_required (Some row) user False (pm_storage_document m)
      (map_option fst source_email) (pm_ciphertext m) (pm_key_version m) (pm_digest m)"
    using row id by (simp add: storage_repair_required_def row_carries_def)
  show ?thesis
    using src' wv' ch reuse rv ct' doc check safe req id
    by (simp add: authoritative_runtime_projection_material_def Let_def)
qed

text \<open>A row that carries the material is read back as the document the material has.\<close>

lemma carried_wire:
  assumes mat: "authoritative_runtime_projection_material env (Some r) a user db = Inr m"
    and crypto: "sound_crypto env" and row: "row_carries user m row" "same_place r row"
    and place: "pj_project_id r = u_project_id user" "pj_application_id r = a"
  shows "wire_projection_document env row = Inr (pm_document m)
    \<and> json_get (pj_document row) ''verified_email'' = Some JNull"
proof
  from material_Inr [OF mat] obtain source_email where
    src: "primary_verified_email env user db = Inr source_email"
    and doc: "projection_material_with_verified_email env user (pm_revision m) (map_option snd source_email)
        = Inr (pm_document m, pm_digest m)"
    and safe: "safe_projection_document (pm_document m) = Inr (pm_storage_document m)"
    by blast
  from projection_material_Inr [OF doc] obtain p created updated where
    d: "pm_document m = projection_document p created updated" "pm_digest m = env_digest env (pm_document m)"
    and e: "up_verified_email p = map_option snd source_email" by blast
  from safe d have s: "pm_storage_document m = projection_document (p\<lparr>up_verified_email := None\<rparr>) created updated"
    by (simp add: safe_document)
  have "p\<lparr>up_verified_email := map_option snd source_email\<rparr> = p" using e by simp
  then have "json_insert (pj_document row) ''verified_email'' (json_opt (map_option snd source_email))
      = Some (pm_document m)"
    using row s d by (simp add: row_carries_def insert_email_document)
  then show "wire_projection_document env row = Inr (pm_document m)"
    using carried_email [OF mat crypto row place src] row d
    by (simp add: wire_projection_document_def row_carries_def)
  show "json_get (pj_document row) ''verified_email'' = Some JNull"
    using row s by (simp add: row_carries_def projection_document_eq json_opt_def)
qed

section \<open>Properties\<close>

text \<open>
  A concrete environment and a concrete stale row: the user has moved to revision 2 while
  the row was written at revision 1.
\<close>

definition demo_env :: runtime_env where
  "demo_env =
     \<lparr>env_write_version = 1, env_readable_versions = [1],
      env_read_email = \<lambda>p i v. Inr (pv_ciphertext v),
      env_protect = \<lambda>p a u rv e. Inr \<lparr>pv_ciphertext = CHR ''x'' # e, pv_key_version = 1\<rparr>,
      env_unprotect = \<lambda>p a u rv v. Inr (tl (pv_ciphertext v)),
      env_urls = \<lparr>ul_parse = \<lambda>_. None, ul_push = \<lambda>_ _. None\<rparr>,
      env_digest = \<lambda>_. ''sha'', env_rfc3339 = \<lambda>_. Some ''now'', env_tadd = utc_add,
      env_audit_id = \<lambda>u. u + 1000, env_event_uuid = 900, env_simple = \<lambda>_. ''900'',
      env_delivery_id = \<lambda>u. u + 2000,
      env_event_window = (0, days 29, days 30)\<rparr>"

definition empty_db :: auth_db where
  "empty_db =
     \<lparr>projects = [], applications = [], policies = [], providers = [], assignments = [], key_rings = [],
      signing_keys = [], users = [], email_identities = [], logins = [], browser_sessions = [],
      tickets = [], bindings = [], projections = [], app_sessions = [], families = [],
      generations = [], logouts = [], audits = [], user_events = [], endpoints = [],
      dispatch_states = [], deliveries = [], redirects = [], methods = [], egress_policies = [],
      email_policies = [], email_assignments = [], project_smtp = [], deployment_smtp = [],
      email_snapshots = [], callback_owners = [], identities = [], connections = [],
      credentials = [], renewals = [], challenges = [], outbox = [], transfers = [],
      aliases = [], attempts = [], smtp_tests = [], materials = []\<rparr>"

definition demo_user :: user_row where
  "demo_user =
     \<lparr>u_id = 7, u_project_id = 1, u_public_id = ''usr_12345678'', u_status = ''active'',
      u_merged_into_user_id = None, u_user_revision = 2, u_security_revision = 1,
      u_primary_profile_identity_id = None, u_primary_email_identity_id = Some 5,
      u_primary_source_kind = ''email'', u_base_profile_digest = ''base'',
      u_local_display_name_set = False, u_local_display_name = None,
      u_local_picture_url_set = False, u_local_picture_url = None,
      u_local_locale_set = False, u_local_locale = None, u_display_name = Some ''Ada'',
      u_picture_url = None, u_locale = None, u_created_at = 0, u_updated_at = 0\<rparr>"

definition demo_projection :: projection_row where
  "demo_projection =
     \<lparr>pj_id = 30, pj_project_id = 1, pj_binding_id = 20, pj_application_id = 2, pj_user_id = 7,
      pj_schema_name = USER_PROJECTION_SCHEMA_V1, pj_projection_revision = 1,
      pj_source_user_revision = 1, pj_canonical_digest = ''old'',
      pj_source_base_profile_digest = ''base'', pj_verified_email_source_identity_id = None,
      pj_verified_email_ciphertext = None, pj_verified_email_key_version = None,
      pj_document = JObject [], pj_created_at = 0, pj_updated_at = 0\<rparr>"

definition demo_projection_db :: auth_db where
  "demo_projection_db = empty_db
     \<lparr>email_identities :=
        [\<lparr>ei_id = 5, ei_project_id = 1, ei_user_id = 7, ei_status = ''active'',
          ei_address_ciphertext = ''a@b.c'', ei_address_key_version = 1, ei_verified_at = Some 0,
          ei_identity_revision = 1, ei_canonicalization_version = 1, ei_created_at = 0, ei_updated_at = 0\<rparr>],
      projections := [demo_projection]\<rparr>"

lemma demo_env_sound: "sound_crypto demo_env"
  by (simp add: sound_crypto_def demo_env_def)

lemmas demo_simps =
  demo_env_def empty_db_def demo_user_def demo_projection_def demo_projection_db_def
  projection_table_def select_one_def

lemmas material_defs =
  authoritative_runtime_projection_material_def primary_verified_email_def
  material_write_version_def projection_authority_write_version_def
  validate_local_projection_ring_def semantic_change_def can_reuse_protected_def
  material_revision_def material_ciphertext_def check_reused_email_def
  storage_repair_required_def projection_material_with_verified_email_def
  projection_source_def parse_optional_def user_status_parse_def
  user_projection_materialize_def projection_email_ok_def

lemma demo_material:
  "\<exists>m. authoritative_runtime_projection_material demo_env (Some demo_projection) 2 demo_user
          demo_projection_db = Inr m
       \<and> pm_storage_repair_required m \<and> pm_semantic_change m \<and> pm_revision m = 2"
  by (simp add: material_defs demo_simps safe_document public_id_parse_def profile_display_name_parse_def
      identity_validate_bounded_text_def user_revision_parse_def projection_revision_parse_def
      checked_add_i64_def in_i64_def i64_min_def i64_max_def is_ascii_alphanumeric_def
      is_ascii_digit_def is_ascii_lowercase_def is_ascii_uppercase_def is_ascii_control_def byte_def Let_def)

lemma demo_repair:
  "\<exists>row m db'. repair_runtime_projection demo_env demo_projection 2 demo_user 5 demo_projection_db
     = (Inr (row, m), db') \<and> pm_semantic_change m"
proof -
  obtain m where m: "authoritative_runtime_projection_material demo_env (Some demo_projection) 2 demo_user
      demo_projection_db = Inr m" "pm_storage_repair_required m" "pm_semantic_change m"
    using demo_material by blast
  have "\<exists>row db'. db_update projection_table (pj_id demo_projection) (repair_row demo_user m 5)
      demo_projection_db = (Inr row, db')"
    by (simp add: db_update_def demo_simps set_row_def)
  with m show ?thesis
    by (auto simp: repair_runtime_projection_def m_bind_def m_read_def m_return_def)
qed

lemma demo_place:
  "tb_ok projection_table (projections demo_projection_db)"
  "demo_projection \<in> set (projections demo_projection_db)"
  "pj_project_id demo_projection = u_project_id demo_user" "pj_application_id demo_projection = 2"
  by (simp_all add: demo_simps)

text \<open>
  (C18) What is stored reads back as what was materialised: after a repair, whether it wrote
  or found the row up to date, decoding the row gives exactly the document of the material,
  and the document in the row has no email.
\<close>

theorem repaired_projection_reads_back:
  assumes "sound_crypto env"
    and "tb_ok projection_table (projections db)" and "r \<in> set (projections db)"
    and "pj_project_id r = u_project_id user" "pj_application_id r = a"
    and "repair_runtime_projection env r a user now db = (Inr (row, m), db')"
  shows "wire_projection_document env row = Inr (pm_document m) \<and> row \<in> set (projections db')
    \<and> json_get (pj_document row) ''verified_email'' = Some JNull"
proof -
  note rep = repair_Inr [OF assms(6) assms(2,3)]
  then have mat: "authoritative_runtime_projection_material env (Some r) a user db = Inr m"
    and row: "row_carries user m row" "same_place r row" by auto
  have "row \<in> set (projections db')"
    using rep assms(3) by (auto simp: set_set_row split: if_splits)
  with carried_wire [OF mat assms(1) row assms(4,5)] show ?thesis by blast
qed

theorem repaired_projection_reads_back_witness:
  "\<exists>row m db'. repair_runtime_projection demo_env demo_projection 2 demo_user 5 demo_projection_db
     = (Inr (row, m), db') \<and> wire_projection_document demo_env row = Inr (pm_document m)"
  using demo_repair repaired_projection_reads_back [OF demo_env_sound demo_place] by blast

text \<open>
  (C19) A repair settles the row: the public revision rises by one exactly when something an
  application can see has changed and stays otherwise, and a second repair for the same user
  finds nothing to do, so it neither writes nor moves the revision nor reports a change.
\<close>

theorem repair_is_idempotent:
  assumes "sound_crypto env"
    and "tb_ok projection_table (projections db)" and "r \<in> set (projections db)"
    and "pj_project_id r = u_project_id user" "pj_application_id r = a"
    and "repair_runtime_projection env r a user now db = (Inr (row, m), db')"
  shows "pm_revision m = pj_projection_revision r + (if pm_semantic_change m then 1 else 0)
    \<and> repair_runtime_projection env row a user later db'
      = (Inr (row, m\<lparr>pm_semantic_change := False, pm_storage_repair_required := False\<rparr>), db')"
proof (intro conjI)
  note rep = repair_Inr [OF assms(6) assms(2,3)]
  then have mat: "authoritative_runtime_projection_material env (Some r) a user db = Inr m"
    and row: "row_carries user m row" "same_place r row"
    and ids: "email_identities db' = email_identities db" by (auto split: if_splits)
  from material_Inr [OF mat]
  have "material_revision (Some r) (pm_semantic_change m) = Inr (pm_revision m)" by blast
  then show "pm_revision m = pj_projection_revision r + (if pm_semantic_change m then 1 else 0)"
    by (auto simp: material_revision_def res_simps checked_add_i64_Some split: if_splits)
  show "repair_runtime_projection env row a user later db'
      = (Inr (row, m\<lparr>pm_semantic_change := False, pm_storage_repair_required := False\<rparr>), db')"
    using carried_material [OF mat assms(1) row assms(4,5) ids]
    by (simp add: repair_runtime_projection_def m_return_def m_bind_def m_read_def)
qed


theorem repair_is_idempotent_witness:
  "\<exists>row m db'. repair_runtime_projection demo_env demo_projection 2 demo_user 5 demo_projection_db
       = (Inr (row, m), db') \<and> pm_revision m = 2
     \<and> snd (repair_runtime_projection demo_env row 2 demo_user 9 db') = db'"
proof -
  obtain row m db' where r: "repair_runtime_projection demo_env demo_projection 2 demo_user 5
      demo_projection_db = (Inr (row, m), db')" "pm_semantic_change m"
    using demo_repair by blast
  from repair_is_idempotent [OF demo_env_sound demo_place r(1), of 9] r(2)
  have "pm_revision m = 2" "snd (repair_runtime_projection demo_env row 2 demo_user 9 db') = db'"
    by (simp_all add: demo_projection_def)
  with r show ?thesis by blast
qed

section \<open>The verified email stays out of the store\<close>

lemma event_body_eq:
  "event_body event_id event_type project application user_id projection occurred_at wire = JObject
     [(''application_id'', JString application),
      (''data'', JObject [(''projection'', wire)]),
      (''event_id'', JString event_id),
      (''occurred_at'', JString occurred_at),
      (''project_id'', JString project),
      (''projection_revision'', JInt (pj_projection_revision projection)),
      (''projection_schema'', JString USER_PROJECTION_SCHEMA_V1),
      (''type'', JString event_type),
      (''user_id'', user_id),
      (''user_revision'', JInt (pj_source_user_revision projection))]"
  by (simp add: event_body_def json_object_def string_less_simps less_char_def)

lemma safe_event_body:
  "json_set_at (event_body event_id event_type project application user_id projection occurred_at
       (projection_document p created updated)) [''data'', ''projection'', ''verified_email''] JNull
   = Some (event_body event_id event_type project application user_id projection occurred_at
       (projection_document (p\<lparr>up_verified_email := None\<rparr>) created updated))"
  by (simp add: event_body_eq projection_document_eq json_opt_def)



end
