(* ===== verification/Owl_Session_Demo.thy ===== *)
theory Owl_Session_Demo
  imports Owl_Handoffs Owl_Browser_Logout Owl_Projection_Laws
begin

text \<open>
  A concrete database with one user of one application, a session with its refresh family,
  an issued handoff ticket, a login that may reuse the browser session and a logout
  interaction, together with one successful run of every operation on it.  The witnesses of
  the session properties apply the properties to these runs.
\<close>

definition demo_digest :: "string \<Rightarrow> versioned_digest" where
  "demo_digest s = \<lparr>vd_value = s, vd_key_version = 1\<rparr>"

definition demo_browser :: browser_session_row where
  "demo_browser =
     \<lparr>bs_id = 50, bs_project_id = 1, bs_user_id = 7, bs_credential_digest = ''cookie'',
      bs_credential_digest_key_version = 1, bs_status = ''active'', bs_session_revision = 1,
      bs_project_security_revision = 1, bs_user_security_revision = 1, bs_policy_session_revision = 1,
      bs_authenticated_at = 0, bs_last_activity_at = 0, bs_idle_expires_at = hours 8,
      bs_absolute_expires_at = hours 24, bs_terminated_at = None, bs_created_at = 0, bs_updated_at = 0\<rparr>"

definition demo_session :: session_row where
  "demo_session =
     \<lparr>ss_id = 70, ss_project_id = 1, ss_application_id = 2, ss_user_id = 7, ss_binding_id = 20,
      ss_browser_session_id = Some 50, ss_status = ''active'', ss_session_revision = 1,
      ss_project_security_revision = 1, ss_application_security_revision = 1,
      ss_user_security_revision = 1, ss_claims_revision = 1, ss_policy_session_revision = 1,
      ss_authenticated_at = 0, ss_absolute_expires_at = days 30, ss_revoked_at = None,
      ss_created_at = 0, ss_updated_at = 0\<rparr>"

definition demo_family :: family_row where
  "demo_family =
     \<lparr>rf_id = 71, rf_project_id = 1, rf_application_id = 2, rf_user_id = 7,
      rf_application_session_id = 70, rf_status = ''active'', rf_family_revision = 1,
      rf_current_generation = 1, rf_allowed_clock_skew_seconds = 60,
      rf_absolute_expires_at = days 30, rf_revoked_at = None, rf_revocation_reason = None,
      rf_created_at = 0, rf_updated_at = 0\<rparr>"

definition demo_generation :: generation_row where
  "demo_generation =
     \<lparr>rg_id = 72, rg_project_id = 1, rg_family_id = 71, rg_application_id = 2, rg_user_id = 7,
      rg_generation = 1, rg_token_digest = ''tok1'', rg_token_digest_key_version = 1,
      rg_status = ''current'', rg_consumed_at = None, rg_replay_detected_at = None,
      rg_retain_until = days 31, rg_created_at = 0\<rparr>"

definition demo_login :: login_row where
  "demo_login =
     \<lparr>lt_id = 60, lt_project_id = 1, lt_application_id = 2, lt_interaction_digest = ''i60'',
      lt_interaction_digest_key_version = 1, lt_status = ''handoff_issued'', lt_transaction_revision = 3,
      lt_redirect_uri = ''https://app.example/cb'', lt_application_pkce_challenge = replicate 43 (CHR ''a''),
      lt_application_state_ciphertext = ''state'', lt_application_state_key_version = 1,
      lt_presentation_hint = None, lt_browser_binding_digest = Some ''bind'',
      lt_browser_binding_digest_key_version = Some 1, lt_csrf_digest = Some ''csrf'',
      lt_csrf_digest_key_version = Some 1, lt_selected_method = None,
      lt_provider_configuration_id = None, lt_user_id = Some 7, lt_callback_url = None,
      lt_upstream_state_digest = None, lt_upstream_state_digest_key_version = None,
      lt_oidc_nonce_digest = None, lt_oidc_nonce_digest_key_version = None,
      lt_provider_pkce_ciphertext = None, lt_provider_pkce_key_version = None,
      lt_project_metadata_revision = 1, lt_project_security_revision = 1,
      lt_application_security_revision = 1, lt_provider_revision = None,
      lt_assignment_security_revision = None, lt_claims_revision = 1, lt_session_revision = 1,
      lt_authenticated_at = Some 0, lt_expires_at = minutes 10, lt_terminal_at = None,
      lt_created_at = 0, lt_updated_at = 0\<rparr>"

definition demo_ticket :: handoff_row where
  "demo_ticket =
     \<lparr>ht_id = 61, ht_project_id = 1, ht_login_transaction_id = 60, ht_application_id = 2,
      ht_user_id = 7, ht_browser_session_id = 50, ht_provider_configuration_id = None,
      ht_ticket_digest = ''tick'', ht_ticket_digest_key_version = 1, ht_status = ''issued'',
      ht_redirect_uri = ''https://app.example/cb'',
      ht_application_pkce_challenge = replicate 43 (CHR ''a''),
      ht_authentication_method = ''session_reuse'', ht_authenticated_at = 0,
      ht_project_security_revision = 1, ht_application_security_revision = 1,
      ht_user_security_revision = 1, ht_provider_revision = None,
      ht_assignment_security_revision = None, ht_claims_revision = 1,
      ht_policy_session_revision = 1, ht_issued_at = 0, ht_expires_at = seconds 60,
      ht_consumed_at = None, ht_created_at = 0\<rparr>"

definition demo_interaction :: logout_row where
  "demo_interaction =
     \<lparr>li_id = 90, li_project_id = 1, li_application_id = 2, li_user_id = 7,
      li_application_session_id = 70, li_browser_session_id = 50, li_preparation_digest = ''prep'',
      li_preparation_digest_key_version = 1, li_status = ''csrf_bound'', li_interaction_revision = 2,
      li_csrf_digest = Some ''csrf'', li_csrf_digest_key_version = Some 1,
      li_application_session_revision = 1, li_browser_session_revision = 1,
      li_expires_at = seconds 60, li_csrf_bound_at = Some 0, li_consumed_at = None,
      li_created_at = 0, li_updated_at = 0\<rparr>"

definition demo_db :: auth_db where
  "demo_db = empty_db
     \<lparr>projects := [\<lparr>p_id = 1, p_public_id = ''prj_12345678'', p_belongs_to = None,
        p_display_name = ''Demo'', p_status = ''active'', p_metadata_revision = 1,
        p_security_revision = 1, p_deletion_requested_at = None, p_created_at = 0, p_updated_at = 0\<rparr>],
      applications := [\<lparr>ap_id = 2, ap_project_id = 1, ap_public_id = ''app_12345678'',
        ap_display_name = ''App'', ap_application_type = ''web'', ap_status = ''active'', ap_revision = 1,
        ap_metadata_revision = 1, ap_security_revision = 1, ap_created_at = 0, ap_updated_at = 0\<rparr>],
      policies := [\<lparr>pol_project_id = 1, pol_claims_revision = 1, pol_session_revision = 1,
        pol_claims_policy = JObject [(''access_token_lifetime_seconds'', JInt 600)],
        pol_session_policy = JObject [(''browser_session_reuse'', JBool True),
          (''browser_session_reuse_max_age_seconds'', JInt 3600)]\<rparr>],
      key_rings := [\<lparr>kr_id = 40, kr_project_id = 1, kr_issuer = ''https://id.example'',
        kr_purpose = ''application_tokens'', kr_algorithm = ''EdDSA'', kr_revision = 1, kr_signing_epoch = 1\<rparr>],
      signing_keys := [\<lparr>sk_id = 41, sk_project_id = 1, sk_ring_id = 40, sk_kid = ''k1'', sk_public_jwk = JNull,
        sk_signer_material_id = 42, sk_signer_material_generation = 1, sk_state = ''active'',
        sk_ring_revision = 1, sk_provisioned_at = Some 0, sk_published_at = Some 0,
        sk_activated_at = Some 0, sk_sign_not_before = Some 0, sk_retiring_at = None,
        sk_verify_not_after = None, sk_maintenance_claimed_at = None, sk_retired_at = None,
        sk_revoked_at = None, sk_created_at = 0, sk_updated_at = 0\<rparr>],
      users := [demo_user\<lparr>u_primary_source_kind := ''provider''\<rparr>],
      logins := [demo_login, demo_login\<lparr>lt_id := 62, lt_interaction_digest := ''i62'',
        lt_status := ''awaiting_method_selection'', lt_user_id := None, lt_authenticated_at := None\<rparr>],
      browser_sessions := [demo_browser], tickets := [demo_ticket], logouts := [demo_interaction],
      bindings := [\<lparr>bi_id = 20, bi_project_id = 1, bi_application_id = 2, bi_user_id = 7,
        bi_status = ''active'', bi_binding_revision = 1, bi_merged_into_binding_id = None,
        bi_merged_at = None, bi_created_at = 0, bi_updated_at = 0\<rparr>],
      projections := [demo_projection\<lparr>pj_source_user_revision := 2, pj_canonical_digest := ''sha'',
        pj_document := JObject [(''verified_email'', JNull)]\<rparr>],
      app_sessions := [demo_session], families := [demo_family], generations := [demo_generation]\<rparr>"

definition demo_preparation :: refresh_preparation where
  "demo_preparation =
     \<lparr>rp_generation_id = 72, rp_family_id = 71, rp_project_public_id = ''prj_12345678'',
      rp_project_issuer = ''https://id.example'', rp_application_public_id = ''app_12345678'',
      rp_family_revision = 1, rp_generation = 1, rp_application_session_id = 70,
      rp_session_revision = 1, rp_binding_id = 20, rp_binding_revision = 1, rp_user_id = 7,
      rp_user_public_id = ''usr_12345678'', rp_user_revision = 2, rp_claims_revision = 1,
      rp_projection_revision = 1, rp_projection_document = JObject [(''verified_email'', JNull)],
      rp_signing_ring_id = 40, rp_signing_key_id = 41, rp_signing_kid = ''k1'',
      rp_signing_public_jwk = JNull, rp_signing_material_id = 42, rp_signing_epoch = 1,
      rp_access_token_lifetime_seconds = 600, rp_authenticated_at = 0,
      rp_absolute_expires_at = days 30\<rparr>"

definition demo_rotate :: "string \<Rightarrow> string \<Rightarrow> uuid \<Rightarrow> rotate_refresh" where
  "demo_rotate presented successor successor_id =
     \<lparr>rr_project_id = 1, rr_application_id = 2, rr_presented_token = demo_digest presented,
      rr_preparation = demo_preparation, rr_successor_generation_id = successor_id,
      rr_successor_token = demo_digest successor, rr_now = 100\<rparr>"

lemmas demo_defs =
  demo_login_def demo_ticket_def demo_interaction_def demo_db_def demo_digest_def demo_browser_def demo_session_def demo_family_def demo_generation_def
  demo_preparation_def demo_rotate_def demo_simps

lemmas run_simps =
  m_bind_def m_try_def m_read_def m_return_def m_fail_def m_when_def transaction_def
  db_update_def db_insert_def set_row_def Let_def bump_def checked_add_i64_def in_i64_def
  i64_min_def i64_max_def table_defs utc_add_def seconds_def minutes_def
  days_def hours_def

lemmas rotate_defs =
  rotate_refresh_token_def rotate_body_def rotate_writes_def rotation_checks_def
  check_rotation_projection_def wire_projection_document_def
  decrypted_projection_verified_email_def safe_projection_document_def
  lock_refresh_rows_def lock_refresh_owners_def route_refresh_def validate_digest_def
  digest_matches_def refresh_is_dead_def preparation_is_stale_def rotation_owners_changed_def
  owners_changed_def check_refresh_browser_def browser_is_dead_def lock_signing_epoch_def
  access_token_lifetime_def append_runtime_audit_def record_refresh_replay_def

lemma demo_rotation:
  "\<exists>db1. rotate_refresh_token demo_env (demo_rotate ''tok1'' ''tok2'' 73) demo_db demo_db
     = (Inr (Rotated 7 70 71 2 (days 30)), db1)"
  by (simp add: rotate_defs run_simps demo_defs json_opt_def) auto

text \<open>The exchange of the ticket, prepared for the stored revisions.\<close>

definition demo_document :: json where
  "demo_document = projection_document
     \<lparr>up_schema = USER_PROJECTION_SCHEMA_V1, up_user_id = ''usr_12345678'', up_status = UserActive,
      up_display_name = Some ''Ada'', up_picture_url = None, up_locale = None,
      up_verified_email = None, up_created_at = 0, up_updated_at = 0, up_user_revision = 2,
      up_projection_revision = 1\<rparr> ''now'' ''now''"

definition demo_commit :: commit_handoff where
  "demo_commit =
     \<lparr>ch_project_id = 1, ch_application_id = 2, ch_handoff_ticket = demo_digest ''tick'',
      ch_application_pkce_challenge = replicate 43 (CHR ''a''),
      ch_preparation =
        \<lparr>hp_ticket_id = 61, hp_project_public_id = ''prj_12345678'',
         hp_project_issuer = ''https://id.example'', hp_application_public_id = ''app_12345678'',
         hp_user_id = 7, hp_user_public_id = ''usr_12345678'', hp_user_revision = 2,
         hp_user_security_revision = 1, hp_project_security_revision = 1,
         hp_application_security_revision = 1, hp_claims_revision = 1, hp_session_revision = 1,
         hp_projection_revision = 1, hp_projection_document = demo_document,
         hp_signing_ring_id = 40, hp_signing_key_id = 41, hp_signing_kid = ''k1'',
         hp_signing_public_jwk = JNull, hp_signing_material_id = 42, hp_signing_epoch = 1,
         hp_access_token_lifetime_seconds = 600, hp_authenticated_at = 0\<rparr>,
      ch_binding_id = 21, ch_projection_id = 31, ch_application_session_id = 80,
      ch_refresh_family_id = 81, ch_refresh_generation_id = 82,
      ch_refresh_token = demo_digest ''tok9'', ch_allowed_clock_skew_seconds = 60, ch_now = 100\<rparr>"

lemmas commit_defs =
  commit_handoff_exchange_def commit_handoff_body_def commit_checks_def commit_owners_changed_def
  commit_writes_def commit_binding_def commit_projection_def commit_session_def commit_login_def
  select_ticket_def lock_ticket_owners_def check_ticket_provider_def find_binding_def
  find_projection_def projection_event_type_def repair_runtime_projection_def repair_row_def
  to_i32_def parse_login_status_def login_transition_def guarded_set_def from_domain_def

lemmas byte_class_defs =
  is_ascii_alphanumeric_def is_ascii_digit_def is_ascii_lowercase_def is_ascii_uppercase_def
  is_ascii_control_def byte_def

lemmas value_defs =
  public_id_parse_def profile_display_name_parse_def identity_validate_bounded_text_def
  user_revision_parse_def projection_revision_parse_def byte_class_defs

lemma demo_challenge: "is_pkce_s256_challenge (replicate 43 (CHR ''a''))"
  by (simp add: is_pkce_s256_challenge_def byte_class_defs list_all_iff)

lemma demo_exchange:
  "\<exists>r db1. commit_handoff_exchange demo_env demo_commit demo_db = (Inr r, db1)
     \<and> hs_refresh_family_id r = 81 \<and> hs_absolute_expires_at r = 100 + days 30"
  by (simp add: commit_defs demo_commit_def rotate_defs run_simps demo_defs material_defs value_defs
      demo_document_def safe_document demo_challenge)
    (simp add: commit_defs run_simps projection_document_eq json_opt_def rotate_defs material_defs
      value_defs demo_simps, auto)

text \<open>The first rotation of the exchanged session, and the replay of a rotated token.\<close>

definition demo_chain :: rotate_refresh where
  "demo_chain = (demo_rotate ''tok9'' ''tok10'' 83)
     \<lparr>rr_preparation := demo_preparation\<lparr>rp_generation_id := 82, rp_family_id := 81,
        rp_application_session_id := 80, rp_projection_document := demo_document,
        rp_absolute_expires_at := 100 + days 30\<rparr>, rr_now := 200\<rparr>"

lemma demo_exchange_then_rotation:
  "\<exists>r db1 db3. commit_handoff_exchange demo_env demo_commit demo_db = (Inr r, db1)
     \<and> hs_refresh_family_id r = 81
     \<and> rotate_refresh_token demo_env demo_chain db1 db1 = (Inr (Rotated 7 80 81 2 (100 + days 30)), db3)"
  by (simp add: commit_defs demo_commit_def rotate_defs run_simps demo_defs material_defs value_defs
      demo_document_def safe_document demo_challenge demo_chain_def)
    (simp add: commit_defs run_simps projection_document_eq json_opt_def rotate_defs material_defs
      value_defs demo_simps, auto)

lemma demo_replay:
  "\<exists>db1 db2. rotate_refresh_token demo_env (demo_rotate ''tok1'' ''tok2'' 73) demo_db demo_db
       = (Inr (Rotated 7 70 71 2 (days 30)), db1)
     \<and> rotate_refresh_token (demo_env\<lparr>env_audit_id := \<lambda>u. u + 5000\<rparr>)
         (demo_rotate ''tok1'' ''tok3'' 74) demo_db db1
       = (Inr (RotationReplayRevoked 71), db2)"
  by (simp add: rotate_defs run_simps demo_defs json_opt_def) auto

definition demo_confirm :: confirm_logout where
  "demo_confirm =
     \<lparr>cl_preparation = demo_digest ''prep'', cl_browser_credential = demo_digest ''cookie'',
      cl_csrf = demo_digest ''csrf'', cl_expected_interaction_revision = 2, cl_now = 100\<rparr>"

lemma demo_confirmation:
  "\<exists>r db1. confirm_browser_logout demo_env demo_confirm demo_db demo_db = (Inr r, db1)"
  by (simp add: confirm_browser_logout_def confirm_logout_writes_def demo_confirm_def route_logout_def lock_logout_def
      lock_logout_owners_def logout_browser_def logout_browser_is_dead_def
      optional_digest_matches_def rotate_defs run_simps demo_defs)

definition demo_reuse :: confirm_reuse where
  "demo_reuse =
     \<lparr>cr_project_id = 1, cr_transaction_id = 62, cr_expected_transaction_revision = 3,
      cr_browser_binding = demo_digest ''bind'', cr_csrf = demo_digest ''csrf'',
      cr_browser_credential = demo_digest ''cookie'', cr_handoff_id = 63,
      cr_handoff_ticket = demo_digest ''tick2'', cr_now = 100\<rparr>"

lemma demo_reused:
  "\<exists>r db1. confirm_browser_session_reuse demo_env demo_reuse demo_db demo_db = (Inr r, db1)"
  by (simp add: confirm_browser_session_reuse_def demo_reuse_def reuse_checks_def reuse_writes_def
      check_reuse_policy_def insert_handoff_def lock_login_application_owners_def
      optional_digest_matches_def commit_defs rotate_defs run_simps demo_defs)

definition demo_logout :: logout_session where
  "demo_logout =
     \<lparr>ls_project_id = 1, ls_application_id = 2, ls_user_id = 7, ls_application_session_id = 70,
      ls_now = 100\<rparr>"

lemma demo_logged_out:
  "\<exists>db1. logout_application_session demo_env demo_logout demo_db = (Inr (), db1)"
  by (simp add: logout_application_session_def revoke_session_def revoke_family_def demo_logout_def rotate_defs run_simps demo_defs)

end
