(* ===== verification/Owl_Session_Laws.thy ===== *)
theory Owl_Session_Laws
  imports Owl_Session_History Owl_Session_Demo
begin

text \<open>
  The promises of the refresh operations: a refresh token rotates once, its replay kills the
  family, the logout of an application session is final, and a chain of rotations never
  outlives the expiry its family was created with.
\<close>

section \<open>Rotation, step by step\<close>

lemma lock_refresh_rows_Inr:
  "lock_refresh_rows p a token rg rf db = Inr (session, family, generation) \<Longrightarrow>
     session \<in> set (app_sessions db) \<and> ss_id session = rf_application_session_id rf
     \<and> family \<in> set (families db) \<and> rf_id family = rf_id rf \<and> rf_project_id family = p
     \<and> generation \<in> set (generations db) \<and> rg_family_id generation = rf_id family
     \<and> rg_project_id generation = p
     \<and> rg_token_digest generation = vd_value token
     \<and> rg_token_digest_key_version generation = vd_key_version token"
  unfolding lock_refresh_rows_def
  by (auto simp: and_then_eq_Inr guard_eq_Inr digest_matches_def dest!: select_one_InrD)

text \<open>What a rotation has read and what it has written.\<close>

definition rotated_from ::
    "rotate_refresh \<Rightarrow> session_row \<Rightarrow> family_row \<Rightarrow> generation_row \<Rightarrow> auth_db \<Rightarrow> bool" where
  "rotated_from c session family generation db \<longleftrightarrow>
     session \<in> set (app_sessions db) \<and> family \<in> set (families db) \<and> generation \<in> set (generations db)
     \<and> rg_family_id generation = rf_id family
     \<and> rf_project_id family = rr_project_id c \<and> rg_project_id generation = rr_project_id c
     \<and> rg_token_digest generation = vd_value (rr_presented_token c)
     \<and> rg_token_digest_key_version generation = vd_key_version (rr_presented_token c)
     \<and> \<not> refresh_is_dead (rr_now c) session family generation"

definition successor_row ::
    "rotate_refresh \<Rightarrow> family_row \<Rightarrow> i64 \<Rightarrow> uuid \<Rightarrow> instant \<Rightarrow> generation_row" where
  "successor_row c family n user_id retain =
     \<lparr>rg_id = rr_successor_generation_id c, rg_project_id = rr_project_id c,
      rg_family_id = rf_id family, rg_application_id = rr_application_id c, rg_user_id = user_id,
      rg_generation = n, rg_token_digest = vd_value (rr_successor_token c),
      rg_token_digest_key_version = vd_key_version (rr_successor_token c),
      rg_status = ''current'', rg_consumed_at = None, rg_replay_detected_at = None,
      rg_retain_until = retain, rg_created_at = rr_now c\<rparr>"

definition consumed_row :: "instant \<Rightarrow> generation_row \<Rightarrow> generation_row" where
  "consumed_row now = (\<lambda>r. r\<lparr>rg_status := ''consumed'', rg_consumed_at := Some now\<rparr>)"

lemma rotate_Inr:
  "rotate_refresh_token env c db0 db = (Inr r, db') \<Longrightarrow>
     \<exists>rg rf. route_refresh (rr_project_id c) (rr_application_id c) (rr_presented_token c) db0 = Inr (rg, rf)
       \<and> rotate_body env c rg rf db = (Inr (Return r), db')"
  unfolding rotate_refresh_token_def
  by (auto simp: m_bind_eq m_try_eq m_fail_eq transaction_eq split: if_splits prod.splits)

lemma rotate_writes_Inr:
  assumes "rotate_writes env c session family generation user db = (Inr v, db')"
  shows "\<exists>retain rv.
     v = Return (Rotated (u_id user) (ss_id session) (rf_id family) (rg_generation generation + 1)
           (rf_absolute_expires_at family))
     \<and> generations db' = set_row rg_id (rg_id generation) (consumed_row (rr_now c)) (generations db)
          @ [successor_row c family (rg_generation generation + 1) (u_id user) retain]
     \<and> families db' = set_row rf_id (rf_id family)
          (\<lambda>r. r\<lparr>rf_current_generation := rg_generation generation + 1, rf_family_revision := rv,
                 rf_updated_at := rr_now c\<rparr>) (families db)
     \<and> tb_ok generation_table (generations db') \<and> tb_ok family_table (families db')
     \<and> app_sessions db' = app_sessions db \<and> browser_sessions db' = browser_sessions db"
  using assms unfolding rotate_writes_def append_runtime_audit_def
  by (auto simp: mut_simps bump_def res_simps checked_add_i64_Some table_sel successor_row_def
      consumed_row_def)

lemma rotate_body_cases:
  assumes "rotate_body env c rg rf db = (Inr (Return r), db')"
  shows "\<exists>session family generation.
     lock_refresh_rows (rr_project_id c) (rr_application_id c) (rr_presented_token c) rg rf db
       = Inr (session, family, generation)
     \<and> (rg_status generation = ''consumed'' \<and> r = RotationReplayRevoked (rf_id family)
          \<and> record_refresh_replay env generation family (rr_project_id c) (rr_now c) db = (Inr (), db')
        \<or> rg_status generation \<noteq> ''consumed''
          \<and> (\<exists>user. rotation_checks env c session family generation db = Inr user
               \<and> rotate_writes env c session family generation user db = (Inr (Return r), db')))"
  using assms unfolding rotate_body_def
  by (auto simp: m_bind_eq m_read_eq m_return_eq split: if_splits prod.splits)

lemma rotation_checks_Inr:
  "rotation_checks env c session family generation db = Inr user \<Longrightarrow>
     \<not> refresh_is_dead (rr_now c) session family generation
     \<and> \<not> preparation_is_stale (rr_preparation c) session family generation
     \<and> (\<exists>project application policy.
          lock_refresh_owners (rr_project_id c) (rr_application_id c) session db
            = Inr (project, application, user, policy)
          \<and> \<not> rotation_owners_changed (rr_preparation c) session project application user policy
          \<and> check_refresh_browser (rr_project_id c) (rr_now c) session project user policy db = Inr ())"
  unfolding rotation_checks_def Let_def
  by (auto simp: and_then_eq_Inr split: if_splits prod.splits)

text \<open>A successful call either rotated a live chain or ran into a consumed token.\<close>

lemma rotate_Rotated:
  assumes "rotate_refresh_token env c db0 db = (Inr (Rotated u s f n e), db')"
  shows "\<exists>session family generation user retain rv.
     rotated_from c session family generation db
     \<and> rotation_checks env c session family generation db = Inr user
     \<and> u = u_id user \<and> s = ss_id session \<and> f = rf_id family \<and> n = rg_generation generation + 1
     \<and> e = rf_absolute_expires_at family
     \<and> generations db' = set_row rg_id (rg_id generation) (consumed_row (rr_now c)) (generations db)
          @ [successor_row c family (rg_generation generation + 1) (u_id user) retain]
     \<and> families db' = set_row rf_id (rf_id family)
          (\<lambda>r. r\<lparr>rf_current_generation := rg_generation generation + 1, rf_family_revision := rv,
                 rf_updated_at := rr_now c\<rparr>)
          (families db)
     \<and> tb_ok generation_table (generations db') \<and> tb_ok family_table (families db')"
proof -
  from rotate_Inr [OF assms] obtain rg rf where
    "rotate_body env c rg rf db = (Inr (Return (Rotated u s f n e)), db')" by blast
  from rotate_body_cases [OF this] obtain session family generation user where
    rows: "lock_refresh_rows (rr_project_id c) (rr_application_id c) (rr_presented_token c) rg rf db
       = Inr (session, family, generation)"
    and chk: "rotation_checks env c session family generation db = Inr user"
    and w: "rotate_writes env c session family generation user db = (Inr (Return (Rotated u s f n e)), db')"
    by auto
  from rotation_checks_Inr [OF chk] lock_refresh_rows_Inr [OF rows]
  have "rotated_from c session family generation db" by (simp add: rotated_from_def)
  with rotate_writes_Inr [OF w] chk show ?thesis
    by (metis verdict.inject(1) refresh_rotation_result.inject(1))
qed

lemma replay_effect:
  assumes "record_refresh_replay env g f p now s = (Inr (), t)"
    and "constraints s" and "f \<in> set (families s)"
  shows "\<forall>x \<in> set (families t). rf_id x = rf_id f \<longrightarrow> rf_status x \<noteq> ''active''"
proof (cases "rf_status f = ''active''")
  case True
  with assms(1) obtain rv where
    "families t = set_row rf_id (rf_id f) (\<lambda>r. r\<lparr>rf_status := ''revoked'', rf_family_revision := rv,
       rf_revoked_at := Some now, rf_revocation_reason := Some ''replay'', rf_updated_at := now\<rparr>) (families s)"
    by (auto simp: record_refresh_replay_def append_runtime_audit_def mut_simps table_sel split: if_splits)
  then show ?thesis by (auto simp: set_set_row split: if_splits)
next
  case False
  with assms(1) have "families t = families s"
    by (auto simp: record_refresh_replay_def append_runtime_audit_def mut_simps table_sel split: if_splits)
  with False assms(2,3) show ?thesis by (auto dest: unique_family)
qed

lemma rotated_is_consumed:
  assumes "rotate_refresh_token env c db0 db = (Inr (Rotated u s f n e), db')"
  shows "\<exists>g \<in> set (generations db'). rg_status g = ''consumed'' \<and> rg_family_id g = f
     \<and> rg_token_digest g = vd_value (rr_presented_token c)
     \<and> rg_token_digest_key_version g = vd_key_version (rr_presented_token c)"
proof -
  from rotate_Rotated [OF assms] obtain session family generation tail where
    old: "rotated_from c session family generation db" and f: "f = rf_id family"
    and gens: "generations db' = set_row rg_id (rg_id generation) (consumed_row (rr_now c)) (generations db)
          @ [tail]"
    by blast
  from old have "consumed_row (rr_now c) generation \<in> set (generations db')"
    by (auto simp: gens set_set_row rotated_from_def)
  moreover from old f have "rg_status (consumed_row (rr_now c) generation) = ''consumed''"
    "rg_family_id (consumed_row (rr_now c) generation) = f"
    "rg_token_digest (consumed_row (rr_now c) generation) = vd_value (rr_presented_token c)"
    "rg_token_digest_key_version (consumed_row (rr_now c) generation) = vd_key_version (rr_presented_token c)"
    by (simp_all add: consumed_row_def rotated_from_def)
  ultimately show ?thesis by blast
qed

text \<open>A call that presents a consumed token.\<close>

lemma rotate_consumed:
  assumes "constraints db" and "g \<in> set (generations db)" and "rg_status g = ''consumed''"
    and "rg_token_digest g = vd_value (rr_presented_token c)"
    and "rg_token_digest_key_version g = vd_key_version (rr_presented_token c)"
    and "rotate_refresh_token env c db0 db = (Inr r, db')"
  shows "r = RotationReplayRevoked (rg_family_id g)
    \<and> (\<forall>x \<in> set (families db'). rf_id x = rg_family_id g \<longrightarrow> rf_status x \<noteq> ''active'')"
proof -
  from rotate_Inr [OF assms(6)] obtain rg rf where
    "rotate_body env c rg rf db = (Inr (Return r), db')" by blast
  note cases = rotate_body_cases [OF this]
  then obtain session family generation where
    rows: "lock_refresh_rows (rr_project_id c) (rr_application_id c) (rr_presented_token c) rg rf db
       = Inr (session, family, generation)" by blast
  note read = lock_refresh_rows_Inr [OF rows]
  have same: "generation = g" using read assms by (auto intro: unique_generation)
  from cases rows same assms(3)
  have r: "r = RotationReplayRevoked (rf_id family)"
    and rep: "record_refresh_replay env generation family (rr_project_id c) (rr_now c) db = (Inr (), db')"
    by auto
  from replay_effect [OF rep assms(1)] read same r show ?thesis by auto
qed

lemma prepare_body_cases:
  assumes "prepare_refresh_body env c rg rf db = (Inr (Return r), db')"
  shows "\<exists>session family generation.
     lock_refresh_rows (pr_project_id c) (pr_application_id c) (pr_presented_token c) rg rf db
       = Inr (session, family, generation)
     \<and> (rg_status generation = ''consumed'' \<and> r = PreparationReplayRevoked (rf_id family)
          \<and> record_refresh_replay env generation family (pr_project_id c) (pr_now c) db = (Inr (), db')
        \<or> rg_status generation \<noteq> ''consumed'' \<and> (\<exists>p. r = RefreshReady p)
          \<and> \<not> refresh_is_dead (pr_now c) session family generation)"
  using assms unfolding prepare_refresh_body_def
  by (auto simp: m_bind_eq m_read_eq m_return_eq m_try_eq m_fail_eq split: if_splits prod.splits)

lemma prepare_Inr:
  "prepare_refresh_rotation env c db0 db = (Inr r, db') \<Longrightarrow>
     \<exists>rg rf. prepare_refresh_body env c rg rf db = (Inr (Return r), db')"
  unfolding prepare_refresh_rotation_def
  by (auto simp: m_bind_eq m_try_eq transaction_eq split: prod.splits)

lemma prepare_consumed:
  assumes "constraints db" and "g \<in> set (generations db)" and "rg_status g = ''consumed''"
    and "rg_token_digest g = vd_value (pr_presented_token c)"
    and "rg_token_digest_key_version g = vd_key_version (pr_presented_token c)"
    and "prepare_refresh_rotation env c db0 db = (Inr r, db')"
  shows "r = PreparationReplayRevoked (rg_family_id g)
    \<and> (\<forall>x \<in> set (families db'). rf_id x = rg_family_id g \<longrightarrow> rf_status x \<noteq> ''active'')"
proof -
  from prepare_Inr [OF assms(6)] obtain rg rf where
    "prepare_refresh_body env c rg rf db = (Inr (Return r), db')" by blast
  from prepare_body_cases [OF this] obtain session family generation where
    rows: "lock_refresh_rows (pr_project_id c) (pr_application_id c) (pr_presented_token c) rg rf db
       = Inr (session, family, generation)"
    and alt: "rg_status generation = ''consumed'' \<and> r = PreparationReplayRevoked (rf_id family)
          \<and> record_refresh_replay env generation family (pr_project_id c) (pr_now c) db = (Inr (), db')
        \<or> rg_status generation \<noteq> ''consumed''" by blast
  note read = lock_refresh_rows_Inr [OF rows]
  have same: "generation = g" using read assms by (auto intro: unique_generation)
  with alt assms(3) have r: "r = PreparationReplayRevoked (rf_id family)"
    and rep: "record_refresh_replay env generation family (pr_project_id c) (pr_now c) db = (Inr (), db')"
    by auto
  from replay_effect [OF rep assms(1)] read same r show ?thesis by auto
qed

text \<open>The consumed row of a rotated token is still there in every later state.\<close>

lemma rotated_later:
  assumes "rotate_refresh_token env c db0 db = (Inr (Rotated u s f n e), db1)" and "later db1 db2"
  shows "\<exists>g \<in> set (generations db2). rg_status g = ''consumed'' \<and> rg_family_id g = f
     \<and> rg_token_digest g = vd_value (rr_presented_token c)
     \<and> rg_token_digest_key_version g = vd_key_version (rr_presented_token c)"
proof -
  from rotated_is_consumed [OF assms(1)] obtain g where
    g: "g \<in> set (generations db1)" "rg_status g = ''consumed''" "rg_family_id g = f"
      "rg_token_digest g = vd_value (rr_presented_token c)"
      "rg_token_digest_key_version g = vd_key_version (rr_presented_token c)" by blast
  from later_generation [OF assms(2) g(1)] obtain g' where
    "g' \<in> set (generations db2)" "generation_le g g'" by blast
  with g show ?thesis by (auto simp: generation_le_def)
qed

lemma rotate_step: "rotate_refresh_token env c db0 db = (r, db') \<Longrightarrow> later db db'"
  using st_rotate [of db env c db0] by (auto intro: r_into_rtranclp)

section \<open>Properties of refresh tokens\<close>

text \<open>
  (C1) A refresh token rotates at most once.  After a successful rotation, in every later
  state and whatever was done in between, any call that presents the same token and
  returns, be it a preparation or a rotation, reports the replay of that family and leaves
  the family without an active row.
\<close>

theorem refresh_token_rotates_once:
  assumes "constraints db"
    and "rotate_refresh_token env c db0 db = (Inr (Rotated u s f n e), db1)"
    and "later db1 db2"
  shows "(\<forall>env' c' db0' r db3.
       rr_presented_token c' = rr_presented_token c
       \<and> rotate_refresh_token env' c' db0' db2 = (Inr r, db3) \<longrightarrow>
         r = RotationReplayRevoked f
         \<and> (\<forall>x \<in> set (families db3). rf_id x = f \<longrightarrow> rf_status x \<noteq> ''active''))
     \<and> (\<forall>env' c' db0' r db3.
       pr_presented_token c' = rr_presented_token c
       \<and> prepare_refresh_rotation env' c' db0' db2 = (Inr r, db3) \<longrightarrow>
         r = PreparationReplayRevoked f
         \<and> (\<forall>x \<in> set (families db3). rf_id x = f \<longrightarrow> rf_status x \<noteq> ''active''))"
proof -
  from rotated_later [OF assms(2,3)] obtain g where
    g: "g \<in> set (generations db2)" "rg_status g = ''consumed''" "rg_family_id g = f"
      "rg_token_digest g = vd_value (rr_presented_token c)"
      "rg_token_digest_key_version g = vd_key_version (rr_presented_token c)" by blast
  have ok: "constraints db2"
    using rotate_step [OF assms(2)] assms(1,3) by (blast intro: later_constraints)
  show ?thesis
    using rotate_consumed [OF ok g(1,2)] prepare_consumed [OF ok g(1,2)] g(3-5) by metis
qed

lemma demo_constraints: "constraints demo_db"
  by (simp add: constraints_def table_defs demo_defs)

theorem refresh_token_rotates_once_witness:
  "constraints demo_db
   \<and> (\<exists>db1. rotate_refresh_token demo_env (demo_rotate ''tok1'' ''tok2'' 73) demo_db demo_db
          = (Inr (Rotated 7 70 71 2 (days 30)), db1)
        \<and> (\<forall>env' c' db0' r db3.
             rr_presented_token c' = demo_digest ''tok1''
             \<and> rotate_refresh_token env' c' db0' db1 = (Inr r, db3) \<longrightarrow> r = RotationReplayRevoked 71))"
proof -
  obtain db1 where rot: "rotate_refresh_token demo_env (demo_rotate ''tok1'' ''tok2'' 73) demo_db demo_db
      = (Inr (Rotated 7 70 71 2 (days 30)), db1)" using demo_rotation by blast
  have "rr_presented_token (demo_rotate ''tok1'' ''tok2'' 73) = demo_digest ''tok1''"
    by (simp add: demo_rotate_def)
  with refresh_token_rotates_once [OF demo_constraints rot rtranclp.rtrancl_refl] rot
  show ?thesis by (intro conjI demo_constraints exI [of _ db1]) auto
qed

text \<open>A family that is not active never rotates again.\<close>

lemma dead_family_is_dead:
  assumes "constraints db" and "fam \<in> set (families db)" and "rf_status fam \<noteq> ''active''"
    and "later db db1"
  shows "rotate_refresh_token env c db0 db1 \<noteq> (Inr (Rotated u s (rf_id fam) n e), db2)"
proof
  assume rot: "rotate_refresh_token env c db0 db1 = (Inr (Rotated u s (rf_id fam) n e), db2)"
  from rotate_Rotated [OF rot] obtain session family generation where
    "rotated_from c session family generation db1" "rf_id fam = rf_id family" by blast
  then have act: "family \<in> set (families db1)" "rf_status family = ''active''"
    by (auto simp: rotated_from_def refresh_is_dead_def)
  from later_family [OF assms(4,2)] obtain fam' where
    fam': "fam' \<in> set (families db1)" "family_le fam fam'" by blast
  have "constraints db1" using assms(1,4) by (blast intro: later_constraints)
  with act fam' \<open>rf_id fam = rf_id family\<close> have "family = fam'"
    by (auto intro: unique_family simp: family_le_def)
  with fam' act assms(3) show False by (auto simp: family_le_def)
qed

text \<open>What a successful preparation has read.\<close>

lemma prepare_ready:
  assumes "prepare_refresh_body env c rg rf db = (Inr (Return (RefreshReady p)), db')"
  shows "\<exists>session family generation project application user policy binding projection row
      material signing lifetime.
     lock_refresh_rows (pr_project_id c) (pr_application_id c) (pr_presented_token c) rg rf db
       = Inr (session, family, generation)
     \<and> \<not> refresh_is_dead (pr_now c) session family generation
     \<and> lock_refresh_owners (pr_project_id c) (pr_application_id c) session db
         = Inr (project, application, user, policy)
     \<and> \<not> owners_changed session project application user policy
     \<and> check_refresh_browser (pr_project_id c) (pr_now c) session project user policy db = Inr ()
     \<and> select_one bindings (\<lambda>b. bi_id b = ss_binding_id session
             \<and> bi_project_id b = pr_project_id c \<and> bi_application_id b = pr_application_id c
             \<and> bi_user_id b = u_id user) EIntegrity db = Inr binding
     \<and> bi_status binding = ''active''
     \<and> select_one projections (\<lambda>p. pj_project_id p = pr_project_id c
               \<and> pj_binding_id p = bi_id binding) EIntegrity db = Inr projection
     \<and> repair_runtime_projection env projection (ap_id application) user (pr_now c) db
         = (Inr (row, material), db')
     \<and> active_signing_snapshot (pr_project_id c) (pr_now c) db' = Inr signing
     \<and> access_token_lifetime policy = Inr lifetime
     \<and> p = refresh_preparation_of project application user policy session family generation binding
         material signing lifetime"
  using assms unfolding prepare_refresh_body_def
  by (auto simp: m_bind_eq m_read_eq m_return_eq m_try_eq m_fail_eq split: if_splits prod.splits)

lemma prepare_ready_rows:
  assumes "prepare_refresh_rotation env c db0 db = (Inr (RefreshReady p), db')"
  shows "\<exists>session family generation. session \<in> set (app_sessions db) \<and> family \<in> set (families db)
     \<and> \<not> refresh_is_dead (pr_now c) session family generation
     \<and> rp_family_id p = rf_id family \<and> rp_application_session_id p = ss_id session"
proof -
  from prepare_Inr [OF assms] obtain rg rf where
    "prepare_refresh_body env c rg rf db = (Inr (Return (RefreshReady p)), db')" by blast
  from prepare_ready [OF this] obtain session family generation where
    rows: "lock_refresh_rows (pr_project_id c) (pr_application_id c) (pr_presented_token c) rg rf db
       = Inr (session, family, generation)"
    and live: "\<not> refresh_is_dead (pr_now c) session family generation"
    and p: "rp_family_id p = rf_id family" "rp_application_session_id p = ss_id session"
    by (auto simp: refresh_preparation_of_def)
  from lock_refresh_rows_Inr [OF rows] live p show ?thesis by blast
qed

lemma dead_family_not_prepared:
  assumes "constraints db" and "fam \<in> set (families db)" and "rf_status fam \<noteq> ''active''"
    and "later db db1" and "rp_family_id p = rf_id fam"
  shows "prepare_refresh_rotation env c db0 db1 \<noteq> (Inr (RefreshReady p), db2)"
proof
  assume "prepare_refresh_rotation env c db0 db1 = (Inr (RefreshReady p), db2)"
  from prepare_ready_rows [OF this] obtain session family generation where
    act: "family \<in> set (families db1)" "rf_status family = ''active''" "rf_id fam = rf_id family"
    using assms(5) by (auto simp: refresh_is_dead_def)
  from later_family [OF assms(4,2)] obtain fam' where
    fam': "fam' \<in> set (families db1)" "family_le fam fam'" by blast
  have "constraints db1" using assms(1,4) by (blast intro: later_constraints)
  with act fam' have "family = fam'" by (auto intro: unique_family simp: family_le_def)
  with fam' act assms(3) show False by (auto simp: family_le_def)
qed

lemma replay_reported:
  assumes "constraints db" and "rotate_refresh_token env c db0 db = (Inr (RotationReplayRevoked f), db1)"
  shows "\<exists>fam \<in> set (families db1). rf_id fam = f \<and> rf_status fam \<noteq> ''active''"
proof -
  from rotate_Inr [OF assms(2)] obtain rg rf where
    "rotate_body env c rg rf db = (Inr (Return (RotationReplayRevoked f)), db1)" by blast
  note cases = rotate_body_cases [OF this]
  then obtain session family generation where
    rows: "lock_refresh_rows (rr_project_id c) (rr_application_id c) (rr_presented_token c) rg rf db
       = Inr (session, family, generation)"
    and f: "f = rf_id family"
    and rep: "record_refresh_replay env generation family (rr_project_id c) (rr_now c) db = (Inr (), db1)"
    using rotate_writes_Inr by fastforce
  from lock_refresh_rows_Inr [OF rows] have fam: "family \<in> set (families db)" by blast
  from later_family [OF rotate_step [OF assms(2)] fam] obtain fam' where
    "fam' \<in> set (families db1)" "family_le family fam'" by blast
  with replay_effect [OF rep assms(1) fam] f show ?thesis by (auto simp: family_le_def)
qed

text \<open>
  (C12) A detected replay ends the whole family: once a rotation has reported a replay, no
  token of that family is ever rotated or prepared for rotation again.
\<close>

theorem replay_ends_the_family:
  assumes "constraints db"
    and "rotate_refresh_token env c db0 db = (Inr (RotationReplayRevoked f), db1)"
    and "later db1 db2"
  shows "(\<forall>env' c' db0' u s n e db3.
            rotate_refresh_token env' c' db0' db2 \<noteq> (Inr (Rotated u s f n e), db3))
       \<and> (\<forall>env' c' db0' p db3. rp_family_id p = f \<longrightarrow>
            prepare_refresh_rotation env' c' db0' db2 \<noteq> (Inr (RefreshReady p), db3))"
proof -
  from replay_reported [OF assms(1,2)] obtain fam where
    fam: "fam \<in> set (families db1)" "rf_id fam = f" "rf_status fam \<noteq> ''active''" by blast
  have ok: "constraints db1"
    using rotate_step [OF assms(2)] assms(1) by (rule later_constraints)
  show ?thesis
    using dead_family_is_dead [OF ok fam(1,3) assms(3)]
      dead_family_not_prepared [OF ok fam(1,3) assms(3)] unfolding fam(2) by blast
qed

theorem replay_ends_the_family_witness:
  "\<exists>db1 db2. constraints db1
     \<and> rotate_refresh_token (demo_env\<lparr>env_audit_id := \<lambda>u. u + 5000\<rparr>)
         (demo_rotate ''tok1'' ''tok3'' 74) demo_db db1
         = (Inr (RotationReplayRevoked 71), db2)
     \<and> (\<forall>env' c' db0' u s n e db3.
            rotate_refresh_token env' c' db0' db2 \<noteq> (Inr (Rotated u s 71 n e), db3))"
proof -
  obtain db1 db2 where rot: "rotate_refresh_token demo_env (demo_rotate ''tok1'' ''tok2'' 73) demo_db demo_db
       = (Inr (Rotated 7 70 71 2 (days 30)), db1)"
    and rep: "rotate_refresh_token (demo_env\<lparr>env_audit_id := \<lambda>u. u + 5000\<rparr>)
         (demo_rotate ''tok1'' ''tok3'' 74) demo_db db1
       = (Inr (RotationReplayRevoked 71), db2)" using demo_replay by blast
  have ok: "constraints db1" using rotate_step [OF rot] demo_constraints by (rule later_constraints)
  from replay_ends_the_family [OF ok rep rtranclp.rtrancl_refl] ok rep show ?thesis by blast
qed

text \<open>The effect of a logout on the two rows.\<close>

lemma updated_row:
  "x \<in> set rows \<Longrightarrow> P (g x) \<Longrightarrow> \<exists>y \<in> set (set_row key (key x) g rows). P y"
  by (auto simp: set_set_row)

lemma revoke_session_effect:
  assumes "m_when (ss_status x = ''active'') (revoke_session c x) s = (Inr (), t)"
    and "x \<in> set (app_sessions s)"
  shows "(\<exists>y \<in> set (app_sessions t). ss_id y = ss_id x \<and> ss_status y \<noteq> ''active'')
    \<and> families t = families s"
  using assms
  by (auto simp: m_when_def revoke_session_def mut_simps table_sel split: if_splits intro!: updated_row)

lemma revoke_family_effect:
  assumes "m_when (rf_status f = ''active'') (revoke_family c f) s = (Inr (), t)"
    and "f \<in> set (families s)"
  shows "(\<exists>y \<in> set (families t). rf_application_session_id y = rf_application_session_id f
      \<and> rf_status y \<noteq> ''active'')
    \<and> app_sessions t = app_sessions s"
  using assms
  by (auto simp: m_when_def revoke_family_def mut_simps table_sel split: if_splits intro!: updated_row)

lemma audit_effect:
  "append_runtime_audit env p k a tk i j s = (x, t) \<Longrightarrow>
     app_sessions t = app_sessions s \<and> families t = families s
     \<and> browser_sessions t = browser_sessions s \<and> generations t = generations s \<and> tickets t = tickets s"
  by (auto simp: append_runtime_audit_def m_bind_def db_insert_def m_return_def table_sel Let_def
      split: if_splits)

lemma logout_Inr:
  assumes "logout_application_session env c db = (Inr (), db1)"
  shows "\<exists>session family db2 db3.
     session \<in> set (app_sessions db) \<and> ss_id session = ls_application_session_id c
     \<and> family \<in> set (families db) \<and> rf_application_session_id family = ls_application_session_id c
     \<and> m_when (ss_status session = ''active'') (revoke_session c session) db = (Inr (), db2)
     \<and> m_when (rf_status family = ''active'') (revoke_family c family) db2 = (Inr (), db3)
     \<and> app_sessions db1 = app_sessions db3 \<and> families db1 = families db3"
  using assms unfolding logout_application_session_def transaction_eq m_bind_eq m_read_eq Let_def
  by (auto simp: m_return_eq m_bind_eq m_when_def [of "_ \<or> _"] split: if_splits dest!: select_one_InrD audit_effect)

lemma logout_step: "logout_application_session env c db = (r, db') \<Longrightarrow> later db db'"
  using st_logout [of db env c] by (auto intro: r_into_rtranclp)

lemma logout_effect:
  assumes "logout_application_session env c db = (Inr (), db1)"
  shows "\<exists>session family. session \<in> set (app_sessions db1) \<and> ss_id session = ls_application_session_id c
     \<and> ss_status session \<noteq> ''active'' \<and> family \<in> set (families db1)
     \<and> rf_application_session_id family = ls_application_session_id c \<and> rf_status family \<noteq> ''active''"
proof -
  from logout_Inr [OF assms] obtain session family db2 db3 where
    r: "session \<in> set (app_sessions db)" "ss_id session = ls_application_session_id c"
      "family \<in> set (families db)" "rf_application_session_id family = ls_application_session_id c"
    and w: "m_when (ss_status session = ''active'') (revoke_session c session) db = (Inr (), db2)"
      "m_when (rf_status family = ''active'') (revoke_family c family) db2 = (Inr (), db3)"
    and eq: "app_sessions db1 = app_sessions db3" "families db1 = families db3" by blast
  note s = revoke_session_effect [OF w(1) r(1)]
  with r(3) have "family \<in> set (families db2)" by simp
  note f = revoke_family_effect [OF w(2) this]
  from s f r(2,4) eq show ?thesis by auto
qed

lemma dead_session_is_dead:
  assumes "constraints db" and "x \<in> set (app_sessions db)" and "ss_status x \<noteq> ''active''"
    and "later db db1" and "y \<in> set (app_sessions db1)" and "ss_id y = ss_id x"
  shows "ss_status y \<noteq> ''active''"
proof -
  from later_session [OF assms(4,2)] obtain x' where
    x': "x' \<in> set (app_sessions db1)" "session_le x x'" by blast
  have "constraints db1" using assms(1,4) by (blast intro: later_constraints)
  with assms(5,6) x' have "y = x'" by (auto intro: unique_session simp: session_le_def)
  with x' assms(3) show ?thesis by (auto simp: session_le_def)
qed

text \<open>
  (C13) Logging an application session out is final: afterwards no refresh token is rotated,
  or prepared for rotation, on behalf of that session, whatever token is presented.
\<close>

theorem application_logout_is_final:
  assumes "constraints db"
    and "logout_application_session env c db = (Inr (), db1)"
    and "later db1 db2"
  shows "(\<forall>env' c' db0' u f n e db3. rotate_refresh_token env' c' db0' db2
            \<noteq> (Inr (Rotated u (ls_application_session_id c) f n e), db3))
       \<and> (\<forall>env' c' db0' p db3. rp_application_session_id p = ls_application_session_id c \<longrightarrow>
            prepare_refresh_rotation env' c' db0' db2 \<noteq> (Inr (RefreshReady p), db3))"
proof -
  from logout_effect [OF assms(2)] obtain x where
    x: "x \<in> set (app_sessions db1)" "ss_id x = ls_application_session_id c" "ss_status x \<noteq> ''active''"
    by blast
  have ok: "constraints db1"
    using logout_step [OF assms(2)] assms(1) by (rule later_constraints)
  note dead = dead_session_is_dead [OF ok x(1,3) assms(3)]
  have "rotate_refresh_token env' c' db0' db2 \<noteq> (Inr (Rotated u (ls_application_session_id c) f n e), db3)"
    for env' c' db0' u f n e db3
    using dead x(2) rotate_Rotated [of env' c' db0' db2 u "ls_application_session_id c" f n e db3]
    unfolding rotated_from_def refresh_is_dead_def by metis
  moreover have "prepare_refresh_rotation env' c' db0' db2 \<noteq> (Inr (RefreshReady p), db3)"
    if "rp_application_session_id p = ls_application_session_id c" for env' c' db0' p db3
    using dead x(2) that prepare_ready_rows [of env' c' db0' db2 p db3]
    unfolding refresh_is_dead_def by metis
  ultimately show ?thesis by blast
qed

theorem application_logout_is_final_witness:
  "constraints demo_db
   \<and> (\<exists>db1. logout_application_session demo_env demo_logout demo_db = (Inr (), db1)
        \<and> (\<forall>env' c' db0' u f n e db3. rotate_refresh_token env' c' db0' db1
             \<noteq> (Inr (Rotated u (ls_application_session_id demo_logout) f n e), db3)))"
proof -
  obtain db1 where out: "logout_application_session demo_env demo_logout demo_db = (Inr (), db1)"
    using demo_logged_out by blast
  from application_logout_is_final [OF demo_constraints out rtranclp.rtrancl_refl] out demo_constraints
  show ?thesis by blast
qed

end
