(* ===== verification/Owl_Handoff_Laws.thy ===== *)
theory Owl_Handoff_Laws
  imports Owl_Session_Laws
begin

text \<open>
  The promises of the login side: a handoff ticket is exchanged at most once and only within
  its minute, the session it opens lives no longer than thirty days however often it is
  refreshed, and the logout of a browser session ends everything that was derived from it.
\<close>

section \<open>Statements that leave the session tables alone\<close>

definition same_sessions :: "auth_db \<Rightarrow> auth_db \<Rightarrow> bool" where
  "same_sessions s t \<longleftrightarrow>
     generations t = generations s \<and> families t = families s \<and> app_sessions t = app_sessions s
     \<and> tickets t = tickets s \<and> browser_sessions t = browser_sessions s"

interpretation same_history: history_relation same_sessions
  by unfold_locales (auto simp: same_sessions_def)

lemma same_put:
  "same_sessions s (tb_put login_table ls s)" "same_sessions s (tb_put logout_table is s)"
  "same_sessions s (tb_put binding_table bs s)" "same_sessions s (tb_put projection_table ps s)"
  "same_sessions s (tb_put event_table es s)" "same_sessions s (tb_put delivery_table ds s)"
  "same_sessions s (tb_put audit_table as s)"
  by (simp_all add: same_sessions_def table_sel)

lemma same_statements:
  "keeps same_sessions (db_update login_table k g1)" "keeps same_sessions (db_update logout_table k g2)"
  "keeps same_sessions (db_update projection_table k g3)"
  "keeps same_sessions (db_insert audit_table a)" "keeps same_sessions (db_insert logout_table l)"
  "keeps same_sessions (db_insert binding_table b)" "keeps same_sessions (db_insert projection_table p)"
  "keeps same_sessions (db_insert event_table e)" "keeps same_sessions (db_insert delivery_table d)"
  by (rule keepsI, (drule update_cases insert_cases), auto intro: same_put same_history.hr_refl)+

lemma same_dispatch: "keeps same_sessions (ensure_dispatch_state p a)"
  by (auto simp: keeps_def ensure_dispatch_state_def same_sessions_def)

lemmas same_rules =
  same_history.keeps_rules keeps_prod keeps_option same_statements same_dispatch

lemma same_audit: "keeps same_sessions (append_runtime_audit env p k a tk t i)"
  unfolding append_runtime_audit_def by (intro same_rules)

lemma same_repair: "keeps same_sessions (repair_runtime_projection env p a u now)"
  unfolding repair_runtime_projection_def by (intro same_rules)

lemma same_event: "keeps same_sessions (append_projection_event env p a b r w e)"
  unfolding append_projection_event_def Let_def by (intro same_rules)

lemma same_binding: "keeps same_sessions (commit_binding c user)"
  unfolding commit_binding_def by (intro same_rules)

lemma same_projection: "keeps same_sessions (commit_projection env c project application user binding)"
  unfolding commit_projection_def by (intro same_rules same_repair same_event)

section \<open>The exchange, step by step\<close>

lemma commit_Inr:
  assumes "commit_handoff_exchange env c db = (Inr r, db1)"
  shows "\<exists>ticket login project application user policy browser.
     select_ticket (ch_project_id c) (ch_application_id c) (ch_handoff_ticket c) db = Inr ticket
     \<and> ht_status ticket = ''issued'' \<and> ch_now c < ht_expires_at ticket
     \<and> commit_checks env c ticket db = Inr (login, project, application, user, policy, browser)
     \<and> commit_writes env c ticket login project application user policy browser db
         = (Inr (Return r), db1)"
  using assms unfolding commit_handoff_exchange_def commit_handoff_body_def
  by (auto simp: m_bind_eq m_read_eq m_return_eq m_try_eq m_fail_eq transaction_eq
      split: if_splits prod.splits)

lemma commit_writes_Inr:
  assumes "commit_writes env c ticket login project application user policy browser db
         = (Inr (Return r), db1)"
  shows "\<exists>binding db3 db4 db5. commit_session env c ticket project application user policy browser binding db3
         = (Inr (hs_absolute_expires_at r), db4)
     \<and> commit_login c ticket login db4 = (Inr (), db5)
     \<and> same_sessions db db3 \<and> same_sessions db5 db1
     \<and> hs_refresh_family_id r = ch_refresh_family_id c
     \<and> hs_application_session_id r = ch_application_session_id c"
  using assms unfolding commit_writes_def
  by (auto simp: m_bind_eq m_return_eq
      dest!: keepsD [OF same_binding] keepsD [OF same_projection] keepsD [OF same_audit])
    (blast intro: same_history.hr_trans)

lemma commit_session_Inr:
  assumes "commit_session env c ticket project application user policy browser binding db
         = (Inr absolute, db1)"
  shows "env_tadd env (ch_now c) (days 30) = Some absolute
     \<and> (\<exists>session family generation.
          app_sessions db1 = app_sessions db @ [session] \<and> families db1 = families db @ [family]
          \<and> generations db1 = generations db @ [generation]
          \<and> ss_id session = ch_application_session_id c \<and> ss_status session = ''active''
          \<and> ss_absolute_expires_at session = absolute
          \<and> ss_browser_session_id session = Some (bs_id browser)
          \<and> rf_id family = ch_refresh_family_id c \<and> rf_status family = ''active''
          \<and> rf_application_session_id family = ch_application_session_id c
          \<and> rf_absolute_expires_at family = absolute \<and> rf_current_generation family = 1
          \<and> rf_project_id family = ch_project_id c
          \<and> rg_family_id generation = ch_refresh_family_id c \<and> rg_generation generation = 1
          \<and> rg_project_id generation = ch_project_id c
          \<and> rg_status generation = ''current'')
     \<and> tickets db1 = tickets db \<and> browser_sessions db1 = browser_sessions db"
  using assms unfolding commit_session_def
  by (auto simp: mut_simps res_simps table_sel)

lemma commit_login_Inr:
  assumes "commit_login c ticket login db = (Inr (), db1)"
  shows "tickets db1 = set_row ht_id (ht_id ticket)
           (\<lambda>r. r\<lparr>ht_status := ''consumed'', ht_consumed_at := Some (ch_now c)\<rparr>) (tickets db)
     \<and> app_sessions db1 = app_sessions db \<and> families db1 = families db
     \<and> generations db1 = generations db \<and> browser_sessions db1 = browser_sessions db"
  using assms unfolding commit_login_def
  by (auto simp: m_bind_eq m_return_eq m_try_eq db_update_eq table_sel)

lemma commit_step: "commit_handoff_exchange env c db = (r, db') \<Longrightarrow> later db db'"
  using st_commit_handoff [of db env c] by (auto intro: r_into_rtranclp)

text \<open>The rows behind a successful exchange.\<close>

lemma exchange_rows:
  assumes "commit_handoff_exchange env c db = (Inr r, db1)"
  shows "\<exists>ticket session family generation.
     ticket \<in> set (tickets db) \<and> ht_status ticket = ''issued'' \<and> ch_now c < ht_expires_at ticket
     \<and> ht_ticket_digest ticket = vd_value (ch_handoff_ticket c)
     \<and> ht_ticket_digest_key_version ticket = vd_key_version (ch_handoff_ticket c)
     \<and> tickets db1 = set_row ht_id (ht_id ticket)
           (\<lambda>r. r\<lparr>ht_status := ''consumed'', ht_consumed_at := Some (ch_now c)\<rparr>) (tickets db)
     \<and> app_sessions db1 = app_sessions db @ [session] \<and> families db1 = families db @ [family]
     \<and> generations db1 = generations db @ [generation]
     \<and> env_tadd env (ch_now c) (days 30) = Some (hs_absolute_expires_at r)
     \<and> rf_id family = hs_refresh_family_id r \<and> rf_status family = ''active''
     \<and> rf_absolute_expires_at family = hs_absolute_expires_at r \<and> rf_current_generation family = 1
     \<and> rf_project_id family = ch_project_id c \<and> rg_project_id generation = ch_project_id c
     \<and> rg_family_id generation = rf_id family \<and> rg_generation generation = 1
     \<and> rg_status generation = ''current''
     \<and> ss_id session = hs_application_session_id r \<and> ss_browser_session_id session \<noteq> None"
proof -
  from commit_Inr [OF assms] obtain ticket login project application user policy browser where
    t: "select_ticket (ch_project_id c) (ch_application_id c) (ch_handoff_ticket c) db = Inr ticket"
      "ht_status ticket = ''issued''" "ch_now c < ht_expires_at ticket"
    and w: "commit_writes env c ticket login project application user policy browser db
         = (Inr (Return r), db1)" by blast
  from commit_writes_Inr [OF w] obtain binding db3 db4 db5 where
    s: "commit_session env c ticket project application user policy browser binding db3
         = (Inr (hs_absolute_expires_at r), db4)"
    and l: "commit_login c ticket login db4 = (Inr (), db5)"
    and same: "same_sessions db db3" "same_sessions db5 db1"
    and ids: "hs_refresh_family_id r = ch_refresh_family_id c"
      "hs_application_session_id r = ch_application_session_id c" by blast
  from t(1) have "ticket \<in> set (tickets db)" "ht_ticket_digest ticket = vd_value (ch_handoff_ticket c)"
     "ht_ticket_digest_key_version ticket = vd_key_version (ch_handoff_ticket c)"
    by (auto simp: select_ticket_def dest!: select_one_InrD)
  moreover from commit_session_Inr [OF s] obtain session family generation where
    "env_tadd env (ch_now c) (days 30) = Some (hs_absolute_expires_at r)"
    "app_sessions db4 = app_sessions db3 @ [session]" "families db4 = families db3 @ [family]"
    "generations db4 = generations db3 @ [generation]" "tickets db4 = tickets db3"
    "ss_id session = ch_application_session_id c" "ss_browser_session_id session = Some (bs_id browser)"
    "rf_id family = ch_refresh_family_id c" "rf_status family = ''active''"
    "rf_absolute_expires_at family = hs_absolute_expires_at r" "rf_current_generation family = 1"
    "rf_project_id family = ch_project_id c"
    "rg_family_id generation = ch_refresh_family_id c" "rg_generation generation = 1"
    "rg_project_id generation = ch_project_id c" "rg_status generation = ''current''" by blast
  ultimately show ?thesis
    using t(2,3) commit_login_Inr [OF l] same ids
    by (intro exI [of _ ticket] exI [of _ session] exI [of _ family]
        exI [of _ generation]) (auto simp: same_sessions_def)
qed

lemma exchanged_ticket:
  assumes "commit_handoff_exchange env c db = (Inr r, db1)"
  shows "\<exists>x \<in> set (tickets db1). ht_status x = ''consumed''
     \<and> ht_ticket_digest x = vd_value (ch_handoff_ticket c)
     \<and> ht_ticket_digest_key_version x = vd_key_version (ch_handoff_ticket c)"
proof -
  from exchange_rows [OF assms] obtain ticket where
    "ticket \<in> set (tickets db)" "ht_ticket_digest ticket = vd_value (ch_handoff_ticket c)"
    "ht_ticket_digest_key_version ticket = vd_key_version (ch_handoff_ticket c)"
    and t: "tickets db1 = set_row ht_id (ht_id ticket)
           (\<lambda>r. r\<lparr>ht_status := ''consumed'', ht_consumed_at := Some (ch_now c)\<rparr>) (tickets db)"
    by blast
  then show ?thesis unfolding t by (intro updated_row) simp_all
qed

text \<open>
  (C5) A handoff ticket is exchanged at most once: after a successful exchange, in every later
  state, any exchange that presents the same ticket fails.
\<close>

theorem handoff_ticket_exchanged_once:
  assumes "constraints db"
    and "commit_handoff_exchange env c db = (Inr r, db1)"
    and "later db1 db2"
  shows "\<forall>env' c' r' db3. ch_handoff_ticket c' = ch_handoff_ticket c \<longrightarrow>
           commit_handoff_exchange env' c' db2 \<noteq> (Inr r', db3)"
proof (intro allI impI notI)
  fix env' c' r' db3
  assume same: "ch_handoff_ticket c' = ch_handoff_ticket c"
    and again: "commit_handoff_exchange env' c' db2 = (Inr r', db3)"
  from exchanged_ticket [OF assms(2)] obtain x where
    x: "x \<in> set (tickets db1)" "ht_status x = ''consumed''"
      "ht_ticket_digest x = vd_value (ch_handoff_ticket c)"
      "ht_ticket_digest_key_version x = vd_key_version (ch_handoff_ticket c)" by blast
  from later_ticket [OF assms(3) x(1)] obtain x' where
    x': "x' \<in> set (tickets db2)" "ticket_le x x'" by blast
  from exchange_rows [OF again] obtain y where
    y: "y \<in> set (tickets db2)" "ht_status y = ''issued''"
      "ht_ticket_digest y = vd_value (ch_handoff_ticket c')"
      "ht_ticket_digest_key_version y = vd_key_version (ch_handoff_ticket c')" by blast
  have "constraints db2"
    using commit_step [OF assms(2)] assms(1,3) by (blast intro: later_constraints)
  with x' y x same have "y = x'" by (auto intro: unique_ticket simp: ticket_le_def)
  with x' y x show False by (auto simp: ticket_le_def)
qed

theorem handoff_ticket_exchanged_once_witness:
  "constraints demo_db
   \<and> (\<exists>r db1. commit_handoff_exchange demo_env demo_commit demo_db = (Inr r, db1)
        \<and> (\<forall>env' c' r' db3. ch_handoff_ticket c' = ch_handoff_ticket demo_commit \<longrightarrow>
             commit_handoff_exchange env' c' db1 \<noteq> (Inr r', db3)))"
proof -
  obtain r db1 where "commit_handoff_exchange demo_env demo_commit demo_db = (Inr r, db1)"
    using demo_exchange by blast
  with handoff_ticket_exchanged_once [OF demo_constraints this rtranclp.rtrancl_refl]
  show ?thesis using demo_constraints by blast
qed

text \<open>
  (C11) Refreshing never extends a session.  The session opened by an exchange ends thirty days
  after the exchange, and every rotation in its family, however late in the chain, happens
  before that instant and hands the same instant on.
\<close>

theorem rotation_never_extends_a_session:
  assumes "constraints db"
    and "commit_handoff_exchange env c db = (Inr r, db1)"
    and "later db1 db2"
    and "rotate_refresh_token env' c' db0 db2 = (Inr (Rotated u s (hs_refresh_family_id r) n e), db3)"
  shows "env_tadd env (ch_now c) (days 30) = Some e \<and> rr_now c' < e"
proof -
  from exchange_rows [OF assms(2)] obtain fam where
    fam: "fam \<in> set (families db1)" "rf_id fam = hs_refresh_family_id r"
      "rf_absolute_expires_at fam = hs_absolute_expires_at r"
    and abs: "env_tadd env (ch_now c) (days 30) = Some (hs_absolute_expires_at r)"
    by fastforce
  from rotate_Rotated [OF assms(4)] obtain session family generation where
    rot: "rotated_from c' session family generation db2" "rf_id family = hs_refresh_family_id r"
      "e = rf_absolute_expires_at family" by metis
  from later_family [OF assms(3) fam(1)] obtain fam' where
    fam': "fam' \<in> set (families db2)" "family_le fam fam'" by blast
  have "constraints db2"
    using commit_step [OF assms(2)] assms(1,3) by (blast intro: later_constraints)
  with fam fam' rot have "family = fam'"
    by (auto intro: unique_family simp: family_le_def rotated_from_def)
  with fam fam' rot abs show ?thesis
    by (auto simp: family_le_def rotated_from_def refresh_is_dead_def)
qed

theorem rotation_never_extends_a_session_witness:
  "\<exists>r db1 db3. constraints demo_db
     \<and> commit_handoff_exchange demo_env demo_commit demo_db = (Inr r, db1)
     \<and> rotate_refresh_token demo_env demo_chain db1 db1
         = (Inr (Rotated 7 80 (hs_refresh_family_id r) 2 (100 + days 30)), db3)
     \<and> env_tadd demo_env (ch_now demo_commit) (days 30) = Some (100 + days 30)
     \<and> rr_now demo_chain < 100 + days 30"
proof -
  obtain r db1 db3 where ex: "commit_handoff_exchange demo_env demo_commit demo_db = (Inr r, db1)"
    and rot: "rotate_refresh_token demo_env demo_chain db1 db1
         = (Inr (Rotated 7 80 (hs_refresh_family_id r) 2 (100 + days 30)), db3)"
    using demo_exchange_then_rotation by metis
  from rotation_never_extends_a_session [OF demo_constraints ex rtranclp.rtrancl_refl rot]
    ex rot demo_constraints show ?thesis by blast
qed

section \<open>Browser sessions\<close>

lemma confirm_Inr:
  assumes "confirm_browser_logout env c db0 db = (Inr r, db1)"
  shows "\<exists>interaction owners browser.
     interaction \<in> set (logouts db)
     \<and> li_preparation_digest interaction = vd_value (cl_preparation c)
     \<and> li_status interaction = ''csrf_bound'' \<and> cl_now c < li_expires_at interaction
     \<and> optional_digest_matches (li_csrf_digest interaction)
            (li_csrf_digest_key_version interaction) (cl_csrf c)
     \<and> logout_browser interaction (cl_browser_credential c) (cl_now c) owners db = Inr browser
     \<and> confirm_logout_writes env c interaction browser db = (Inr (Return r), db1)"
  using assms unfolding confirm_browser_logout_def lock_logout_def
  by (auto simp: m_bind_eq m_read_eq m_return_eq m_try_eq m_fail_eq transaction_eq not_le
      split: if_splits dest!: select_one_InrD)

lemma logout_browser_Inr:
  assumes "logout_browser interaction credential now owners db = Inr browser"
  shows "browser \<in> set (browser_sessions db) \<and> bs_id browser = li_browser_session_id interaction
     \<and> digest_matches (bs_credential_digest browser) (bs_credential_digest_key_version browser) credential
     \<and> bs_session_revision browser = li_browser_session_revision interaction
     \<and> \<not> logout_browser_is_dead now owners browser"
  using assms by (auto simp: logout_browser_def and_then_eq_Inr split: if_splits dest!: select_one_InrD)

lemma confirm_writes_Inr:
  assumes "confirm_logout_writes env c interaction browser db = (Inr (Return r), db1)"
    and "browser \<in> set (browser_sessions db)" and "interaction \<in> set (logouts db)" and "constraints db"
  shows "(\<exists>y \<in> set (browser_sessions db1). bs_id y = bs_id browser \<and> bs_status y = ''terminated'')
     \<and> lo_browser_session_id r = li_browser_session_id interaction"
proof -
  have "find (\<lambda>x. li_id x = li_id interaction) (logouts db) = Some interaction"
    using logout_tb.lookup [of "logouts db" interaction] assms(3,4)
    by (simp add: constraints_def table_sel)
  with assms(1,2) show ?thesis
    unfolding confirm_logout_writes_def
    by (auto simp: m_bind_eq m_return_eq m_try_eq db_update_eq table_sel browser_logout_record_def
        dest!: audit_effect intro!: updated_row)
qed

lemma confirm_step: "confirm_browser_logout env c db0 db = (r, db') \<Longrightarrow> later db db'"
  using st_confirm_logout [of db env c db0] by (auto intro: r_into_rtranclp)

lemma confirm_effect:
  assumes "constraints db" and "confirm_browser_logout env c db0 db = (Inr r, db1)"
  shows "\<exists>y \<in> set (browser_sessions db1). bs_id y = lo_browser_session_id r \<and> bs_status y = ''terminated''"
proof -
  from confirm_Inr [OF assms(2)] obtain interaction owners browser where
    "interaction \<in> set (logouts db)"
    and b: "logout_browser interaction (cl_browser_credential c) (cl_now c) owners db = Inr browser"
    and w: "confirm_logout_writes env c interaction browser db = (Inr (Return r), db1)" by blast
  with confirm_writes_Inr [OF w] logout_browser_Inr [OF b] assms(1) show ?thesis by metis
qed

lemma confirmed_browser_was_active:
  assumes "constraints db" and "confirm_browser_logout env c db0 db = (Inr r, db1)"
  shows "\<exists>x \<in> set (browser_sessions db). bs_id x = lo_browser_session_id r \<and> bs_status x = ''active''"
proof -
  from confirm_Inr [OF assms(2)] obtain i owners browser where
    "i \<in> set (logouts db)"
    and b: "logout_browser i (cl_browser_credential c) (cl_now c) owners db = Inr browser"
    and w: "confirm_logout_writes env c i browser db = (Inr (Return r), db1)" by blast
  with confirm_writes_Inr [OF w] logout_browser_Inr [OF b] assms(1) show ?thesis
    by (auto simp: logout_browser_is_dead_def browser_is_dead_def)
qed

lemma dead_browser_is_dead:
  assumes "constraints db" and "x \<in> set (browser_sessions db)" and "bs_status x = ''terminated''"
    and "later db db1" and "y \<in> set (browser_sessions db1)" and "bs_id y = bs_id x"
  shows "bs_status y = ''terminated''"
proof -
  from later_browser [OF assms(4,2)] obtain x' where
    x': "x' \<in> set (browser_sessions db1)" "browser_le x x'" by blast
  have "constraints db1" using assms(1,4) by (blast intro: later_constraints)
  with assms(5,6) x' have "y = x'" by (auto intro: unique_browser simp: browser_le_def)
  with x' assms(3) show ?thesis by (auto simp: browser_le_def)
qed

lemma domain_case_Inr:
  "(case x of (Inl (Err e), _) \<Rightarrow> Inl (Err (from_domain e)) | (Inl Panic, _) \<Rightarrow> Inl Panic
      | (Inr _, t) \<Rightarrow> k t) = Inr r \<longleftrightarrow> (\<exists>u t. x = (Inr u, t) \<and> k t = Inr r)"
  by (cases x) (auto split: sum.splits fault.splits)

lemma reuse_Inr:
  assumes "confirm_browser_session_reuse env c db0 db = (Inr h, db1)"
  shows "\<exists>b \<in> set (browser_sessions db). bs_id b = ih_browser_session_id h \<and> bs_status b = ''active''"
proof -
  from assms obtain routed login status application user session where
    chk: "reuse_checks c routed login db = Inr (status, application, user, session)"
    and w: "reuse_writes env c login status application user session db = (Inr (Return h), db1)"
    unfolding confirm_browser_session_reuse_def
    by (auto simp: m_bind_eq m_read_eq m_return_eq m_try_eq m_fail_eq transaction_eq
        split: if_splits prod.splits)
  from chk have "session \<in> set (browser_sessions db)" "bs_status session = ''active''"
    unfolding reuse_checks_def
    by (auto simp: and_then_eq_Inr domain_case_Inr dest!: select_one_InrD split: if_split_asm)
  moreover from w have "ih_browser_session_id h = bs_id session"
    unfolding reuse_writes_def Let_def
    by (auto simp: m_bind_eq m_return_eq m_fail_eq split: if_splits)
  ultimately show ?thesis by auto
qed

lemma rotation_browser_active:
  assumes "rotation_checks env c session family generation db = Inr user"
    and "ss_browser_session_id session = Some b"
  shows "\<exists>x \<in> set (browser_sessions db). bs_id x = b \<and> bs_status x = ''active''"
  using rotation_checks_Inr [OF assms(1)] assms(2)
  by (auto simp: check_refresh_browser_def browser_is_dead_def and_then_eq_Inr split: if_splits
      dest!: select_one_InrD)

text \<open>
  (C16) The confirmed logout of a browser session is final.  Afterwards the browser session
  never stands in for a login again, and no application session that was opened from it is
  refreshed.
\<close>

theorem browser_logout_is_final:
  assumes "constraints db"
    and "confirm_browser_logout env c db0 db = (Inr r, db1)"
    and "later db1 db2"
  shows "(\<forall>env' c' db0' h db3.
            confirm_browser_session_reuse env' c' db0' db2 = (Inr h, db3) \<longrightarrow>
              ih_browser_session_id h \<noteq> lo_browser_session_id r)
       \<and> (\<forall>env' c' db0' u s f n e db3.
            rotate_refresh_token env' c' db0' db2 = (Inr (Rotated u s f n e), db3) \<longrightarrow>
              (\<forall>x \<in> set (app_sessions db2). ss_id x = s \<longrightarrow>
                 ss_browser_session_id x \<noteq> Some (lo_browser_session_id r)))"
proof -
  from confirm_effect [OF assms(1,2)] obtain y where
    y: "y \<in> set (browser_sessions db1)" "bs_id y = lo_browser_session_id r" "bs_status y = ''terminated''"
    by blast
  have ok1: "constraints db1" using confirm_step [OF assms(2)] assms(1) by (rule later_constraints)
  have ok2: "constraints db2" using assms(3) ok1 by (rule later_constraints)
  have dead: "bs_status x \<noteq> ''active''"
    if "x \<in> set (browser_sessions db2)" "bs_id x = lo_browser_session_id r" for x
    using dead_browser_is_dead [OF ok1 y(1,3) assms(3) that(1)] that(2) y(2) by simp
  have "ih_browser_session_id h \<noteq> lo_browser_session_id r"
    if "confirm_browser_session_reuse env' c' db0' db2 = (Inr h, db3)" for env' c' db0' h db3
    using reuse_Inr [OF that] dead by metis
  moreover have "ss_browser_session_id x \<noteq> Some (lo_browser_session_id r)"
    if rot: "rotate_refresh_token env' c' db0' db2 = (Inr (Rotated u s f n e), db3)"
      and x: "x \<in> set (app_sessions db2)" "ss_id x = s" for env' c' db0' u s f n e db3 x
  proof
    assume b: "ss_browser_session_id x = Some (lo_browser_session_id r)"
    from rotate_Rotated [OF rot] obtain session family generation user where
      "rotated_from c' session family generation db2" "s = ss_id session"
      and chk: "rotation_checks env' c' session family generation db2 = Inr user" by blast
    with x ok2 have "session = x" by (auto intro: unique_session simp: rotated_from_def)
    with rotation_browser_active [OF chk] b dead show False by blast
  qed
  ultimately show ?thesis by blast
qed

theorem browser_logout_is_final_witness:
  "constraints demo_db
   \<and> (\<exists>r db1. confirm_browser_logout demo_env demo_confirm demo_db demo_db = (Inr r, db1)
        \<and> (\<forall>env' c' db0' h db3.
            confirm_browser_session_reuse env' c' db0' db1 = (Inr h, db3) \<longrightarrow>
              ih_browser_session_id h \<noteq> lo_browser_session_id r))"
proof -
  obtain r db1 where out: "confirm_browser_logout demo_env demo_confirm demo_db demo_db = (Inr r, db1)"
    using demo_confirmation by blast
  from browser_logout_is_final [OF demo_constraints out rtranclp.rtrancl_refl] out demo_constraints
  show ?thesis by blast
qed

text \<open>
  (C17) A browser session is logged out only by the browser that holds it: the confirmation
  succeeds only for an unexpired interaction, with the CSRF secret the browser was bound to,
  with the credential of the very browser session, and only once.
\<close>

theorem browser_logout_needs_its_browser:
  assumes "constraints db" and "confirm_browser_logout env c db0 db = (Inr r, db1)"
  shows "(\<exists>i \<in> set (logouts db). li_status i = ''csrf_bound'' \<and> cl_now c < li_expires_at i
            \<and> li_browser_session_id i = lo_browser_session_id r
            \<and> li_csrf_digest i = Some (vd_value (cl_csrf c))
            \<and> li_csrf_digest_key_version i = Some (vd_key_version (cl_csrf c)))
       \<and> (\<exists>b \<in> set (browser_sessions db). bs_id b = lo_browser_session_id r \<and> bs_status b = ''active''
            \<and> bs_credential_digest b = vd_value (cl_browser_credential c)
            \<and> bs_credential_digest_key_version b = vd_key_version (cl_browser_credential c)
            \<and> cl_now c < bs_idle_expires_at b \<and> cl_now c < bs_absolute_expires_at b)
       \<and> (\<forall>env' c' db0' r' db2. confirm_browser_logout env' c' db0' db1 = (Inr r', db2) \<longrightarrow>
            lo_browser_session_id r' \<noteq> lo_browser_session_id r)"
proof -
  from confirm_Inr [OF assms(2)] obtain i owners browser where
    i: "i \<in> set (logouts db)" "li_status i = ''csrf_bound''" "cl_now c < li_expires_at i"
       "optional_digest_matches (li_csrf_digest i) (li_csrf_digest_key_version i) (cl_csrf c)"
    and b: "logout_browser i (cl_browser_credential c) (cl_now c) owners db = Inr browser"
    and w: "confirm_logout_writes env c i browser db = (Inr (Return r), db1)" by blast
  note b = logout_browser_Inr [OF b]
  with confirm_writes_Inr [OF w _ i(1) assms(1)] have
    r: "lo_browser_session_id r = li_browser_session_id i" by blast
  have once: "lo_browser_session_id r' \<noteq> lo_browser_session_id r"
    if again: "confirm_browser_logout env' c' db0' db1 = (Inr r', db2)" for env' c' db0' r' db2
  proof -
    have ok1: "constraints db1" using confirm_step [OF assms(2)] assms(1) by (rule later_constraints)
    from confirmed_browser_was_active [OF ok1 again] obtain x where
      "x \<in> set (browser_sessions db1)" "bs_id x = lo_browser_session_id r'" "bs_status x = ''active''"
      by blast
    moreover from confirm_effect [OF assms] obtain y where
      "y \<in> set (browser_sessions db1)" "bs_id y = lo_browser_session_id r" "bs_status y = ''terminated''"
      by blast
    ultimately show ?thesis using unique_browser [OF ok1, of x y] by auto
  qed
  from i r b once show ?thesis
    by (auto simp: optional_digest_matches_def digest_matches_def logout_browser_is_dead_def
        browser_is_dead_def not_le split: option.splits)
qed

theorem browser_logout_needs_its_browser_witness:
  "constraints demo_db
   \<and> (\<exists>r db1. confirm_browser_logout demo_env demo_confirm demo_db demo_db = (Inr r, db1)
        \<and> (\<exists>b \<in> set (browser_sessions demo_db). bs_id b = lo_browser_session_id r
             \<and> bs_credential_digest b = vd_value (cl_browser_credential demo_confirm)))"
proof -
  obtain r db1 where out: "confirm_browser_logout demo_env demo_confirm demo_db demo_db = (Inr r, db1)"
    using demo_confirmation by blast
  from browser_logout_needs_its_browser [OF demo_constraints out] out demo_constraints
  show ?thesis by blast
qed

end
