(* ===== verification/Owl_Refresh_Chain.thy ===== *)
theory Owl_Refresh_Chain
  imports Owl_Handoff_Laws
begin

text \<open>
  The shape of the refresh tables in every reachable state: the generations of a family are
  numbered without gaps, the newest one is current and every older one is consumed.  The
  invariant is kept by every operation, and with it a prepared rotation can be carried out.
\<close>

section \<open>The invariant\<close>

definition chain_link :: "family_row \<Rightarrow> generation_row \<Rightarrow> bool" where
  "chain_link f g \<longleftrightarrow>
     rf_id f = rg_family_id g \<and> rf_project_id f = rg_project_id g
     \<and> rg_status g = (if rg_generation g = rf_current_generation f then ''current'' else ''consumed'')"

definition refresh_chains :: "auth_db \<Rightarrow> bool" where
  "refresh_chains db \<longleftrightarrow>
     (\<forall>g \<in> set (generations db). \<exists>f \<in> set (families db). chain_link f g)
     \<and> (\<forall>f \<in> set (families db). 1 \<le> rf_current_generation f
          \<and> rg_generation ` {g \<in> set (generations db). rg_family_id g = rf_id f}
              = {1 .. rf_current_generation f})"

section \<open>Operations that leave the chains alone\<close>

definition generation_shape :: "generation_row \<Rightarrow> uuid \<times> uuid \<times> i64 \<times> string" where
  "generation_shape g = (rg_project_id g, rg_family_id g, rg_generation g, rg_status g)"

definition family_shape :: "family_row \<Rightarrow> uuid \<times> uuid \<times> i64" where
  "family_shape f = (rf_project_id f, rf_id f, rf_current_generation f)"

definition same_chains :: "auth_db \<Rightarrow> auth_db \<Rightarrow> bool" where
  "same_chains s t \<longleftrightarrow>
     map generation_shape (generations t) = map generation_shape (generations s)
     \<and> map family_shape (families t) = map family_shape (families s)"

interpretation chain_history: history_relation same_chains
  by unfold_locales (auto simp: same_chains_def)

lemma refresh_chains_shape:
  "refresh_chains db \<longleftrightarrow>
     (\<forall>(p, i, n, st) \<in> generation_shape ` set (generations db).
        \<exists>(q, j, m) \<in> family_shape ` set (families db). j = i \<and> q = p
          \<and> st = (if n = m then ''current'' else ''consumed''))
     \<and> (\<forall>(q, j, m) \<in> family_shape ` set (families db). 1 \<le> m
          \<and> (\<lambda>(p, i, n, st). n) ` {(p, i, n, st) \<in> generation_shape ` set (generations db). i = j}
              = {1 .. m})"
proof -
  have "(\<lambda>(p, i, n, st). n) ` {(p, i, n, st) \<in> generation_shape ` G. i = j}
      = rg_generation ` {g \<in> G. rg_family_id g = j}" for G j
    by (force simp: generation_shape_def image_iff)
  then show ?thesis
    by (auto simp: refresh_chains_def chain_link_def generation_shape_def family_shape_def)
qed

lemma same_chains_keep:
  assumes "same_chains s t" and "refresh_chains s"
  shows "refresh_chains t"
proof -
  have "generation_shape ` set (generations t) = generation_shape ` set (generations s)"
    "family_shape ` set (families t) = family_shape ` set (families s)"
    using assms(1) unfolding same_chains_def by (metis set_map)+
  with assms(2) show ?thesis by (simp only: refresh_chains_shape)
qed

lemma same_put_chains:
  "same_chains s (tb_put login_table ls s)" "same_chains s (tb_put logout_table is s)"
  "same_chains s (tb_put binding_table bs s)" "same_chains s (tb_put projection_table ps s)"
  "same_chains s (tb_put event_table es s)" "same_chains s (tb_put delivery_table ds s)"
  "same_chains s (tb_put audit_table as s)" "same_chains s (tb_put session_table ss s)"
  "same_chains s (tb_put handoff_table hs s)" "same_chains s (tb_put browser_session_table ws s)"
  by (simp_all add: same_chains_def table_sel)

lemma chain_statements:
  "keeps same_chains (db_update login_table k g1)" "keeps same_chains (db_update logout_table k g2)"
  "keeps same_chains (db_update projection_table k g3)" "keeps same_chains (db_update session_table k g4)"
  "keeps same_chains (db_update handoff_table k g5)"
  "keeps same_chains (db_update browser_session_table k g6)"
  "keeps same_chains (db_insert audit_table a)" "keeps same_chains (db_insert logout_table l)"
  "keeps same_chains (db_insert binding_table b)" "keeps same_chains (db_insert projection_table p)"
  "keeps same_chains (db_insert event_table e)" "keeps same_chains (db_insert delivery_table d)"
  "keeps same_chains (db_insert handoff_table h)" "keeps same_chains (db_insert browser_session_table w)"
  by (rule keepsI, (drule update_cases insert_cases), auto intro: same_put_chains chain_history.hr_refl)+

lemma chain_update_family:
  "(\<And>r. family_shape (g r) = family_shape r) \<Longrightarrow> keeps same_chains (db_update family_table k g)"
  by (rule keepsI, drule update_cases) (auto simp: same_chains_def table_sel map_set_row)

lemma chain_update_generation:
  "(\<And>r. generation_shape (g r) = generation_shape r) \<Longrightarrow> keeps same_chains (db_update generation_table k g)"
  by (rule keepsI, drule update_cases) (auto simp: same_chains_def table_sel map_set_row)

lemma chain_dispatch: "keeps same_chains (ensure_dispatch_state p a)"
  by (auto simp: keeps_def ensure_dispatch_state_def same_chains_def)

lemmas chain_rules =
  chain_history.keeps_rules keeps_prod keeps_option chain_statements chain_dispatch
  chain_update_family chain_update_generation

lemma chain_audit: "keeps same_chains (append_runtime_audit env p k a tk t i)"
  unfolding append_runtime_audit_def by (intro chain_rules)

lemma chain_replay: "keeps same_chains (record_refresh_replay env g f p now)"
  unfolding record_refresh_replay_def
  by (intro chain_rules chain_audit) (simp_all add: family_shape_def generation_shape_def)

lemma chain_prepare: "keeps same_chains (prepare_refresh_rotation env c db0)"
  unfolding prepare_refresh_rotation_def prepare_refresh_body_def repair_runtime_projection_def
  by (intro chain_rules chain_replay)

lemma chain_logout: "keeps same_chains (logout_application_session env c)"
  unfolding logout_application_session_def revoke_session_def revoke_family_def Let_def
  by (intro chain_rules chain_audit) (simp_all add: family_shape_def)

lemma chain_prepare_logout: "keeps same_chains (prepare_browser_logout env c)"
  unfolding prepare_browser_logout_def Let_def by (intro chain_rules chain_audit)

lemma chain_expire_logout: "keeps same_chains (expire_browser_logout env i now)"
  unfolding expire_browser_logout_def by (intro chain_rules chain_audit)

lemma chain_bind_logout: "keeps same_chains (bind_browser_logout env c db0)"
  unfolding bind_browser_logout_def by (intro chain_rules chain_expire_logout chain_audit)

lemma chain_confirm_logout: "keeps same_chains (confirm_browser_logout env c db0)"
  unfolding confirm_browser_logout_def confirm_logout_writes_def
  by (intro chain_rules chain_expire_logout chain_audit)

lemma chain_recover: "keeps same_chains (recover_abandoned_provider_exchanges env c locked)"
  unfolding recover_abandoned_provider_exchanges_def fail_exchange_def
  by (intro chain_rules chain_audit)

lemma chain_reuse: "keeps same_chains (confirm_browser_session_reuse env c db0)"
  unfolding confirm_browser_session_reuse_def reuse_writes_def insert_handoff_def expire_login_def Let_def
  by (intro chain_rules chain_audit)

lemma chain_prepare_handoff: "keeps same_chains (prepare_handoff_exchange env c)"
  unfolding prepare_handoff_exchange_def by (intro chain_rules)

lemma chain_browser: "keeps same_chains (rotate_or_create_browser_session env c)"
  unfolding rotate_or_create_browser_session_def rotate_browser_session_def
    terminate_browser_session_def create_browser_session_def
  by (intro chain_rules)

lemma chain_expire_ticket: "keeps same_chains (expire_ticket env c ticket)"
  unfolding expire_ticket_def by (intro chain_rules chain_audit)

lemma chain_administrative:
  assumes "administrative s t"
  shows "same_chains s t"
proof -
  have "list_all2 (\<lambda>f f'. family_le f f' \<and> rf_current_generation f' = rf_current_generation f)
         (families s) (families t)" using assms by (simp add: administrative_def)
  then have "map family_shape (families t) = map family_shape (families s)"
    by (induction rule: list_all2_induct) (auto simp: family_shape_def family_le_def)
  with assms show ?thesis by (simp add: same_chains_def administrative_def)
qed

section \<open>A rotation adds one link\<close>

lemma set_row_unique:
  assumes "distinct (map key rows)" and "x \<in> set rows"
  shows "set (set_row key (key x) g rows) = insert (g x) (set rows - {x})"
proof -
  have "(if key r = key x then g r else r) = (if r = x then g x else r)" if "r \<in> set rows" for r
    using assms that by (auto simp: distinct_map dest: inj_onD)
  then have "set (set_row key (key x) g rows) = (\<lambda>r. if r = x then g x else r) ` set rows"
    unfolding set_set_row by (rule image_cong [OF refl])
  with assms(2) show ?thesis by auto
qed

lemma generation_number_unique:
  "constraints db \<Longrightarrow> g \<in> set (generations db) \<Longrightarrow> g' \<in> set (generations db)
   \<Longrightarrow> rg_project_id g = rg_project_id g' \<Longrightarrow> rg_family_id g = rg_family_id g'
   \<Longrightarrow> rg_generation g = rg_generation g' \<Longrightarrow> g = g'"
  by (auto simp: constraints_def generation_table_def distinct_map dest: inj_onD)

lemma refresh_ids_distinct:
  "constraints db \<Longrightarrow> distinct (map rg_id (generations db)) \<and> distinct (map rf_id (families db))"
  by (simp add: constraints_def generation_table_def family_table_def)

lemma chains_add_link:
  assumes ok: "constraints db" and inv: "refresh_chains db"
    and F: "F \<in> set (families db)" and G: "G \<in> set (generations db)"
    and link: "rg_family_id G = rf_id F" "rg_generation G = rf_current_generation F"
      "rg_project_id G = rf_project_id F"
    and gens: "set (generations db') = insert S (insert C (set (generations db) - {G}))"
    and fams: "set (families db') = insert F' (set (families db) - {F})"
    and C: "generation_shape C = (rg_project_id G, rg_family_id G, rg_generation G, ''consumed'')"
    and S: "generation_shape S = (rg_project_id G, rg_family_id G, rg_generation G + 1, ''current'')"
    and F': "family_shape F' = (rf_project_id F, rf_id F, rf_current_generation F + 1)"
  shows "refresh_chains db'"
proof -
  note shape = generation_shape_def family_shape_def
  have inF: "rg_generation ` {g \<in> set (generations db). rg_family_id g = rf_id F}
      = {1 .. rf_current_generation F}" and pos: "1 \<le> rf_current_generation F"
    using inv F by (auto simp: refresh_chains_def)
  have le: "rg_generation g \<le> rf_current_generation F"
    if "g \<in> set (generations db)" "rg_family_id g = rf_id F" for g
    using inF that by auto
  have "\<exists>f \<in> set (families db'). chain_link f g" if "g \<in> set (generations db')" for g
  proof (cases "g = S \<or> g = C")
    case True
    then have "chain_link F' g" using C S F' link by (auto simp: chain_link_def shape)
    then show ?thesis by (auto simp: fams)
  next
    case False
    with that have g: "g \<in> set (generations db)" "g \<noteq> G" by (auto simp: gens)
    then obtain f where f: "f \<in> set (families db)" "chain_link f g"
      using inv by (auto simp: refresh_chains_def)
    show ?thesis
    proof (cases "f = F")
      case True
      with f g have "rg_generation g \<noteq> rf_current_generation F"
        using generation_number_unique [OF ok g(1) G] link by (auto simp: chain_link_def)
      with True f le [OF g(1)] have "chain_link F' g" using F' by (auto simp: chain_link_def shape)
      then show ?thesis by (auto simp: fams)
    qed (use f in \<open>auto simp: fams\<close>)
  qed
  moreover have "1 \<le> rf_current_generation f
      \<and> rg_generation ` {g \<in> set (generations db'). rg_family_id g = rf_id f} = {1 .. rf_current_generation f}"
    if "f \<in> set (families db')" for f
  proof (cases "f = F'")
    case True
    have "{g \<in> set (generations db'). rg_family_id g = rf_id F'}
        = insert S (insert C ({g \<in> set (generations db). rg_family_id g = rf_id F} - {G}))"
      using C S F' link by (auto simp: gens shape)
    then have "rg_generation ` {g \<in> set (generations db'). rg_family_id g = rf_id F'}
        = insert (rg_generation G + 1) (rg_generation ` {g \<in> set (generations db). rg_family_id g = rf_id F})"
      using C S G link by (auto simp: shape image_iff) metis
    with True inF pos F' link show ?thesis by (auto simp: shape)
  next
    case False
    with that have f: "f \<in> set (families db)" "f \<noteq> F" by (auto simp: fams)
    then have "rf_id f \<noteq> rf_id F" using unique_family [OF ok _ F] by blast
    with C S link have "{g \<in> set (generations db'). rg_family_id g = rf_id f}
        = {g \<in> set (generations db). rg_family_id g = rf_id f}" by (auto simp: gens shape)
    with inv f show ?thesis by (simp add: refresh_chains_def)
  qed
  ultimately show ?thesis by (simp add: refresh_chains_def)
qed

lemma rotate_Inl:
  "rotate_refresh_token env c db0 db = (Inl f, db') \<Longrightarrow> db' = db"
  unfolding rotate_refresh_token_def rotate_body_def rotate_writes_def
  by (auto simp: m_bind_eq m_try_eq m_fail_eq m_read_eq m_return_eq transaction_eq
      split: if_split_asm prod.split_asm)

lemma rotate_replay:
  assumes "rotate_refresh_token env c db0 db = (Inr (RotationReplayRevoked f), db')"
  shows "\<exists>family generation. family \<in> set (families db) \<and> generation \<in> set (generations db)
     \<and> f = rf_id family \<and> rg_family_id generation = f \<and> rg_status generation = ''consumed''
     \<and> rg_token_digest generation = vd_value (rr_presented_token c)
     \<and> rg_token_digest_key_version generation = vd_key_version (rr_presented_token c)
     \<and> record_refresh_replay env generation family (rr_project_id c) (rr_now c) db = (Inr (), db')"
proof -
  from rotate_Inr [OF assms] obtain rg rf where
    "rotate_body env c rg rf db = (Inr (Return (RotationReplayRevoked f)), db')" by blast
  from rotate_body_cases [OF this] obtain session family generation where
    rows: "lock_refresh_rows (rr_project_id c) (rr_application_id c) (rr_presented_token c) rg rf db
       = Inr (session, family, generation)" and "f = rf_id family" "rg_status generation = ''consumed''"
    and "record_refresh_replay env generation family (rr_project_id c) (rr_now c) db = (Inr (), db')"
    using rotate_writes_Inr by fastforce
  with lock_refresh_rows_Inr [OF rows] show ?thesis by blast
qed

lemma rotate_chains:
  assumes "constraints db" and "refresh_chains db" and "rotate_refresh_token env c db0 db = (x, db')"
  shows "refresh_chains db'"
proof (cases x)
  case Inl
  with assms(3) have "db' = db" using rotate_Inl by blast
  with assms(2) show ?thesis by simp
next
  case (Inr r)
  show ?thesis
  proof (cases r)
    case (RotationReplayRevoked f)
    with rotate_replay [of env c db0 db f db'] Inr assms(3) obtain g fam where
      "record_refresh_replay env g fam (rr_project_id c) (rr_now c) db = (Inr (), db')" by blast
    from keepsD [OF chain_replay this] assms(2) show ?thesis by (rule same_chains_keep)
  next
    case (Rotated u s f n e)
    with Inr assms(3) have rot: "rotate_refresh_token env c db0 db = (Inr (Rotated u s f n e), db')" by simp
    from rotate_Rotated [OF rot] obtain session F G and user :: user_row and retain rv where
      old: "rotated_from c session F G db"
      and gens: "generations db' = set_row rg_id (rg_id G) (consumed_row (rr_now c)) (generations db)
          @ [successor_row c F (rg_generation G + 1) (u_id user) retain]"
      and fams: "families db' = set_row rf_id (rf_id F)
          (\<lambda>r. r\<lparr>rf_current_generation := rg_generation G + 1, rf_family_revision := rv,
                 rf_updated_at := rr_now c\<rparr>) (families db)" by blast
    note ids = refresh_ids_distinct [OF assms(1)]
    show ?thesis
    proof (rule chains_add_link [OF assms(1,2), of F G])
      show "set (generations db') = insert (successor_row c F (rg_generation G + 1) (u_id user) retain)
          (insert (consumed_row (rr_now c) G) (set (generations db) - {G}))"
        using ids old by (simp add: gens set_row_unique rotated_from_def)
      show "set (families db') = insert (F\<lparr>rf_current_generation := rg_generation G + 1,
          rf_family_revision := rv, rf_updated_at := rr_now c\<rparr>) (set (families db) - {F})"
        using ids old by (simp add: fams set_row_unique rotated_from_def)
    qed (use old in \<open>auto simp: rotated_from_def refresh_is_dead_def consumed_row_def successor_row_def
        generation_shape_def family_shape_def\<close>)
  qed
qed

section \<open>An exchange starts a chain\<close>

lemma chains_start:
  assumes inv: "refresh_chains db"
    and gens: "generations db' = generations db @ [G]" and fams: "families db' = families db @ [F]"
    and ok: "constraints db'"
    and link: "chain_link F G" "rg_generation G = 1" "rf_current_generation F = 1"
  shows "refresh_chains db'"
proof -
  have new: "rf_id f \<noteq> rf_id F" if "f \<in> set (families db)" for f
    using refresh_ids_distinct [OF ok] that by (auto simp: fams image_iff)
  have none: "rg_family_id g \<noteq> rf_id F" if "g \<in> set (generations db)" for g
    using inv that new by (fastforce simp: refresh_chains_def chain_link_def)
  have "{g \<in> set (generations db'). rg_family_id g = rf_id F} = {G}"
    using none link by (auto simp: gens chain_link_def)
  moreover have "{g \<in> set (generations db'). rg_family_id g = rf_id f}
      = {g \<in> set (generations db). rg_family_id g = rf_id f}" if "f \<in> set (families db)" for f
    using new [OF that] link by (auto simp: gens chain_link_def)
  ultimately show ?thesis
    using inv link by (auto simp: refresh_chains_def gens fams)
qed

lemma commit_chains:
  assumes "constraints db" and "refresh_chains db" and "commit_handoff_exchange env c db = (x, db')"
  shows "refresh_chains db'"
proof (cases x)
  case Inl
  with assms(3) have "db' = db \<or> (\<exists>ticket. expire_ticket env c ticket db = (Inr (), db'))"
    unfolding commit_handoff_exchange_def commit_handoff_body_def commit_writes_def
    by (auto simp: m_bind_eq m_try_eq m_fail_eq m_read_eq m_return_eq transaction_eq
        split: if_split_asm prod.split_asm)
  then show ?thesis
    using assms(2) by (auto dest: keepsD [OF chain_expire_ticket] intro: same_chains_keep)
next
  case (Inr r)
  with assms(3) have ex: "commit_handoff_exchange env c db = (Inr r, db')" by simp
  have ok: "constraints db'" using commit_step [OF ex] assms(1) by (rule later_constraints)
  from exchange_rows [OF ex] obtain F G where
    "families db' = families db @ [F]" "generations db' = generations db @ [G]"
    "chain_link F G" "rg_generation G = 1" "rf_current_generation F = 1"
    by (auto simp: chain_link_def)
  with assms(2) ok show ?thesis by (auto intro: chains_start)
qed

section \<open>Every history\<close>

lemma chain_family:
  assumes "constraints db" and "refresh_chains db" and "f \<in> set (families db)"
    and "g \<in> set (generations db)" and "rg_family_id g = rf_id f"
  shows "chain_link f g"
proof -
  from assms(2,4) obtain f' where "f' \<in> set (families db)" "chain_link f' g"
    by (auto simp: refresh_chains_def)
  moreover from this assms(1,3,5) have "f' = f" by (auto intro: unique_family simp: chain_link_def)
  ultimately show ?thesis by simp
qed

lemma current_generation_unique:
  assumes "constraints db" and "refresh_chains db" and f: "f \<in> set (families db)"
  shows "\<exists>!g. g \<in> set (generations db) \<and> rg_family_id g = rf_id f \<and> rg_status g = ''current''"
proof -
  have "rf_current_generation f \<in> rg_generation ` {g \<in> set (generations db). rg_family_id g = rf_id f}"
    using assms(2) f by (auto simp: refresh_chains_def)
  then obtain g where g: "g \<in> set (generations db)" "rg_family_id g = rf_id f"
    "rg_generation g = rf_current_generation f" by auto
  note link = chain_family [OF assms]
  show ?thesis
  proof (rule ex1I [of _ g])
    show "g \<in> set (generations db) \<and> rg_family_id g = rf_id f \<and> rg_status g = ''current''"
      using g link [OF g(1,2)] by (auto simp: chain_link_def)
    show "h = g" if "h \<in> set (generations db) \<and> rg_family_id h = rf_id f \<and> rg_status h = ''current''" for h
      using that g link [of h] link [of g] generation_number_unique [OF assms(1), of h g]
      by (auto simp: chain_link_def split: if_splits)
  qed
qed

lemma same_identity_chains:
  "same_chains s (tb_put callback_owner_table r1 s)" "same_chains s (tb_put user_table r2 s)"
  "same_chains s (tb_put identity_table r3 s)" "same_chains s (tb_put connection_table r4 s)"
  "same_chains s (tb_put renewal_table r5 s)" "same_chains s (tb_put challenge_table r6 s)"
  "same_chains s (tb_put outbox_table r7 s)" "same_chains s (tb_put transfer_table r8 s)"
  "same_chains s (tb_put email_identity_table r9 s)" "same_chains s (tb_put method_table r10 s)"
  "same_chains s (tb_put alias_table r11 s)" "same_chains s (tb_put email_snapshot_table r12 s)"
  "same_chains s (tb_put credential_table r13 s)"
  by (simp_all add: same_chains_def table_sel)

text \<open>No login or email method touches a family or a generation.\<close>

interpretation chain_frame: database_frame same_chains
  by unfold_locales (auto intro: same_identity_chains same_put_chains chain_dispatch chain_statements
      chain_browser)

lemmas chain_operations =
  chain_prepare chain_logout chain_prepare_logout chain_bind_logout chain_confirm_logout chain_reuse
  chain_prepare_handoff chain_recover chain_browser chain_frame.frame_operations

lemma keeps_chains: "keeps same_chains m \<Longrightarrow> refresh_chains s \<Longrightarrow> refresh_chains (snd (m s))"
  by (auto simp: keeps_def intro: same_chains_keep)

lemma step_chains:
  assumes "authority_step s t" and "constraints s" and "refresh_chains s"
  shows "refresh_chains t"
  using assms
proof (induction rule: authority_step.induct)
  case (st_rotate s env2 c2 db0)
  then show ?case using rotate_chains [of s env2 c2 db0] by (metis prod.collapse)
next
  case (st_commit_handoff s env9 c9)
  then show ?case using commit_chains [of s env9 c9] by (metis prod.collapse)
qed (blast intro: keeps_chains chain_operations same_chains_keep chain_administrative)+


lemma demo_chains: "refresh_chains demo_db"
proof -
  have tables: "generations demo_db = [demo_generation]" "families demo_db = [demo_family]"
    by (simp_all add: demo_db_def)
  have one: "{g. g = demo_generation \<and> rg_family_id g = rf_id demo_family} = {demo_generation}"
    by (auto simp: demo_generation_def demo_family_def)
  show ?thesis
    by (simp add: refresh_chains_def chain_link_def tables one)
      (simp add: demo_generation_def demo_family_def)
qed


end
