(* ===== verification/Owl_Refresh_Liveness.thy ===== *)
theory Owl_Refresh_Liveness
  imports Owl_Refresh_Chain
begin

text \<open>
  A client that follows the protocol makes progress: a rotation that was prepared succeeds
  when nothing else happened in between, so the successor token is really obtained, and
  the stored projection is the one the preparation has read.
\<close>

section \<open>What a preparation writes\<close>

lemma find_set_row:
  assumes "distinct (map key rows)" and "find P rows = Some x" and "\<And>r. P (g r) = P r"
  shows "find P (set_row key (key x) g rows) = Some (g x)"
  using assms(1,2)
proof (induction rows)
  case (Cons r rows)
  show ?case
  proof (cases "P r")
    case True
    with Cons.prems have "r = x" by simp
    with True assms(3) show ?thesis by (simp add: set_row_def)
  next
    case False
    with Cons.prems have x: "find P rows = Some x" by simp
    then have "key r \<noteq> key x" using Cons.prems(1) by (auto dest!: find_SomeD simp: image_iff)
    with False Cons x show ?thesis by (simp add: set_row_def)
  qed
qed simp

text \<open>A repair changes the projections only, and leaves its row where it was found.\<close>

lemma repair_found:
  assumes rep: "repair_runtime_projection env r a user now db = (Inr (row, m), db')"
    and ok: "tb_ok projection_table (projections db)"
    and found: "find (\<lambda>p. pj_project_id p = i \<and> pj_binding_id p = b) (projections db) = Some r"
  shows "find (\<lambda>p. pj_project_id p = i \<and> pj_binding_id p = b) (projections db') = Some row
    \<and> db' = db\<lparr>projections := projections db'\<rparr>"
proof -
  have r: "r \<in> set (projections db)" using found by (auto dest: find_SomeD)
  have ids: "distinct (map pj_id (projections db))"
    using projection_tb.ok_keys [OF ok] by (simp add: table_sel)
  have stays: "(pj_project_id (repair_row user m now p) = i \<and> pj_binding_id (repair_row user m now p) = b)
     = (pj_project_id p = i \<and> pj_binding_id p = b)" for p
    by (simp add: repair_row_def)
  from repair_Inr [OF rep ok r] found
    find_set_row [where P = "\<lambda>p. pj_project_id p = i \<and> pj_binding_id p = b" and g = "repair_row user m now",
      OF ids found stays]
  show ?thesis by (cases "pm_storage_repair_required m") simp_all
qed

text \<open>The checks of the stored projection pass on the row a repair left.\<close>

lemma repaired_projection_checks:
  assumes rep: "repair_runtime_projection env r a user now db = (Inr (row, m), db')"
    and ok: "tb_ok projection_table (projections db)" and r: "r \<in> set (projections db)"
    and crypto: "sound_crypto env"
    and place: "pj_project_id r = u_project_id user" "pj_application_id r = a"
    and p: "rp_projection_revision p = pm_revision m" "rp_projection_document p = pm_document m"
  shows "check_rotation_projection env p user row = Inr ()"
proof -
  from repair_Inr [OF rep ok r] have
    mat: "authoritative_runtime_projection_material env (Some r) a user db = Inr m"
    and row: "row_carries user m row" "same_place r row" by auto
  from material_Inr [OF mat] obtain source_email wv where
    wv: "material_write_version env (Some r) source_email = Inr wv"
    and ct: "material_ciphertext env (Some r) a user (pm_revision m) source_email
          (can_reuse_protected (Some r) user source_email wv) = Inr (pm_ciphertext m, pm_key_version m)"
    and safe: "safe_projection_document (pm_document m) = Inr (pm_storage_document m)" by blast
  have "pm_ciphertext m \<noteq> None \<Longrightarrow> assert_projection_crypto_authority env = Inr ()"
    using carried_presence [OF ct wv crypto] wv
    by (auto simp: material_write_version_def assert_projection_crypto_authority_def and_then_eq_Inr)
  then show ?thesis
    using carried_wire [OF mat crypto row place] row safe p
    by (simp add: check_rotation_projection_def row_carries_def Let_def)
qed

section \<open>The writes of a rotation\<close>

lemma consumed_rows_ok:
  assumes ok: "tb_ok generation_table rows"
  shows "tb_ok generation_table (set_row rg_id i (consumed_row now) rows)"
proof -
  have keys: "map rg_id (set_row rg_id i (consumed_row now) rows) = map rg_id rows"
    "map (\<lambda>r. (rg_project_id r, rg_family_id r, rg_generation r)) (set_row rg_id i (consumed_row now) rows)
       = map (\<lambda>r. (rg_project_id r, rg_family_id r, rg_generation r)) rows"
    "map (\<lambda>r. (rg_token_digest_key_version r, rg_token_digest r)) (set_row rg_id i (consumed_row now) rows)
       = map (\<lambda>r. (rg_token_digest_key_version r, rg_token_digest r)) rows"
    by (simp_all add: map_set_row consumed_row_def)
  have "map (\<lambda>r. (rg_project_id r, rg_family_id r))
      (filter (\<lambda>r. rg_status r = ''current'') (set_row rg_id i (consumed_row now) rows))
    = map (\<lambda>r. (rg_project_id r, rg_family_id r))
        (filter (\<lambda>r. rg_id r \<noteq> i) (filter (\<lambda>r. rg_status r = ''current'') rows))"
    by (induction rows) (simp_all add: set_row_def consumed_row_def)
  with ok keys show ?thesis
    by (simp add: generation_table_def distinct_map_filter del: filter_filter)
qed

lemma generation_append_ok:
  assumes "tb_ok generation_table rows"
    and "\<And>g. g \<in> set rows \<Longrightarrow> rg_id g \<noteq> rg_id r"
    and "\<And>g. g \<in> set rows \<Longrightarrow> rg_family_id g = rg_family_id r \<Longrightarrow> rg_generation g \<noteq> rg_generation r"
    and "\<And>g. g \<in> set rows \<Longrightarrow> rg_token_digest_key_version g = rg_token_digest_key_version r
      \<Longrightarrow> rg_token_digest g \<noteq> rg_token_digest r"
    and "\<And>g. g \<in> set rows \<Longrightarrow> rg_family_id g = rg_family_id r \<Longrightarrow> rg_status g \<noteq> ''current''"
  shows "tb_ok generation_table (rows @ [r])"
  using assms by (fastforce simp: generation_table_def)

lemma successor_row_ok:
  assumes ok: "constraints db" and inv: "refresh_chains db"
    and F: "F \<in> set (families db)" and G: "G \<in> set (generations db)"
    and link: "rg_family_id G = rf_id F" "rg_generation G = rf_current_generation F"
    and fresh: "rr_successor_generation_id c \<notin> rg_id ` set (generations db)"
      "(vd_key_version (rr_successor_token c), vd_value (rr_successor_token c))
         \<notin> (\<lambda>g. (rg_token_digest_key_version g, rg_token_digest g)) ` set (generations db)"
  shows "tb_ok generation_table (set_row rg_id (rg_id G) (consumed_row (rr_now c)) (generations db)
     @ [successor_row c F (rg_generation G + 1) u retain])"
proof -
  have rows: "set (set_row rg_id (rg_id G) (consumed_row (rr_now c)) (generations db))
      = insert (consumed_row (rr_now c) G) (set (generations db) - {G})"
    using refresh_ids_distinct [OF ok] G by (simp add: set_row_unique)
  have le: "rg_generation g \<le> rf_current_generation F"
    if "g \<in> set (generations db)" "rg_family_id g = rf_id F" for g
    using inv F that by (fastforce simp: refresh_chains_def)
  have cur: "g = G" if "g \<in> set (generations db)" "rg_family_id g = rf_id F" "rg_status g = ''current''" for g
    using chain_family [OF ok inv F that(1,2)] chain_family [OF ok inv F G link(1)] that link
      generation_number_unique [OF ok that(1) G] by (auto simp: chain_link_def split: if_splits)
  have old: "tb_ok generation_table (set_row rg_id (rg_id G) (consumed_row (rr_now c)) (generations db))"
    using ok by (intro consumed_rows_ok) (simp add: constraints_def)
  let ?S = "successor_row c F (rg_generation G + 1) u retain"
  show ?thesis
  proof (rule generation_append_ok [OF old])
    fix g assume "g \<in> set (set_row rg_id (rg_id G) (consumed_row (rr_now c)) (generations db))"
    then consider "g = consumed_row (rr_now c) G" | "g \<in> set (generations db)" "g \<noteq> G"
      unfolding rows by blast
    note g = this
    show "rg_id g \<noteq> rg_id ?S"
      using g fresh(1) G by cases (auto simp: successor_row_def consumed_row_def image_iff)
    show "rg_generation g \<noteq> rg_generation ?S" if "rg_family_id g = rg_family_id ?S"
      using g that le link by cases (fastforce simp: successor_row_def consumed_row_def)+
    show "rg_token_digest g \<noteq> rg_token_digest ?S"
      if "rg_token_digest_key_version g = rg_token_digest_key_version ?S"
      using g that fresh(2) G by cases (force simp: successor_row_def consumed_row_def)+
    show "rg_status g \<noteq> ''current''" if "rg_family_id g = rg_family_id ?S"
      using g that cur by cases (auto simp: successor_row_def consumed_row_def)
  qed
qed

text \<open>
  A rotation that follows a preparation: the same token and owners, a fresh successor, a
  clock that has not reached any expiry, and counters that can still be raised.
\<close>

definition follows_preparation ::
    "runtime_env \<Rightarrow> prepare_refresh \<Rightarrow> refresh_preparation \<Rightarrow> rotate_refresh \<Rightarrow> auth_db \<Rightarrow> bool" where
  "follows_preparation env c p c' db \<longleftrightarrow>
     rr_project_id c' = pr_project_id c \<and> rr_application_id c' = pr_application_id c
     \<and> rr_presented_token c' = pr_presented_token c \<and> rr_preparation c' = p
     \<and> pr_now c \<le> rr_now c' \<and> rr_now c' < rp_absolute_expires_at p
     \<and> (\<forall>b \<in> set (browser_sessions db).
          (pr_now c < bs_idle_expires_at b \<longrightarrow> rr_now c' < bs_idle_expires_at b)
          \<and> (pr_now c < bs_absolute_expires_at b \<longrightarrow> rr_now c' < bs_absolute_expires_at b))
     \<and> 0 < vd_key_version (rr_successor_token c') \<and> 0 < rp_signing_epoch p
     \<and> rr_successor_generation_id c' \<notin> rg_id ` set (generations db)
     \<and> (vd_key_version (rr_successor_token c'), vd_value (rr_successor_token c'))
         \<notin> (\<lambda>g. (rg_token_digest_key_version g, rg_token_digest g)) ` set (generations db)
     \<and> checked_add_i64 (rp_generation p) 1 \<noteq> None \<and> checked_add_i64 (rp_family_revision p) 1 \<noteq> None
     \<and> (\<forall>f \<in> set (families db). env_tadd env (rf_absolute_expires_at f)
          (seconds (rf_allowed_clock_skew_seconds f)) \<noteq> None)
     \<and> distinct (map au_id (audits db)) \<and> env_audit_id env (rp_family_id p) \<notin> au_id ` set (audits db)"

lemma rotate_writes_succeed:
  assumes ok: "constraints db" and inv: "refresh_chains db"
    and F: "F \<in> set (families db)" and G: "G \<in> set (generations db)"
    and link: "rg_family_id G = rf_id F" "rg_generation G = rf_current_generation F"
    and fresh: "rr_successor_generation_id c \<notin> rg_id ` set (generations db)"
      "(vd_key_version (rr_successor_token c), vd_value (rr_successor_token c))
         \<notin> (\<lambda>g. (rg_token_digest_key_version g, rg_token_digest g)) ` set (generations db)"
    and room: "checked_add_i64 (rg_generation G) 1 \<noteq> None" "checked_add_i64 (rf_family_revision F) 1 \<noteq> None"
      "env_tadd env (rf_absolute_expires_at F) (seconds (rf_allowed_clock_skew_seconds F)) \<noteq> None"
    and audit: "distinct (map au_id (audits db))" "env_audit_id env (rf_id F) \<notin> au_id ` set (audits db)"
  shows "\<exists>db'. rotate_writes env c session F G user db
     = (Inr (Return (Rotated (u_id user) (ss_id session) (rf_id F) (rg_generation G + 1)
         (rf_absolute_expires_at F))), db')"
proof -
  from room obtain retain where
    n: "bump (rg_generation G) = Inr (rg_generation G + 1)"
      "bump (rf_family_revision F) = Inr (rf_family_revision F + 1)"
    and t: "env_tadd env (rf_absolute_expires_at F) (seconds (rf_allowed_clock_skew_seconds F)) = Some retain"
    by (auto simp: bump_def expect_def checked_add_i64_def split: if_splits option.splits)
  have ok1: "tb_ok generation_table (set_row rg_id (rg_id G) (consumed_row (rr_now c)) (generations db))"
    using ok by (intro consumed_rows_ok) (simp add: constraints_def)
  note ok2 = successor_row_ok [OF ok inv F G link fresh, of "u_id user" retain]
  have ok3: "tb_ok family_table (set_row rf_id (rf_id F) (\<lambda>r. r\<lparr>rf_current_generation := n,
      rf_family_revision := v, rf_updated_at := w\<rparr>) (families db))" for n v w
    using ok by (simp add: constraints_def family_table_def map_set_row)
  have found: "find (\<lambda>r. rg_id r = rg_id G) (generations db) = Some G"
    "find (\<lambda>r. rf_id r = rf_id F) (families db) = Some F"
    using generation_tb.lookup [of "generations db" G] family_tb.lookup [of "families db" F] ok F G
    by (simp_all add: constraints_def table_sel)
  show ?thesis
    using n t ok1 ok2 ok3 found audit
    by (auto simp: rotate_writes_def append_runtime_audit_def m_bind_def m_try_def m_return_def
        db_update_def db_insert_def table_sel consumed_row_def successor_row_def Let_def audit_table_def
        expect_def)
qed

section \<open>A prepared rotation succeeds\<close>

lemma prepare_route:
  "prepare_refresh_rotation env c db0 db = (Inr r, db') \<Longrightarrow>
     0 < vd_key_version (pr_presented_token c)
     \<and> (\<exists>rg rf. route_refresh (pr_project_id c) (pr_application_id c) (pr_presented_token c) db0 = Inr (rg, rf)
          \<and> prepare_refresh_body env c rg rf db = (Inr (Return r), db'))"
  unfolding prepare_refresh_rotation_def validate_digest_def
  by (auto simp: m_bind_eq m_try_eq transaction_eq split: prod.splits if_splits)

text \<open>The queries of a rotation do not look at the projections, except for the one row.\<close>

lemma reads_without_projections:
  "route_refresh i a t (db\<lparr>projections := ps\<rparr>) = route_refresh i a t db"
  "lock_refresh_rows i a t g f (db\<lparr>projections := ps\<rparr>) = lock_refresh_rows i a t g f db"
  "lock_refresh_owners i a s (db\<lparr>projections := ps\<rparr>) = lock_refresh_owners i a s db"
  "check_refresh_browser i now s pr u po (db\<lparr>projections := ps\<rparr>) = check_refresh_browser i now s pr u po db"
  "active_signing_snapshot i now (db\<lparr>projections := ps\<rparr>) = active_signing_snapshot i now db"
  "lock_signing_epoch i r k ep now (db\<lparr>projections := ps\<rparr>) = lock_signing_epoch i r k ep now db"
  "constraints (db\<lparr>projections := ps\<rparr>) = constraints db"
  "refresh_chains (db\<lparr>projections := ps\<rparr>) = refresh_chains db"
  "select_one bindings P e (db\<lparr>projections := ps\<rparr>) = select_one bindings P e db"
  by (simp_all add: route_refresh_def lock_refresh_rows_def lock_refresh_owners_def
      check_refresh_browser_def active_signing_snapshot_def lock_signing_epoch_def select_one_def
      constraints_def refresh_chains_def split: option.split)

lemma find_unique:
  assumes "distinct (map key rows)" and "x \<in> set rows" and "P x" and "\<And>r. P r \<Longrightarrow> key r = key x"
  shows "find P rows = Some x"
proof -
  from assms(2,3) have "find P rows \<noteq> None" by (auto simp: find_None_iff)
  then obtain y where y: "find P rows = Some y" by auto
  then have "y \<in> set rows" "key y = key x" using assms(4) by (auto dest: find_SomeD)
  with assms(1,2) y show ?thesis by (auto simp: distinct_map dest: inj_onD)
qed

lemma snapshot_still_signs:
  assumes "active_signing_snapshot i now db = Inr signing" and "now \<le> t"
    and "distinct (map kr_id (key_rings db))" and "distinct (map sk_id (signing_keys db))"
  shows "lock_signing_epoch i (sg_ring_id signing) (sg_key_id signing) (sg_epoch signing) t db = Inr ()"
proof -
  from assms(1) obtain ring key where
    ring: "ring \<in> set (key_rings db)" "kr_project_id ring = i" "kr_purpose ring = ''application_tokens''"
      "kr_algorithm ring = ''EdDSA''"
    and key: "key \<in> set (signing_keys db)" "sk_project_id key = i" "sk_ring_id key = kr_id ring"
      "sk_state key = ''active''" "\<exists>v. sk_sign_not_before key = Some v \<and> v \<le> now"
    and s: "sg_ring_id signing = kr_id ring" "sg_key_id signing = sk_id key" "sg_epoch signing = kr_signing_epoch ring"
    by (auto simp: active_signing_snapshot_def and_then_eq_Inr split: if_splits option.splits
        dest!: select_one_InrD)
  have "find (\<lambda>r. kr_id r = kr_id ring \<and> kr_project_id r = i) (key_rings db) = Some ring"
    using assms(3) ring by (intro find_unique [where key = kr_id]) auto
  moreover have "find (\<lambda>k. sk_id k = sk_id key \<and> sk_project_id k = i \<and> sk_ring_id k = kr_id ring)
      (signing_keys db) = Some key"
    using assms(4) key by (intro find_unique [where key = sk_id]) auto
  ultimately show ?thesis
    using ring key s assms(2) by (auto simp: lock_signing_epoch_def select_one_def ok_or_def)
qed

lemma browser_still_live:
  assumes "check_refresh_browser i now session project user policy db = Inr ()"
    and "\<And>b. b \<in> set (browser_sessions db) \<Longrightarrow>
      (now < bs_idle_expires_at b \<longrightarrow> t < bs_idle_expires_at b)
      \<and> (now < bs_absolute_expires_at b \<longrightarrow> t < bs_absolute_expires_at b)"
  shows "check_refresh_browser i t session project user policy db = Inr ()"
proof (cases "ss_browser_session_id session")
  case (Some b)
  with assms(1) obtain browser where
    f: "select_one browser_sessions (\<lambda>x. bs_id x = b \<and> bs_project_id x = i \<and> bs_user_id x = u_id user)
          EIntegrity db = Inr browser"
    and live: "\<not> browser_is_dead now project user policy browser"
    by (auto simp: check_refresh_browser_def and_then_eq_Inr split: if_splits)
  from f have "browser \<in> set (browser_sessions db)" by (auto dest: select_one_InrD)
  from assms(2) [OF this] live have "\<not> browser_is_dead t project user policy browser"
    by (auto simp: browser_is_dead_def not_le)
  with Some f show ?thesis by (simp add: check_refresh_browser_def)
qed (simp add: check_refresh_browser_def)

text \<open>The primary keys and foreign keys the progress of a rotation rests on.\<close>

definition well_keyed :: "auth_db \<Rightarrow> bool" where
  "well_keyed db \<longleftrightarrow>
     tb_ok projection_table (projections db)
     \<and> distinct (map kr_id (key_rings db)) \<and> distinct (map sk_id (signing_keys db))
     \<and> (\<forall>r \<in> set (projections db). \<forall>b \<in> set (bindings db).
          pj_binding_id r = bi_id b \<longrightarrow> pj_application_id r = bi_application_id b)"

lemma prepared_checks_pass:
  assumes prep: "prepare_refresh_body env c rg rf db = (Inr (Return (RefreshReady p)), db1)"
    and crypto: "sound_crypto env" and keys: "well_keyed db" and f: "follows_preparation env c p c' db"
  shows "\<exists>session family generation user.
     lock_refresh_rows (pr_project_id c) (pr_application_id c) (pr_presented_token c) rg rf db
       = Inr (session, family, generation)
     \<and> \<not> refresh_is_dead (pr_now c) session family generation
     \<and> rotation_checks env c' session family generation db1 = Inr user
     \<and> db1 = db\<lparr>projections := projections db1\<rparr>
     \<and> rp_user_id p = u_id user \<and> rp_application_session_id p = ss_id session
     \<and> rp_family_id p = rf_id family \<and> rp_generation p = rg_generation generation
     \<and> rp_family_revision p = rf_family_revision family
     \<and> rp_absolute_expires_at p = rf_absolute_expires_at family"
proof -
  from prepare_ready [OF prep] obtain session family generation project application user policy binding
      projection row material signing lifetime where
    rows: "lock_refresh_rows (pr_project_id c) (pr_application_id c) (pr_presented_token c) rg rf db
       = Inr (session, family, generation)"
    and live: "\<not> refresh_is_dead (pr_now c) session family generation"
    and own: "lock_refresh_owners (pr_project_id c) (pr_application_id c) session db
         = Inr (project, application, user, policy)" "\<not> owners_changed session project application user policy"
    and br: "check_refresh_browser (pr_project_id c) (pr_now c) session project user policy db = Inr ()"
    and bi: "select_one bindings (\<lambda>b. bi_id b = ss_binding_id session
             \<and> bi_project_id b = pr_project_id c \<and> bi_application_id b = pr_application_id c
             \<and> bi_user_id b = u_id user) EIntegrity db = Inr binding" "bi_status binding = ''active''"
    and pj: "select_one projections (\<lambda>p. pj_project_id p = pr_project_id c
               \<and> pj_binding_id p = bi_id binding) EIntegrity db = Inr projection"
    and rep: "repair_runtime_projection env projection (ap_id application) user (pr_now c) db
         = (Inr (row, material), db1)"
    and sg: "active_signing_snapshot (pr_project_id c) (pr_now c) db1 = Inr signing"
    and lt: "access_token_lifetime policy = Inr lifetime"
    and p: "p = refresh_preparation_of project application user policy session family generation binding
         material signing lifetime" by blast
  from own(1) have u: "u_project_id user = pr_project_id c" "ap_id application = pr_application_id c"
    by (auto simp: lock_refresh_owners_def and_then_eq_Inr dest!: select_one_InrD)
  have pj': "projection \<in> set (projections db)" "pj_project_id projection = pr_project_id c"
    "pj_binding_id projection = bi_id binding" using pj by (auto dest: select_one_InrD)
  have place: "pj_project_id projection = u_project_id user" "pj_application_id projection = ap_id application"
    using pj' u keys select_one_InrD [OF bi(1)] by (auto simp: well_keyed_def)
  have ok: "tb_ok projection_table (projections db)" using keys by (simp add: well_keyed_def)
  have chk: "check_rotation_projection env p user row = Inr ()"
    using repaired_projection_checks [OF rep ok pj'(1) crypto place] by (simp add: p refresh_preparation_of_def)
  from repair_found [OF rep ok] pj have
    find: "select_one projections (\<lambda>p. pj_project_id p = pr_project_id c
               \<and> pj_binding_id p = bi_id binding) EIntegrity db1 = Inr row"
    and db1: "db1 = db\<lparr>projections := projections db1\<rparr>" by (auto simp: select_one_Inr)
  have kr: "key_rings db1 = key_rings db" "signing_keys db1 = signing_keys db"
    using arg_cong [OF db1, of key_rings] arg_cong [OF db1, of signing_keys] by simp_all
  have sgn: "lock_signing_epoch (pr_project_id c) (sg_ring_id signing) (sg_key_id signing)
      (sg_epoch signing) (rr_now c') db1 = Inr ()"
    using f keys by (intro snapshot_still_signs [OF sg]) (simp_all add: kr follows_preparation_def well_keyed_def)
  have "check_refresh_browser (pr_project_id c) (rr_now c') session project user policy db = Inr ()"
    using f by (intro browser_still_live [OF br]) (simp add: follows_preparation_def)
  with own(1) bi(1) have
    reads: "lock_refresh_owners (pr_project_id c) (pr_application_id c) session db1
         = Inr (project, application, user, policy)"
      "check_refresh_browser (pr_project_id c) (rr_now c') session project user policy db1 = Inr ()"
      "select_one bindings (\<lambda>b. bi_id b = ss_binding_id session
             \<and> bi_project_id b = pr_project_id c \<and> bi_application_id b = pr_application_id c
             \<and> bi_user_id b = u_id user) EIntegrity db1 = Inr binding"
    by (subst db1, simp only: reads_without_projections)+
  have "\<not> refresh_is_dead (rr_now c') session family generation"
    using live f p by (auto simp: refresh_is_dead_def follows_preparation_def refresh_preparation_of_def)
  moreover have cmd: "rr_project_id c' = pr_project_id c" "rr_application_id c' = pr_application_id c"
    "rr_preparation c' = p" using f by (simp_all add: follows_preparation_def)
  moreover have "\<not> preparation_is_stale p session family generation"
    "\<not> rotation_owners_changed p session project application user policy"
    using own(2) by (simp_all add: p refresh_preparation_of_def preparation_is_stale_def rotation_owners_changed_def)
  moreover have "rp_binding_id p = bi_id binding" "rp_binding_revision p = bi_binding_revision binding"
    "rp_access_token_lifetime_seconds p = lifetime" "rp_signing_ring_id p = sg_ring_id signing"
    "rp_signing_key_id p = sg_key_id signing" "rp_signing_epoch p = sg_epoch signing"
    by (simp_all add: p refresh_preparation_of_def)
  ultimately have "rotation_checks env c' session family generation db1 = Inr user"
    using reads sgn find chk lt bi(2) by (simp add: rotation_checks_def Let_def)
  with rows live db1 p show ?thesis by (auto simp: refresh_preparation_of_def)
qed

text \<open>
  (C8) A client that prepared a rotation and follows up obtains the successor: if nothing else
  happened in between and nothing expired, the rotation succeeds, for the user, session,
  family and expiry the preparation announced, with the next generation number.
\<close>

theorem prepared_rotation_succeeds:
  assumes "constraints db" and "refresh_chains db" and "well_keyed db" and "sound_crypto env"
    and "prepare_refresh_rotation env c db db = (Inr (RefreshReady p), db1)"
    and "follows_preparation env c p c' db"
  shows "\<exists>db2. rotate_refresh_token env c' db1 db1
     = (Inr (Rotated (rp_user_id p) (rp_application_session_id p) (rp_family_id p)
         (rp_generation p + 1) (rp_absolute_expires_at p)), db2)"
proof -
  from prepare_route [OF assms(5)] obtain rg rf where
    token: "0 < vd_key_version (pr_presented_token c)"
    and route: "route_refresh (pr_project_id c) (pr_application_id c) (pr_presented_token c) db = Inr (rg, rf)"
    and body: "prepare_refresh_body env c rg rf db = (Inr (Return (RefreshReady p)), db1)" by blast
  from prepared_checks_pass [OF body assms(4,3,6)] obtain session family generation user where
    rows: "lock_refresh_rows (pr_project_id c) (pr_application_id c) (pr_presented_token c) rg rf db
       = Inr (session, family, generation)"
    and live: "\<not> refresh_is_dead (pr_now c) session family generation"
    and chk: "rotation_checks env c' session family generation db1 = Inr user"
    and db1: "db1 = db\<lparr>projections := projections db1\<rparr>"
    and p: "rp_user_id p = u_id user" "rp_application_session_id p = ss_id session"
      "rp_family_id p = rf_id family" "rp_generation p = rg_generation generation"
      "rp_family_revision p = rf_family_revision family"
      "rp_absolute_expires_at p = rf_absolute_expires_at family" by blast
  have tables: "generations db1 = generations db" "families db1 = families db" "audits db1 = audits db"
    using arg_cong [OF db1, of generations] arg_cong [OF db1, of families] arg_cong [OF db1, of audits] by simp_all
  from route rows have
    "route_refresh (pr_project_id c) (pr_application_id c) (pr_presented_token c) db1 = Inr (rg, rf)"
    "lock_refresh_rows (pr_project_id c) (pr_application_id c) (pr_presented_token c) rg rf db1
       = Inr (session, family, generation)"
    by (subst db1, simp only: reads_without_projections)+
  moreover have "\<exists>db2. rotate_writes env c' session family generation user db1
      = (Inr (Return (Rotated (u_id user) (ss_id session) (rf_id family) (rg_generation generation + 1)
         (rf_absolute_expires_at family))), db2)"
  proof (rule rotate_writes_succeed)
    show "constraints db1" using assms(1) by (subst db1, simp only: reads_without_projections)
    show "refresh_chains db1" using assms(2) by (subst db1, simp only: reads_without_projections)
  qed (use lock_refresh_rows_Inr [OF rows] live assms(6) p in
    \<open>auto simp: tables follows_preparation_def refresh_is_dead_def\<close>)
  moreover have "rg_status generation \<noteq> ''consumed''" using live by (auto simp: refresh_is_dead_def)
  ultimately show ?thesis
    using assms(6) token chk p
    by (auto simp: rotate_refresh_token_def rotate_body_def m_bind_def m_try_def m_read_def
        transaction_def validate_digest_def follows_preparation_def)
qed

definition demo_prepare :: prepare_refresh where
  "demo_prepare = \<lparr>pr_project_id = 1, pr_application_id = 2, pr_presented_token = demo_digest ''tok1'',
     pr_now = 100\<rparr>"

lemma demo_prepared:
  "\<exists>p db1. prepare_refresh_rotation demo_env demo_prepare demo_db demo_db = (Inr (RefreshReady p), db1)
     \<and> rp_generation p = 1 \<and> rp_family_id p = 71 \<and> rp_family_revision p = 1
     \<and> rp_absolute_expires_at p = days 30 \<and> rp_signing_epoch p = 1"
  by (simp add: prepare_refresh_rotation_def prepare_refresh_body_def refresh_preparation_of_def
      active_signing_snapshot_def demo_prepare_def commit_defs rotate_defs run_simps demo_defs
      material_defs value_defs demo_document_def safe_document)
    (simp add: commit_defs run_simps projection_document_eq json_opt_def rotate_defs material_defs
      value_defs demo_simps active_signing_snapshot_def refresh_preparation_of_def)

lemma demo_well_keyed: "well_keyed demo_db"
  by (simp add: well_keyed_def table_defs demo_defs)

theorem prepared_rotation_succeeds_witness:
  "\<exists>p db1 c' db2. prepare_refresh_rotation demo_env demo_prepare demo_db demo_db = (Inr (RefreshReady p), db1)
     \<and> follows_preparation demo_env demo_prepare p c' demo_db
     \<and> rotate_refresh_token demo_env c' db1 db1
         = (Inr (Rotated (rp_user_id p) (rp_application_session_id p) 71 2 (days 30)), db2)"
proof -
  obtain p db1 where prep:
    "prepare_refresh_rotation demo_env demo_prepare demo_db demo_db = (Inr (RefreshReady p), db1)"
    and p: "rp_generation p = 1" "rp_family_id p = 71" "rp_family_revision p = 1"
      "rp_absolute_expires_at p = days 30" "rp_signing_epoch p = 1"
    using demo_prepared by blast
  have f: "follows_preparation demo_env demo_prepare p
      ((demo_rotate ''tok1'' ''tok2'' 73)\<lparr>rr_preparation := p\<rparr>) demo_db"
    using p by (simp add: follows_preparation_def demo_prepare_def demo_defs run_simps)
  from prepared_rotation_succeeds [OF demo_constraints demo_chains demo_well_keyed demo_env_sound prep f]
    prep f p show ?thesis by auto
qed

end
