(* ===== verification/Owl_Refresh_Refinement.thy ===== *)
theory Owl_Refresh_Refinement
  imports Owl_Refresh_Chain
begin

text \<open>
  What refresh token rotation promises, without tables, locks and transactions: a family is
  the list of the tokens it has issued, oldest first, with a flag that says whether it is
  still alive.  Presenting the newest token of a living family issues a successor,
  presenting an older one ends the family, and everything else is refused.  The rotation of
  the repository implements this.
\<close>

section \<open>The specification\<close>

type_synonym token = "i32 \<times> string"

record token_chain =
  tc_alive :: bool
  tc_tokens :: "token list"

definition present_token :: "token_chain \<Rightarrow> token \<Rightarrow> token \<Rightarrow> refresh_presentation_decision option \<times> token_chain" where
  "present_token chain t successor =
     (if t \<in> set (butlast (tc_tokens chain))
      then (Some RevokeFamilyForReplay, chain\<lparr>tc_alive := False\<rparr>)
      else if tc_alive chain \<and> tc_tokens chain \<noteq> [] \<and> t = last (tc_tokens chain)
      then (Some RotateSuccessor, chain\<lparr>tc_tokens := tc_tokens chain @ [successor]\<rparr>)
      else (None, chain))"

section \<open>The chain of a family in the database\<close>

definition generation_token :: "generation_row \<Rightarrow> token" where
  "generation_token g = (rg_token_digest_key_version g, rg_token_digest g)"

definition digest_token :: "versioned_digest \<Rightarrow> token" where
  "digest_token d = (vd_key_version d, vd_value d)"

definition chain_of :: "uuid \<Rightarrow> auth_db \<Rightarrow> token_chain" where
  "chain_of f db =
     \<lparr>tc_alive = list_ex (\<lambda>r. rf_id r = f \<and> rf_status r = ''active'') (families db),
      tc_tokens = map generation_token (sort_key rg_generation
        (filter (\<lambda>g. rg_family_id g = f) (generations db)))\<rparr>"

lemma sort_key_map: "(\<And>x. k (h x) = k x) \<Longrightarrow> sort_key k (map h xs) = map h (sort_key k xs)"
proof (induction xs)
  case (Cons x xs)
  have "insort_key k (h x) (map h ys) = map h (insort_key k x ys)" for ys
    using Cons.prems by (induction ys) simp_all
  with Cons show ?case by simp
qed simp

lemma sort_key_last:
  "(\<And>y. y \<in> set xs \<Longrightarrow> k y < k x) \<Longrightarrow> sort_key k (xs @ [x]) = sort_key k xs @ [x]"
proof (induction xs)
  case (Cons y xs)
  have "insort_key k y (zs @ [x]) = insort_key k y zs @ [x]" for zs
    using Cons.prems [of y] by (induction zs) auto
  with Cons show ?case by simp
qed simp

lemma last_sort_key:
  assumes "g \<in> set xs" and "\<And>h. h \<in> set xs \<Longrightarrow> h \<noteq> g \<Longrightarrow> k h < k g" and "distinct xs"
  shows "\<exists>ys. sort_key k xs = ys @ [g] \<and> set ys = set xs - {g}"
proof -
  have "set (sort_key k xs) = set xs" by simp
  with assms(1) have "sort_key k xs \<noteq> []" by (metis empty_iff list.set(1))
  then obtain ys l where split: "sort_key k xs = ys @ [l]" by (metis append_butlast_last_id)
  then have mem: "set (ys @ [l]) = set xs" and dist: "distinct (ys @ [l])"
    and sorted: "sorted (map k (ys @ [l]))"
    using assms(3) by (metis set_sort, metis distinct_sort, metis sorted_sort_key)
  have "k g \<le> k l" using mem sorted assms(1) by (auto simp: sorted_append)
  with assms(2) [of l] mem have "l = g" by force
  with split mem dist show ?thesis by auto
qed

section \<open>Reading the chain of a family\<close>

abbreviation family_rows :: "uuid \<Rightarrow> auth_db \<Rightarrow> generation_row list" where
  "family_rows f db \<equiv> filter (\<lambda>g. rg_family_id g = f) (generations db)"

lemma chain_rows:
  assumes ok: "constraints db" and inv: "refresh_chains db" and F: "F \<in> set (families db)"
  shows "\<exists>ys G. sort_key rg_generation (family_rows (rf_id F) db) = ys @ [G]
     \<and> set ys = set (family_rows (rf_id F) db) - {G} \<and> chain_link F G
     \<and> rg_generation G = rf_current_generation F \<and> G \<in> set (generations db)"
proof -
  have "rf_current_generation F \<in> rg_generation ` {g \<in> set (generations db). rg_family_id g = rf_id F}"
    using inv F by (auto simp: refresh_chains_def)
  then obtain G where G: "G \<in> set (generations db)" "rg_family_id G = rf_id F"
    "rg_generation G = rf_current_generation F" by auto
  note link = chain_family [OF ok inv F]
  have "rg_generation h < rg_generation G" if "h \<in> set (family_rows (rf_id F) db)" "h \<noteq> G" for h
  proof -
    have "rg_generation h \<le> rf_current_generation F"
      using inv F that by (fastforce simp: refresh_chains_def)
    moreover have "rg_generation h \<noteq> rg_generation G"
      using that G link [of h] link [OF G(1,2)] generation_number_unique [OF ok, of h G]
      by (auto simp: chain_link_def)
    ultimately show ?thesis using G(3) by simp
  qed
  moreover have "distinct (family_rows (rf_id F) db)"
    using refresh_ids_distinct [OF ok] by (auto simp: distinct_map)
  ultimately obtain ys where "sort_key rg_generation (family_rows (rf_id F) db) = ys @ [G]"
    "set ys = set (family_rows (rf_id F) db) - {G}"
    using last_sort_key [of G "family_rows (rf_id F) db" rg_generation] G by auto
  with G link [OF G(1,2)] show ?thesis by blast
qed

lemma token_unique:
  "constraints db \<Longrightarrow> g \<in> set (generations db) \<Longrightarrow> h \<in> set (generations db)
   \<Longrightarrow> generation_token g = generation_token h \<Longrightarrow> g = h"
  by (auto simp: generation_token_def intro: unique_generation)

lemma alive_iff:
  "constraints db \<Longrightarrow> F \<in> set (families db) \<Longrightarrow>
     tc_alive (chain_of (rf_id F) db) = (rf_status F = ''active'')"
  by (auto simp: chain_of_def list_ex_iff dest: unique_family)

text \<open>A table update that keeps what the chain is made of.\<close>

lemma tokens_update:
  assumes "\<And>r. generation_token (g r) = generation_token r" "\<And>r. rg_generation (g r) = rg_generation r"
    "\<And>r. rg_family_id (g r) = rg_family_id r"
  shows "map generation_token (sort_key rg_generation
        (filter (\<lambda>r. rg_family_id r = f) (set_row rg_id i g rows)))
     = map generation_token (sort_key rg_generation (filter (\<lambda>r. rg_family_id r = f) rows))"
proof -
  let ?h = "\<lambda>r. if rg_id r = i then g r else r"
  have "filter (\<lambda>r. rg_family_id r = f) (map ?h rows) = map ?h (filter (\<lambda>r. rg_family_id r = f) rows)"
    using assms(3) by (auto simp: filter_map comp_def intro!: arg_cong [of _ _ "map _"] filter_cong)
  moreover have "sort_key rg_generation (map ?h xs) = map ?h (sort_key rg_generation xs)" for xs
    by (rule sort_key_map) (simp add: assms(2))
  moreover have "generation_token \<circ> ?h = generation_token" using assms(1) by auto
  ultimately show ?thesis by (simp add: set_row_def)
qed

lemma list_ex_set_row:
  "(\<And>r. key r = k \<Longrightarrow> P (g r) = P r) \<Longrightarrow> list_ex P (set_row key k g rows) = list_ex P rows"
  by (induction rows) (auto simp: set_row_def)

lemma replay_generations:
  assumes "record_refresh_replay env g f p now s = (Inr (), t)"
  shows "generations t = generations s
     \<or> generations t = set_row rg_id (rg_id g) (\<lambda>r. r\<lparr>rg_replay_detected_at := Some now\<rparr>) (generations s)"
  using assms unfolding record_refresh_replay_def append_runtime_audit_def
  by (auto simp: m_bind_eq m_return_eq m_try_eq db_update_eq db_insert_eq table_sel split: if_split_asm)

lemma replay_other_families:
  assumes "record_refresh_replay env g f p now s = (Inr (), t)" and "f' \<noteq> rf_id f"
  shows "tc_alive (chain_of f' t) = tc_alive (chain_of f' s)"
  using assms unfolding record_refresh_replay_def append_runtime_audit_def
  by (auto simp: m_bind_eq m_return_eq m_try_eq db_update_eq db_insert_eq table_sel chain_of_def
      list_ex_set_row split: if_split_asm)

section \<open>The simulation\<close>

lemma newest_token:
  assumes ok: "constraints db" and inv: "refresh_chains db" and F: "F \<in> set (families db)"
    and G: "G \<in> set (generations db)" "rg_family_id G = rf_id F" "rg_generation G = rf_current_generation F"
  shows "\<exists>ts. tc_tokens (chain_of (rf_id F) db) = ts @ [generation_token G] \<and> generation_token G \<notin> set ts"
proof -
  from chain_rows [OF ok inv F] obtain ys H where
    ys: "sort_key rg_generation (family_rows (rf_id F) db) = ys @ [H]"
      "set ys = set (family_rows (rf_id F) db) - {H}"
    and H: "chain_link F H" "rg_generation H = rf_current_generation F" "H \<in> set (generations db)" by blast
  note link = chain_family [OF ok inv F G(1,2)]
  have HG: "H = G"
    by (rule generation_number_unique [OF ok H(3) G(1)]) (use H G link in \<open>simp_all add: chain_link_def\<close>)
  have "generation_token y \<noteq> generation_token G" if "y \<in> set ys" for y
    using that ys(2) HG token_unique [OF ok _ G(1), of y] by auto
  then have "generation_token G \<notin> set (map generation_token ys)" by (metis image_iff set_map)
  moreover have "tc_tokens (chain_of (rf_id F) db) = map generation_token ys @ [generation_token G]"
    using ys(1) HG by (simp add: chain_of_def)
  ultimately show ?thesis by blast
qed

lemma rotated_tokens:
  assumes inv: "refresh_chains db" and F: "F \<in> set (families db)"
    and G: "rg_generation G = rf_current_generation F"
    and gens: "generations db' = set_row rg_id (rg_id G) (consumed_row now) (generations db) @ [S]"
    and S: "rg_family_id S = rf_id F" "rg_generation S = rf_current_generation F + 1"
  shows "tc_tokens (chain_of i db')
     = tc_tokens (chain_of i db) @ (if i = rf_id F then [generation_token S] else [])"
proof -
  let ?old = "set_row rg_id (rg_id G) (consumed_row now) (generations db)"
  have tok: "map generation_token (sort_key rg_generation (filter (\<lambda>r. rg_family_id r = j) ?old))
      = tc_tokens (chain_of j db)" for j
    by (simp add: chain_of_def tokens_update consumed_row_def generation_token_def)
  have less: "rg_generation h < rg_generation S" if "h \<in> set (filter (\<lambda>r. rg_family_id r = rf_id F) ?old)" for h
  proof -
    from that obtain x where "x \<in> set (generations db)" "rg_family_id x = rf_id F"
      "rg_generation h = rg_generation x"
      by (auto simp: set_set_row consumed_row_def split: if_splits)
    moreover from this inv F have "rg_generation x \<le> rf_current_generation F"
      by (fastforce simp: refresh_chains_def)
    ultimately show ?thesis using S(2) by simp
  qed
  show ?thesis
  proof (cases "i = rf_id F")
    case True
    have "sort_key rg_generation (filter (\<lambda>r. rg_family_id r = rf_id F) ?old @ [S])
        = sort_key rg_generation (filter (\<lambda>r. rg_family_id r = rf_id F) ?old) @ [S]"
      by (rule sort_key_last) (rule less)
    with True S(1) tok [of i] show ?thesis by (simp add: chain_of_def [of _ db'] gens)
  next
    case False
    with S(1) tok [of i] show ?thesis by (simp add: chain_of_def [of _ db'] gens)
  qed
qed

lemma rotated_chain:
  assumes ok: "constraints db" and inv: "refresh_chains db"
    and rot: "rotate_refresh_token env c db0 db = (Inr (Rotated u s f n e), db')"
  shows "present_token (chain_of f db) (digest_token (rr_presented_token c)) (digest_token (rr_successor_token c))
       = (Some RotateSuccessor, chain_of f db')
     \<and> (f' \<noteq> f \<longrightarrow> chain_of f' db' = chain_of f' db)"
proof -
  from rotate_Rotated [OF rot] obtain session F G and user :: user_row and retain rv where
    old: "rotated_from c session F G db" and f: "f = rf_id F"
    and gens: "generations db' = set_row rg_id (rg_id G) (consumed_row (rr_now c)) (generations db)
        @ [successor_row c F (rg_generation G + 1) (u_id user) retain]"
    and fams: "families db' = set_row rf_id (rf_id F)
        (\<lambda>r. r\<lparr>rf_current_generation := rg_generation G + 1, rf_family_revision := rv,
               rf_updated_at := rr_now c\<rparr>) (families db)" by blast
  from old have F: "F \<in> set (families db)" and G: "G \<in> set (generations db)" "rg_family_id G = rf_id F"
    "rg_generation G = rf_current_generation F" "rf_status F = ''active''"
    "generation_token G = digest_token (rr_presented_token c)"
    by (auto simp: rotated_from_def refresh_is_dead_def generation_token_def digest_token_def)
  have alive: "tc_alive (chain_of i db') = tc_alive (chain_of i db)" for i
    by (simp add: chain_of_def fams list_ex_set_row)
  have tok: "tc_tokens (chain_of i db') = tc_tokens (chain_of i db)
      @ (if i = f then [digest_token (rr_successor_token c)] else [])" for i
    using rotated_tokens [OF inv F G(3) gens, of i] G(3)
    by (simp add: f successor_row_def generation_token_def digest_token_def)
  from newest_token [OF ok inv F G(1-3)] obtain ts where
    ts: "tc_tokens (chain_of f db) = ts @ [digest_token (rr_presented_token c)]"
      "digest_token (rr_presented_token c) \<notin> set ts" by (auto simp: f G(5))
  have live: "tc_alive (chain_of f db)" using alive_iff [OF ok F] G(4) by (simp add: f)
  have "chain_of f db' = (chain_of f db)\<lparr>tc_tokens := tc_tokens (chain_of f db) @ [digest_token (rr_successor_token c)]\<rparr>"
    using alive [of f] tok [of f] by (intro token_chain.equality) simp_all
  with ts live have "present_token (chain_of f db) (digest_token (rr_presented_token c))
      (digest_token (rr_successor_token c)) = (Some RotateSuccessor, chain_of f db')"
    by (simp add: present_token_def)
  moreover have "chain_of f' db' = chain_of f' db" if "f' \<noteq> f"
    using alive [of f'] tok [of f'] that by (intro token_chain.equality) simp_all
  ultimately show ?thesis by blast
qed

lemma replayed_chain:
  assumes ok: "constraints db" and inv: "refresh_chains db"
    and rot: "rotate_refresh_token env c db0 db = (Inr (RotationReplayRevoked f), db')"
  shows "present_token (chain_of f db) (digest_token (rr_presented_token c)) successor
       = (Some RevokeFamilyForReplay, chain_of f db')
     \<and> (f' \<noteq> f \<longrightarrow> chain_of f' db' = chain_of f' db)"
proof -
  from rotate_replay [OF rot] obtain F g where
    F: "F \<in> set (families db)" "f = rf_id F" and g: "g \<in> set (generations db)" "rg_family_id g = f"
      "rg_status g = ''consumed''" "generation_token g = digest_token (rr_presented_token c)"
    and rep: "record_refresh_replay env g F (rr_project_id c) (rr_now c) db = (Inr (), db')"
    by (auto simp: generation_token_def digest_token_def)
  have tok: "tc_tokens (chain_of i db') = tc_tokens (chain_of i db)" for i
    using replay_generations [OF rep] by (auto simp: chain_of_def tokens_update generation_token_def)
  have dead: "\<not> tc_alive (chain_of f db')"
    using replay_effect [OF rep ok F(1)] by (auto simp: chain_of_def list_ex_iff F(2))
  have other: "tc_alive (chain_of f' db') = tc_alive (chain_of f' db)" if "f' \<noteq> f"
    using replay_other_families [OF rep] that F(2) by simp
  from chain_rows [OF ok inv F(1)] obtain ys H where
    ys: "sort_key rg_generation (family_rows f db) = ys @ [H]" "set ys = set (family_rows f db) - {H}"
    and H: "chain_link F H" "rg_generation H = rf_current_generation F" by (auto simp: F(2))
  have "g \<noteq> H" using g(3) H by (auto simp: chain_link_def)
  with g ys have "digest_token (rr_presented_token c) \<in> set (butlast (tc_tokens (chain_of f db)))"
    by (force simp: chain_of_def)
  with tok dead other show ?thesis
    by (simp add: present_token_def)
qed

text \<open>
  (C3) The rotation of the repository implements the specification of a token chain: a
  successful rotation is the step of the specification that issues the successor, a reported
  replay is the step that ends the family, a call that fails leaves every family as it was,
  and no call ever touches a family other than the one it reports.
\<close>

theorem rotation_refines_token_chains:
  assumes "constraints db" and "refresh_chains db"
    and "rotate_refresh_token env c db0 db = (r, db')"
  shows "case r of
      Inr (Rotated u s f n e) \<Rightarrow>
        present_token (chain_of f db) (digest_token (rr_presented_token c))
            (digest_token (rr_successor_token c)) = (Some RotateSuccessor, chain_of f db')
        \<and> (\<forall>f'. f' \<noteq> f \<longrightarrow> chain_of f' db' = chain_of f' db)
    | Inr (RotationReplayRevoked f) \<Rightarrow>
        present_token (chain_of f db) (digest_token (rr_presented_token c))
            (digest_token (rr_successor_token c)) = (Some RevokeFamilyForReplay, chain_of f db')
        \<and> (\<forall>f'. f' \<noteq> f \<longrightarrow> chain_of f' db' = chain_of f' db)
    | Inl _ \<Rightarrow> (\<forall>f. chain_of f db' = chain_of f db)"
proof (cases r)
  case Inl
  with assms(3) have "db' = db" using rotate_Inl by blast
  with Inl show ?thesis by simp
next
  case (Inr x)
  show ?thesis
  proof (cases x)
    case (Rotated u s f n e)
    with Inr assms(3) have "rotate_refresh_token env c db0 db = (Inr (Rotated u s f n e), db')" by simp
    from rotated_chain [OF assms(1,2) this] Rotated Inr show ?thesis by simp
  next
    case (RotationReplayRevoked f)
    with Inr assms(3) have "rotate_refresh_token env c db0 db = (Inr (RotationReplayRevoked f), db')" by simp
    from replayed_chain [OF assms(1,2) this] RotationReplayRevoked Inr show ?thesis by simp
  qed
qed

theorem rotation_refines_token_chains_witness:
  "\<exists>db1 db2.
     present_token (chain_of 71 demo_db) (digest_token (demo_digest ''tok1'')) (digest_token (demo_digest ''tok2''))
         = (Some RotateSuccessor, chain_of 71 db1)
     \<and> present_token (chain_of 71 db1) (digest_token (demo_digest ''tok1'')) (digest_token (demo_digest ''tok3''))
         = (Some RevokeFamilyForReplay, chain_of 71 db2)"
proof -
  obtain db1 db2 where rot: "rotate_refresh_token demo_env (demo_rotate ''tok1'' ''tok2'' 73) demo_db demo_db
       = (Inr (Rotated 7 70 71 2 (days 30)), db1)"
    and rep: "rotate_refresh_token (demo_env\<lparr>env_audit_id := \<lambda>u. u + 5000\<rparr>)
         (demo_rotate ''tok1'' ''tok3'' 74) demo_db db1
       = (Inr (RotationReplayRevoked 71), db2)" using demo_replay by blast
  have ok: "constraints db1" using rotate_step [OF rot] demo_constraints by (rule later_constraints)
  have inv: "refresh_chains db1" using rotate_chains [OF demo_constraints demo_chains rot] .
  from rotation_refines_token_chains [OF demo_constraints demo_chains rot]
    rotation_refines_token_chains [OF ok inv rep]
  show ?thesis by (auto simp: demo_rotate_def)
qed

end
