(* ===== verification/Owl_Session_Errors.thy ===== *)
theory Owl_Session_Errors
  imports Owl_Refresh_Chain
begin

text \<open>
  What the operations of the session authority leave behind when they fail, and where the
  repository leaves the login lifecycle of the domain.
\<close>

section \<open>Failing calls\<close>

lemma prepare_Inl: "prepare_refresh_rotation env c db0 db = (Inl f, db') \<Longrightarrow> db' = db"
  unfolding prepare_refresh_rotation_def prepare_refresh_body_def
  by (auto simp: m_bind_eq m_try_eq m_fail_eq m_read_eq m_return_eq transaction_eq
      split: if_split_asm prod.split_asm)

lemma logout_Inl: "logout_application_session env c db = (Inl f, db') \<Longrightarrow> db' = db"
  unfolding logout_application_session_def Let_def
  by (auto simp: m_bind_eq m_read_eq m_return_eq transaction_eq)

lemma prepare_handoff_same: "prepare_handoff_exchange env c db = (r, db') \<Longrightarrow> db' = db"
  unfolding prepare_handoff_exchange_def
  by (cases r) (auto simp: m_bind_eq m_try_eq m_fail_eq m_read_eq m_return_eq transaction_eq
      split: if_split_asm)

lemma commit_Inl:
  assumes "commit_handoff_exchange env c db = (Inl f, db')"
  shows "db' = db \<or> (\<exists>ticket. ticket \<in> set (tickets db) \<and> ht_status ticket = ''issued''
     \<and> ht_expires_at ticket \<le> ch_now c \<and> f = Err EInvalidTransition
     \<and> expire_ticket env c ticket db = (Inr (), db'))"
  using assms
  unfolding commit_handoff_exchange_def commit_handoff_body_def commit_writes_def select_ticket_def
  by (auto simp: m_bind_eq m_try_eq m_fail_eq m_read_eq m_return_eq transaction_eq
      split: if_split_asm prod.split_asm dest!: select_one_InrD)

lemma expire_ticket_Inr:
  assumes "expire_ticket env c ticket db = (Inr (), db')"
  shows "tickets db' = set_row ht_id (ht_id ticket) (\<lambda>r. r\<lparr>ht_status := ''expired''\<rparr>) (tickets db)
     \<and> generations db' = generations db \<and> families db' = families db \<and> app_sessions db' = app_sessions db
     \<and> browser_sessions db' = browser_sessions db \<and> logins db' = logins db \<and> bindings db' = bindings db
     \<and> projections db' = projections db"
  using assms unfolding expire_ticket_def append_runtime_audit_def
  by (auto simp: m_bind_eq m_return_eq db_update_eq db_insert_eq table_sel)



section \<open>Expiring a login\<close>

definition login_terminal :: "login_transaction_status \<Rightarrow> bool" where
  "login_terminal st \<longleftrightarrow> st \<in> {LoginCompleted, ProviderExchangeFailed, LoginExpired, LoginCancelled}"

lemma parse_login_status_as_str: "parse_login_status (login_status_as_str st) = Inr st"
  by (cases st) (simp_all add: parse_login_status_def)

lemma parse_login_status_Inr: "parse_login_status s = Inr st \<longleftrightarrow> s = login_status_as_str st"
  by (auto simp: parse_login_status_as_str)
    (auto simp: parse_login_status_def split: if_splits)

text \<open>
  (C34) The expiry of an abandoned login in the repository and the \<open>expire\<close> of the domain
  differ in one state.  Both leave a finished login alone and both end every other one, but
  the repository also moves a login to \<open>expired\<close> while its provider exchange is in progress,
  which the domain refuses: there a claimed callback can only finish or fail.
\<close>

theorem expire_login_against_the_lifecycle:
  assumes "lt_status l = login_status_as_str st" and "expire_login env l now db = (Inr (), db')"
  shows "(if login_terminal st then db' = db
          else \<forall>x \<in> set (logins db'). lt_id x = lt_id l \<longrightarrow> lt_status x = login_status_as_str LoginExpired)
     \<and> (login_terminal st \<longrightarrow> login_apply Expire st = (Inl (Err InvalidTransition), st))
     \<and> (\<not> login_terminal st \<longrightarrow>
          (login_apply Expire st = (Inr (), LoginExpired)) = (st \<noteq> ProviderExchangeInProgress))"
proof (intro conjI)
  show "if login_terminal st then db' = db
          else \<forall>x \<in> set (logins db'). lt_id x = lt_id l \<longrightarrow> lt_status x = login_status_as_str LoginExpired"
    using assms unfolding expire_login_def append_runtime_audit_def
    by (auto simp: parse_login_status_as_str login_terminal_def m_bind_eq m_return_eq m_try_eq
        db_update_eq db_insert_eq table_sel set_set_row split: if_splits)
qed (cases st, auto simp: login_terminal_def login_transition_def guarded_set_def)+

definition demo_claimed :: login_row where
  "demo_claimed = demo_login\<lparr>lt_status := login_status_as_str ProviderExchangeInProgress\<rparr>"

theorem expire_login_against_the_lifecycle_witness:
  "\<exists>db'. expire_login demo_env demo_claimed 900 (demo_db\<lparr>logins := [demo_claimed]\<rparr>) = (Inr (), db')
     \<and> (\<forall>x \<in> set (logins db'). lt_id x = lt_id demo_claimed \<longrightarrow> lt_status x = ''expired'')
     \<and> login_apply Expire ProviderExchangeInProgress \<noteq> (Inr (), LoginExpired)"
proof -
  have st: "lt_status demo_claimed = login_status_as_str ProviderExchangeInProgress"
    by (simp add: demo_claimed_def)
  obtain db' where ex: "expire_login demo_env demo_claimed 900 (demo_db\<lparr>logins := [demo_claimed]\<rparr>) = (Inr (), db')"
    by (simp add: expire_login_def parse_login_status_def demo_claimed_def append_runtime_audit_def
        run_simps demo_defs)
  from expire_login_against_the_lifecycle [OF st ex] ex show ?thesis by (auto simp: login_terminal_def)
qed

end
