(* ===== verification/Owl_Maintenance.thy ===== *)
theory Owl_Maintenance
  imports Owl_Session_History
begin

text \<open>
  The retention job of \<open>maintenance.rs\<close>.  Each class of records is pruned in a transaction of
  its own, in the order of \<open>prune_pool\<close>; a statement picks the oldest candidates up to the
  batch size and deletes them, and the foreign keys cascade.  \<open>pe_clock\<close> is the timestamp of
  the transaction of a class, \<open>pe_locked\<close> says which rows another transaction holds, which
  \<open>SKIP LOCKED\<close> leaves out.
\<close>

section \<open>Options and report\<close>

datatype maintenance_error = InvalidBatchSize | SchemaVerification | Database | CountOverflow

definition MAX_BATCH_SIZE :: nat where "MAX_BATCH_SIZE = 10000"

definition validate_batch :: "nat \<Rightarrow> (maintenance_error, nat) res" where
  "validate_batch batch_size =
     (if \<not> (1 \<le> batch_size \<and> batch_size \<le> MAX_BATCH_SIZE) then Inl (Err InvalidBatchSize) else Inr batch_size)"

record prune_report =
  pt_login_aggregates :: nat
  pt_browser_logout_interactions :: nat
  pt_refresh_token_generations :: nat
  pt_application_session_aggregates :: nat
  pt_browser_session_aggregates :: nat
  pt_smtp_test_operations :: nat
  pt_webhook_records :: nat
  pt_total :: nat

definition checked_add_u64 :: "nat \<Rightarrow> nat \<Rightarrow> nat option" where
  "checked_add_u64 a b = (if a + b < 2 ^ 64 then Some (a + b) else None)"

fun try_fold_u64 :: "nat list \<Rightarrow> nat \<Rightarrow> nat option" where
  "try_fold_u64 [] acc = Some acc"
| "try_fold_u64 (n # ns) acc = Option.bind (checked_add_u64 acc n) (try_fold_u64 ns)"

definition report_finish :: "prune_report \<Rightarrow> (maintenance_error, prune_report) res" where
  "report_finish r =
     and_then (ok_or (try_fold_u64
       [pt_login_aggregates r, pt_browser_logout_interactions r, pt_refresh_token_generations r,
        pt_application_session_aggregates r, pt_browser_session_aggregates r,
        pt_smtp_test_operations r, pt_webhook_records r] 0) CountOverflow) (\<lambda>total.
     Inr (r\<lparr>pt_total := total\<rparr>))"

section \<open>The statements\<close>

datatype prune_class =
    ClassLogins | ClassLogouts | ClassGenerations | ClassSessions | ClassBrowsers | ClassSmtpTests
  | ClassWebhooks

record prune_env =
  pe_clock :: "prune_class \<Rightarrow> instant"
  pe_locked :: "uuid \<Rightarrow> bool"

text \<open>\<open>WHERE .. ORDER BY order, id LIMIT n FOR UPDATE SKIP LOCKED\<close>\<close>

definition candidates ::
    "prune_env \<Rightarrow> nat \<Rightarrow> ('r \<Rightarrow> instant) \<Rightarrow> ('r \<Rightarrow> uuid) \<Rightarrow> ('r \<Rightarrow> bool) \<Rightarrow> 'r list \<Rightarrow> 'r list" where
  "candidates pe n order key p rows =
     take n (sort_key order (sort_key key (filter (\<lambda>r. p r \<and> \<not> pe_locked pe (key r)) rows)))"

definition delete_keys :: "('r \<Rightarrow> uuid) \<Rightarrow> uuid list \<Rightarrow> 'r list \<Rightarrow> 'r list" where
  "delete_keys key ks rows = filter (\<lambda>r. key r \<notin> set ks) rows"

definition prune_logins :: "prune_env \<Rightarrow> nat \<Rightarrow> auth_db \<Rightarrow> nat \<times> auth_db" where
  "prune_logins pe n db =
     (let ts = pe_clock pe ClassLogins;
          gone = map lt_id (candidates pe n lt_expires_at lt_id
                   (\<lambda>l. lt_expires_at l \<le> ts - hours 24) (logins db));
          gone_challenges = map eh_id (filter (\<lambda>h. case eh_transaction_id h of
                   None \<Rightarrow> False | Some t \<Rightarrow> t \<in> set gone) (challenges db))
      in (length gone,
          db\<lparr>logins := delete_keys lt_id gone (logins db),
             methods := filter (\<lambda>m. mt_transaction_id m \<notin> set gone) (methods db),
             email_snapshots := filter (\<lambda>s. es_transaction_id s \<notin> set gone) (email_snapshots db),
             tickets := filter (\<lambda>t. ht_login_transaction_id t \<notin> set gone) (tickets db),
             callback_owners := filter (\<lambda>x. case co_login_transaction_id x of
                 None \<Rightarrow> True | Some t \<Rightarrow> t \<notin> set gone) (callback_owners db),
             challenges := delete_keys eh_id gone_challenges (challenges db),
             outbox := filter (\<lambda>m. ob_challenge_id m \<notin> set gone_challenges) (outbox db),
             transfers := filter (\<lambda>t. tr_challenge_id t \<notin> set gone_challenges) (transfers db)\<rparr>))"

definition prune_logouts :: "prune_env \<Rightarrow> nat \<Rightarrow> auth_db \<Rightarrow> nat \<times> auth_db" where
  "prune_logouts pe n db =
     (let ts = pe_clock pe ClassLogouts;
          gone = map li_id (candidates pe n li_expires_at li_id
                   (\<lambda>l. li_expires_at l \<le> ts - hours 24) (logouts db))
      in (length gone, db\<lparr>logouts := delete_keys li_id gone (logouts db)\<rparr>))"

definition generation_prunable :: "instant \<Rightarrow> auth_db \<Rightarrow> generation_row \<Rightarrow> bool" where
  "generation_prunable ts db g \<longleftrightarrow>
     rg_retain_until g \<le> ts
     \<and> list_ex (\<lambda>f. rf_id f = rg_family_id g
          \<and> list_ex (\<lambda>s. ss_id s = rf_application_session_id f
               \<and> ss_absolute_expires_at s \<le> ts - hours 24
               \<and> \<not> list_ex (\<lambda>i. li_application_session_id i = ss_id s) (logouts db))
             (app_sessions db)) (families db)"

definition prune_generations :: "prune_env \<Rightarrow> nat \<Rightarrow> auth_db \<Rightarrow> nat \<times> auth_db" where
  "prune_generations pe n db =
     (let gone = map rg_id (candidates pe n rg_retain_until rg_id
                   (generation_prunable (pe_clock pe ClassGenerations) db) (generations db))
      in (length gone, db\<lparr>generations := delete_keys rg_id gone (generations db)\<rparr>))"

definition session_prunable :: "instant \<Rightarrow> auth_db \<Rightarrow> session_row \<Rightarrow> bool" where
  "session_prunable ts db s \<longleftrightarrow>
     ss_absolute_expires_at s \<le> ts - hours 24
     \<and> \<not> list_ex (\<lambda>i. li_application_session_id i = ss_id s) (logouts db)
     \<and> \<not> list_ex (\<lambda>f. rf_application_session_id f = ss_id s
            \<and> list_ex (\<lambda>g. rg_family_id g = rf_id f) (generations db)) (families db)"

definition prune_sessions :: "prune_env \<Rightarrow> nat \<Rightarrow> auth_db \<Rightarrow> nat \<times> auth_db" where
  "prune_sessions pe n db =
     (let gone = map ss_id (candidates pe n ss_absolute_expires_at ss_id
                   (session_prunable (pe_clock pe ClassSessions) db) (app_sessions db));
          gone_families = map rf_id (filter (\<lambda>f. rf_application_session_id f \<in> set gone) (families db))
      in (length gone,
          db\<lparr>app_sessions := delete_keys ss_id gone (app_sessions db),
             families := delete_keys rf_id gone_families (families db),
             generations := filter (\<lambda>g. rg_family_id g \<notin> set gone_families) (generations db),
             logouts := filter (\<lambda>i. li_application_session_id i \<notin> set gone) (logouts db)\<rparr>))"

definition browser_prunable :: "instant \<Rightarrow> auth_db \<Rightarrow> browser_session_row \<Rightarrow> bool" where
  "browser_prunable ts db b \<longleftrightarrow>
     bs_absolute_expires_at b \<le> ts - hours 24
     \<and> \<not> list_ex (\<lambda>s. ss_browser_session_id s = Some (bs_id b)) (app_sessions db)
     \<and> \<not> list_ex (\<lambda>i. li_browser_session_id i = bs_id b) (logouts db)
     \<and> \<not> list_ex (\<lambda>t. ht_browser_session_id t = bs_id b) (tickets db)"

definition prune_browsers :: "prune_env \<Rightarrow> nat \<Rightarrow> auth_db \<Rightarrow> nat \<times> auth_db" where
  "prune_browsers pe n db =
     (let gone = map bs_id (candidates pe n bs_absolute_expires_at bs_id
                   (browser_prunable (pe_clock pe ClassBrowsers) db) (browser_sessions db))
      in (length gone, db\<lparr>browser_sessions := delete_keys bs_id gone (browser_sessions db)\<rparr>))"

definition smtp_test_done :: "instant \<Rightarrow> smtp_test_row \<Rightarrow> bool" where
  "smtp_test_done ts t \<longleftrightarrow>
     st_state t \<in> {''delivered'', ''failed'', ''ambiguous''}
     \<and> st_recipient_erased_at t \<noteq> None
     \<and> (case st_completed_at t of None \<Rightarrow> False | Some c \<Rightarrow> c \<le> ts - hours 24)"

definition prune_smtp_tests :: "prune_env \<Rightarrow> nat \<Rightarrow> auth_db \<Rightarrow> nat \<times> auth_db" where
  "prune_smtp_tests pe n db =
     (let rows = candidates pe n (\<lambda>t. case st_completed_at t of None \<Rightarrow> 0 | Some c \<Rightarrow> c) st_id
                   (smtp_test_done (pe_clock pe ClassSmtpTests)) (smtp_tests db);
          gone_materials = map st_recipient_material_id rows
      in (length rows,
          db\<lparr>smtp_tests := delete_keys st_id (map st_id rows) (smtp_tests db),
             materials := filter (\<lambda>m. \<not> (ma_id m \<in> set gone_materials
               \<and> ma_owner_kind m = ''smtp_test_recipient'' \<and> ma_state m = ''erased'')) (materials db)\<rparr>))"

subsection \<open>Webhook records\<close>

definition event_of :: "auth_db \<Rightarrow> delivery_row \<Rightarrow> event_row option" where
  "event_of db d = find (\<lambda>e. ev_id e = wd_event_id d) (user_events db)"

definition event_over :: "instant \<Rightarrow> auth_db \<Rightarrow> delivery_row \<Rightarrow> bool" where
  "event_over ts db d \<longleftrightarrow>
     (case event_of db d of None \<Rightarrow> False | Some e \<Rightarrow> ev_retain_until e \<le> ts)"

definition retain_until :: "auth_db \<Rightarrow> delivery_row \<Rightarrow> instant" where
  "retain_until db d = (case event_of db d of None \<Rightarrow> 0 | Some e \<Rightarrow> ev_retain_until e)"

definition delivery_finished :: "delivery_row \<Rightarrow> bool" where
  "delivery_finished d \<longleftrightarrow> wd_state d \<in> {''delivered'', ''terminal'', ''cancelled''}"

definition cancel_expired_deliveries :: "prune_env \<Rightarrow> nat \<Rightarrow> auth_db \<Rightarrow> nat \<times> auth_db" where
  "cancel_expired_deliveries pe n db =
     (let ts = pe_clock pe ClassWebhooks;
          chosen = map wd_id (take n (sort_key (retain_until db) (sort_key wd_created_at (sort_key wd_id
            (filter (\<lambda>d. wd_state d = ''pending'' \<and> event_over ts db d \<and> \<not> pe_locked pe (wd_id d))
              (deliveries db))))))
      in (length chosen,
          db\<lparr>deliveries := map (\<lambda>d. if wd_id d \<in> set chosen
               then d\<lparr>wd_state := ''cancelled'', wd_terminal_at := Some ts, wd_updated_at := ts\<rparr> else d)
             (deliveries db)\<rparr>))"

definition attempt_over :: "instant \<Rightarrow> auth_db \<Rightarrow> attempt_row \<Rightarrow> bool" where
  "attempt_over ts db a \<longleftrightarrow>
     list_ex (\<lambda>d. wd_id d = at_delivery_id a \<and> delivery_finished d \<and> event_over ts db d) (deliveries db)"

definition attempt_retain :: "auth_db \<Rightarrow> attempt_row \<Rightarrow> instant" where
  "attempt_retain db a =
     (case find (\<lambda>d. wd_id d = at_delivery_id a) (deliveries db) of
        None \<Rightarrow> 0 | Some d \<Rightarrow> retain_until db d)"

definition prune_attempts :: "prune_env \<Rightarrow> nat \<Rightarrow> auth_db \<Rightarrow> nat \<times> auth_db" where
  "prune_attempts pe n db =
     (let chosen = take n (sort_key (attempt_retain db) (sort_key at_delivery_id (sort_key at_attempt_number
            (filter (\<lambda>a. attempt_over (pe_clock pe ClassWebhooks) db a
               \<and> \<not> pe_locked pe (at_delivery_id a)) (attempts db)))))
      in (length chosen, db\<lparr>attempts := filter (\<lambda>a. a \<notin> set chosen) (attempts db)\<rparr>))"

definition prune_deliveries :: "prune_env \<Rightarrow> nat \<Rightarrow> auth_db \<Rightarrow> nat \<times> auth_db" where
  "prune_deliveries pe n db =
     (let chosen = map wd_id (take n (sort_key (retain_until db) (sort_key (\<lambda>d. - wd_replay_sequence d)
            (sort_key wd_id (filter (\<lambda>d. delivery_finished d
               \<and> event_over (pe_clock pe ClassWebhooks) db d
               \<and> \<not> list_ex (\<lambda>a. at_delivery_id a = wd_id d) (attempts db)
               \<and> \<not> list_ex (\<lambda>r. wd_replay_of_delivery_id r = Some (wd_id d)) (deliveries db)
               \<and> \<not> pe_locked pe (wd_id d)) (deliveries db))))))
      in (length chosen, db\<lparr>deliveries := delete_keys wd_id chosen (deliveries db)\<rparr>))"

definition prune_events :: "prune_env \<Rightarrow> nat \<Rightarrow> auth_db \<Rightarrow> nat \<times> auth_db" where
  "prune_events pe n db =
     (let gone = map ev_id (candidates pe n ev_retain_until ev_id
            (\<lambda>e. ev_retain_until e \<le> pe_clock pe ClassWebhooks
               \<and> \<not> list_ex (\<lambda>d. wd_event_id d = ev_id e) (deliveries db)) (user_events db))
      in (length gone, db\<lparr>user_events := delete_keys ev_id gone (user_events db)\<rparr>))"

text \<open>The four statements share one batch; the loop stops when it is used up.\<close>

fun webhook_loop ::
    "(nat \<Rightarrow> auth_db \<Rightarrow> nat \<times> auth_db) list \<Rightarrow> nat \<Rightarrow> nat \<Rightarrow> auth_db
     \<Rightarrow> (maintenance_error, nat) res \<times> auth_db" where
  "webhook_loop [] batch affected db = (Inr affected, db)"
| "webhook_loop (sql # rest) batch affected db =
     (let remaining = batch - affected
      in if remaining = 0 then (Inr affected, db)
         else
           let (n, db') = sql remaining db
           in case checked_add_u64 affected n of
                None \<Rightarrow> (Inl (Err CountOverflow), db')
              | Some affected' \<Rightarrow> webhook_loop rest batch affected' db')"

definition prune_webhook_records ::
    "prune_env \<Rightarrow> nat \<Rightarrow> auth_db \<Rightarrow> (maintenance_error, nat) res \<times> auth_db" where
  "prune_webhook_records pe batch db =
     (case webhook_loop [cancel_expired_deliveries pe, prune_attempts pe, prune_deliveries pe, prune_events pe]
         batch 0 db of
        (Inr n, db') \<Rightarrow> (Inr n, db')
      | (Inl f, _) \<Rightarrow> (Inl f, db))"

section \<open>The job\<close>

definition prune_pool ::
    "prune_env \<Rightarrow> nat \<Rightarrow> auth_db \<Rightarrow> (maintenance_error, prune_report) res \<times> auth_db" where
  "prune_pool pe batch db =
     (let (login_count, db1) = prune_logins pe batch db;
          (logout_count, db2) = prune_logouts pe batch db1;
          (generation_count, db3) = prune_generations pe batch db2;
          (session_count, db4) = prune_sessions pe batch db3;
          (browser_count, db5) = prune_browsers pe batch db4;
          (smtp_count, db6) = prune_smtp_tests pe batch db5
      in case prune_webhook_records pe batch db6 of
           (Inl f, db7) \<Rightarrow> (Inl f, db7)
         | (Inr webhook_count, db7) \<Rightarrow>
             (report_finish
                \<lparr>pt_login_aggregates = login_count, pt_browser_logout_interactions = logout_count,
                 pt_refresh_token_generations = generation_count,
                 pt_application_session_aggregates = session_count,
                 pt_browser_session_aggregates = browser_count, pt_smtp_test_operations = smtp_count,
                 pt_webhook_records = webhook_count, pt_total = 0\<rparr>, db7))"

text \<open>\<open>schema_ok\<close> is the outcome of \<open>verify_url\<close>.\<close>

definition prune ::
    "prune_env \<Rightarrow> bool \<Rightarrow> nat \<Rightarrow> auth_db \<Rightarrow> (maintenance_error, prune_report) res \<times> auth_db" where
  "prune pe schema_ok batch db =
     (case validate_batch batch of
        Inl f \<Rightarrow> (Inl f, db)
      | Inr n \<Rightarrow> if \<not> schema_ok then (Inl (Err SchemaVerification), db) else prune_pool pe n db)"

end
