(* ===== verification/Owl_Retention.thy ===== *)
theory Owl_Retention
  imports Owl_Maintenance Owl_Session_Demo
begin

text \<open>
  What the retention job of \<open>Owl_Maintenance\<close> may not do: forget a refresh token, a session or a
  login whose time is not over.
\<close>

section \<open>Rows that survive\<close>

definition survives :: "'r list \<Rightarrow> 'r list \<Rightarrow> 'r \<Rightarrow> bool" where
  "survives rows rows' r \<longleftrightarrow> (\<exists>Q. rows' = filter Q rows \<and> Q r)"

lemma survives_refl [simp, intro]: "survives rows rows r"
  by (auto simp: survives_def intro: exI [of _ "\<lambda>_. True"])

lemma survives_trans [trans]:
  "survives rows rows' r \<Longrightarrow> survives rows' rows'' r \<Longrightarrow> survives rows rows'' r"
  by (auto simp: survives_def filter_filter)

lemma survives_filter: "Q r \<Longrightarrow> survives rows (filter Q rows) r"
  by (auto simp: survives_def)

lemma survives_mem: "survives rows rows' r \<Longrightarrow> r \<in> set rows \<Longrightarrow> r \<in> set rows'"
  by (auto simp: survives_def)

lemma survives_distinct: "survives rows rows' r \<Longrightarrow> distinct (map k rows) \<Longrightarrow> distinct (map k rows')"
  by (auto simp: survives_def distinct_map_filter)

lemma find_filter: "find P xs = Some x \<Longrightarrow> Q x \<Longrightarrow> find P (filter Q xs) = Some x"
  by (induction xs) (auto split: if_splits)

lemma survives_find: "survives rows rows' r \<Longrightarrow> find P rows = Some r \<Longrightarrow> find P rows' = Some r"
  by (auto simp: survives_def find_filter)

lemma candidates_hold: "r \<in> set (candidates pe n order key p rows) \<Longrightarrow> p r \<and> r \<in> set rows"
  unfolding candidates_def by (drule in_set_takeD) simp

lemma candidates_bound: "length (candidates pe n order key p rows) \<le> n"
  by (simp add: candidates_def)

lemma key_inj: "distinct (map key rows) \<Longrightarrow> r \<in> set rows \<Longrightarrow> r' \<in> set rows \<Longrightarrow> key r = key r' \<Longrightarrow> r = r'"
  by (auto simp: distinct_map dest: inj_onD)

lemma candidate_keys:
  assumes "distinct (map key rows)" and "r \<in> set rows" and "\<not> p r"
  shows "key r \<notin> set (map key (candidates pe n order key p rows))"
proof
  assume "key r \<in> set (map key (candidates pe n order key p rows))"
  then obtain x where x: "x \<in> set (candidates pe n order key p rows)" "key x = key r" by auto
  from candidates_hold [OF x(1)] have "p x" "x \<in> set rows" by simp_all
  with key_inj [OF assms(1), of x r] x(2) assms show False by auto
qed

text \<open>A row that is no candidate survives the deletion of the candidates.\<close>

lemma delete_candidates:
  assumes "distinct (map key rows)" and "r \<in> set rows" and "\<not> p r"
  shows "survives rows (delete_keys key (map key (candidates pe n order key p rows)) rows) r"
  unfolding delete_keys_def using candidate_keys [of key rows r p] assms by (intro survives_filter) simp

section \<open>A live refresh token\<close>

text \<open>A generation with its family and its session.\<close>

definition chain_rows :: "auth_db \<Rightarrow> generation_row \<Rightarrow> family_row \<Rightarrow> session_row \<Rightarrow> bool" where
  "chain_rows db g f s \<longleftrightarrow>
     g \<in> set (generations db) \<and> f \<in> set (families db) \<and> s \<in> set (app_sessions db)
     \<and> rf_id f = rg_family_id g \<and> ss_id s = rf_application_session_id f
     \<and> distinct (map rg_id (generations db)) \<and> distinct (map rf_id (families db))
     \<and> distinct (map ss_id (app_sessions db))"

definition chain_survives ::
    "auth_db \<Rightarrow> auth_db \<Rightarrow> generation_row \<Rightarrow> family_row \<Rightarrow> session_row \<Rightarrow> bool" where
  "chain_survives db db' g f s \<longleftrightarrow>
     survives (generations db) (generations db') g \<and> survives (families db) (families db') f
     \<and> survives (app_sessions db) (app_sessions db') s"

lemma chain_rows_survive: "chain_rows db g f s \<Longrightarrow> chain_survives db db' g f s \<Longrightarrow> chain_rows db' g f s"
  unfolding chain_rows_def chain_survives_def
  using survives_mem survives_distinct by metis

lemma chain_survives_trans:
  "chain_survives db db' g f s \<Longrightarrow> chain_survives db' db'' g f s \<Longrightarrow> chain_survives db db'' g f s"
  unfolding chain_survives_def using survives_trans by metis

lemma chain_unchanged:
  "generations db' = generations db \<Longrightarrow> families db' = families db \<Longrightarrow> app_sessions db' = app_sessions db
   \<Longrightarrow> chain_survives db db' g f s"
  by (simp add: chain_survives_def)

lemma prune_generations_keep:
  assumes "chain_rows db g f s" and "pe_clock pe ClassGenerations - hours 24 < ss_absolute_expires_at s"
  shows "chain_survives db (snd (prune_generations pe n db)) g f s"
proof -
  have "\<not> generation_prunable (pe_clock pe ClassGenerations) db g"
  proof
    assume "generation_prunable (pe_clock pe ClassGenerations) db g"
    then obtain f' s' where "f' \<in> set (families db)" "rf_id f' = rg_family_id g" "s' \<in> set (app_sessions db)"
      "ss_id s' = rf_application_session_id f'"
      "ss_absolute_expires_at s' \<le> pe_clock pe ClassGenerations - hours 24"
      by (auto simp: generation_prunable_def list_ex_iff)
    moreover from this have "f' = f"
      using assms(1) key_inj [of rf_id "families db" f' f] by (simp add: chain_rows_def)
    moreover from calculation have "s' = s"
      using assms(1) key_inj [of ss_id "app_sessions db" s' s] by (simp add: chain_rows_def)
    ultimately show False using assms(2) by simp
  qed
  then show ?thesis
    using assms(1) delete_candidates [of rg_id "generations db" g]
    by (auto simp: chain_survives_def prune_generations_def Let_def chain_rows_def)
qed

lemma prune_sessions_keep:
  assumes "chain_rows db g f s" and "pe_clock pe ClassSessions - hours 24 < ss_absolute_expires_at s"
  shows "chain_survives db (snd (prune_sessions pe n db)) g f s"
proof -
  define gone where "gone = map ss_id (candidates pe n ss_absolute_expires_at ss_id
    (session_prunable (pe_clock pe ClassSessions) db) (app_sessions db))"
  define dropped where "dropped = map rf_id (filter (\<lambda>f. rf_application_session_id f \<in> set gone) (families db))"
  have dead: "\<not> session_prunable (pe_clock pe ClassSessions) db s"
    using assms(2) by (simp add: session_prunable_def)
  have keys: "distinct (map ss_id (app_sessions db))" "s \<in> set (app_sessions db)"
    "distinct (map rf_id (families db))" "f \<in> set (families db)" "ss_id s = rf_application_session_id f"
    using assms(1) by (simp_all add: chain_rows_def)
  have s: "ss_id s \<notin> set gone" unfolding gone_def using keys(1,2) dead by (rule candidate_keys)
  have f: "rf_id f \<notin> set dropped"
  proof
    assume "rf_id f \<in> set dropped"
    then obtain x where "x \<in> set (families db)" "rf_application_session_id x \<in> set gone" "rf_id x = rf_id f"
      unfolding dropped_def by auto
    with key_inj [OF keys(3) keys(4), of x] s keys(5) show False by simp
  qed
  have "rg_family_id g \<notin> set dropped" using assms(1) f by (auto simp: chain_rows_def)
  with s f show ?thesis
    by (simp only: chain_survives_def prune_sessions_def Let_def gone_def [symmetric]
        dropped_def [symmetric] snd_conv) (simp add: survives_filter delete_keys_def)
qed

text \<open>The other classes leave the three tables alone.\<close>

lemma prune_others:
  "generations (snd (prune_logins pe n db)) = generations db"
  "families (snd (prune_logins pe n db)) = families db"
  "app_sessions (snd (prune_logins pe n db)) = app_sessions db"
  "generations (snd (prune_logouts pe n db)) = generations db"
  "families (snd (prune_logouts pe n db)) = families db"
  "app_sessions (snd (prune_logouts pe n db)) = app_sessions db"
  "generations (snd (prune_browsers pe n db)) = generations db"
  "families (snd (prune_browsers pe n db)) = families db"
  "app_sessions (snd (prune_browsers pe n db)) = app_sessions db"
  "generations (snd (prune_smtp_tests pe n db)) = generations db"
  "families (snd (prune_smtp_tests pe n db)) = families db"
  "app_sessions (snd (prune_smtp_tests pe n db)) = app_sessions db"
  by (simp_all add: prune_logins_def prune_logouts_def prune_browsers_def prune_smtp_tests_def Let_def)

text \<open>The webhook statements touch only events, deliveries and attempts.\<close>

definition same_core :: "auth_db \<Rightarrow> auth_db \<Rightarrow> bool" where
  "same_core db db' \<longleftrightarrow>
     generations db' = generations db \<and> families db' = families db \<and> app_sessions db' = app_sessions db
     \<and> logins db' = logins db \<and> methods db' = methods db \<and> tickets db' = tickets db
     \<and> challenges db' = challenges db \<and> email_snapshots db' = email_snapshots db"

lemma webhook_loop_core:
  "(\<And>sql n db. sql \<in> set sqls \<Longrightarrow> same_core db (snd (sql n db)))
   \<Longrightarrow> same_core db (snd (webhook_loop sqls batch affected db))"
proof (induction sqls arbitrary: affected db)
  case Nil
  then show ?case by (simp add: same_core_def)
next
  case (Cons sql rest)
  obtain n db' where sql: "sql (batch - affected) db = (n, db')" by fastforce
  then have first: "same_core db db'" using Cons.prems [of sql db "batch - affected"] by simp
  have rest: "same_core db' (snd (webhook_loop rest batch a db'))" for a
    using Cons.IH Cons.prems by simp
  show ?case
    using sql first rest
    by (auto simp: Let_def same_core_def split: option.splits)
qed

lemma prune_webhooks_core: "same_core db (snd (prune_webhook_records pe n db))"
proof -
  have "same_core db (snd (webhook_loop [cancel_expired_deliveries pe, prune_attempts pe,
      prune_deliveries pe, prune_events pe] n 0 db))"
    by (rule webhook_loop_core)
      (auto simp: same_core_def cancel_expired_deliveries_def prune_attempts_def prune_deliveries_def
        prune_events_def Let_def)
  moreover have "snd (prune_webhook_records pe n db) = db \<or>
      snd (prune_webhook_records pe n db) = snd (webhook_loop [cancel_expired_deliveries pe,
        prune_attempts pe, prune_deliveries pe, prune_events pe] n 0 db)"
    unfolding prune_webhook_records_def by (simp del: webhook_loop.simps split: prod.split sum.split)
  ultimately show ?thesis by (auto simp: same_core_def simp del: webhook_loop.simps)
qed

text \<open>The state after each class of the job.\<close>

lemma prune_pool_states:
  "snd (prune_pool pe n db) =
     snd (prune_webhook_records pe n (snd (prune_smtp_tests pe n (snd (prune_browsers pe n
       (snd (prune_sessions pe n (snd (prune_generations pe n (snd (prune_logouts pe n
         (snd (prune_logins pe n db)))))))))))))"
  unfolding prune_pool_def Let_def by (simp add: case_prod_beta split: sum.split)

lemma prune_pool_chain:
  assumes "chain_rows db g f s" and "\<And>cls. pe_clock pe cls - hours 24 < ss_absolute_expires_at s"
  shows "chain_survives db (snd (prune_pool pe n db)) g f s"
proof -
  define a where "a = snd (prune_logouts pe n (snd (prune_logins pe n db)))"
  define b where "b = snd (prune_generations pe n a)"
  define c where "c = snd (prune_sessions pe n b)"
  have ab: "chain_survives db a g f s" by (simp add: a_def prune_others chain_unchanged)
  then have "chain_survives db b g f s"
    using chain_rows_survive [OF assms(1)] prune_generations_keep [OF _ assms(2)] chain_survives_trans
    unfolding b_def by blast
  then have cs: "chain_survives db c g f s"
    using chain_rows_survive [OF assms(1)] prune_sessions_keep [OF _ assms(2)] chain_survives_trans
    unfolding c_def by blast
  have "chain_survives c (snd (prune_pool pe n db)) g f s"
    using prune_webhooks_core [of "snd (prune_smtp_tests pe n (snd (prune_browsers pe n c)))" pe n]
    by (intro chain_unchanged) (simp_all add: prune_pool_states same_core_def prune_others a_def b_def c_def)
  with cs show ?thesis using chain_survives_trans by blast
qed

section \<open>A live login\<close>

definition login_survives :: "auth_db \<Rightarrow> auth_db \<Rightarrow> login_row \<Rightarrow> bool" where
  "login_survives db db' l \<longleftrightarrow>
     survives (logins db) (logins db') l
     \<and> filter (\<lambda>m. mt_transaction_id m = lt_id l) (methods db')
         = filter (\<lambda>m. mt_transaction_id m = lt_id l) (methods db)
     \<and> filter (\<lambda>t. ht_login_transaction_id t = lt_id l) (tickets db')
         = filter (\<lambda>t. ht_login_transaction_id t = lt_id l) (tickets db)"

lemma prune_logins_keep:
  assumes "l \<in> set (logins db)" and "distinct (map lt_id (logins db))"
    and "pe_clock pe ClassLogins - hours 24 < lt_expires_at l"
  shows "login_survives db (snd (prune_logins pe n db)) l"
proof -
  let ?gone = "map lt_id (candidates pe n lt_expires_at lt_id
     (\<lambda>l. lt_expires_at l \<le> pe_clock pe ClassLogins - hours 24) (logins db))"
  have keep: "lt_id l \<notin> set ?gone"
    using assms by (intro candidate_keys) simp_all
  have "survives (logins db) (logins (snd (prune_logins pe n db))) l"
    using assms delete_candidates [of lt_id "logins db" l]
    by (simp add: prune_logins_def Let_def)
  moreover have "filter (\<lambda>m. mt_transaction_id m = lt_id l) (methods (snd (prune_logins pe n db)))
      = filter (\<lambda>m. mt_transaction_id m = lt_id l) (methods db)"
    using keep unfolding prune_logins_def Let_def
    by (simp del: set_map) (rule filter_cong, auto simp del: set_map)
  moreover have "filter (\<lambda>t. ht_login_transaction_id t = lt_id l) (tickets (snd (prune_logins pe n db)))
      = filter (\<lambda>t. ht_login_transaction_id t = lt_id l) (tickets db)"
    using keep unfolding prune_logins_def Let_def
    by (simp del: set_map) (rule filter_cong, auto simp del: set_map)
  ultimately show ?thesis by (simp add: login_survives_def)
qed

lemma prune_other_logins:
  "logins (snd (prune_logouts pe n db)) = logins db" "methods (snd (prune_logouts pe n db)) = methods db"
  "tickets (snd (prune_logouts pe n db)) = tickets db"
  "logins (snd (prune_generations pe n db)) = logins db" "methods (snd (prune_generations pe n db)) = methods db"
  "tickets (snd (prune_generations pe n db)) = tickets db"
  "logins (snd (prune_sessions pe n db)) = logins db" "methods (snd (prune_sessions pe n db)) = methods db"
  "tickets (snd (prune_sessions pe n db)) = tickets db"
  "logins (snd (prune_browsers pe n db)) = logins db" "methods (snd (prune_browsers pe n db)) = methods db"
  "tickets (snd (prune_browsers pe n db)) = tickets db"
  "logins (snd (prune_smtp_tests pe n db)) = logins db" "methods (snd (prune_smtp_tests pe n db)) = methods db"
  "tickets (snd (prune_smtp_tests pe n db)) = tickets db"
  by (simp_all add: prune_logouts_def prune_generations_def prune_sessions_def prune_browsers_def
      prune_smtp_tests_def Let_def)

lemma prune_pool_login:
  assumes "l \<in> set (logins db)" and "distinct (map lt_id (logins db))"
    and "pe_clock pe ClassLogins - hours 24 < lt_expires_at l"
  shows "login_survives db (snd (prune_pool pe n db)) l"
  using prune_logins_keep [OF assms] prune_webhooks_core
  unfolding prune_pool_states login_survives_def same_core_def
  by (simp add: prune_other_logins)


definition demo_prune :: prune_env where
  "demo_prune = \<lparr>pe_clock = \<lambda>_. days 30, pe_locked = \<lambda>_. False\<rparr>"


end
