(* ===== verification/Owl_Login_Machine.thy ===== *)
theory Owl_Login_Machine
  imports Owl_Session_Errors Owl_Frames
begin

text \<open>
  The life of a login row, across all methods that write \<open>login_transactions\<close>.  A row moves
  along the lifecycle of \<open>domain/login.rs\<close> extended by the edges the repositories add,
  its revision grows by one with every write, the request it was created for never changes, and the
  columns that are filled in always fit its status.
\<close>

section \<open>How a login row moves\<close>

text \<open>
  Besides the transitions of the domain, \<open>deny_provider_callback\<close> fails a login that has only
  started its authorization, \<open>expire_login\<close> expires one whose exchange is in progress, and a
  further email generation leaves the status as it is.
\<close>

definition login_edge :: "login_transaction_status \<Rightarrow> login_transaction_status \<Rightarrow> bool" where
  "login_edge s t \<longleftrightarrow> login_allowed s t
     \<or> (s = ProviderAuthorizationStarted \<and> t = ProviderExchangeFailed)
     \<or> (s = ProviderExchangeInProgress \<and> t = LoginExpired)
     \<or> (s = EmailChallengePending \<and> t = EmailChallengePending)"

definition same_request :: "login_row \<Rightarrow> login_row \<Rightarrow> bool" where
  "same_request l l' \<longleftrightarrow>
     lt_id l' = lt_id l \<and> lt_project_id l' = lt_project_id l
     \<and> lt_application_id l' = lt_application_id l
     \<and> lt_interaction_digest l' = lt_interaction_digest l
     \<and> lt_interaction_digest_key_version l' = lt_interaction_digest_key_version l
     \<and> lt_redirect_uri l' = lt_redirect_uri l
     \<and> lt_application_pkce_challenge l' = lt_application_pkce_challenge l
     \<and> lt_application_state_ciphertext l' = lt_application_state_ciphertext l
     \<and> lt_application_state_key_version l' = lt_application_state_key_version l
     \<and> lt_project_metadata_revision l' = lt_project_metadata_revision l
     \<and> lt_project_security_revision l' = lt_project_security_revision l
     \<and> lt_application_security_revision l' = lt_application_security_revision l
     \<and> lt_claims_revision l' = lt_claims_revision l
     \<and> lt_session_revision l' = lt_session_revision l
     \<and> lt_expires_at l' = lt_expires_at l \<and> lt_created_at l' = lt_created_at l"

definition login_le :: "login_row \<Rightarrow> login_row \<Rightarrow> bool" where
  "login_le l l' \<longleftrightarrow> l' = l \<or>
     (same_request l l' \<and> lt_transaction_revision l < lt_transaction_revision l'
      \<and> (\<exists>s s'. parse_login_status (lt_status l) = Inr s \<and> parse_login_status (lt_status l') = Inr s'
           \<and> login_edge\<^sup>+\<^sup>+ s s'))"

lemma same_request_trans: "same_request a b \<Longrightarrow> same_request b c \<Longrightarrow> same_request a c"
  by (simp add: same_request_def)

lemma login_le_trans:
  assumes "login_le a b" and "login_le b c"
  shows "login_le a c"
proof (cases "b = a \<or> c = b")
  case True
  with assms show ?thesis by auto
next
  case False
  with assms obtain s s' t t' where "parse_login_status (lt_status a) = Inr s"
    "parse_login_status (lt_status b) = Inr s'" "login_edge\<^sup>+\<^sup>+ s s'"
    "parse_login_status (lt_status b) = Inr t" "parse_login_status (lt_status c) = Inr t'"
    "login_edge\<^sup>+\<^sup>+ t t'" by (auto simp: login_le_def)
  moreover from this have "login_edge\<^sup>+\<^sup>+ s t'" by auto
  ultimately show ?thesis
    using assms False by (auto simp: login_le_def intro: same_request_trans)
qed

section \<open>What a stored login looks like\<close>

definition provider_columns :: "login_row \<Rightarrow> bool" where
  "provider_columns l \<longleftrightarrow>
     lt_browser_binding_digest l \<noteq> None \<and> lt_csrf_digest l \<noteq> None
     \<and> lt_selected_method l = Some ''provider'' \<and> lt_provider_configuration_id l \<noteq> None
     \<and> lt_callback_url l \<noteq> None \<and> lt_upstream_state_digest l \<noteq> None
     \<and> map_option length (lt_oidc_nonce_digest l) = Some 32
     \<and> lt_provider_pkce_ciphertext l \<noteq> None"

fun login_shape :: "login_transaction_status \<Rightarrow> login_row \<Rightarrow> bool" where
  "login_shape AwaitingBrowserBinding l \<longleftrightarrow>
     lt_browser_binding_digest l = None \<and> lt_csrf_digest l = None \<and> lt_selected_method l = None
     \<and> lt_provider_configuration_id l = None \<and> lt_user_id l = None"
| "login_shape AwaitingMethodSelection l \<longleftrightarrow>
     lt_browser_binding_digest l \<noteq> None \<and> lt_csrf_digest l \<noteq> None \<and> lt_selected_method l = None
     \<and> lt_provider_configuration_id l = None \<and> lt_user_id l = None"
| "login_shape EmailAddressEntry l \<longleftrightarrow>
     lt_browser_binding_digest l \<noteq> None \<and> lt_csrf_digest l \<noteq> None
     \<and> lt_selected_method l = Some ''email'' \<and> lt_user_id l = None"
| "login_shape EmailChallengePending l \<longleftrightarrow>
     lt_browser_binding_digest l \<noteq> None \<and> lt_csrf_digest l \<noteq> None
     \<and> lt_selected_method l = Some ''email'' \<and> lt_user_id l = None"
| "login_shape ProviderAuthorizationStarted l \<longleftrightarrow> provider_columns l \<and> lt_user_id l = None"
| "login_shape ProviderExchangeInProgress l \<longleftrightarrow> provider_columns l \<and> lt_user_id l = None"
| "login_shape Authenticated l \<longleftrightarrow> lt_user_id l \<noteq> None \<and> lt_authenticated_at l \<noteq> None"
| "login_shape HandoffIssued l \<longleftrightarrow> lt_user_id l \<noteq> None \<and> lt_authenticated_at l \<noteq> None"
| "login_shape LoginCompleted l \<longleftrightarrow> lt_user_id l \<noteq> None \<and> lt_authenticated_at l \<noteq> None"
| "login_shape _ l \<longleftrightarrow> True"


text \<open>A digest is stored with the version of its key, or not at all.\<close>

definition paired_columns :: "login_row \<Rightarrow> bool" where
  "paired_columns l \<longleftrightarrow>
     (lt_browser_binding_digest l = None) = (lt_browser_binding_digest_key_version l = None)
     \<and> (lt_csrf_digest l = None) = (lt_csrf_digest_key_version l = None)
     \<and> (lt_upstream_state_digest l = None) = (lt_upstream_state_digest_key_version l = None)
     \<and> (lt_oidc_nonce_digest l = None) = (lt_oidc_nonce_digest_key_version l = None)
     \<and> (lt_provider_pkce_ciphertext l = None) = (lt_provider_pkce_key_version l = None)"

definition login_typed :: "login_row \<Rightarrow> bool" where
  "login_typed l \<longleftrightarrow>
     (case parse_login_status (lt_status l) of
        Inl _ \<Rightarrow> False
      | Inr s \<Rightarrow> login_shape s l \<and> (lt_terminal_at l \<noteq> None) = login_terminal s)
     \<and> paired_columns l \<and> 1 \<le> lt_transaction_revision l"

interpretation login_machine: row_machine login_table login_le login_typed
proof
  show "login_le r r" for r by (simp add: login_le_def)
qed (rule login_le_trans)

interpretation login_leaves: identity_frame "same_rows login_table"
  by unfold_locales (simp_all add: untouched table_sel, simp_all add: same_rows_def table_sel)

abbreviation login_fenced :: "(login_row list \<Rightarrow> bool) \<Rightarrow> (auth_db, 'a) tx \<Rightarrow> bool" where
  "login_fenced \<equiv> fenced login_table login_le login_typed"

section \<open>The moves\<close>

lemma login_edge_steps [intro]: "login_allowed s t \<Longrightarrow> login_edge\<^sup>+\<^sup>+ s t"
  by (auto simp: login_edge_def)

lemma bump_Inr: "bump n = Inr m \<longleftrightarrow> m = n + 1 \<and> in_i64 (n + 1)"
  by (auto simp: bump_def checked_add_i64_def expect_def split: if_splits)

lemma sql_bump_Inr: "sql_bump n = Inr m \<longleftrightarrow> m = n + 1 \<and> in_i64 (n + 1)"
  by (auto simp: sql_bump_def)

lemma login_apply_Inr: "login_apply x s = (Inr a, t) \<Longrightarrow> login_allowed s t \<and> login_apply x s = login_transition t s"
  by (cases x) (auto simp: login_transition_def guarded_set_def split: if_splits)

lemma login_move_Inr:
  "login_move_or f x s = Inr t \<longleftrightarrow> login_apply x s = (Inr (), t)"
  by (auto simp: login_move_or_def split: prod.splits sum.splits fault.splits)

lemma login_transition_Inr: "login_transition n s = (Inr a, t) \<longleftrightarrow> t = n \<and> login_allowed s n"
  by (auto simp: login_transition_def guarded_set_def split: if_splits)

text \<open>What an update has to show of the row it was computed from.\<close>

definition login_move_ok :: "login_row \<Rightarrow> (login_row \<Rightarrow> login_row) \<Rightarrow> bool" where
  "login_move_ok l g \<longleftrightarrow> login_le l (g l) \<and> lt_id (g l) = lt_id l \<and> (login_typed l \<longrightarrow> login_typed (g l))"

lemma move_ok:
  assumes "lt_status l = login_status_as_str s" and "lt_status (g l) = login_status_as_str t"
    and "login_edge\<^sup>+\<^sup>+ s t" and "same_request l (g l)"
    and "lt_transaction_revision (g l) = lt_transaction_revision l + 1"
    and "login_shape s l \<Longrightarrow> paired_columns l \<Longrightarrow> (lt_terminal_at l \<noteq> None) = login_terminal s
      \<Longrightarrow> login_shape t (g l) \<and> paired_columns (g l) \<and> (lt_terminal_at (g l) \<noteq> None) = login_terminal t"
  shows "login_move_ok l g"
proof -
  have "login_le l (g l)"
    using assms(1-5) by (auto simp: login_le_def parse_login_status_Inr)
  moreover have "login_typed (g l)" if "login_typed l"
    using that assms(1,2,5,6) by (auto simp: login_typed_def parse_login_status_as_str)
  ultimately show ?thesis using assms(4) by (auto simp: login_move_ok_def same_request_def)
qed

lemma update_login:
  assumes "\<And>rows. P rows \<Longrightarrow> l \<in> set rows \<and> login_move_ok l g"
  shows "login_fenced P (db_update login_table (lt_id l) g)"
  using assms
  by (intro login_machine.update_by_key [where m = l]) (auto simp: login_move_ok_def table_sel)

lemma update_login_where:
  assumes "\<And>rows. P rows \<Longrightarrow> l \<in> set rows \<and> login_move_ok l g"
    and "\<And>rows r. P rows \<Longrightarrow> p r \<Longrightarrow> lt_id r = lt_id l"
  shows "login_fenced P (db_update_where login_table p g)"
proof (rule login_machine.update_where)
  fix rows and r :: login_row
  assume P: "P rows" and ok: "tb_ok login_table rows" and r: "r \<in> set rows" "p r" "login_typed r"
  have "r = l"
    using assms(1) [OF P] assms(2) [OF P r(2)] r(1) login_tb.key_unique [OF ok, of r l]
    by (auto simp: table_sel)
  then show "login_le r (g r) \<and> tb_key login_table (g r) = tb_key login_table r \<and> login_typed (g r)"
    using assms(1) [OF P] r(3) by (auto simp: login_move_ok_def table_sel)
qed

lemmas move_defs = same_request_def paired_columns_def provider_columns_def login_terminal_def bind_row_def select_row_def claim_row_def
  deny_row_def fail_row_def authenticated_row_def select_email_row_def pending_login_row_def
  email_handoff_row_def


section \<open>Every method moves logins as allowed\<close>

lemmas fence_rules = fenced_if fenced_prod fenced_option login_machine.attempt login_machine.read
  login_machine.commit

lemmas leave_login = login_leaves.identity_rules login_leaves.frame_audit

lemma fence_stop: "login_fenced P (m_fail e)" "login_fenced P (m_return a)" "login_fenced P (m_try r)"
  by (intro login_machine.leave same.keeps_rules)+

text \<open>Reading the row: it is in the table, and it is the one the query asked for.\<close>

lemma fence_select_login:
  assumes "\<And>l. p l \<Longrightarrow> login_fenced (\<lambda>rows. P rows \<and> l \<in> set rows) (k l)"
  shows "login_fenced P (m_bind (m_read (select_one logins p e)) k)"
proof (rule login_machine.read)
  fix l
  show "login_fenced (\<lambda>rows. P rows \<and> (\<exists>s. tb_rows login_table s = rows \<and> select_one logins p e s = Inr l)) (k l)"
  proof (cases "p l")
    case True
    from assms [OF this] show ?thesis
      by (rule fenced_weaken) (auto simp: table_sel dest: select_one_InrD)
  next
    case False
    then show ?thesis unfolding fenced_def by (auto dest: select_one_InrD)
  qed
qed

lemma fence_expire:
  assumes "\<And>rows. P rows \<Longrightarrow> l \<in> set rows"
  shows "login_fenced P (expire_login env l now)"
proof -
  have "login_move_ok l (\<lambda>r. r\<lparr>lt_status := login_status_as_str LoginExpired, lt_transaction_revision := rv,
      lt_terminal_at := Some now, lt_updated_at := now\<rparr>)"
    if "parse_login_status (lt_status l) = Inr st" "\<not> login_terminal st" "bump (lt_transaction_revision l) = Inr rv"
    for st rv
  proof -
    have "login_edge st LoginExpired"
      using that(2) by (cases st) (auto simp: login_edge_def login_terminal_def)
    then show ?thesis
      using that by (intro move_ok [where s = st and t = LoginExpired])
        (auto simp: move_defs bump_Inr parse_login_status_Inr)
  qed
  then show ?thesis
    unfolding expire_login_def using assms
    by (intro fence_rules login_machine.leave login_machine.last_write update_login leave_login)
      (auto simp: login_terminal_def)
qed

lemma fence_unless_expired:
  "(\<And>rows. P rows \<Longrightarrow> l \<in> set rows) \<Longrightarrow> login_fenced P m \<Longrightarrow> login_fenced P (unless_expired env l now m)"
  unfolding unless_expired_def
  by (intro fence_rules login_machine.last_write fence_expire leave_login) auto

lemma fence_save:
  "(\<And>rows. P rows \<Longrightarrow> l \<in> set rows \<and> login_move_ok l g) \<Longrightarrow> login_fenced P (save_login env l g a)"
  unfolding save_login_def by (intro login_machine.last_write update_login leave_login)


lemma bind_move:
  assumes "parse_login_status (lt_status l) = Inr s0" and "login_move BindBrowser s0 = Inr st"
    and "bump (lt_transaction_revision l) = Inr rv"
  shows "login_move_ok l (bind_row c st rv)"
proof -
  have "s0 = AwaitingBrowserBinding" "st = AwaitingMethodSelection"
    using assms(2) by (cases s0; auto simp: login_move_Inr login_transition_Inr)+
  then show ?thesis
    using assms by (intro move_ok [where s = s0 and t = st]) (auto simp: move_defs bump_Inr parse_login_status_Inr)
qed

lemma select_move:
  assumes "select_checks c l db = Inr (st, m, p)" and "length (vd_value (sp_oidc_nonce c)) = 32"
    and "bump (sp_expected_transaction_revision c) = Inr rv"
  shows "login_move_ok l (select_row c st m p rv)"
proof -
  obtain s0 where s0: "parse_login_status (lt_status l) = Inr s0" "login_move SelectProvider s0 = Inr st"
    "lt_transaction_revision l = sp_expected_transaction_revision c"
    using assms(1) by (auto simp: select_checks_def and_then_eq_Inr split: if_splits)
  then have "s0 = AwaitingMethodSelection" "st = ProviderAuthorizationStarted"
    by (cases s0; auto simp: login_move_Inr login_transition_Inr)+
  then show ?thesis
    using assms s0 by (intro move_ok [where s = s0 and t = st]) (auto simp: move_defs bump_Inr parse_login_status_Inr)
qed

lemma claim_checks_status:
  assumes "claim_checks c p l db = Inr (st, url, nonce, pkce)"
  shows "parse_login_status (lt_status l) = Inr ProviderAuthorizationStarted \<and> st = ProviderExchangeInProgress"
proof -
  obtain s0 where s0: "parse_login_status (lt_status l) = Inr s0" "login_move ClaimProviderCallback s0 = Inr st"
    using assms by (auto simp: claim_checks_def and_then_eq_Inr split: if_splits)
  then show ?thesis by (cases s0) (auto simp: login_move_Inr login_transition_Inr)
qed

lemma claim_move:
  assumes "claim_checks c p l db = Inr (st, url, nonce, pkce)"
    and "bump (lt_transaction_revision l) = Inr rv"
  shows "login_move_ok l (claim_row now st rv)"
  using claim_checks_status [OF assms(1)] assms(2)
  by (intro move_ok [where s = ProviderAuthorizationStarted and t = ProviderExchangeInProgress])
    (auto simp: move_defs bump_Inr parse_login_status_Inr)

lemma deny_move:
  assumes "deny_checks c p l db = Inr u" and "bump (lt_transaction_revision l) = Inr rv"
  shows "login_move_ok l (deny_row now rv)"
proof -
  have "parse_login_status (lt_status l) = Inr ProviderAuthorizationStarted"
    using assms(1) by (auto simp: deny_checks_def and_then_eq_Inr split: if_splits)
  moreover have "login_edge\<^sup>+\<^sup>+ ProviderAuthorizationStarted ProviderExchangeFailed"
    by (auto simp: login_edge_def)
  ultimately show ?thesis using assms(2)
    by (intro move_ok [where s = ProviderAuthorizationStarted and t = ProviderExchangeFailed])
      (auto simp: move_defs bump_Inr parse_login_status_Inr)
qed

lemma failed_move:
  assumes "lt_status l = login_status_as_str ProviderExchangeInProgress"
    and "bump (lt_transaction_revision l) = Inr rv"
  shows "login_move_ok l (\<lambda>r. r\<lparr>lt_status := login_status_as_str ProviderExchangeFailed,
     lt_transaction_revision := rv, lt_terminal_at := Some now, lt_updated_at := now\<rparr>)"
  using assms
  by (intro move_ok [where s = ProviderExchangeInProgress and t = ProviderExchangeFailed])
    (auto simp: move_defs bump_Inr)

lemma completed_move:
  assumes "lt_status l = login_status_as_str ProviderExchangeInProgress"
    and "login_move_or f Authenticate ProviderExchangeInProgress = Inr a"
    and "login_move_or f IssueHandoff a = Inr st" and "bump (lt_transaction_revision l) = Inr rv"
  shows "login_move_ok l (authenticated_row c st rv u)"
proof -
  have "a = Authenticated" "st = HandoffIssued"
    using assms(2,3) by (auto simp: login_move_Inr login_transition_Inr)
  moreover have "login_edge\<^sup>+\<^sup>+ ProviderExchangeInProgress HandoffIssued"
    by (rule tranclp_trans [of _ _ Authenticated]) auto
  ultimately show ?thesis using assms
    by (intro move_ok [where s = ProviderExchangeInProgress and t = HandoffIssued])
      (auto simp: move_defs bump_Inr)
qed

lemma email_move:
  assumes "lt_status l = ''awaiting_method_selection''" and "sql_bump (lt_transaction_revision l) = Inr rv"
  shows "login_move_ok l (select_email_row now rv)"
  using assms
  by (intro move_ok [where s = AwaitingMethodSelection and t = EmailAddressEntry])
    (auto simp: move_defs sql_bump_Inr)

lemma pending_move:
  assumes "lt_status l \<in> {''email_address_entry'', ''email_challenge_pending''}"
    and "sql_bump (lt_transaction_revision l) = Inr rv"
  shows "login_move_ok l (pending_login_row now rv)"
proof -
  from assms(1) obtain s where s: "s \<in> {EmailAddressEntry, EmailChallengePending}"
    "lt_status l = login_status_as_str s" by force
  then have "login_edge\<^sup>+\<^sup>+ s EmailChallengePending" by (auto simp: login_edge_def)
  then show ?thesis using assms(2) s
    by (intro move_ok [where s = s and t = EmailChallengePending]) (auto simp: move_defs sql_bump_Inr)
qed

lemma proved_move:
  assumes "lt_status l = ''email_challenge_pending''" and "sql_bump (lt_transaction_revision l) = Inr rv"
  shows "login_move_ok l (email_handoff_row now rv u)"
proof -
  have "login_edge\<^sup>+\<^sup>+ EmailChallengePending HandoffIssued"
    by (rule tranclp_trans [of _ _ Authenticated]) auto
  then show ?thesis using assms
    by (intro move_ok [where s = EmailChallengePending and t = HandoffIssued])
      (auto simp: move_defs sql_bump_Inr)
qed

subsection \<open>The provider path\<close>

lemma typed_new_login: "login_typed (new_login c)"
  by (simp add: login_typed_def new_login_def paired_columns_def login_terminal_def parse_login_status_def)

lemma leave_methods:
  "keeps (same_rows login_table) (db_insert method_table m)"
  "keeps (same_rows login_table) (db_insert email_snapshot_table n)"
  "keeps (same_rows login_table) (db_insert callback_owner_table w)"
  "keeps (same_rows login_table) (delete_callback_owner i)"
  unfolding delete_callback_owner_def by (rule leaves_put, simp add: table_sel)+

lemma fence_create: "login_fenced P (create_login_transaction env c)"
  unfolding create_login_transaction_def create_checks_def create_writes_def
  by (rule login_machine.attempt, rule login_machine.last_write, rule login_machine.commit,
      rule login_machine.skip)
    (intro leave_login leave_methods login_machine.last_write login_machine.insert_row typed_new_login)+

lemma fence_bind: "login_fenced P (bind_hosted_browser env c)"
  unfolding bind_hosted_browser_def
  by (intro login_machine.attempt login_machine.last_write [where k = "\<lambda>u. m_try (login_record u)"]
      login_machine.commit fence_select_login fence_unless_expired fenced_if fence_save conjI
      fence_stop leave_login)
    (auto intro: bind_move)

lemma fence_select_provider:
  assumes "length (vd_value (sp_oidc_nonce c)) = 32"
  shows "login_fenced P (select_provider_method env c)"
  unfolding select_provider_method_def select_writes_def using assms
  by (intro login_machine.attempt login_machine.last_write [where k = "\<lambda>u. m_try (login_record u)"]
      login_machine.commit fence_select_login fence_unless_expired login_machine.read fenced_prod
      login_machine.last_write update_login leave_login leave_methods)
    (auto intro: select_move)


lemma fence_claim: "login_fenced P (claim_provider_callback_tx env c db0)"
  unfolding claim_provider_callback_tx_def lock_callback_login_def
  by (intro login_machine.attempt fenced_prod
      login_machine.last_write [where m = "transaction n" for n] login_machine.commit fence_select_login
      fence_unless_expired login_machine.read login_machine.last_write fence_save conjI leave_login)
    (auto intro: claim_move)

lemma fence_deny: "login_fenced P (deny_provider_callback env c db0)"
  unfolding deny_provider_callback_def deny_writes_def lock_callback_login_def
  by (intro login_machine.attempt fenced_prod fenced_if
      login_machine.last_write [where m = "transaction n" for n] login_machine.commit fence_select_login
      fence_unless_expired login_machine.read login_machine.last_write update_login conjI
      fence_stop leave_login leave_methods)
    (auto intro: deny_move)

lemma fence_fail: "login_fenced P (fail_provider_exchange_tx env c)"
proof -
  have "st = ProviderExchangeFailed \<and> s0 = ProviderExchangeInProgress"
    if "login_move_or from_domain FailProviderExchange s0 = Inr st" for s0 st
    using that by (cases s0) (auto simp: login_move_Inr login_transition_Inr)
  then have "login_move_ok l (fail_row now st rv)"
    if "parse_login_status (lt_status l) = Inr s0"
      "login_move_or from_domain FailProviderExchange s0 = Inr st"
      "bump (lt_transaction_revision l) = Inr rv" for l s0 st rv now
    using that failed_move [of l rv now] by (fastforce simp: fail_row_def [abs_def] parse_login_status_Inr)
  then show ?thesis
    unfolding fail_provider_exchange_tx_def
    by (intro login_machine.attempt login_machine.last_write [where m = "transaction n" for n]
        login_machine.commit fence_select_login fenced_if fence_save conjI fence_stop leave_login) auto
qed

lemma fence_fail_exchange:
  assumes "\<And>rows. P rows \<Longrightarrow> l \<in> set rows" and "lt_status l = login_status_as_str ProviderExchangeInProgress"
  shows "login_fenced P (fail_exchange env now a l)"
  unfolding fail_exchange_def using assms
  by (intro login_machine.attempt login_machine.last_write update_login leave_login) (blast intro: failed_move)

lemma fence_fail_completion:
  assumes "\<And>rows. P rows \<Longrightarrow> l \<in> set rows"
  shows "login_fenced P (fail_provider_completion env l now e)"
  unfolding fail_provider_completion_def terminalize_claimed_provider_exchange_def
  using assms
  by (intro login_machine.last_write fenced_if fence_stop leave_login) (auto intro: fence_fail_exchange)

lemma fence_completed_handoff:
  assumes "\<And>rows. P rows \<Longrightarrow> l \<in> set rows" and "lt_status l = login_status_as_str ProviderExchangeInProgress"
  shows "login_fenced P (issue_completed_handoff env c l u)"
  unfolding issue_completed_handoff_def Let_def
  using assms
  by (intro login_machine.skip [OF login_leaves.browser_law] login_machine.attempt fenced_if fence_stop
      login_machine.skip [OF login_leaves.frame_handoff] login_machine.last_write update_login leave_login)
    (auto intro: completed_move)

lemma fence_complete: "login_fenced P (complete_authenticated_identity env cenv c)"
proof -
  have claimed: "login_fenced Q (complete_claimed_login env cenv c l p)"
    if "\<And>rows. Q rows \<Longrightarrow> l \<in> set rows" and "lt_status l = login_status_as_str ProviderExchangeInProgress"
    for Q l p
  proof -
    have "login_fenced Q (case r of Refused e \<Rightarrow> fail_provider_completion env l (ci_now c) e
        | Resolved user changed i \<Rightarrow>
            m_bind (m_when changed (fan_out_user env cenv user (ci_now c)))
             (\<lambda>_. m_bind (keep_credential cenv c l p i user) (\<lambda>_. issue_completed_handoff env c l user)))" for r
      using that
      by (cases r) (auto intro!: fence_fail_completion fence_completed_handoff login_machine.skip
          login_leaves.frame_credential login_leaves.frame_fan_out leave_login)
    then show ?thesis
      unfolding complete_claimed_login_def by (intro login_machine.skip login_leaves.frame_resolve)
  qed
  show ?thesis
    unfolding complete_authenticated_identity_def
    by (intro login_machine.commit fence_select_login fence_unless_expired login_machine.attempt fenced_if
        login_machine.read fence_stop)
      (auto simp: parse_login_status_Inr intro!: claimed fence_fail_completion fence_stop
        split: sum.split fault.split application_error.split)
qed


subsection \<open>The email path\<close>

lemma leave_email_tables:
  "keeps (same_rows login_table) (db_insert challenge_table h)"
  "keeps (same_rows login_table) (db_insert outbox_table m)"
  "keeps (same_rows login_table) (db_update_where challenge_table p f)"
  "keeps (same_rows login_table) (db_update_where transfer_table q g)"
  "keeps (same_rows login_table) (db_insert transfer_table t)"
  by (rule leaves_put, simp add: table_sel)+

lemma leave_cancel_mail: "keeps (same_rows login_table) (cancel_stale_mail clk c)"
proof -
  have "keeps (same_rows login_table) (db_update_where outbox_table p g)" for p g
    by (rule leaves_put) (simp add: table_sel)
  then show ?thesis by (auto simp: keeps_def cancel_stale_mail_def)
qed

lemma fence_login_with_snapshot:
  assumes "\<And>l e. lt_project_id l = p \<Longrightarrow> lt_id l = i \<Longrightarrow> login_fenced (\<lambda>rows. P rows \<and> l \<in> set rows) (k (l, e))"
  shows "login_fenced P (m_bind (m_read (login_with_snapshot p i)) k)"
proof (rule login_machine.read)
  fix x :: "login_row \<times> email_snapshot_row"
  obtain l e where x: "x = (l, e)" by fastforce
  show "login_fenced (\<lambda>rows. P rows \<and> (\<exists>s. tb_rows login_table s = rows \<and> login_with_snapshot p i s = Inr x)) (k x)"
  proof (cases "lt_project_id l = p \<and> lt_id l = i")
    case True
    then have "login_fenced (\<lambda>rows. P rows \<and> l \<in> set rows) (k x)" using assms x by blast
    then show ?thesis
      by (rule fenced_weaken)
        (auto simp: x table_sel login_with_snapshot_def and_then_eq_Inr dest!: select_one_InrD)
  next
    case False
    then show ?thesis
      unfolding fenced_def x login_with_snapshot_def by (auto simp: and_then_eq_Inr dest!: select_one_InrD)
  qed
qed

lemma fence_select_email: "login_fenced P (select_email_method c)"
proof -
  have status: "lt_status l = ''awaiting_method_selection''" if "select_email_checks c l e db = Inr u" for l e db u
    using that by (auto simp: select_email_checks_def split: if_splits)
  show ?thesis
    unfolding select_email_method_def
    by (intro login_machine.attempt login_machine.commit fence_login_with_snapshot fenced_prod
        login_machine.read login_machine.last_write leave_login)
      (auto intro!: update_login_where email_move dest: status)
qed

lemma fence_commit_generation: "login_fenced P (commit_email_generation env clk c)"
proof -
  have status: "lt_status l \<in> {''email_address_entry'', ''email_challenge_pending''}"
    if "commit_generation_checks env clk c l e db = Inr u" for l e db u
    using that by (auto simp: commit_generation_checks_def and_then_eq_Inr split: if_splits)
  show ?thesis
    unfolding commit_email_generation_def commit_generation_writes_def supersede_challenges_def Let_def
    by (intro login_machine.attempt login_machine.commit fence_login_with_snapshot fenced_prod
        login_machine.read login_machine.skip [OF leave_cancel_mail]
        login_machine.skip [OF leave_email_tables(3)] login_machine.skip [OF leave_email_tables(1)]
        login_machine.skip [OF same.keeps_when] login_machine.last_write leave_login
        leave_email_tables)
      (auto intro!: update_login_where pending_move dest: status)
qed

lemma leave_consume:
  "keeps (same_rows login_table) (consume_transfer c)" "keeps (same_rows login_table) (consume_challenge c)"
  unfolding consume_transfer_def consume_challenge_def Let_def
  by (intro leave_login leave_email_tables)+

lemma proof_checks_login:
  assumes "completion_proof_checks c db = Inr (l, h)"
  shows "l \<in> set (logins db) \<and> lt_status l = ''email_challenge_pending''
    \<and> lt_id l = vp_transaction_id (cp_verification c)"
  using assms
  by (auto simp: completion_proof_checks_def lock_proof_owners_def challenge_open_def Let_def and_then_eq_Inr
      split: if_splits dest!: select_one_InrD)

lemma fence_complete_email: "login_fenced P (complete_email_proof env c)"
  unfolding complete_email_proof_def finish_email_login_def Let_def
  by (intro login_machine.attempt login_machine.commit login_machine.read fenced_prod
      login_machine.skip [OF login_leaves.frame_resolve_email]
      login_machine.skip [OF login_leaves.frame_email_handoff] login_machine.skip [OF leave_consume(1)]
      login_machine.skip [OF leave_consume(2)] login_machine.last_write leave_login)
    (auto simp: table_sel intro!: update_login_where proved_move dest!: proof_checks_login)


subsection \<open>Reuse, exchange and recovery\<close>

lemma reuse_status:
  assumes "reuse_checks c routed l db = Inr (st, a, u, b)"
  shows "\<exists>s. lt_status l = login_status_as_str s \<and> login_allowed s HandoffIssued \<and> st = HandoffIssued"
proof -
  obtain s where s: "parse_login_status (lt_status l) = Inr s"
    using assms unfolding reuse_checks_def by (auto simp only: and_then_eq_Inr split: if_splits)
  have "login_allowed s HandoffIssued"
    using assms s by (rule_tac ccontr)
      (auto simp: reuse_checks_def login_transition_def guarded_set_def split: if_splits)
  moreover from this have "st = HandoffIssued"
    using assms s by (auto simp: reuse_checks_def login_transition_def guarded_set_def and_then_eq_Inr
        split: if_splits)
  ultimately show ?thesis using s by (auto simp: parse_login_status_Inr)
qed

lemma reuse_move:
  assumes "reuse_checks c routed l db = Inr (st, a, u, b)"
    and "bump (cr_expected_transaction_revision c) = Inr rv"
  shows "login_move_ok l (\<lambda>r. r\<lparr>lt_status := login_status_as_str st, lt_transaction_revision := rv,
     lt_user_id := Some user, lt_authenticated_at := Some t, lt_updated_at := now\<rparr>)"
proof -
  obtain s0 where s0: "lt_status l = login_status_as_str s0" "login_allowed s0 HandoffIssued" "st = HandoffIssued"
    using reuse_status [OF assms(1)] by blast
  moreover have "lt_transaction_revision l = cr_expected_transaction_revision c"
    using assms(1) by (auto simp: reuse_checks_def split: if_splits)
  moreover have "s0 \<in> {AwaitingMethodSelection, Authenticated}" using s0(2) by (cases s0) auto
  ultimately show ?thesis using assms(2)
    by (intro move_ok [where s = s0 and t = HandoffIssued]) (auto simp: move_defs bump_Inr)
qed

lemma leave_browser_update: "keeps (same_rows login_table) (db_update browser_session_table k g)"
  by (rule leaves_put) (simp add: table_sel)

lemma fence_reuse: "login_fenced P (confirm_browser_session_reuse env c db0)"
proof -
  have writes: "login_fenced Q (reuse_writes env c l st a u b)"
    if "\<And>rows. Q rows \<Longrightarrow> l \<in> set rows \<and> (\<exists>s. reuse_checks c routed l s = Inr (st, a, u, b))"
    for Q routed l st a u b
    unfolding reuse_writes_def Let_def
    by (intro login_machine.attempt login_machine.skip [OF leave_browser_update] fenced_if fence_stop
        login_machine.skip [OF login_leaves.frame_handoff] login_machine.last_write update_login leave_login)
      (use that in \<open>blast intro: reuse_move\<close>)
  show ?thesis
    unfolding confirm_browser_session_reuse_def
    by (intro login_machine.attempt login_machine.commit fence_select_login fenced_if login_machine.read
        fenced_prod login_machine.last_write [where m = "expire_login e l n" for e l n] fence_expire writes leave_login)
      auto
qed

lemma commit_checks_login:
  assumes "commit_checks env c ticket db = Inr (l, x)"
  shows "l \<in> set (logins db) \<and> lt_status l = login_status_as_str HandoffIssued"
  using assms
  by (auto simp: commit_checks_def and_then_eq_Inr split: if_splits prod.split_asm dest!: select_one_InrD)

lemma complete_move:
  assumes "lt_status l = login_status_as_str HandoffIssued" and "bump (lt_transaction_revision l) = Inr rv"
  shows "login_move_ok l (\<lambda>r. r\<lparr>lt_status := login_status_as_str LoginCompleted, lt_transaction_revision := rv,
     lt_terminal_at := Some now, lt_updated_at := now\<rparr>)"
  using assms by (intro move_ok [where s = HandoffIssued and t = LoginCompleted]) (auto simp: move_defs bump_Inr)

lemma fence_commit_login:
  assumes "\<And>rows. P rows \<Longrightarrow> l \<in> set rows" and "lt_status l = login_status_as_str HandoffIssued"
  shows "login_fenced P (commit_login c t l)"
proof -
  have "login_fenced P (m_bind (m_try (bump (lt_transaction_revision l))) (\<lambda>rv.
      m_bind (db_update login_table (lt_id l) (\<lambda>r. r\<lparr>lt_status := login_status_as_str LoginCompleted,
        lt_transaction_revision := rv, lt_terminal_at := Some (ch_now c), lt_updated_at := ch_now c\<rparr>)) (\<lambda>_.
      m_return ())))"
    using assms by (intro login_machine.attempt login_machine.last_write update_login leave_login)
      (blast intro: complete_move)
  then have "login_fenced P (m_bind (m_try (case login_apply Complete HandoffIssued of
         (Inl (Err e), _) \<Rightarrow> Inl (Err (from_domain e))
       | (Inl Panic, _) \<Rightarrow> Inl Panic
       | (Inr _, status) \<Rightarrow> Inr status)) (\<lambda>status.
      m_bind (m_try (bump (lt_transaction_revision l))) (\<lambda>rv.
      m_bind (db_update login_table (lt_id l) (\<lambda>r. r\<lparr>lt_status := login_status_as_str status,
        lt_transaction_revision := rv, lt_terminal_at := Some (ch_now c), lt_updated_at := ch_now c\<rparr>)) (\<lambda>_.
      m_return ()))))"
    by (rule_tac login_machine.attempt) (simp add: login_transition_def guarded_set_def)
  then show ?thesis
    unfolding commit_login_def assms(2) parse_login_status_as_str
    by (rule_tac login_machine.skip [OF leaves_put(2)], simp add: table_sel)
      (rule login_machine.attempt, simp)
qed


lemma leave_session_tables:
  "keeps (same_rows login_table) (db_insert binding_table b)"
  "keeps (same_rows login_table) (db_insert projection_table p)"
  "keeps (same_rows login_table) (db_insert session_table s)"
  "keeps (same_rows login_table) (db_insert family_table f)"
  "keeps (same_rows login_table) (db_insert generation_table g)"
  "keeps (same_rows login_table) (db_update handoff_table k h)"
  by (rule leaves_put, simp add: table_sel)+

lemma leave_commit_parts:
  "keeps (same_rows login_table) (commit_binding c u)"
  "keeps (same_rows login_table) (commit_projection env c p a u b)"
  "keeps (same_rows login_table) (commit_session env c t p a u q w b)"
  "keeps (same_rows login_table) (expire_ticket env c t)"
  unfolding commit_binding_def commit_projection_def commit_session_def expire_ticket_def Let_def
  by (intro leave_login leave_session_tables login_leaves.frame_repair login_leaves.frame_event)+

lemma fence_commit_handoff: "login_fenced P (commit_handoff_exchange env c)"
proof -
  have body: "login_fenced Q (commit_writes env c t l p a u q w)"
    if "\<And>rows. Q rows \<Longrightarrow> l \<in> set rows \<and> (\<exists>s x. commit_checks env c t s = Inr (l, x))" for Q t l p a u q w
  proof (cases "lt_status l = login_status_as_str HandoffIssued")
    case True
    with that show ?thesis
      unfolding commit_writes_def
      by (intro login_machine.skip [OF leave_commit_parts(1)] login_machine.skip [OF leave_commit_parts(2)]
          login_machine.skip [OF leave_commit_parts(3)] login_machine.last_write fence_commit_login leave_login) auto
  next
    case False
    then show ?thesis using that by (fastforce simp: fenced_def dest: commit_checks_login)
  qed
  have writes: "login_fenced (\<lambda>rows. \<exists>s. tb_rows login_table s = rows
      \<and> commit_checks env c t s = Inr (l, p, a, u, q, w)) (commit_writes env c t l p a u q w)"
    for t l p a u q w
    by (rule body) (auto simp: table_sel simp del: split_paired_Ex dest: commit_checks_login)
  show ?thesis
    unfolding commit_handoff_exchange_def commit_handoff_body_def
    apply (intro login_machine.attempt fenced_if fence_stop login_machine.commit)
    apply (rule login_machine.read)
    apply (intro fenced_if fence_stop)
     apply (rule login_machine.leave, intro leave_login leave_commit_parts)
    apply (rule login_machine.read)
    by (auto split: prod.split intro!: fenced_weaken [OF writes])
qed

lemma fail_exchange_others:
  assumes "r \<in> set (logins s)" and "lt_id r \<noteq> lt_id l"
  shows "r \<in> set (logins (snd (fail_exchange env now a l s)))"
proof -
  obtain x t where run: "fail_exchange env now a l s = (x, t)" by fastforce
  then show ?thesis
    using assms unfolding fail_exchange_def append_runtime_audit_def
    by (auto simp: m_bind_def m_try_def m_return_def db_update_def db_insert_def table_sel set_row_def Let_def
        split: sum.splits option.splits if_splits)
qed

lemma abandoned_rows:
  "set (abandoned_exchanges c locked db) \<subseteq> set (logins db)"
  "l \<in> set (abandoned_exchanges c locked db) \<Longrightarrow> lt_status l = login_status_as_str ProviderExchangeInProgress"
  "distinct (map lt_id (logins db)) \<Longrightarrow> distinct (map lt_id (abandoned_exchanges c locked db))"
proof -
  let ?ps = "filter (\<lambda>l. lt_status l = login_status_as_str ProviderExchangeInProgress
       \<and> lt_updated_at l < re_abandoned_before c \<and> \<not> locked l) (logins db)"
  have sub: "set (abandoned_exchanges c locked db) \<subseteq> set ?ps"
    unfolding abandoned_exchanges_def by (rule subset_trans [OF set_take_subset]) simp
  then show "set (abandoned_exchanges c locked db) \<subseteq> set (logins db)" by auto
  show "lt_status l = login_status_as_str ProviderExchangeInProgress"
    if "l \<in> set (abandoned_exchanges c locked db)" using that sub by auto
  assume d: "distinct (map lt_id (logins db))"
  then have "distinct (logins db)" "inj_on lt_id (set (logins db))" by (auto simp: distinct_map)
  then have "distinct (abandoned_exchanges c locked db)" "inj_on lt_id (set (abandoned_exchanges c locked db))"
    using sub by (auto simp: abandoned_exchanges_def intro: inj_on_subset)
  then show "distinct (map lt_id (abandoned_exchanges c locked db))" by (simp add: distinct_map)
qed

lemma fence_recover: "login_fenced P (recover_abandoned_provider_exchanges env c locked)"
proof -
  have loop: "login_fenced (\<lambda>rows. P rows \<and> (\<exists>s. tb_rows login_table s = rows \<and> Inr (abandoned_exchanges c locked s) = Inr xs))
      (m_for_each (fail_exchange env now a) xs)" for xs now a
  proof (rule fencedI)
    fix s x t
    assume run: "m_for_each (fail_exchange env now a) xs s = (x, t)"
      and pre: "tb_ok login_table (tb_rows login_table s)" "list_all login_typed (tb_rows login_table s)"
      and "P (tb_rows login_table s) \<and> (\<exists>u. tb_rows login_table u = tb_rows login_table s
        \<and> Inr (abandoned_exchanges c locked u) = Inr xs)"
    then obtain u where u: "logins u = logins s" "abandoned_exchanges c locked u = xs" by (auto simp: table_sel)
    have d: "distinct (map lt_id (logins u))" using pre(1) u(1) by (simp add: login_table_def)
    have "login_fenced (\<lambda>rows. set xs \<subseteq> set rows) (m_for_each (fail_exchange env now a) xs)"
      using abandoned_rows(2) [of _ c locked u] abandoned_rows(3) [of u c locked] d u(2)
      by (intro login_machine.each_row fence_fail_exchange)
        (auto simp: table_sel intro: fail_exchange_others)
    from fencedD [OF this run pre] abandoned_rows(1) [of c locked u] u
    show "tb_ok login_table (tb_rows login_table t) \<and> list_all login_typed (tb_rows login_table t)
        \<and> rows_rel login_table login_le s t" by (auto simp: table_sel)
  qed
  show ?thesis
    unfolding recover_abandoned_provider_exchanges_def
    by (intro fenced_if fence_stop login_machine.commit login_machine.read login_machine.last_write loop leave_login)
qed


end
