(* ===== verification/Owl_Login_Demo.thy ===== *)
theory Owl_Login_Demo
  imports Owl_Login_Machine
begin

text \<open>
  A small tenant with one provider: a login that has started its authorization, the callback
  that claims it and the identity that completes it.
\<close>

definition demo_provider :: provider_row where
  "demo_provider =
     \<lparr>pc_id = 80, pc_project_id = 1, pc_provider_key = ''github'', pc_kind = ''github'',
      pc_display_name = ''GitHub'', pc_issuer = ''https://github.com'', pc_client_id = ''cid'',
      pc_callback_url = ''https://id.example/cb'', pc_secret_material_id = 81, pc_secret_generation = 1,
      pc_status = ''active'', pc_revision = 1, pc_managed_profile_enabled = False,
      pc_managed_profile_revision = 1, pc_onboarding_policy_revision = None\<rparr>"

definition demo_method :: method_row where
  "demo_method =
     \<lparr>mt_project_id = 1, mt_transaction_id = 64, mt_method_key = ''github'', mt_method_kind = ''provider'',
      mt_provider_configuration_id = Some 80, mt_display_name = ''GitHub'', mt_provider_revision = Some 1,
      mt_assignment_security_revision = Some 1, mt_provider_kind = Some ''github'',
      mt_provider_egress_policy_revision = None, mt_created_at = 0\<rparr>"

definition demo_started :: login_row where
  "demo_started = demo_login
     \<lparr>lt_id := 64, lt_interaction_digest := ''i64'', lt_status := ''provider_authorization_started'',
      lt_selected_method := Some ''provider'', lt_provider_configuration_id := Some 80,
      lt_user_id := None, lt_authenticated_at := None, lt_callback_url := Some ''https://id.example/cb'',
      lt_upstream_state_digest := Some ''state'', lt_upstream_state_digest_key_version := Some 1,
      lt_oidc_nonce_digest := Some (replicate 32 (CHR ''n'')), lt_oidc_nonce_digest_key_version := Some 1,
      lt_provider_pkce_ciphertext := Some ''pkce'', lt_provider_pkce_key_version := Some 1,
      lt_provider_revision := Some 1, lt_assignment_security_revision := Some 1\<rparr>"

definition demo_login_db :: auth_db where
  "demo_login_db = demo_db
     \<lparr>providers := [demo_provider],
      assignments := [\<lparr>pa_project_id = 1, pa_application_id = 2, pa_provider_id = 80,
        pa_status = ''active'', pa_security_revision = 1\<rparr>],
      methods := [demo_method], logins := [demo_login, demo_started]\<rparr>"

definition demo_claim :: claim_callback where
  "demo_claim =
     \<lparr>cb_transaction_id = 64, cb_project_public_id = ''prj_12345678'', cb_provider_key = ''github'',
      cb_upstream_state = demo_digest ''state'', cb_browser_binding = demo_digest ''bind'', cb_now = 100,
      cc_readable_key_versions = [1]\<rparr>"

definition demo_deny :: deny_callback where
  "demo_deny =
     \<lparr>cb_transaction_id = 64, cb_project_public_id = ''prj_12345678'', cb_provider_key = ''github'',
      cb_upstream_state = demo_digest ''state'', cb_browser_binding = demo_digest ''bind'', cb_now = 100,
      dc_safe_outcome = ''auth.callback.denied''\<rparr>"

lemmas login_demo_defs = demo_provider_def demo_method_def demo_started_def demo_login_db_def
  demo_claim_def demo_deny_def

lemmas callback_defs = claim_provider_callback_tx_def route_callback_def lock_callback_login_def
  unless_expired_def claim_checks_def optional_digest_matches_def digest_matches_def validate_digest_def
  parse_login_status_def login_move_or_def login_transition_def guarded_set_def method_row_of_def
  revalidate_login_owners_def effective_provider_kind_def provider_kind_parse_def issuer_matches_def
  GITHUB_ISSUER_def digest_array_def save_login_def claim_row_def append_runtime_audit_def login_record_def

lemma demo_claimed_once:
  "\<exists>x db1. claim_provider_callback_tx demo_env demo_claim demo_login_db demo_login_db = (Inr x, db1)"
  by (simp add: callback_defs run_simps login_demo_defs demo_defs)

end
