(* ===== verification/Owl_Login_Laws.thy ===== *)
theory Owl_Login_Laws
  imports Owl_Login_Demo
begin

text \<open>
  Histories of logins.  The methods that write logins, challenges or email snapshots are
  interleaved in any order with anything that leaves these rows alone: challenges that belong
  to no login may change at any time.  Nonces have the 32 bytes their Rust type gives them.
  The theorems are about what a login can still do after one of its calls has succeeded.
\<close>

section \<open>Histories\<close>

definition login_challenges :: "auth_db \<Rightarrow> challenge_row list" where
  "login_challenges db = filter (\<lambda>h. eh_transaction_id h \<noteq> None) (challenges db)"

inductive login_step :: "auth_db \<Rightarrow> auth_db \<Rightarrow> bool" where
  ls_other: "logins t = logins s \<Longrightarrow> login_challenges t = login_challenges s
    \<Longrightarrow> (tb_ok challenge_table (challenges s) \<longrightarrow> tb_ok challenge_table (challenges t))
    \<Longrightarrow> email_snapshots t = email_snapshots s \<Longrightarrow> login_step s t"
| ls_create: "login_step s (snd (create_login_transaction env1 c1 s))"
| ls_bind: "login_step s (snd (bind_hosted_browser env2 c2 s))"
| ls_select_provider: "length (vd_value (sp_oidc_nonce c3)) = 32
    \<Longrightarrow> login_step s (snd (select_provider_method env3 c3 s))"
| ls_claim: "login_step s (snd (claim_provider_callback_tx env4 c4 db0 s))"
| ls_deny: "login_step s (snd (deny_provider_callback env5 c5 db0 s))"
| ls_fail: "login_step s (snd (fail_provider_exchange_tx env6 c6 s))"
| ls_complete: "login_step s (snd (complete_authenticated_identity env7 cenv c7 s))"
| ls_select_email: "login_step s (snd (select_email_method c8 s))"
| ls_commit_generation: "login_step s (snd (commit_email_generation env9 clk c9 s))"
| ls_establish: "login_step s (snd (establish_magic_transfer_context env10 c10 s))"
| ls_verify: "login_step s (snd (verify_email_proof c11 s))"
| ls_complete_email: "login_step s (snd (complete_email_proof env12 c12 s))"
| ls_reuse: "login_step s (snd (confirm_browser_session_reuse env13 c13 db0 s))"
| ls_exchange: "login_step s (snd (commit_handoff_exchange env14 c14 s))"
| ls_recover: "login_step s (snd (recover_abandoned_provider_exchanges env15 c15 locked s))"

abbreviation login_later :: "auth_db \<Rightarrow> auth_db \<Rightarrow> bool" where
  "login_later \<equiv> login_step\<^sup>*\<^sup>*"

definition login_ready :: "auth_db \<Rightarrow> bool" where
  "login_ready db \<longleftrightarrow> tb_ok login_table (logins db) \<and> list_all login_typed (logins db)"

definition login_follows :: "auth_db \<Rightarrow> auth_db \<Rightarrow> bool" where
  "login_follows s t \<longleftrightarrow> (login_ready s \<longrightarrow> login_ready t \<and> rows_rel login_table login_le s t)"

lemma fenced_follows: "login_fenced (\<lambda>_. True) m \<Longrightarrow> login_follows s (snd (m s))"
  unfolding login_follows_def login_ready_def fenced_def by (simp add: table_sel)

lemma leaves_follows: "logins t = logins s \<Longrightarrow> login_follows s t"
  by (auto simp: login_follows_def login_ready_def table_sel intro!: login_machine.rows_eq_rel)

lemma fence_verify: "login_fenced P (verify_email_proof v)"
  unfolding verify_email_proof_def count_attempt_def
  by (rule login_machine.leave) (intro leave_login leave_email_tables)

lemma fence_establish: "login_fenced P (establish_magic_transfer_context env c)"
  unfolding establish_magic_transfer_context_def
  by (rule login_machine.leave) (intro leave_login leave_email_tables)

lemmas fence_operations = fence_create fence_bind fence_select_provider fence_claim fence_deny fence_fail
  fence_complete fence_select_email fence_commit_generation fence_establish fence_verify
  fence_complete_email fence_reuse fence_commit_handoff fence_recover

lemma login_step_follows: "login_step s t \<Longrightarrow> login_follows s t"
  by (induction rule: login_step.induct) (auto intro: leaves_follows fenced_follows fence_operations)

lemma login_later_follows: "login_later s t \<Longrightarrow> login_follows s t"
  by (induction rule: rtranclp_induct)
    (auto simp: login_follows_def login_machine.rows_refl intro: login_machine.hr_trans
      dest!: login_step_follows)

section \<open>No way back\<close>

lemma edge_rank: "login_edge s t \<Longrightarrow> login_rank t < login_rank s \<or> s = EmailChallengePending \<and> t = s"
  by (cases s) (auto simp: login_edge_def)

lemma edges_rank: "login_edge\<^sup>+\<^sup>+ s t \<Longrightarrow> login_rank t < login_rank s \<or> s = EmailChallengePending \<and> t = s"
  by (induction rule: tranclp_induct) (use edge_rank in fastforce)+

text \<open>A later row of the same login is the same row, or newer and further on.\<close>

lemma later_row:
  assumes "login_later s t" and "login_ready s" and "l \<in> set (logins s)" and "l' \<in> set (logins t)"
    and "lt_id l' = lt_id l"
  shows "login_le l l'"
proof -
  from login_later_follows [OF assms(1)] assms(2)
  have t: "login_ready t" "rows_rel login_table login_le s t" by (auto simp: login_follows_def)
  from rows_relD [OF t(2), of l] assms(3) obtain x where
    x: "x \<in> set (logins t)" "lt_id x = lt_id l" "login_le l x" by (auto simp: table_sel)
  then have "x = l'"
    using assms(4,5) t(1) login_tb.key_unique [of "logins t" x l'] by (auto simp: login_ready_def table_sel)
  with x show ?thesis by simp
qed

lemma later_rank:
  assumes "login_later s t" and "login_ready s" and "l \<in> set (logins s)" and "l' \<in> set (logins t)"
    and "lt_id l' = lt_id l" and "lt_status l = login_status_as_str a" and "lt_status l' = login_status_as_str b"
  shows "login_rank b \<le> login_rank a"
proof (cases "l' = l")
  case True
  then have "a = b" using assms(6,7) by (metis parse_login_status_as_str sum.inject(2))
  then show ?thesis by simp
next
  case False
  with later_row [OF assms(1-5)] have "login_edge\<^sup>+\<^sup>+ a b"
    using assms(6,7) by (auto simp: login_le_def parse_login_status_as_str)
  from edges_rank [OF this] show ?thesis by auto
qed

section \<open>What a call needs and what it leaves\<close>

lemma audit_logins: "append_runtime_audit env p k a tk t i s = (x, u) \<Longrightarrow> logins u = logins s"
  using keepsD [OF login_leaves.frame_audit] by (auto simp: same_rows_def table_sel)

lemma updated_login:
  assumes "db_update login_table i g s = (Inr r, t)"
  shows "\<exists>l \<in> set (logins s). lt_id l = i \<and> r = g l \<and> g l \<in> set (logins t)"
  using assms by (auto simp: db_update_eq table_sel set_set_row dest!: find_SomeD)

lemma claim_needs:
  assumes "claim_provider_callback_tx env c db0 db = (Inr x, db1)"
  shows "\<exists>l \<in> set (logins db). lt_id l = cb_transaction_id c
    \<and> lt_status l = login_status_as_str ProviderAuthorizationStarted"
proof -
  from assms obtain project provider l st url nonce pkce where
    "lock_callback_login c project provider db = Inr l" "claim_checks c provider l db = Inr (st, url, nonce, pkce)"
    unfolding claim_provider_callback_tx_def unless_expired_def
    by (auto simp: m_bind_eq m_read_eq m_try_eq m_return_eq transaction_eq split: if_split_asm prod.split_asm)
  from this(1) claim_checks_status [OF this(2)] show ?thesis
    by (auto simp: lock_callback_login_def parse_login_status_Inr dest!: select_one_InrD)
qed

lemma claim_leaves:
  assumes "claim_provider_callback_tx env c db0 db = (Inr x, db1)"
  shows "\<exists>l \<in> set (logins db1). lt_id l = cb_transaction_id c
    \<and> lt_status l = login_status_as_str ProviderExchangeInProgress"
proof -
  from assms obtain project provider l st url nonce pkce rv v where
    l: "lock_callback_login c project provider db = Inr l"
    and st: "claim_checks c provider l db = Inr (st, url, nonce, pkce)"
    and run: "save_login env l (claim_row (cb_now c) st rv) ''auth.callback.claimed'' db = (Inr v, db1)"
    unfolding claim_provider_callback_tx_def unless_expired_def
    by (auto simp: m_bind_eq m_read_eq m_try_eq m_return_eq transaction_eq split: if_split_asm prod.split_asm)
  from run obtain r s1 where upd: "db_update login_table (lt_id l) (claim_row (cb_now c) st rv) db = (Inr r, s1)"
    "logins db1 = logins s1"
    by (auto simp: save_login_def m_bind_eq m_return_eq dest!: audit_logins)
  from updated_login [OF upd(1)] obtain y where
    "lt_id y = lt_id l" "claim_row (cb_now c) st rv y \<in> set (logins s1)" by blast
  moreover have "lt_id l = cb_transaction_id c"
    using l by (auto simp: lock_callback_login_def dest!: select_one_InrD)
  ultimately show ?thesis
    using upd(2) claim_checks_status [OF st]
    by (intro bexI [of _ "claim_row (cb_now c) st rv y"]) (auto simp: claim_row_def)
qed

lemma deny_needs:
  assumes "deny_provider_callback env c db0 db = (Inr x, db1)"
  shows "\<exists>l \<in> set (logins db). lt_id l = cb_transaction_id c
    \<and> lt_status l = login_status_as_str ProviderAuthorizationStarted"
proof -
  from assms obtain project provider l u where
    "lock_callback_login c project provider db = Inr l" "deny_checks c provider l db = Inr u"
    unfolding deny_provider_callback_def unless_expired_def
    by (auto simp: m_bind_eq m_read_eq m_try_eq m_return_eq m_fail_eq transaction_eq split: if_split_asm prod.split_asm)
  then show ?thesis
    by (auto simp: lock_callback_login_def deny_checks_def and_then_eq_Inr parse_login_status_Inr
        split: if_splits dest!: select_one_InrD)
qed

text \<open>
  (C9) A provider callback is redeemed once.  After a callback has been claimed for a login,
  no later callback for that login is accepted, neither a further authorization response nor
  a denial, whatever browser, provider or digests it presents and whatever happens in
  between: exchanges that fail, complete, expire or are recovered do not reopen the login.
\<close>

theorem provider_callback_claimed_once:
  assumes "login_ready db" and "claim_provider_callback_tx env c db0 db = (Inr x, db1)"
    and "login_later db1 db2"
    and "cb_transaction_id c1 = cb_transaction_id c" and "cb_transaction_id c2 = cb_transaction_id c"
  shows "(\<exists>f. fst (claim_provider_callback_tx env1 c1 db3 db2) = Inl f)
     \<and> (\<exists>f. fst (deny_provider_callback env2 c2 db4 db2) = Inl f)"
proof -
  have ready: "login_ready db1"
    using fenced_follows [OF fence_claim, of db env c db0] assms(1,2) by (auto simp: login_follows_def)
  obtain l where l: "l \<in> set (logins db1)" "lt_id l = cb_transaction_id c"
    "lt_status l = login_status_as_str ProviderExchangeInProgress" using claim_leaves [OF assms(2)] by blast
  have over: False if "l' \<in> set (logins db2)" "lt_id l' = cb_transaction_id c"
    "lt_status l' = login_status_as_str ProviderAuthorizationStarted" for l'
    using later_rank [OF assms(3) ready l(1) that(1) _ l(3) that(3)] that(2) l(2) by simp
  have "\<nexists>y. fst (claim_provider_callback_tx env1 c1 db3 db2) = Inr y"
    using claim_needs [of env1 c1 db3 db2] over assms(4) by (metis prod.collapse)
  moreover have "\<nexists>y. fst (deny_provider_callback env2 c2 db4 db2) = Inr y"
    using deny_needs [of env2 c2 db4 db2] over assms(5) by (metis prod.collapse)
  ultimately show ?thesis by (metis sum.exhaust)
qed


lemma demo_login_ready: "login_ready demo_login_db" "login_ready demo_db"
  by (simp_all add: login_ready_def login_typed_def parse_login_status_def login_table_def
      paired_columns_def provider_columns_def login_terminal_def login_demo_defs demo_defs)

theorem provider_callback_claimed_once_witness:
  "\<exists>x db1 f g. claim_provider_callback_tx demo_env demo_claim demo_login_db demo_login_db = (Inr x, db1)
     \<and> fst (claim_provider_callback_tx demo_env demo_claim db1 db1) = Inl f
     \<and> fst (deny_provider_callback demo_env demo_deny db1 db1) = Inl g"
proof -
  obtain x db1 where run: "claim_provider_callback_tx demo_env demo_claim demo_login_db demo_login_db = (Inr x, db1)"
    using demo_claimed_once by blast
  have "cb_transaction_id demo_deny = cb_transaction_id demo_claim"
    by (simp add: demo_claim_def demo_deny_def)
  from provider_callback_claimed_once [OF demo_login_ready(1) run rtranclp.rtrancl_refl refl this] run
  show ?thesis by blast
qed

section \<open>One handoff for a login\<close>

text \<open>The three ways a login is answered with a handoff ticket.\<close>

datatype completion =
    ByProvider runtime_env completion_env complete_identity
  | ByEmail runtime_env complete_proof
  | ByReuse runtime_env confirm_reuse auth_db

fun run_completion :: "completion \<Rightarrow> (auth_db, issued_handoff) tx" where
  "run_completion (ByProvider env cenv c) = complete_authenticated_identity env cenv c"
| "run_completion (ByEmail env c) = complete_email_proof env c"
| "run_completion (ByReuse env c db0) = confirm_browser_session_reuse env c db0"

fun completed_login :: "completion \<Rightarrow> uuid" where
  "completed_login (ByProvider env cenv c) = ci_transaction_id c"
| "completed_login (ByEmail env c) = vp_transaction_id (cp_verification c)"
| "completed_login (ByReuse env c db0) = cr_transaction_id c"

lemma provider_completion:
  assumes "complete_authenticated_identity env cenv c db = (Inr h, db1)"
  obtains l provider user changed identity_id s1 s2 s3 where
    "l \<in> set (logins db)" "lt_id l = ci_transaction_id c" "lt_project_id l = ci_project_id c"
    "lt_status l = login_status_as_str ProviderExchangeInProgress"
    "completion_checks c l db = Inr provider"
    "resolve_identity env c (pc_id provider) db = (Inr (Resolved user changed identity_id), s1)"
    "m_when changed (fan_out_user env cenv user (ci_now c)) s1 = (Inr (), s2)"
    "keep_credential cenv c l provider identity_id user s2 = (Inr (), s3)"
    "issue_completed_handoff env c l user s3 = (Inr (Return h), db1)"
proof -
  from assms obtain l st ck where l: "l \<in> set (logins db)" "lt_id l = ci_transaction_id c"
      "lt_project_id l = ci_project_id c"
    and st: "parse_login_status (lt_status l) = Inr st" "st = ProviderExchangeInProgress"
    and ck: "completion_checks c l db = ck"
    and run: "(case ck of Inl Panic \<Rightarrow> m_try (Inl Panic) | Inl (Err EPersistence) \<Rightarrow> m_fail EPersistence
       | Inl (Err e) \<Rightarrow> fail_provider_completion env l (ci_now c) e
       | Inr provider \<Rightarrow> complete_claimed_login env cenv c l provider) db = (Inr (Return h), db1)"
    unfolding complete_authenticated_identity_def unless_expired_def transaction_eq
    by (auto simp: m_bind_eq m_read_eq m_try_eq m_return_eq m_fail_eq split: if_split_asm dest!: select_one_InrD)
  have no_fail: "fail_provider_completion env l now e db \<noteq> (Inr (Return h), db1)" for now e
    by (auto simp: fail_provider_completion_def m_bind_eq m_return_eq)
  from run no_fail obtain provider where p: "ck = Inr provider"
    and fin: "complete_claimed_login env cenv c l provider db = (Inr (Return h), db1)"
    by (auto simp: m_try_eq m_fail_eq split: sum.split_asm fault.split_asm application_error.split_asm)
  from fin obtain r s1 where r: "resolve_identity env c (pc_id provider) db = (Inr r, s1)"
    and rest: "(case r of Refused e \<Rightarrow> fail_provider_completion env l (ci_now c) e
      | Resolved user changed i \<Rightarrow> m_bind (m_when changed (fan_out_user env cenv user (ci_now c)))
         (\<lambda>_. m_bind (keep_credential cenv c l provider i user) (\<lambda>_. issue_completed_handoff env c l user))) s1
      = (Inr (Return h), db1)"
    by (auto simp: complete_claimed_login_def m_bind_eq)
  show thesis
  proof (cases r)
    case (Refused e)
    with rest show thesis by (auto simp: fail_provider_completion_def m_bind_eq m_return_eq)
  next
    case (Resolved user changed i)
    with rest r l st ck p that show thesis by (auto simp: m_bind_eq parse_login_status_Inr)
  qed
qed


lemma issued_by_provider:
  assumes "issue_completed_handoff env c l u s = (Inr (Return h), t)"
  shows "\<exists>x \<in> set (logins t). lt_id x = lt_id l \<and> lt_status x = login_status_as_str HandoffIssued
    \<and> lt_user_id x = Some (ih_user_id h)"
proof -
  from assms obtain a st rv r s1 s2 where
    st: "login_move_or from_domain Authenticate ProviderExchangeInProgress = Inr a"
      "login_move_or from_domain IssueHandoff a = Inr st"
    and upd: "db_update login_table (lt_id l) (authenticated_row c st rv (u_id u)) s1 = (Inr r, s2)"
    and t: "logins t = logins s2" and h: "ih_user_id h = u_id u"
    unfolding issue_completed_handoff_def Let_def
    by (auto simp: m_bind_eq m_try_eq m_return_eq m_fail_eq split: if_split_asm dest!: audit_logins)
  from st have "st = HandoffIssued" by (auto simp: login_move_Inr login_transition_Inr)
  moreover from updated_login [OF upd] obtain y where
    "lt_id y = lt_id l" "authenticated_row c st rv (u_id u) y \<in> set (logins s2)" by blast
  ultimately show ?thesis
    using t h by (intro bexI [of _ "authenticated_row c st rv (u_id u) y"]) (auto simp: authenticated_row_def)
qed

lemma email_completion:
  assumes "complete_email_proof env c db = (Inr h, db1)"
  obtains l ch x s1 s2 y where
    "completion_proof_checks c db = Inr (l, ch)"
    "resolve_email_user env c (eh_canonicalization_version ch) db = (Inr x, s1)"
    "issue_email_handoff env c l (fst x) (snd (snd x)) s1 = (Inr y, s2)"
    "finish_email_login env c l (fst x) s2 = (Inr (), db1)" "ih_user_id h = fst x"
  using assms unfolding complete_email_proof_def transaction_eq
  by (auto simp: m_bind_eq m_read_eq m_try_eq m_return_eq transaction_eq split: prod.split_asm)

lemma where_updated_login:
  assumes "db_update_where login_table p g s = (Inr n, t)" and "n = 1"
  shows "\<exists>l \<in> set (logins s). p l \<and> g l \<in> set (logins t)"
proof -
  from assms have t: "logins t = map (\<lambda>r. if p r then g r else r) (logins s)"
    and "length (filter p (logins s)) = 1" by (auto simp: db_update_where_eq table_sel)
  then obtain l where "l \<in> set (filter p (logins s))" by (metis length_greater_0_conv less_one list.set_sel(1))
  then show ?thesis by (intro bexI [of _ l]) (auto simp: t image_iff intro!: bexI [of _ l])
qed

lemma issued_by_email:
  assumes "finish_email_login env c l u s = (Inr (), t)"
  shows "\<exists>x \<in> set (logins t). lt_id x = vp_transaction_id (cp_verification c)
    \<and> lt_status x = login_status_as_str HandoffIssued \<and> lt_user_id x = Some u"
proof -
  let ?v = "cp_verification c"
  from assms obtain rv n s1 s2 where
    upd: "db_update_where login_table (\<lambda>x. lt_project_id x = vp_project_id ?v \<and> lt_id x = vp_transaction_id ?v
        \<and> lt_status x = ''email_challenge_pending'' \<and> lt_transaction_revision x = lt_transaction_revision l)
      (email_handoff_row (vp_now ?v) rv u) s1 = (Inr n, s2)" "n = 1"
    and t: "logins t = logins s2"
    unfolding finish_email_login_def Let_def
    by (auto simp: m_bind_eq m_try_eq m_fail_eq split: if_split_asm dest!: audit_logins)
  from where_updated_login [OF upd] obtain y where "lt_id y = vp_transaction_id ?v"
    "email_handoff_row (vp_now ?v) rv u y \<in> set (logins s2)" by blast
  then show ?thesis
    using t by (intro bexI [of _ "email_handoff_row (vp_now ?v) rv u y"]) (auto simp: email_handoff_row_def)
qed


lemma reuse_completion:
  assumes "confirm_browser_session_reuse env c db0 db = (Inr h, db1)"
  obtains l routed st a u b where "l \<in> set (logins db)" "lt_id l = cr_transaction_id c"
    "reuse_checks c routed l db = Inr (st, a, u, b)" "reuse_writes env c l st a u b db = (Inr (Return h), db1)"
  using assms unfolding confirm_browser_session_reuse_def transaction_eq
  by (auto simp: m_bind_eq m_read_eq m_try_eq m_return_eq transaction_eq split: if_split_asm prod.split_asm
      dest!: select_one_InrD)

lemma issued_by_reuse:
  assumes "reuse_writes env c l HandoffIssued a u b s = (Inr (Return h), t)"
  shows "\<exists>x \<in> set (logins t). lt_id x = lt_id l \<and> lt_status x = login_status_as_str HandoffIssued
    \<and> lt_user_id x = Some (ih_user_id h)"
proof -
  from assms obtain rv r s1 s2 where
    upd: "db_update login_table (lt_id l) (\<lambda>r. r\<lparr>lt_status := login_status_as_str HandoffIssued,
        lt_transaction_revision := rv, lt_user_id := Some (u_id u),
        lt_authenticated_at := Some (bs_authenticated_at b), lt_updated_at := cr_now c\<rparr>) s1 = (Inr r, s2)"
    and t: "logins t = logins s2" and h: "ih_user_id h = u_id u"
    unfolding reuse_writes_def Let_def
    by (auto simp: m_bind_eq m_try_eq m_return_eq m_fail_eq split: if_split_asm dest!: audit_logins)
  from updated_login [OF upd] have "r \<in> set (logins s2)" "lt_id r = lt_id l"
    "lt_status r = login_status_as_str HandoffIssued" "lt_user_id r = Some (u_id u)" by auto
  then show ?thesis using h t by auto
qed

lemma completion_needs:
  assumes "run_completion k db = (Inr h, db1)"
  shows "\<exists>l \<in> set (logins db). lt_id l = completed_login k
    \<and> (\<exists>s. lt_status l = login_status_as_str s \<and> 1 < login_rank s)"
proof (cases k)
  case (ByProvider env cenv c)
  with assms provider_completion [of env cenv c db h db1] show ?thesis
    by (metis completed_login.simps(1) login_rank.simps(6) numeral_less_iff one_less_numeral_iff
        run_completion.simps(1) semiring_norm(77))
next
  case (ByEmail env c)
  with assms obtain l ch where "completion_proof_checks c db = Inr (l, ch)"
    using email_completion [of env c db h db1] by (metis run_completion.simps(2))
  from proof_checks_login [OF this] ByEmail show ?thesis
    by (intro bexI [of _ l]) (auto intro!: exI [of _ EmailChallengePending])
next
  case (ByReuse env c db0)
  with assms obtain l routed st a u b where "l \<in> set (logins db)" "lt_id l = cr_transaction_id c"
    "reuse_checks c routed l db = Inr (st, a, u, b)"
    using reuse_completion [of env c db0 db h db1] by (metis run_completion.simps(3))
  moreover from reuse_status [OF this(3)] obtain s where
    "lt_status l = login_status_as_str s" "login_allowed s HandoffIssued" by blast
  moreover from this(2) have "1 < login_rank s" by (cases s) auto
  ultimately show ?thesis using ByReuse by auto
qed

lemma completion_leaves:
  assumes "run_completion k db = (Inr h, db1)"
  shows "\<exists>l \<in> set (logins db1). lt_id l = completed_login k
    \<and> lt_status l = login_status_as_str HandoffIssued \<and> lt_user_id l = Some (ih_user_id h)"
proof (cases k)
  case (ByProvider env cenv c)
  with assms show ?thesis
    using provider_completion [of env cenv c db h db1] issued_by_provider by (metis completed_login.simps(1) run_completion.simps(1))
next
  case (ByEmail env c)
  with assms show ?thesis
    using email_completion [of env c db h db1] issued_by_email by (metis completed_login.simps(2) run_completion.simps(2))
next
  case (ByReuse env c db0)
  with assms obtain l routed st a u b where *: "lt_id l = cr_transaction_id c"
    "reuse_checks c routed l db = Inr (st, a, u, b)" "reuse_writes env c l st a u b db = (Inr (Return h), db1)"
    using reuse_completion [of env c db0 db h db1] by (metis run_completion.simps(3))
  with reuse_status [OF *(2)] issued_by_reuse [of env c l a u b db h db1] ByReuse show ?thesis by auto
qed

lemma completion_follows: "login_follows s (snd (run_completion k s))"
  by (cases k) (simp_all add: fenced_follows fence_complete fence_complete_email fence_reuse)

text \<open>
  (C6) A login is answered with one handoff.  Once a login has been completed, by a provider,
  by an email proof or by the reuse of a browser session, its row names the user the handoff
  was issued to, and no completion of the same login ever succeeds again, not even along
  another path.
\<close>

theorem login_issues_one_handoff:
  assumes "login_ready db" and "run_completion k db = (Inr h, db1)" and "login_later db1 db2"
    and "completed_login k' = completed_login k"
  shows "(\<exists>l \<in> set (logins db1). lt_id l = completed_login k
        \<and> lt_status l = ''handoff_issued'' \<and> lt_user_id l = Some (ih_user_id h))
     \<and> (\<exists>f. fst (run_completion k' db2) = Inl f)"
proof -
  have ready: "login_ready db1" using completion_follows [of db k] assms(1,2) by (auto simp: login_follows_def)
  obtain l where l: "l \<in> set (logins db1)" "lt_id l = completed_login k"
    "lt_status l = login_status_as_str HandoffIssued" "lt_user_id l = Some (ih_user_id h)"
    using completion_leaves [OF assms(2)] by blast
  have "\<nexists>y. fst (run_completion k' db2) = Inr y"
  proof
    assume "\<exists>y. fst (run_completion k' db2) = Inr y"
    then obtain h' db3 where "run_completion k' db2 = (Inr h', db3)" by (metis prod.collapse)
    from completion_needs [OF this] obtain l' s where "l' \<in> set (logins db2)" "lt_id l' = completed_login k"
      "lt_status l' = login_status_as_str s" "1 < login_rank s" using assms(4) by auto
    with later_rank [OF assms(3) ready l(1), of l' HandoffIssued s] l show False by auto
  qed
  then have "\<exists>f. fst (run_completion k' db2) = Inl f" by (metis sum.exhaust)
  with l show ?thesis by auto
qed


theorem login_issues_one_handoff_witness:
  "\<exists>h db1 f. confirm_browser_session_reuse demo_env demo_reuse demo_db demo_db = (Inr h, db1)
     \<and> fst (confirm_browser_session_reuse demo_env demo_reuse db1 db1) = Inl f"
proof -
  obtain h db1 where run: "run_completion (ByReuse demo_env demo_reuse demo_db) demo_db = (Inr h, db1)"
    using demo_reused by auto
  have "completed_login (ByReuse demo_env demo_reuse db1) = completed_login (ByReuse demo_env demo_reuse demo_db)"
    by simp
  from login_issues_one_handoff [OF demo_login_ready(2) run rtranclp.rtrancl_refl this] run
  show ?thesis by auto
qed

section \<open>The life of a row\<close>

lemma terminal_edges: "login_edge\<^sup>+\<^sup>+ s t \<Longrightarrow> \<not> login_terminal s"
  by (erule tranclp.cases, auto) (auto simp: login_terminal_def login_edge_def dest!: tranclpD)

text \<open>
  (C15) A login never goes back.  However the calls on logins are interleaved, every login that was
  there is still there (only a retention run removes one), with the same request: application, redirect address, PKCE challenge, state,
  pinned revisions and expiry.  It is untouched, or its revision has grown and its status lies
  further along the lifecycle.  A login that has ended is never written again.
\<close>

theorem login_rows_never_regress:
  assumes "login_ready db" and "login_later db db'" and "l \<in> set (logins db)"
  shows "\<exists>l' \<in> set (logins db'). lt_id l' = lt_id l
     \<and> (l' = l \<or> same_request l l' \<and> lt_transaction_revision l < lt_transaction_revision l'
         \<and> (\<exists>s s'. lt_status l = login_status_as_str s \<and> lt_status l' = login_status_as_str s'
              \<and> login_edge\<^sup>+\<^sup>+ s s' \<and> \<not> login_terminal s))"
proof -
  from login_later_follows [OF assms(2)] assms(1)
  have "rows_rel login_table login_le db db'" by (simp add: login_follows_def)
  from rows_relD [OF this, of l] assms(3) obtain l' where
    "l' \<in> set (logins db')" "lt_id l' = lt_id l" "login_le l l'" by (auto simp: table_sel)
  then show ?thesis
    by (auto simp: login_le_def parse_login_status_Inr dest: terminal_edges intro!: bexI [of _ l'])
qed

theorem login_rows_never_regress_witness:
  "\<exists>x db1. claim_provider_callback_tx demo_env demo_claim demo_login_db demo_login_db = (Inr x, db1)
     \<and> (\<exists>l' \<in> set (logins db1). lt_id l' = 64
          \<and> lt_redirect_uri l' = ''https://app.example/cb'' \<and> lt_transaction_revision l' \<ge> 3)"
proof -
  obtain x db1 where run: "claim_provider_callback_tx demo_env demo_claim demo_login_db demo_login_db = (Inr x, db1)"
    using demo_claimed_once by blast
  have step: "login_later demo_login_db db1" using ls_claim [of demo_login_db demo_env demo_claim demo_login_db] run by auto
  have "demo_started \<in> set (logins demo_login_db)" by (simp add: demo_login_db_def)
  from login_rows_never_regress [OF demo_login_ready(1) step this] run show ?thesis
    by (auto simp: demo_started_def demo_login_def same_request_def)
qed

text \<open>
  (C14) The columns of a login fit its status.  In every state that is reached, the status of
  each login is one of the known names, every digest is stored with its key version, an ended
  login has its instant, one that was answered has its user, and one whose provider
  authorization has started has everything the callback needs.  So a claim of such a login
  reports an integrity error only when a key is not readable, the admitted method is missing
  or the owners of the login are broken, never for a column of the login.
\<close>

theorem login_rows_stay_typed:
  assumes "login_ready db" and "login_later db db'" and "l \<in> set (logins db')"
  shows "login_typed l
     \<and> (lt_status l = ''provider_authorization_started''
         \<and> claim_checks c provider l db' = Inl (Err EIntegrity) \<longrightarrow>
          the (lt_oidc_nonce_digest_key_version l) \<notin> set (cc_readable_key_versions c)
        \<or> the (lt_provider_pkce_key_version l) \<notin> set (cc_readable_key_versions c)
        \<or> (\<forall>m. method_row_of (lt_project_id l) (lt_id l) (pc_provider_key provider) EIntegrity db' = Inr m
             \<longrightarrow> revalidate_login_owners l (pc_id provider) m db' = Inl (Err EIntegrity)))"
proof -
  have typed: "login_typed l"
    using login_later_follows [OF assms(2)] assms(1,3) by (auto simp: login_follows_def login_ready_def list_all_iff)
  moreover have "the (lt_oidc_nonce_digest_key_version l) \<notin> set (cc_readable_key_versions c)
      \<or> the (lt_provider_pkce_key_version l) \<notin> set (cc_readable_key_versions c)
      \<or> (\<forall>m. method_row_of (lt_project_id l) (lt_id l) (pc_provider_key provider) EIntegrity db' = Inr m
           \<longrightarrow> revalidate_login_owners l (pc_id provider) m db' = Inl (Err EIntegrity))"
    if "lt_status l = ''provider_authorization_started''" "claim_checks c provider l db' = Inl (Err EIntegrity)"
  proof -
    have cols: "provider_columns l" "paired_columns l"
      using typed that(1) by (auto simp: login_typed_def parse_login_status_def)
    then obtain url nonce nv pkce pv where
      "lt_callback_url l = Some url" "lt_oidc_nonce_digest l = Some nonce" "length nonce = 32"
      "lt_oidc_nonce_digest_key_version l = Some nv" "lt_provider_pkce_ciphertext l = Some pkce"
      "lt_provider_pkce_key_version l = Some pv"
      by (auto simp: provider_columns_def paired_columns_def)
    then show ?thesis
      using that by (auto simp: claim_checks_def parse_login_status_def login_move_or_def login_transition_def
          guarded_set_def digest_array_def ok_or_def and_then_eq_Inl split: if_splits)
  qed
  ultimately show ?thesis by blast
qed

theorem login_rows_stay_typed_witness:
  "\<exists>x db1. claim_provider_callback_tx demo_env demo_claim demo_login_db demo_login_db = (Inr x, db1)
     \<and> list_all login_typed (logins db1)"
proof -
  obtain x db1 where run: "claim_provider_callback_tx demo_env demo_claim demo_login_db demo_login_db = (Inr x, db1)"
    using demo_claimed_once by blast
  have step: "login_later demo_login_db db1" using ls_claim [of demo_login_db demo_env demo_claim demo_login_db] run by auto
  from login_rows_stay_typed [OF demo_login_ready(1) step] run show ?thesis
    unfolding list_all_iff by blast
qed

end
