(* ===== verification/Owl_Mail_Demo.thy ===== *)
theory Owl_Mail_Demo
  imports Owl_Login_Demo
begin

text \<open>
  A small tenant with email logins: a login that waits for its code, the pending challenge,
  the mail that carries the code and a guess that misses it.
\<close>

definition demo_email_login :: login_row where
  "demo_email_login = demo_login
     \<lparr>lt_id := 65, lt_interaction_digest := ''i65'', lt_status := ''email_challenge_pending'',
      lt_selected_method := Some ''email'', lt_user_id := None, lt_authenticated_at := None\<rparr>"

definition demo_challenge :: challenge_row where
  "demo_challenge =
     \<lparr>eh_id = 90, eh_project_id = 1, eh_application_id = 2, eh_transaction_id = Some 65, eh_generation = 1,
      eh_status = ''pending'', eh_canonicalization_version = 1, eh_lookup_digest = ''lookup'',
      eh_lookup_digest_key_version = 1, eh_address_ciphertext = Some ''address'',
      eh_address_key_version = Some 1, eh_otp_digest = Some ''otp'', eh_otp_digest_key_version = Some 1,
      eh_otp_attempts = 0, eh_otp_max_attempts = 3, eh_magic_digest = None,
      eh_magic_digest_key_version = None, eh_method_policy_revision = 1, eh_method_security_revision = 1,
      eh_assignment_security_revision = 1, eh_smtp_selection_kind = ''deployment_default'',
      eh_smtp_configuration_id = None, eh_smtp_generation = 1, eh_smtp_security_eligibility_revision = 1,
      eh_browser_binding_required = True, eh_issued_at = 0, eh_otp_expires_at = Some (minutes 5),
      eh_magic_expires_at = None, eh_expires_at = minutes 5, eh_consumed_at = None, eh_terminal_at = None,
      eh_redacted_at = None, eh_created_at = 0, eh_updated_at = 0, eh_owner_kind = ''login''\<rparr>"

definition demo_mail :: outbox_row where
  "demo_mail =
     \<lparr>ob_id = 91, ob_project_id = 1, ob_transaction_id = Some 65, ob_challenge_id = 90,
      ob_challenge_generation = 1, ob_status = ''pending'', ob_smtp_selection_kind = ''deployment_default'',
      ob_smtp_configuration_id = None, ob_smtp_generation = 1, ob_smtp_security_eligibility_revision = 1,
      ob_message_id = ''message-1'', ob_envelope_ciphertext = Some ''to'', ob_envelope_key_version = Some 1,
      ob_body_ciphertext = Some ''body'', ob_body_key_version = Some 1, ob_attempts = 0, ob_max_attempts = 5,
      ob_next_attempt_at = 0, ob_lease_owner = None, ob_lease_expires_at = None, ob_safe_outcome = None,
      ob_useful_until = minutes 5, ob_delivered_at = None, ob_terminal_at = None, ob_redacted_at = None,
      ob_created_at = 0, ob_updated_at = 0\<rparr>"

definition demo_mail_db :: auth_db where
  "demo_mail_db = demo_db
     \<lparr>logins := [demo_login, demo_email_login], challenges := [demo_challenge], outbox := [demo_mail],
      email_policies := [\<lparr>ep_project_id = 1, ep_status = ''enabled'', ep_policy_revision = 1,
        ep_security_revision = 1, ep_signup_enabled = True\<rparr>],
      email_assignments := [\<lparr>ea_project_id = 1, ea_application_id = 2, ea_status = ''active'',
        ea_security_revision = 1\<rparr>],
      deployment_smtp := [\<lparr>ds_generation = 1, ds_status = ''active'',
        ds_security_eligibility_revision = 1, ds_host = ''mail.example'', ds_port = 465,
        ds_tls_mode = ''implicit_tls'', ds_sender_address = ''no-reply@example.com'',
        ds_safe_fingerprint = Some (replicate 32 (CHR ''f'')), ds_explicitly_allowed_private_ips = [],
        ds_retained_until = None, ds_credential_material_id = 92\<rparr>]\<rparr>"

definition demo_guess :: verify_proof where
  "demo_guess =
     \<lparr>vp_project_id = 1, vp_transaction_id = 65, vp_challenge_id = 90, vp_proof_kind = ProofOtp,
      vp_proof_digest = demo_digest ''wrong'', vp_browser_binding = Some (demo_digest ''bind''),
      vp_csrf = demo_digest ''csrf'', vp_transfer_context = None, vp_expected_transaction_revision = 3,
      vp_now = 100\<rparr>"

lemmas mail_demo_defs = demo_email_login_def demo_challenge_def demo_mail_def demo_mail_db_def demo_guess_def

lemmas proof_defs = verify_email_proof_def validate_digest_def validate_optional_def lock_proof_owners_def
  lock_login_application_owners_def lock_email_method_owners_def lock_challenge_def
  validate_email_confirmation_authority_def require_stored_digest_def challenge_open_def
  newest_generation_def challenges_of_def sql_max_def revalidate_policy_and_smtp_def challenge_authority_def
  smtp_usable_def proof_alive_def proof_expires_at_def proof_matches_def count_attempt_def
  count_attempt_row_def db_update_where_def

lemma demo_guessed: "\<exists>db1. verify_email_proof demo_guess demo_mail_db = (Inr ProofInvalid, db1)"
  by (simp add: proof_defs run_simps mail_demo_defs demo_defs)

end
