(* ===== verification/Owl_Email_Guesses.thy ===== *)
theory Owl_Email_Guesses
  imports Owl_Login_Laws Owl_Mail_Demo
begin

text \<open>
  How often the one-time code of a login can be guessed.  A login has at most five challenges
  because generations are numbered from one to five and unique, each counts its wrong guesses
  up to the limit frozen when the login was created, and a challenge that has reached its
  limit is no longer open.  Codes are guessed with \<open>verify_email_proof\<close>; the service calls
  \<open>complete_email_proof\<close> with a proof it has just verified.
\<close>

section \<open>What the challenges of a login look like\<close>

definition challenge_typed :: "challenge_row \<Rightarrow> bool" where
  "challenge_typed h \<longleftrightarrow>
     0 \<le> eh_otp_attempts h \<and> eh_otp_attempts h \<le> eh_otp_max_attempts h
     \<and> eh_otp_max_attempts h \<le> 5 \<and> 1 \<le> eh_generation h \<and> eh_generation h \<le> 5
     \<and> (eh_status h = ''pending'' \<longrightarrow> eh_otp_attempts h < eh_otp_max_attempts h)"

definition snapshot_ok :: "email_snapshot_row \<Rightarrow> bool" where
  "snapshot_ok e \<longleftrightarrow> 1 \<le> es_otp_max_attempts e \<and> es_otp_max_attempts e \<le> 5"

definition email_ready :: "auth_db \<Rightarrow> bool" where
  "email_ready db \<longleftrightarrow>
     tb_ok challenge_table (challenges db) \<and> list_all challenge_typed (login_challenges db)
     \<and> list_all snapshot_ok (email_snapshots db)"

definition guesses :: "uuid \<Rightarrow> uuid \<Rightarrow> auth_db \<Rightarrow> nat" where
  "guesses project_id transaction_id db =
     sum_list (map (\<lambda>h. nat (eh_otp_attempts h)) (challenges_of project_id transaction_id db))"

section \<open>Who writes challenges and snapshots\<close>

interpretation challenge_creation: creation_frame "same_rows challenge_table"
  by unfold_locales (simp_all add: untouched table_sel, simp_all add: same_rows_def table_sel)

interpretation challenge_sessions: session_frame "same_rows challenge_table"
  by unfold_locales (simp_all add: same_rows_def table_sel)

interpretation snapshot_email: email_frame "same_rows email_snapshot_table"
  by unfold_locales (simp_all add: untouched table_sel, simp_all add: same_rows_def table_sel)

interpretation snapshot_sessions: session_frame "same_rows email_snapshot_table"
  by unfold_locales (simp_all add: same_rows_def table_sel)

lemma leaves_challenges: "keeps (same_rows challenge_table) m \<Longrightarrow> m s = (x, t) \<Longrightarrow> challenges t = challenges s"
  by (drule (1) keepsD) (simp add: same_rows_def table_sel)

lemma leaves_snapshots: "keeps (same_rows email_snapshot_table) m \<Longrightarrow> m s = (x, t) \<Longrightarrow> email_snapshots t = email_snapshots s"
  by (drule (1) keepsD) (simp add: same_rows_def table_sel)

section \<open>How the challenges of a login change\<close>

lemma cancel_challenges: "cancel_stale_mail clk c s = (x, t) \<Longrightarrow> challenges t = challenges s"
  by (auto simp: cancel_stale_mail_def db_update_where_def table_sel Let_def split: if_splits)

lemma mail_challenges:
  "m_when b (m_bind (db_insert outbox_table m) (\<lambda>_. m_return ())) s = (x, t) \<Longrightarrow> challenges t = challenges s"
  by (auto simp: m_when_def m_bind_def m_return_def db_insert_def table_sel Let_def split: if_splits sum.splits)

lemma login_where_challenges:
  "db_update_where login_table p g s = (x, t) \<Longrightarrow> challenges t = challenges s"
  by (auto simp: db_update_where_def table_sel Let_def split: if_splits)

definition issues_challenge :: "auth_db \<Rightarrow> auth_db \<Rightarrow> bool" where
  "issues_challenge s t \<longleftrightarrow> (\<exists>clk c e d p. e \<in> set (email_snapshots s)
     \<and> 1 \<le> gn_expected_generation c \<and> gn_expected_generation c \<le> 5
     \<and> challenges t = map (\<lambda>h. if p h then supersede_row (ck_now clk) h else h) (challenges s)
         @ [new_challenge clk c e d])"

lemma commit_writes_challenges:
  assumes "commit_generation_writes clk c l e s = (Inr v, t)"
  shows "v = Return () \<and> tb_ok challenge_table (challenges t) \<and> (\<exists>d p. challenges t
    = map (\<lambda>h. if p h then supersede_row (ck_now clk) h else h) (challenges s) @ [new_challenge clk c e d])"
proof -
  from assms obtain s1 s2 s3 s4 n m d r rv where
    can: "cancel_stale_mail clk c s = (Inr n, s1)"
    and sup: "supersede_challenges clk c s1 = (Inr m, s2)"
    and ins: "db_insert challenge_table (new_challenge clk c e d) s2 = (Inr r, s3)"
    and mail: "m_when d (m_bind (db_insert outbox_table (new_mail clk c e)) (\<lambda>_. m_return ())) s3 = (Inr (), s4)"
    and log: "db_update_where login_table (\<lambda>l'. lt_project_id l' = gn_project_id c \<and> lt_id l' = gn_transaction_id c
        \<and> lt_transaction_revision l' = lt_transaction_revision l) (pending_login_row (ck_now clk) rv) s4 = (Inr 1, t)"
    and v: "v = Return ()"
    unfolding commit_generation_writes_def Let_def
    by (auto simp: m_bind_eq m_read_eq m_try_eq m_fail_eq m_return_eq split: if_split_asm)
  have same: "challenges s1 = challenges s" "challenges t = challenges s3"
    using cancel_challenges [OF can] mail_challenges [OF mail] login_where_challenges [OF log] by simp_all
  obtain p where "challenges s2 = map (\<lambda>h. if p h then supersede_row (ck_now clk) h else h) (challenges s1)"
    by (rule that [of "\<lambda>h. eh_project_id h = gn_project_id c \<and> eh_transaction_id h = Some (gn_transaction_id c)
          \<and> eh_status h \<in> {''pending'', ''delivery_unavailable''}"])
      (use sup in \<open>simp add: supersede_challenges_def db_update_where_eq table_sel del: insert_iff\<close>)
  moreover have "tb_ok challenge_table (challenges s3)" "challenges s3 = challenges s2 @ [new_challenge clk c e d]"
    using ins unfolding db_insert_eq by (simp_all add: table_sel)
  ultimately have "challenges s3 = map (\<lambda>h. if p h then supersede_row (ck_now clk) h else h) (challenges s)
      @ [new_challenge clk c e d]" "tb_ok challenge_table (challenges s3)" using same by simp_all
  then show ?thesis using same v by (intro conjI exI [of _ d] exI [of _ p]) simp_all
qed


lemma failed_transaction:
  assumes "transaction body s = (x, t)" and "\<And>e u. body s \<noteq> (Inr (Reject e), u)"
  shows "t = s \<or> (\<exists>a. x = Inr a \<and> body s = (Inr (Return a), t))"
  using assms by (cases x) (auto simp: transaction_eq)

lemma commit_shape:
  assumes "commit_email_generation env clk c s = (x, t)"
  shows "challenges t = challenges s \<or> issues_challenge s t \<and> tb_ok challenge_table (challenges t)"
proof (cases "validate_generation env c")
  case (Inl f)
  with assms show ?thesis by (simp add: commit_email_generation_def m_bind_def m_try_def)
next
  case (Inr u)
  let ?body = "m_bind (m_read (login_with_snapshot (gn_project_id c) (gn_transaction_id c))) (\<lambda>(l, e).
     m_bind (m_read (commit_generation_checks env clk c l e)) (\<lambda>_. commit_generation_writes clk c l e))"
  have run: "transaction ?body s = (x, t)"
    using assms Inr by (simp add: commit_email_generation_def m_bind_def m_try_def)
  have gen: "1 \<le> gn_expected_generation c \<and> gn_expected_generation c \<le> 5"
    using Inr by (auto simp: validate_generation_def and_then_eq_Inr split: if_splits)
  have shape: "v = Return () \<and> tb_ok challenge_table (challenges t') \<and> issues_challenge s t'"
    if b: "?body s = (Inr v, t')" for v t'
  proof -
    from b obtain l e where le: "login_with_snapshot (gn_project_id c) (gn_transaction_id c) s = Inr (l, e)"
      and w: "commit_generation_writes clk c l e s = (Inr v, t')"
      by (auto simp: m_bind_eq m_read_eq)
    from le have "e \<in> set (email_snapshots s)"
      by (auto simp: login_with_snapshot_def and_then_eq_Inr dest!: select_one_InrD)
    with commit_writes_challenges [OF w] gen show ?thesis unfolding issues_challenge_def by blast
  qed
  from failed_transaction [OF run] shape show ?thesis by fastforce
qed

text \<open>A guess or a completion moves one pending challenge.\<close>

definition marks_pending :: "auth_db \<Rightarrow> auth_db \<Rightarrow> bool" where
  "marks_pending s t \<longleftrightarrow> (\<exists>i now g. g \<in> {count_attempt_row now, consume_row now}
     \<and> challenges t = map (\<lambda>h. if eh_id h = i \<and> eh_status h = ''pending'' then g h else h) (challenges s)
     \<and> tb_ok challenge_table (challenges t))"

lemma marks_pendingI:
  assumes "challenges t = map (\<lambda>h. if eh_id h = i \<and> eh_status h = ''pending'' then g h else h) (challenges s)"
    and "tb_ok challenge_table (challenges t)" and "g = count_attempt_row now \<or> g = consume_row now"
  shows "marks_pending s t"
  unfolding marks_pending_def using assms by blast

lemma verify_shape:
  assumes "verify_email_proof v s = (x, t)"
  shows "challenges t = challenges s \<or> marks_pending s t"
proof -
  have "challenges t = challenges s \<or> (\<exists>n u. count_attempt v s = (Inr n, u) \<and> challenges t = challenges u)"
    using assms unfolding verify_email_proof_def transaction_def
    by (auto simp: m_bind_def m_read_def m_try_def m_return_def split: sum.splits prod.splits verdict.splits if_splits)
  then show ?thesis
    by (auto simp: count_attempt_def db_update_where_eq table_sel intro: marks_pendingI)
qed

lemma finish_shape:
  assumes "finish_email_login env c l u s = (Inr (), t)"
  shows "marks_pending s t"
proof -
  from assms obtain s1 s2 s3 rv n where
    tr: "consume_transfer c s = (Inr (), s1)" and co: "consume_challenge c s1 = (Inr (), s2)"
    and lo: "db_update_where login_table (\<lambda>l'. lt_project_id l' = vp_project_id (cp_verification c)
          \<and> lt_id l' = vp_transaction_id (cp_verification c) \<and> lt_status l' = ''email_challenge_pending''
          \<and> lt_transaction_revision l' = lt_transaction_revision l)
        (email_handoff_row (vp_now (cp_verification c)) rv u) s2 = (Inr n, s3)"
    and au: "append_runtime_audit env (vp_project_id (cp_verification c)) ''system'' ''auth.email.completed''
             ''project_user'' (Some u) (vp_transaction_id (cp_verification c)) s3 = (Inr (), t)"
    unfolding finish_email_login_def Let_def by (auto simp: m_bind_eq m_try_eq m_fail_eq split: if_split_asm)
  have "keeps (same_rows challenge_table) (consume_transfer c)"
    unfolding consume_transfer_def Let_def
    by (intro challenge_creation.identity_rules leaves_put) (simp add: table_sel)
  from leaves_challenges [OF this tr] login_where_challenges [OF lo]
    leaves_challenges [OF challenge_creation.frame_audit au] co
  show ?thesis
    by (auto simp: consume_challenge_def m_bind_eq m_return_eq m_fail_eq db_update_where_eq
        table_sel Let_def split: if_split_asm intro: marks_pendingI)
qed

lemma complete_email_shape:
  assumes "complete_email_proof env c s = (x, t)"
  shows "challenges t = challenges s \<or> marks_pending s t"
proof (cases x)
  case (Inl f)
  have "t = s"
    using assms Inl unfolding complete_email_proof_def
    by (auto simp: m_bind_def m_try_def m_read_def m_return_def transaction_def
        split: sum.splits prod.splits verdict.splits)
  then show ?thesis by simp
next
  case (Inr h)
  with assms have "complete_email_proof env c s = (Inr h, t)" by simp
  then obtain l ch y s1 s2 z where "completion_proof_checks c s = Inr (l, ch)"
    and r: "resolve_email_user env c (eh_canonicalization_version ch) s = (Inr y, s1)"
    and i: "issue_email_handoff env c l (fst y) (snd (snd y)) s1 = (Inr z, s2)"
    and f: "finish_email_login env c l (fst y) s2 = (Inr (), t)" and "ih_user_id h = fst y"
    by (rule email_completion)
  have "challenges s2 = challenges s"
    using leaves_challenges [OF challenge_creation.frame_resolve_email r]
      leaves_challenges [OF challenge_creation.frame_email_handoff i] by simp
  with finish_shape [OF f] show ?thesis by (simp add: marks_pending_def)
qed

section \<open>The limit frozen with a login\<close>

lemma admitted_email_ok:
  assumes "create_checks c s = (Inr (), t)" and "cg_admitted_email c = Some m"
  shows "snapshot_ok (email_snapshot c l m)"
  using assms
  by (auto simp: create_checks_def m_bind_eq m_read_eq m_fail_eq check_admitted_email_def and_then_eq_Inr
      validate_admitted_email_def snapshot_ok_def email_snapshot_def split: if_split_asm)

lemma create_writes_snapshots:
  assumes "create_writes env c s = (Inr l, t)"
  shows "email_snapshots t = email_snapshots s
    \<or> (\<exists>m. cg_admitted_email c = Some m \<and> email_snapshots t = email_snapshots s @ [email_snapshot c l m])"
proof -
  have methods: "keeps (same_rows email_snapshot_table) (db_insert method_table m)" for m
    by (rule leaves_put) (simp add: table_sel)
  have loop: "keeps (same_rows email_snapshot_table) (m_for_each
      (\<lambda>m. m_bind (db_insert method_table (provider_method c l m)) (\<lambda>_. m_return ())) (cg_admitted_providers c))"
    by (intro same.keeps_rules methods)
  from assms obtain s1 s2 s3 where
    s1: "db_insert login_table (new_login c) s = (Inr l, s1)"
    and s2: "m_for_each (\<lambda>m. m_bind (db_insert method_table (provider_method c l m)) (\<lambda>_. m_return ()))
        (cg_admitted_providers c) s1 = (Inr (), s2)"
    and s3: "(case cg_admitted_email c of None \<Rightarrow> m_return ()
        | Some m \<Rightarrow> m_bind (db_insert method_table (email_method c l)) (\<lambda>_.
            m_bind (db_insert email_snapshot_table (email_snapshot c l m)) (\<lambda>_. m_return ()))) s2 = (Inr (), s3)"
    and t: "append_runtime_audit env (lt_project_id l) ''system'' ''auth.login.started'' ''login_transaction''
        (Some (lt_id l)) (lt_id l) s3 = (Inr (), t)"
    unfolding create_writes_def by (auto simp: m_bind_eq m_return_eq)
  have "email_snapshots s2 = email_snapshots s" "email_snapshots t = email_snapshots s3"
    using s1 leaves_snapshots [OF loop s2] leaves_snapshots [OF snapshot_email.frame_audit t]
    by (simp_all add: db_insert_eq table_sel)
  with s3 show ?thesis
    by (auto simp: m_bind_eq m_return_eq db_insert_eq table_sel split: option.split_asm)
qed

lemma create_shape:
  assumes "create_login_transaction env c s = (x, t)"
  shows "email_snapshots t = email_snapshots s \<or> (\<exists>e. snapshot_ok e \<and> email_snapshots t = email_snapshots s @ [e])"
proof -
  let ?body = "m_bind (create_checks c) (\<lambda>_. m_bind (create_writes env c) (\<lambda>model. m_return (Return model)))"
  have reads: "keeps (same_rows email_snapshot_table) (create_checks c)"
    unfolding create_checks_def by (intro same.keeps_rules keeps_option)
  from assms have "t = s \<or> (\<exists>l. ?body s = (Inr (Return l), t))"
    by (cases x) (auto simp: create_login_transaction_def m_bind_eq m_try_eq m_return_eq transaction_eq)
  then show ?thesis
  proof
    assume "\<exists>l. ?body s = (Inr (Return l), t)"
    then obtain l u where u: "create_checks c s = (Inr (), u)" "create_writes env c u = (Inr l, t)"
      by (auto simp: m_bind_eq m_return_eq)
    from create_writes_snapshots [OF u(2)] leaves_snapshots [OF reads u(1)] admitted_email_ok [OF u(1)]
    show ?thesis by auto
  qed simp
qed

section \<open>Every step keeps the limits\<close>

lemma establish_challenges: "keeps (same_rows challenge_table) (establish_magic_transfer_context env c)"
proof -
  have "keeps (same_rows challenge_table) (db_insert transfer_table r)"
    "keeps (same_rows challenge_table) (db_update_where transfer_table p g)" for r p g
    by (rule leaves_put, simp add: table_sel)+
  then show ?thesis
    unfolding establish_magic_transfer_context_def by (intro same.keeps_rules keeps_prod)
qed

definition challenge_move :: "auth_db \<Rightarrow> auth_db \<Rightarrow> bool" where
  "challenge_move s t \<longleftrightarrow>
     login_challenges t = login_challenges s
       \<and> (tb_ok challenge_table (challenges s) \<longrightarrow> tb_ok challenge_table (challenges t))
     \<or> marks_pending s t
     \<or> issues_challenge s t \<and> tb_ok challenge_table (challenges t)"

lemma same_move: "keeps (same_rows challenge_table) m \<Longrightarrow> challenge_move s (snd (m s))"
  by (simp add: challenge_move_def login_challenges_def leaves_challenges [OF _ prod.collapse [symmetric]])

lemma shaped_move: "challenges t = challenges s \<or> marks_pending s t \<Longrightarrow> challenge_move s t"
  by (auto simp: challenge_move_def login_challenges_def)

lemma step_challenges: "login_step s t \<Longrightarrow> challenge_move s t"
proof (induction rule: login_step.induct)
  case (ls_other t s)
  then show ?case by (simp add: challenge_move_def)
next
  case (ls_commit_generation s env9 clk c9)
  show ?case using commit_shape [OF prod.collapse [symmetric], of env9 clk c9 s]
    by (auto simp: challenge_move_def login_challenges_def)
next
  case (ls_verify s c11)
  show ?case by (rule shaped_move, rule verify_shape [OF prod.collapse [symmetric]])
next
  case (ls_complete_email s env12 c12)
  show ?case by (rule shaped_move, rule complete_email_shape [OF prod.collapse [symmetric]])
qed (rule same_move, rule challenge_creation.frame_create challenge_creation.provider_frame
      establish_challenges challenge_sessions.session_operations)+

definition snapshot_move :: "auth_db \<Rightarrow> auth_db \<Rightarrow> bool" where
  "snapshot_move s t \<longleftrightarrow> email_snapshots t = email_snapshots s
     \<or> (\<exists>e. snapshot_ok e \<and> email_snapshots t = email_snapshots s @ [e])"

lemma same_snapshots: "keeps (same_rows email_snapshot_table) m \<Longrightarrow> snapshot_move s (snd (m s))"
  by (simp add: snapshot_move_def leaves_snapshots [OF _ prod.collapse [symmetric]])

lemma step_snapshots: "login_step s t \<Longrightarrow> snapshot_move s t"
proof (induction rule: login_step.induct)
  case (ls_other t s)
  then show ?case by (simp add: snapshot_move_def)
next
  case (ls_create s env1 c1)
  show ?case unfolding snapshot_move_def by (rule create_shape [OF prod.collapse [symmetric]])
qed (rule same_snapshots, rule snapshot_email.provider_frame snapshot_email.email_operations
      snapshot_sessions.session_operations)+

lemma typed_moves:
  assumes "challenge_typed h"
  shows "challenge_typed (supersede_row now h)" "challenge_typed (consume_row now h)"
    "eh_status h = ''pending'' \<Longrightarrow> challenge_typed (count_attempt_row now h)"
  using assms by (auto simp: challenge_typed_def supersede_row_def consume_row_def count_attempt_row_def)

lemma typed_new_challenge:
  "snapshot_ok e \<Longrightarrow> 1 \<le> gn_expected_generation c \<Longrightarrow> gn_expected_generation c \<le> 5 \<Longrightarrow> challenge_typed (new_challenge clk c e d)"
  by (simp add: challenge_typed_def new_challenge_def snapshot_ok_def)

lemma owner_moves [simp]:
  "eh_transaction_id (supersede_row now h) = eh_transaction_id h" "eh_project_id (supersede_row now h) = eh_project_id h"
  "eh_transaction_id (consume_row now h) = eh_transaction_id h" "eh_project_id (consume_row now h) = eh_project_id h"
  "eh_transaction_id (count_attempt_row now h) = eh_transaction_id h"
  "eh_project_id (count_attempt_row now h) = eh_project_id h"
  "eh_otp_attempts (supersede_row now h) = eh_otp_attempts h" "eh_otp_attempts (consume_row now h) = eh_otp_attempts h"
  "eh_otp_attempts (count_attempt_row now h) = eh_otp_attempts h + 1"
  by (simp_all add: supersede_row_def consume_row_def count_attempt_row_def)

lemma ready_move:
  assumes "challenge_move s t" and "snapshot_move s t" and "email_ready s"
  shows "email_ready t"
proof -
  have "list_all snapshot_ok (email_snapshots t)"
    using assms(2,3) by (auto simp: snapshot_move_def email_ready_def)
  moreover have "tb_ok challenge_table (challenges t) \<and> list_all challenge_typed (login_challenges t)"
    using assms(1) unfolding challenge_move_def
  proof (elim disjE conjE)
    assume "marks_pending s t"
    then show ?thesis using assms(3)
      by (auto simp: marks_pending_def email_ready_def login_challenges_def list_all_iff typed_moves split: if_split_asm)
  next
    assume "issues_challenge s t" "tb_ok challenge_table (challenges t)"
    then show ?thesis using assms(3)
      by (auto simp: issues_challenge_def email_ready_def login_challenges_def list_all_iff
          intro!: typed_moves typed_new_challenge split: if_split_asm)
  qed (use assms(3) in \<open>auto simp: email_ready_def\<close>)
  ultimately show ?thesis by (simp add: email_ready_def)
qed

lemma step_ready: "login_step s t \<Longrightarrow> email_ready s \<Longrightarrow> email_ready t"
  by (rule ready_move [OF step_challenges step_snapshots])

section \<open>Counting\<close>

lemma challenges_of_logins:
  "challenges_of p i db = filter (\<lambda>h. eh_project_id h = p \<and> eh_transaction_id h = Some i) (login_challenges db)"
  unfolding challenges_of_def login_challenges_def by (auto intro: filter_cong)

lemma guesses_marked:
  assumes "\<And>h. eh_transaction_id (g h) = eh_transaction_id h \<and> eh_project_id (g h) = eh_project_id h
      \<and> eh_otp_attempts h \<le> eh_otp_attempts (g h)"
  shows "sum_list (map (\<lambda>h. nat (eh_otp_attempts h)) (filter (\<lambda>h. eh_project_id h = p \<and> eh_transaction_id h = Some i) hs))
    \<le> sum_list (map (\<lambda>h. nat (eh_otp_attempts h))
        (filter (\<lambda>h. eh_project_id h = p \<and> eh_transaction_id h = Some i) (map g hs)))"
  using assms by (induction hs) (auto intro!: add_mono nat_mono)

lemma guesses_grow:
  assumes "challenge_move s t"
  shows "guesses p i s \<le> guesses p i t"
  using assms unfolding challenge_move_def
proof (elim disjE conjE)
  assume "marks_pending s t"
  then show ?thesis unfolding marks_pending_def guesses_def challenges_of_def
    by (auto intro!: guesses_marked)
next
  assume "issues_challenge s t"
  then obtain now q n where "challenges t = map (\<lambda>h. if q h then supersede_row now h else h) (challenges s) @ [n]"
    by (auto simp: issues_challenge_def)
  then show ?thesis unfolding guesses_def challenges_of_def
    by (auto intro!: guesses_marked trans_le_add1)
qed (simp add: guesses_def challenges_of_logins)

lemma challenges_per_login:
  assumes "email_ready db"
  shows "length (challenges_of p i db) \<le> 5"
proof -
  let ?hs = "challenges_of p i db"
  have "distinct (map eh_generation ?hs)"
    using assms by (auto simp: email_ready_def challenge_table_def challenges_of_def distinct_map inj_on_def)
  moreover have "set (map eh_generation ?hs) \<subseteq> {1..5}"
    using assms by (auto simp: email_ready_def challenges_of_logins list_all_iff challenge_typed_def)
  ultimately have "length (map eh_generation ?hs) \<le> card {1..5::int}"
    by (metis card_mono distinct_card finite_atLeastAtMost_int)
  then show ?thesis by simp
qed

lemma guesses_bound:
  assumes "email_ready db"
  shows "guesses p i db \<le> 25"
proof -
  have "guesses p i db \<le> sum_list (map (\<lambda>_. 5) (challenges_of p i db))"
    unfolding guesses_def using assms
    by (intro sum_list_mono) (auto simp: email_ready_def challenges_of_logins list_all_iff challenge_typed_def)
  also have "\<dots> \<le> 25" using challenges_per_login [OF assms, of p i] by (simp add: sum_list_triv)
  finally show ?thesis .
qed

section \<open>A wrong code is counted\<close>

definition wrong_code :: "verify_proof \<Rightarrow> auth_db \<Rightarrow> bool" where
  "wrong_code v db \<longleftrightarrow> vp_proof_kind v = ProofOtp \<and>
     (case lock_proof_owners v True db of
        Inl _ \<Rightarrow> False
      | Inr (l, h) \<Rightarrow> challenge_open v l h db \<and> proof_alive v h \<and> \<not> proof_matches v h)"

lemma one_more:
  assumes "distinct (map eh_id hs)" and "h \<in> set hs" and "0 \<le> eh_otp_attempts h"
    and "eh_status h = ''pending''" "eh_project_id h = p" "eh_transaction_id h = Some i"
  shows "sum_list (map (\<lambda>h. nat (eh_otp_attempts h)) (filter (\<lambda>h. eh_project_id h = p \<and> eh_transaction_id h = Some i)
      (map (\<lambda>x. if eh_id x = eh_id h \<and> eh_status x = ''pending'' then count_attempt_row now x else x) hs)))
    = Suc (sum_list (map (\<lambda>h. nat (eh_otp_attempts h))
        (filter (\<lambda>h. eh_project_id h = p \<and> eh_transaction_id h = Some i) hs)))"
  using assms
proof (induction hs)
  case (Cons a hs)
  show ?case
  proof (cases "a = h")
    case True
    with Cons.prems(1) have "map (\<lambda>x. if eh_id x = eh_id h \<and> eh_status x = ''pending''
        then count_attempt_row now x else x) hs = hs" by (intro map_idI) (auto simp: image_iff)
    with True Cons.prems show ?thesis by (simp add: nat_add_distrib)
  next
    case False
    with Cons.prems have "eh_id a \<noteq> eh_id h" by (auto simp: image_iff)
    with False Cons show ?thesis by auto
  qed
qed simp

lemma wrong_code_counted:
  assumes "email_ready s" and "wrong_code v s" and "verify_email_proof v s = (Inr d, t)"
  shows "d = ProofInvalid \<and> guesses (vp_project_id v) (vp_transaction_id v) t
    = Suc (guesses (vp_project_id v) (vp_transaction_id v) s)"
proof -
  obtain l h where lh: "lock_proof_owners v True s = Inr (l, h)" "challenge_open v l h s"
    "proof_alive v h" "\<not> proof_matches v h" "vp_proof_kind v = ProofOtp"
    using assms(2) by (auto simp: wrong_code_def split: sum.split_asm)
  then have h: "h \<in> set (challenges s)" "eh_id h = vp_challenge_id v" "eh_status h = ''pending''"
    "eh_project_id h = vp_project_id v" "eh_transaction_id h = Some (vp_transaction_id v)"
    by (auto simp: lock_proof_owners_def lock_challenge_def and_then_eq_Inr challenge_open_def
        dest!: select_one_InrD split: if_split_asm)
  have typed: "0 \<le> eh_otp_attempts h" and ids: "distinct (map eh_id (challenges s))"
    using assms(1) h by (auto simp: email_ready_def login_challenges_def list_all_iff challenge_typed_def
        challenge_table_def)
  from assms(3) lh obtain n where "d = ProofInvalid" "count_attempt v s = (Inr n, t)"
    unfolding verify_email_proof_def
    by (auto simp: m_bind_eq m_read_eq m_try_eq m_return_eq transaction_eq split: if_split_asm)
  then show ?thesis
    using one_more [OF ids h(1) typed h(3-5), of "vp_now v"] h(2)
    by (simp add: count_attempt_def db_update_where_eq table_sel guesses_def challenges_of_def)
qed

section \<open>Runs with wrong guesses\<close>

text \<open>
  Runs of login steps in which the wrong codes answered for one login are counted.  A call
  that misses the code of an open challenge is one more guess, everything else is not.
\<close>

inductive guessing :: "uuid \<Rightarrow> uuid \<Rightarrow> auth_db \<Rightarrow> nat \<Rightarrow> auth_db \<Rightarrow> bool" for p i db where
  no_guess: "guessing p i db 0 db"
| no_wrong_code: "guessing p i db n s \<Longrightarrow> login_step s t \<Longrightarrow> guessing p i db n t"
| wrong_guess: "guessing p i db n s \<Longrightarrow> vp_project_id v = p \<Longrightarrow> vp_transaction_id v = i
    \<Longrightarrow> wrong_code v s \<Longrightarrow> verify_email_proof v s = (Inr d, t) \<Longrightarrow> guessing p i db (Suc n) t"

lemma guessing_counts:
  assumes "guessing p i db n t" and "email_ready db"
  shows "email_ready t \<and> n + guesses p i db \<le> guesses p i t"
  using assms(1)
proof induction
  case no_guess
  show ?case using assms(2) by simp
next
  case (no_wrong_code n s t)
  then show ?case
    using step_ready [of s t] guesses_grow [OF step_challenges [of s t], of p i] by simp
next
  case (wrong_guess n s v d t)
  have "login_step s t" using ls_verify [of s v] wrong_guess.hyps(5) by simp
  then show ?case
    using wrong_code_counted [of s v d t] wrong_guess step_ready [of s t] by simp
qed

text \<open>
  (C0) The code of a login cannot be searched for.  However logins are created, codes resent,
  proofs verified and completed, the wrong codes that are answered for one login, together with
  those already counted, are all counted by its challenges, and never more than twenty-five:
  a login has at most five challenges of at most five guesses.
\<close>

theorem login_codes_cannot_be_searched:
  assumes "email_ready db" and "guessing project_id transaction_id db n db'"
  shows "n + guesses project_id transaction_id db \<le> guesses project_id transaction_id db'
     \<and> guesses project_id transaction_id db' \<le> 25
     \<and> length (challenges_of project_id transaction_id db') \<le> 5"
  using guessing_counts [OF assms(2,1)] guesses_bound challenges_per_login by blast

lemma demo_email_ready: "email_ready demo_mail_db"
  by (simp add: email_ready_def login_challenges_def challenge_typed_def challenge_table_def mail_demo_defs demo_defs)

lemma demo_wrong_code: "wrong_code demo_guess demo_mail_db"
  by (simp add: wrong_code_def proof_defs run_simps mail_demo_defs demo_defs)

theorem login_codes_cannot_be_searched_witness:
  "\<exists>db1. verify_email_proof demo_guess demo_mail_db = (Inr ProofInvalid, db1)
     \<and> 1 + guesses 1 65 demo_mail_db \<le> guesses 1 65 db1 \<and> guesses 1 65 db1 \<le> 25"
proof -
  obtain db1 where run: "verify_email_proof demo_guess demo_mail_db = (Inr ProofInvalid, db1)"
    using demo_guessed by blast
  have "guessing 1 65 demo_mail_db (Suc 0) db1"
    by (rule wrong_guess [OF no_guess _ _ demo_wrong_code run]) (simp_all add: demo_guess_def)
  from login_codes_cannot_be_searched [OF demo_email_ready this] run show ?thesis by auto
qed

end
