(* ===== verification/Owl_Mail_Policy.thy ===== *)
theory Owl_Mail_Policy
  imports Owl_Email Owl_Store
begin

text \<open>
  The pure part of \<open>application/mail.rs\<close>: which relays may be spoken to, what a submission must
  look like, when a mail is tried again and what its envelope is bound to.  An \<open>IpAddr\<close> is the
  list of its octets; the parser of the standard library is written out, because the validation
  of an endpoint asks whether its host name is an address.
\<close>

unbundle bit_operations_syntax

section \<open>Addresses\<close>

datatype ip_addr = IpV4 "u8 list" | IpV6 "u8 list"

fun ip_wf :: "ip_addr \<Rightarrow> bool" where
  "ip_wf (IpV4 octets) \<longleftrightarrow> length octets = 4"
| "ip_wf (IpV6 octets) \<longleftrightarrow> length octets = 16"

text \<open>\<open>char::to_digit\<close> and \<open>Parser::read_number\<close> with a bound on the digits\<close>

definition digit_value :: "nat \<Rightarrow> char \<Rightarrow> nat option" where
  "digit_value radix c =
     (let v = (if is_ascii_digit c then byte c - 48
               else if is_ascii_alphanumeric c then byte (ascii_lower c) - 87 else radix)
      in if v < radix then Some v else None)"

definition read_number :: "nat \<Rightarrow> nat \<Rightarrow> bool \<Rightarrow> nat \<Rightarrow> string \<Rightarrow> (nat \<times> string) option" where
  "read_number radix max_digits allow_zero_prefix limit s =
     (let digits = takeWhile (\<lambda>c. digit_value radix c \<noteq> None) s;
          result = foldl (\<lambda>n c. n * radix + the (digit_value radix c)) 0 digits
      in if length digits > max_digits \<or> digits = []
            \<or> (\<not> allow_zero_prefix \<and> hd digits = CHR ''0'' \<and> length digits > 1) \<or> result > limit
         then None
         else Some (result, drop (length digits) s))"

definition read_given_char :: "char \<Rightarrow> string \<Rightarrow> string option" where
  "read_given_char c s = (case s of [] \<Rightarrow> None | x # rest \<Rightarrow> if x = c then Some rest else None)"

definition read_separator ::
    "char \<Rightarrow> nat \<Rightarrow> (string \<Rightarrow> ('a \<times> string) option) \<Rightarrow> string \<Rightarrow> ('a \<times> string) option" where
  "read_separator c index inner s = Option.bind (if index > 0 then read_given_char c s else Some s) inner"

fun read_octets :: "nat \<Rightarrow> nat \<Rightarrow> string \<Rightarrow> (u8 list \<times> string) option" where
  "read_octets i 0 s = Some ([], s)"
| "read_octets i (Suc n) s =
     Option.bind (read_separator CHR ''.'' i (read_number 10 3 False 255) s) (\<lambda>(octet, rest).
     Option.bind (read_octets (Suc i) n rest) (\<lambda>(octets, rest'). Some (of_nat octet # octets, rest')))"

definition read_ipv4_addr :: "string \<Rightarrow> (u8 list \<times> string) option" where
  "read_ipv4_addr s = read_octets 0 4 s"

text \<open>
  Reads up to the given number of groups from the position \<open>i\<close> on and says whether the last two
  were an embedded IPv4 address.
\<close>

fun read_groups :: "nat \<Rightarrow> nat \<Rightarrow> string \<Rightarrow> u8 list \<times> bool \<times> string" where
  "read_groups i 0 s = ([], False, s)"
| "read_groups i (Suc n) s =
     (case (if n \<ge> 1 then read_separator CHR '':'' i read_ipv4_addr s else None) of
        Some (v4, rest) \<Rightarrow> (v4, True, rest)
      | None \<Rightarrow>
          (case read_separator CHR '':'' i (read_number 16 4 True 65535) s of
             None \<Rightarrow> ([], False, s)
           | Some (g, rest) \<Rightarrow>
               (let (gs, embedded, rest') = read_groups (Suc i) n rest
                in (of_nat (g div 256) # of_nat (g mod 256) # gs, embedded, rest'))))"

definition read_ipv6_addr :: "string \<Rightarrow> (u8 list \<times> string) option" where
  "read_ipv6_addr s =
     (let (head, head_ipv4, rest) = read_groups 0 8 s
      in if length head = 16 then Some (head, rest)
         else if head_ipv4 then None
         else
         Option.bind (read_given_char CHR '':'' rest) (\<lambda>rest.
         Option.bind (read_given_char CHR '':'' rest) (\<lambda>rest.
         let (tail, _, rest) = read_groups 0 (8 - (length head div 2 + 1)) rest
         in Some (head @ replicate (16 - length head - length tail) 0 @ tail, rest))))"

definition parse_ip_addr :: "string \<Rightarrow> ip_addr option" where
  "parse_ip_addr s =
     (case read_ipv4_addr s of
        Some (octets, rest) \<Rightarrow> if rest = [] then Some (IpV4 octets) else None
      | None \<Rightarrow>
          (case read_ipv6_addr s of
             Some (octets, rest) \<Rightarrow> if rest = [] then Some (IpV6 octets) else None
           | None \<Rightarrow> None))"

fun is_loopback :: "ip_addr \<Rightarrow> bool" where
  "is_loopback (IpV4 octets) \<longleftrightarrow> octets ! 0 = 127"
| "is_loopback (IpV6 octets) \<longleftrightarrow> octets = replicate 15 0 @ [1]"

definition is_private_v4 :: "u8 list \<Rightarrow> bool" where
  "is_private_v4 octets \<longleftrightarrow>
     octets ! 0 = 10 \<or> (octets ! 0 = 172 \<and> 16 \<le> octets ! 1 \<and> octets ! 1 \<le> 31)
     \<or> (octets ! 0 = 192 \<and> octets ! 1 = 168)"

section \<open>Where mail may be sent\<close>

definition is_non_public_ipv4 :: "u8 list \<Rightarrow> bool" where
  "is_non_public_ipv4 octets \<longleftrightarrow>
     (let first = octets ! 0; second = octets ! 1; third = octets ! 2
      in first = 0
         \<or> (first = 100 \<and> second AND 0xC0 = 64)
         \<or> (first = 192 \<and> second = 0 \<and> third = 0)
         \<or> (first = 192 \<and> second = 0 \<and> third = 2)
         \<or> (first = 192 \<and> second = 88 \<and> third = 99)
         \<or> (first = 198 \<and> second \<in> {18, 19})
         \<or> (first = 198 \<and> second = 51 \<and> third = 100)
         \<or> (first = 203 \<and> second = 0 \<and> third = 113)
         \<or> first \<ge> 240)"

definition is_ipv6_unique_local :: "u8 list \<Rightarrow> bool" where
  "is_ipv6_unique_local octets \<longleftrightarrow> octets ! 0 AND 0xFE = 0xFC"

definition is_ipv6_link_local :: "u8 list \<Rightarrow> bool" where
  "is_ipv6_link_local octets \<longleftrightarrow> octets ! 0 = 0xFE \<and> octets ! 1 AND 0xC0 = 0x80"

definition is_globally_routable_ipv6 :: "u8 list \<Rightarrow> bool" where
  "is_globally_routable_ipv6 octets =
     (if octets ! 0 AND 0xE0 \<noteq> 0x20 then False
      else if octets ! 0 = 0x20 \<and> octets ! 1 = 0x01 \<and> octets ! 2 \<le> 0x01 then False
      else if take 4 octets = [0x20, 0x01, 0x0D, 0xB8] then False
      else if take 2 octets = [0x20, 0x02] then False
      else if take 6 octets = [0x26, 0x20, 0x00, 0x4F, 0x80, 0x00] then False
      else if octets ! 0 = 0x3F \<and> octets ! 1 = 0xFF \<and> octets ! 2 AND 0xF0 = 0 then False
      else True)"

fun unconditionally_denied :: "ip_addr \<Rightarrow> bool" where
  "unconditionally_denied (IpV4 octets) \<longleftrightarrow>
     is_loopback (IpV4 octets)
     \<or> (octets ! 0 = 169 \<and> octets ! 1 = 254)
     \<or> octets = [255, 255, 255, 255]
     \<or> octets = [0, 0, 0, 0]
     \<or> (224 \<le> octets ! 0 \<and> octets ! 0 \<le> 239)
     \<or> octets ! 0 = 0
     \<or> octets ! 0 \<ge> 224
     \<or> octets = [169, 254, 169, 254]
     \<or> octets = [100, 100, 100, 200]"
| "unconditionally_denied (IpV6 octets) \<longleftrightarrow>
     take 12 octets = replicate 10 0 @ [0xFF, 0xFF]
     \<or> is_loopback (IpV6 octets)
     \<or> octets = replicate 16 0
     \<or> octets ! 0 = 0xFF
     \<or> is_ipv6_link_local octets
     \<or> (\<not> is_ipv6_unique_local octets \<and> \<not> is_globally_routable_ipv6 octets)"

fun private_requires_explicit_allow :: "ip_addr \<Rightarrow> bool" where
  "private_requires_explicit_allow (IpV4 octets) \<longleftrightarrow> is_private_v4 octets \<or> is_non_public_ipv4 octets"
| "private_requires_explicit_allow (IpV6 octets) \<longleftrightarrow> is_ipv6_unique_local octets"

definition validate_private_relay_allowlist :: "ip_addr list \<Rightarrow> (application_error, unit) res" where
  "validate_private_relay_allowlist addresses =
     (if length addresses > 16
       \<or> list_ex (\<lambda>a. (\<not> is_loopback a \<and> unconditionally_denied a)
                    \<or> (\<not> is_loopback a \<and> \<not> private_requires_explicit_allow a)) addresses
      then Inl (Err EInvalidInput) else Inr ())"

section \<open>Endpoints\<close>

definition MAX_DNS_ANSWERS :: nat where "MAX_DNS_ANSWERS = 16"

definition MAX_CNAME_DEPTH :: nat where "MAX_CNAME_DEPTH = 8"

definition MAX_MAIL_BODY_BYTES :: nat where "MAX_MAIL_BODY_BYTES = 64 * 1024"

definition MAX_MAIL_ATTEMPTS :: int where "MAX_MAIL_ATTEMPTS = 8"

datatype smtp_tls_mode = ImplicitTls | StartTlsRequired | DevelopmentLoopbackPlaintext

record smtp_endpoint =
  se_hostname :: string
  se_port :: u16
  se_tls_mode :: smtp_tls_mode
  se_explicitly_allowed_private_ips :: "ip_addr list"
  se_development_plaintext_enabled :: bool

definition smtp_endpoint_validate :: "smtp_endpoint \<Rightarrow> (application_error, unit) res" where
  "smtp_endpoint_validate e =
     (if se_hostname e = []
       \<or> length (se_hostname e) > 253
       \<or> parse_ip_addr (se_hostname e) \<noteq> None
       \<or> se_port e = 0
       \<or> length (se_explicitly_allowed_private_ips e) > 16
      then Inl (Err EInvalidInput)
      else if se_tls_mode e = DevelopmentLoopbackPlaintext
        \<and> (\<not> se_development_plaintext_enabled e \<or> se_hostname e \<noteq> ''localhost'')
      then Inl (Err EInvalidInput)
      else Inr ())"

fun check_addresses :: "smtp_endpoint \<Rightarrow> ip_addr list \<Rightarrow> (application_error, unit) res" where
  "check_addresses e [] = Inr ()"
| "check_addresses e (a # addresses) =
     (let explicitly_allowed_tls_loopback =
            se_tls_mode e \<noteq> DevelopmentLoopbackPlaintext \<and> is_loopback a
            \<and> a \<in> set (se_explicitly_allowed_private_ips e)
      in if unconditionally_denied a
            \<and> \<not> (se_tls_mode e = DevelopmentLoopbackPlaintext \<and> is_loopback a)
            \<and> \<not> explicitly_allowed_tls_loopback
         then Inl (Err EDisabled)
         else if private_requires_explicit_allow a \<and> a \<notin> set (se_explicitly_allowed_private_ips e)
         then Inl (Err EDisabled)
         else check_addresses e addresses)"

definition validate_resolution ::
    "smtp_endpoint \<Rightarrow> nat \<Rightarrow> ip_addr list \<Rightarrow> (application_error, unit) res" where
  "validate_resolution e cname_depth addresses =
     and_then (smtp_endpoint_validate e) (\<lambda>_.
     if cname_depth > MAX_CNAME_DEPTH \<or> addresses = [] \<or> length addresses > MAX_DNS_ANSWERS
     then Inl (Err EInvalidInput)
     else check_addresses e addresses)"

section \<open>Submissions and retries\<close>

datatype mail_transport_outcome = Delivered | Transient | Permanent | Ambiguous | PolicyDenied

record mail_submission =
  mb_endpoint :: smtp_endpoint
  mb_message_id :: string
  mb_envelope_from :: string
  mb_sender_name :: "string option"
  mb_reply_to :: "string option"
  mb_envelope_to :: string
  mb_credential :: string
  mb_body :: string

definition invalid_mailbox :: "string \<Rightarrow> bool" where
  "invalid_mailbox value \<longleftrightarrow>
     value = [] \<or> length value > 254
     \<or> any_control value \<or> list_ex (\<lambda>c. c = CHR ''<'' \<or> c = CHR ''>'') value
     \<or> isl (parse_v1 value)"

definition mail_submission_validate :: "mail_submission \<Rightarrow> (application_error, unit) res" where
  "mail_submission_validate m =
     and_then (smtp_endpoint_validate (mb_endpoint m)) (\<lambda>_.
     if length (mb_message_id m) < 16
       \<or> length (mb_message_id m) > 255
       \<or> invalid_mailbox (mb_envelope_from m)
       \<or> invalid_mailbox (mb_envelope_to m)
       \<or> (case mb_reply_to m of None \<Rightarrow> False | Some r \<Rightarrow> invalid_mailbox r)
       \<or> (case mb_sender_name m of None \<Rightarrow> False
           | Some name \<Rightarrow> name = [] \<or> length name > 128 \<or> any_control name)
       \<or> length (mb_credential m) > 4096
       \<or> mb_body m = []
       \<or> length (mb_body m) > MAX_MAIL_BODY_BYTES
     then Inl (Err EInvalidInput) else Inr ())"

definition classify_smtp_status :: "u16 \<Rightarrow> mail_transport_outcome" where
  "classify_smtp_status code =
     (if 200 \<le> code \<and> code \<le> 299 then Delivered
      else if 400 \<le> code \<and> code \<le> 499 then Transient
      else if 500 \<le> code \<and> code \<le> 599 then Permanent
      else Ambiguous)"

record mail_retry_state =
  mr_attempts :: int
  mr_max_attempts :: int
  mr_useful_until :: instant

definition milliseconds :: "int \<Rightarrow> duration" where "milliseconds n = n * 1000000"

definition next_attempt ::
    "(instant \<Rightarrow> duration \<Rightarrow> instant option) \<Rightarrow> mail_retry_state \<Rightarrow> mail_transport_outcome \<Rightarrow> instant
     \<Rightarrow> int \<Rightarrow> (application_error, instant option) res" where
  "next_attempt tadd r outcome now jitter_millis =
     (if mr_attempts r < 0
       \<or> mr_max_attempts r < 1
       \<or> mr_max_attempts r > MAX_MAIL_ATTEMPTS
       \<or> mr_attempts r \<ge> mr_max_attempts r
       \<or> \<not> (0 \<le> jitter_millis \<and> jitter_millis \<le> 1000)
      then Inr None
      else if outcome \<notin> {Transient, Ambiguous} then Inr None
      else if min (mr_attempts r) 6 < 0 then Inl (Err EIntegrity)
      else
      let secs = min (2 ^ nat (min (mr_attempts r) 6)) 60
      in and_then (expect (tadd now (seconds secs))) (\<lambda>later.
         and_then (expect (tadd later (milliseconds jitter_millis))) (\<lambda>retry.
         Inr (if retry < mr_useful_until r then Some retry else None))))"

definition stable_retry_jitter_ms :: "uuid \<Rightarrow> int \<Rightarrow> int" where
  "stable_retry_jitter_ms mail_id attempt =
     (let seed = (ucast (drop_bit 64 mail_id) :: 64 word)
                 XOR (of_int (max attempt 0) * 0x9E3779B97F4A7C15)
      in uint (seed mod 1000 + 1))"

lemma jitter_range: "1 \<le> stable_retry_jitter_ms i n \<and> stable_retry_jitter_ms i n \<le> 1000"
proof -
  have "uint ((x :: 64 word) mod 1000 + 1) = uint x mod 1000 + 1" for x
  proof -
    have "uint (x mod 1000) = uint x mod 1000" by (simp add: uint_mod)
    moreover have "0 \<le> uint x mod 1000" "uint x mod 1000 < 1000" by simp_all
    ultimately show ?thesis by (simp add: uint_word_ariths)
  qed
  then show ?thesis by (simp add: stable_retry_jitter_ms_def Let_def)
qed

section \<open>What the protected parts of a mail are bound to\<close>

definition be_bytes :: "nat \<Rightarrow> nat \<Rightarrow> string" where
  "be_bytes n v = map (\<lambda>k. char_of (v div 256 ^ k mod 256)) (rev [0..<n])"

definition uuid_bytes :: "uuid \<Rightarrow> string" where
  "uuid_bytes u = be_bytes 16 (unat u)"

datatype mail_challenge_owner = LoginMail uuid | IdentityMutationMail uuid uuid

section \<open>Special-purpose networks\<close>

text \<open>
  The networks as the registries list them: the leading octets and the number of bits that count.
\<close>

fun in_block :: "u8 list \<times> nat \<Rightarrow> u8 list \<Rightarrow> bool" where
  "in_block (p # ps, n) (x # xs) =
     (if n \<ge> 8 then x = p \<and> in_block (ps, n - 8) xs else drop_bit (8 - n) x = drop_bit (8 - n) p)"
| "in_block (_, n) _ \<longleftrightarrow> n = 0"

definition in_blocks :: "(u8 list \<times> nat) list \<Rightarrow> u8 list \<Rightarrow> bool" where
  "in_blocks blocks octets = list_ex (\<lambda>b. in_block b octets) blocks"

text \<open>This network, link local, multicast and reserved, and a metadata service of a cloud\<close>

definition closed_v4 :: "(u8 list \<times> nat) list" where
  "closed_v4 = [([0], 8), ([169, 254], 16), ([224], 3), ([100, 100, 100, 200], 32)]"

definition private_v4 :: "(u8 list \<times> nat) list" where
  "private_v4 = [([10], 8), ([172, 16], 12), ([192, 168], 16), ([100, 64], 10), ([192, 0, 0], 24),
     ([192, 0, 2], 24), ([192, 88, 99], 24), ([198, 18], 15), ([198, 51, 100], 24), ([203, 0, 113], 24)]"

text \<open>Protocol assignments, documentation, 6to4, AS112, documentation\<close>

definition closed_v6 :: "(u8 list \<times> nat) list" where
  "closed_v6 = [([0x20, 0x01, 0], 23), ([0x20, 0x01, 0x0D, 0xB8], 32), ([0x20, 0x02], 16),
     ([0x26, 0x20, 0, 0x4F, 0x80, 0], 48), ([0x3F, 0xFF, 0], 20)]"

datatype network = Public | Private | Loopback | Closed

fun network_of :: "ip_addr \<Rightarrow> network" where
  "network_of (IpV4 o4) =
     (if in_block ([127], 8) o4 then Loopback
      else if in_blocks closed_v4 o4 then Closed
      else if in_blocks private_v4 o4 then Private else Public)"
| "network_of (IpV6 o6) =
     (if in_block (replicate 15 0 @ [1], 128) o6 then Loopback
      else if in_block ([0xFC], 7) o6 then Private
      else if in_block ([0x20], 3) o6 \<and> \<not> in_blocks closed_v6 o6 then Public else Closed)"

lemma all8: "(\<forall>n<8::nat. P n) \<longleftrightarrow> P 0 \<and> P 1 \<and> P 2 \<and> P 3 \<and> P 4 \<and> P 5 \<and> P 6 \<and> P 7"
  by (simp add: numeral_eq_Suc All_less_Suc conj_ac)

lemma octet_eq: "(x :: u8) = y \<longleftrightarrow> (\<forall>n<8. bit x n = bit y n)"
  by (rule iffI, simp, rule bit_word_eqI, simp)

lemma high_bits: "8 \<le> n \<Longrightarrow> \<not> bit (x :: u8) n"
  using bit_imp_le_length [of x n] by auto

lemma octet_masks:
  "(x :: u8) AND 0xC0 = 64 \<longleftrightarrow> drop_bit 6 x = 1" "x AND 0xFE = 0xFC \<longleftrightarrow> drop_bit 1 x = 126"
  "x AND 0xE0 = 0x20 \<longleftrightarrow> drop_bit 5 x = 1" "x AND 0xF0 = 0 \<longleftrightarrow> drop_bit 4 x = 0"
  unfolding octet_eq all8
  by (simp_all add: bit_and_iff bit_drop_bit_eq high_bits) (auto simp: numeral_2_eq_2 numeral_3_eq_3)

lemma octet_range: "unat (x :: u8) < 256"
  using unsigned_less [of x] by simp

lemma drop_octet: "drop_bit n (x :: u8) = y \<longleftrightarrow> unat x div 2 ^ n = unat y"
  unfolding word_unat_eq_iff unat_drop_bit_eq by (simp add: drop_bit_eq_div [where 'a = nat])

lemma octet_ranges:
  "x \<le> 1 \<longleftrightarrow> drop_bit 1 (x :: u8) = 0" "16 \<le> x \<and> x \<le> 31 \<longleftrightarrow> drop_bit 4 x = 1"
  "x = 18 \<or> x = 19 \<longleftrightarrow> drop_bit 1 x = 9" "224 \<le> x \<longleftrightarrow> drop_bit 5 x = 7"
  using octet_range [of x] unfolding drop_octet unfolding word_le_nat_alt word_unat_eq_iff by (simp_all, auto)

lemma length4: "length xs = 4 \<longleftrightarrow> (\<exists>a b c d. xs = [a, b, c, d])"
  by (auto simp: numeral_eq_Suc length_Suc_conv)

lemma length16: "length xs = 16 \<Longrightarrow> \<exists>a b c d e f ys. xs = a # b # c # d # e # f # ys \<and> length ys = 10"
  by (auto simp: numeral_eq_Suc length_Suc_conv)

lemmas block_defs = in_blocks_def closed_v4_def private_v4_def closed_v6_def


lemma in_block_simps:
  "in_block ([p], 8) (x # xs) \<longleftrightarrow> x = p"
  "in_block ([p, q], 16) (x # y # xs) \<longleftrightarrow> x = p \<and> y = q"
  "in_block ([p, q, r], 24) (x # y # z # xs) \<longleftrightarrow> x = p \<and> y = q \<and> z = r"
  "in_block ([p], 3) (x # xs) \<longleftrightarrow> drop_bit 5 x = drop_bit 5 p"
  "in_block ([p], 7) (x # xs) \<longleftrightarrow> drop_bit 1 x = drop_bit 1 p"
  "in_block ([p, q], 10) (x # y # xs) \<longleftrightarrow> x = p \<and> drop_bit 6 y = drop_bit 6 q"
  "in_block ([p, q], 12) (x # y # xs) \<longleftrightarrow> x = p \<and> drop_bit 4 y = drop_bit 4 q"
  "in_block ([p, q], 15) (x # y # xs) \<longleftrightarrow> x = p \<and> drop_bit 1 y = drop_bit 1 q"
  "in_block ([p, q, r], 20) (x # y # z # xs) \<longleftrightarrow> x = p \<and> y = q \<and> drop_bit 4 z = drop_bit 4 r"
  "in_block ([p, q, r], 23) (x # y # z # xs) \<longleftrightarrow> x = p \<and> y = q \<and> drop_bit 1 z = drop_bit 1 r"
  by simp_all

lemma octet_values:
  "drop_bit 5 (224 :: u8) = 7" "drop_bit 6 (64 :: u8) = 1" "drop_bit 4 (16 :: u8) = 1" "drop_bit 1 (18 :: u8) = 9"
  "drop_bit 1 (0xFC :: u8) = 126" "drop_bit 5 (0x20 :: u8) = 1" "drop_bit 4 (0 :: u8) = 0" "drop_bit 1 (0 :: u8) = 0"
  by simp_all

lemma list_ex_simps_own: "list_ex P [] \<longleftrightarrow> False" "list_ex P (x # xs) \<longleftrightarrow> P x \<or> list_ex P xs"
  by simp_all

lemmas block_rules = block_defs list_ex_simps_own in_block_simps octet_values

lemma private_v4_blocks:
  "in_blocks private_v4 (a # b # c # xs) \<longleftrightarrow> a = 10 \<or> a = 172 \<and> 16 \<le> b \<and> b \<le> 31 \<or> a = 192 \<and> b = 168
     \<or> a = 100 \<and> b AND 0xC0 = 64 \<or> a = 192 \<and> b = 0 \<and> c = 0 \<or> a = 192 \<and> b = 0 \<and> c = 2 \<or> a = 192 \<and> b = 88 \<and> c = 99
     \<or> a = 198 \<and> (b = 18 \<or> b = 19) \<or> a = 198 \<and> b = 51 \<and> c = 100 \<or> a = 203 \<and> b = 0 \<and> c = 113"
  unfolding octet_ranges octet_masks by (simp only: block_rules simp_thms)

lemma closed_v4_blocks:
  "in_blocks closed_v4 [a, b, c, d] \<longleftrightarrow> a = 0 \<or> a = 169 \<and> b = 254 \<or> 224 \<le> a \<or> [a, b, c, d] = [100, 100, 100, 200]"
  unfolding octet_ranges by (simp add: block_defs)

lemma denied_v4:
  "unconditionally_denied (IpV4 [a, b, c, d]) \<longleftrightarrow> a = 127 \<or> in_blocks closed_v4 [a, b, c, d]"
  unfolding closed_v4_blocks by auto

lemma private_needs_v4:
  "private_requires_explicit_allow (IpV4 [a, b, c, d]) \<longleftrightarrow> in_blocks private_v4 [a, b, c, d] \<or> a = 0 \<or> 240 \<le> a"
  unfolding private_v4_blocks private_requires_explicit_allow.simps is_private_v4_def is_non_public_ipv4_def Let_def
  by (simp only: nth_Cons_0 nth_Cons_Suc One_nat_def numeral_2_eq_2 insert_iff empty_iff simp_thms disj_ac)

lemma network_v4:
  assumes "length o4 = 4"
  shows "is_loopback (IpV4 o4) \<longleftrightarrow> network_of (IpV4 o4) = Loopback"
    and "unconditionally_denied (IpV4 o4) \<longleftrightarrow> network_of (IpV4 o4) \<in> {Loopback, Closed}"
    and "network_of (IpV4 o4) \<noteq> Closed \<Longrightarrow>
      private_requires_explicit_allow (IpV4 o4) \<longleftrightarrow> network_of (IpV4 o4) = Private"
proof -
  from assms obtain a b c d where o: "o4 = [a, b, c, d]" by (auto simp: length4)
  let ?c = "in_blocks closed_v4 o4" and ?p = "in_blocks private_v4 o4"
  have net: "network_of (IpV4 o4) = (if a = 127 then Loopback else if ?c then Closed else if ?p then Private else Public)"
    by (simp add: o)
  have "240 \<le> a \<Longrightarrow> 224 \<le> a" by (erule order_trans [rotated]) simp
  then have closed: "?c" if "a = 0 \<or> 240 \<le> a" using that unfolding o closed_v4_blocks by blast
  have home: "\<not> ?p \<and> \<not> (a = 0 \<or> 240 \<le> a)" if "a = 127" unfolding o private_v4_blocks that by simp
  show "is_loopback (IpV4 o4) \<longleftrightarrow> network_of (IpV4 o4) = Loopback" unfolding net by (simp add: o)
  have denied: "unconditionally_denied (IpV4 o4) \<longleftrightarrow> a = 127 \<or> ?c" unfolding o by (rule denied_v4)
  show "unconditionally_denied (IpV4 o4) \<longleftrightarrow> network_of (IpV4 o4) \<in> {Loopback, Closed}"
    unfolding net denied by simp
  have needs: "private_requires_explicit_allow (IpV4 o4) \<longleftrightarrow> ?p \<or> (a = 0 \<or> 240 \<le> a)"
    unfolding o by (rule private_needs_v4)
  show "network_of (IpV4 o4) \<noteq> Closed \<Longrightarrow>
      private_requires_explicit_allow (IpV4 o4) \<longleftrightarrow> network_of (IpV4 o4) = Private"
    unfolding net needs using closed home by (auto split: if_split_asm)
qed

lemma closed_v6_blocks:
  "in_blocks closed_v6 (a # b # c # d # e # f # xs) \<longleftrightarrow>
     a = 0x20 \<and> b = 0x01 \<and> c \<le> 1 \<or> [a, b, c, d] = [0x20, 0x01, 0x0D, 0xB8] \<or> [a, b] = [0x20, 0x02]
     \<or> [a, b, c, d, e, f] = [0x26, 0x20, 0, 0x4F, 0x80, 0] \<or> a = 0x3F \<and> b = 0xFF \<and> c AND 0xF0 = 0"
  unfolding octet_ranges octet_masks block_defs by (simp add: in_block_simps)

lemma routable_v6:
  "is_globally_routable_ipv6 (a # b # c # d # e # f # xs) \<longleftrightarrow>
     a AND 0xE0 = 0x20 \<and> \<not> in_blocks closed_v6 (a # b # c # d # e # f # xs)"
  unfolding closed_v6_blocks by (simp add: is_globally_routable_ipv6_def)

lemma loopback_block: "length o6 = 16 \<Longrightarrow> in_block (replicate 15 0 @ [1], 128) o6 \<longleftrightarrow> o6 = replicate 15 0 @ [1]"
  by (auto simp: numeral_eq_Suc length_Suc_conv)

lemma denied_v6:
  assumes "length o6 = 16"
  shows "unconditionally_denied (IpV6 o6) \<longleftrightarrow> \<not> is_ipv6_unique_local o6 \<and> \<not> is_globally_routable_ipv6 o6"
    and "is_loopback (IpV6 o6) \<Longrightarrow> \<not> is_ipv6_unique_local o6 \<and> \<not> is_globally_routable_ipv6 o6"
proof -
  have outside: "\<not> is_ipv6_unique_local o6 \<and> \<not> is_globally_routable_ipv6 o6"
    if "o6 ! 0 = 0 \<or> o6 ! 0 = 0xFF \<or> o6 ! 0 = 0xFE"
    using that unfolding is_ipv6_unique_local_def is_globally_routable_ipv6_def by (elim disjE) simp_all
  have head: "o6 ! 0 = 0" if "take n o6 = replicate k 0 @ zs" "0 < n" "0 < k" for n k zs
    using arg_cong [OF that(1), of "\<lambda>l. l ! 0"] that(2,3) by (simp add: nth_append)
  have first: "o6 ! 0 = 0 \<or> o6 ! 0 = 0xFF \<or> o6 ! 0 = 0xFE"
    if "take 12 o6 = replicate 10 0 @ [0xFF, 0xFF] \<or> o6 = replicate 15 0 @ [1]
      \<or> o6 = replicate 16 0 \<or> o6 ! 0 = 0xFF \<or> is_ipv6_link_local o6"
    using that head [of 12 10 "[0xFF, 0xFF]"] head [of 16 15 "[1]"] head [of 16 16 "[]"] assms
    by (auto simp only: is_ipv6_link_local_def take_all order_refl append_Nil2 zero_less_numeral simp_thms)
  then show "unconditionally_denied (IpV6 o6) \<longleftrightarrow> \<not> is_ipv6_unique_local o6 \<and> \<not> is_globally_routable_ipv6 o6"
    using outside by auto
  show "is_loopback (IpV6 o6) \<Longrightarrow> \<not> is_ipv6_unique_local o6 \<and> \<not> is_globally_routable_ipv6 o6"
    using first outside by simp
qed

lemma network_v6:
  assumes "length o6 = 16"
  shows "is_loopback (IpV6 o6) \<longleftrightarrow> network_of (IpV6 o6) = Loopback"
    and "unconditionally_denied (IpV6 o6) \<longleftrightarrow> network_of (IpV6 o6) \<in> {Loopback, Closed}"
    and "network_of (IpV6 o6) \<noteq> Closed \<Longrightarrow>
      private_requires_explicit_allow (IpV6 o6) \<longleftrightarrow> network_of (IpV6 o6) = Private"
proof -
  from length16 [OF assms] obtain a b c d e f ys where o: "o6 = a # b # c # d # e # f # ys" by blast
  have "in_block ([0xFC], 7) o6 \<longleftrightarrow> is_ipv6_unique_local o6"
    unfolding o in_block_simps is_ipv6_unique_local_def octet_masks nth_Cons_0 octet_values ..
  moreover have "in_block ([0x20], 3) o6 \<and> \<not> in_blocks closed_v6 o6 \<longleftrightarrow> is_globally_routable_ipv6 o6"
    unfolding o routable_v6 in_block_simps octet_masks octet_values ..
  ultimately have net: "network_of (IpV6 o6) = (if is_loopback (IpV6 o6) then Loopback
      else if is_ipv6_unique_local o6 then Private else if is_globally_routable_ipv6 o6 then Public else Closed)"
    using loopback_block [OF assms] by simp
  show "is_loopback (IpV6 o6) \<longleftrightarrow> network_of (IpV6 o6) = Loopback" unfolding net by simp
  show "unconditionally_denied (IpV6 o6) \<longleftrightarrow> network_of (IpV6 o6) \<in> {Loopback, Closed}"
    unfolding net denied_v6(1) [OF assms] using denied_v6(2) [OF assms] by (simp del: is_loopback.simps)
  show "network_of (IpV6 o6) \<noteq> Closed \<Longrightarrow>
      private_requires_explicit_allow (IpV6 o6) \<longleftrightarrow> network_of (IpV6 o6) = Private"
    unfolding net private_requires_explicit_allow.simps using denied_v6(2) [OF assms]
    by (simp del: is_loopback.simps)
qed

lemma networks:
  assumes "ip_wf a"
  shows "is_loopback a \<longleftrightarrow> network_of a = Loopback"
    and "unconditionally_denied a \<longleftrightarrow> network_of a \<in> {Loopback, Closed}"
    and "network_of a \<noteq> Closed \<Longrightarrow> private_requires_explicit_allow a \<longleftrightarrow> network_of a = Private"
proof -
  have "(is_loopback a \<longleftrightarrow> network_of a = Loopback)
      \<and> (unconditionally_denied a \<longleftrightarrow> network_of a \<in> {Loopback, Closed})
      \<and> (network_of a \<noteq> Closed \<longrightarrow> (private_requires_explicit_allow a \<longleftrightarrow> network_of a = Private))"
  proof (cases a)
    case (IpV4 o4)
    then have "length o4 = 4" using assms by simp
    from network_v4 [OF this] show ?thesis unfolding IpV4 by blast
  next
    case (IpV6 o6)
    then have "length o6 = 16" using assms by simp
    from network_v6 [OF this] show ?thesis unfolding IpV6 by blast
  qed
  then show "is_loopback a \<longleftrightarrow> network_of a = Loopback"
    and "unconditionally_denied a \<longleftrightarrow> network_of a \<in> {Loopback, Closed}"
    and "network_of a \<noteq> Closed \<Longrightarrow> private_requires_explicit_allow a \<longleftrightarrow> network_of a = Private" by blast+
qed

section \<open>Where mail goes\<close>

definition relay_admitted :: "smtp_endpoint \<Rightarrow> ip_addr \<Rightarrow> bool" where
  "relay_admitted e a \<longleftrightarrow>
     (case network_of a of
        Public \<Rightarrow> True
      | Private \<Rightarrow> a \<in> set (se_explicitly_allowed_private_ips e)
      | Loopback \<Rightarrow> a \<in> set (se_explicitly_allowed_private_ips e) \<or> se_tls_mode e = DevelopmentLoopbackPlaintext
      | Closed \<Rightarrow> False)"

lemma check_addresses_iff:
  "list_all ip_wf as \<Longrightarrow> check_addresses e as = Inr () \<longleftrightarrow> list_all (relay_admitted e) as"
proof (induction as)
  case (Cons a as)
  then have wf: "ip_wf a" by simp
  show ?case using Cons networks(1,2) [OF wf] networks(3) [OF wf]
    by (cases "network_of a") (auto simp: relay_admitted_def Let_def)
qed simp

text \<open>
  (C0) Mail only goes to admitted relays.  The answers of a name server are accepted exactly when
  the endpoint is valid, the chain of aliases and the number of addresses are bounded, and every
  address is public by the registries of special-purpose networks, or private or loopback and
  explicitly allowed for this relay, or loopback for the development relay \<open>localhost\<close>.  Link-local,
  multicast, reserved and metadata addresses, mapped and translated IPv4 are never admitted.
\<close>

theorem relay_resolution_is_confined:
  assumes "list_all ip_wf addresses"
  shows "validate_resolution e cname_depth addresses = Inr () \<longleftrightarrow>
     smtp_endpoint_validate e = Inr () \<and> cname_depth \<le> 8 \<and> addresses \<noteq> [] \<and> length addresses \<le> 16
     \<and> list_all (relay_admitted e) addresses"
  unfolding validate_resolution_def and_then_eq_Inr
  by (auto simp: check_addresses_iff [OF assms] MAX_CNAME_DEPTH_def MAX_DNS_ANSWERS_def split: if_split_asm)

text \<open>A name whose first letter is no hexadecimal digit is not an address.\<close>

lemma letter_is_no_address:
  assumes "digit_value 10 c = None" and "digit_value 16 c = None" and "c \<noteq> CHR '':''"
  shows "parse_ip_addr (c # s) = None"
proof -
  have number: "read_number 10 m z l (c # s) = None" "read_number 16 m z l (c # s) = None" for m z l
    using assms(1,2) by (simp_all add: read_number_def)
  have v4: "read_octets 0 (Suc n) (c # s) = None" for n
    by (simp add: read_separator_def number)
  have v4': "read_ipv4_addr (c # s) = None"
    unfolding read_ipv4_addr_def using v4 [of 3] by (simp del: read_octets.simps)
  have "read_groups 0 (Suc n) (c # s) = ([], False, c # s)" for n
    by (simp add: read_separator_def number v4')
  from this [of 7] have "read_groups 0 8 (c # s) = ([], False, c # s)" by (simp del: read_groups.simps)
  then show ?thesis using assms(3) by (simp add: parse_ip_addr_def read_ipv6_addr_def v4' read_given_char_def)
qed

definition demo_endpoint :: smtp_endpoint where
  "demo_endpoint =
     \<lparr>se_hostname = ''mail.example'', se_port = 465, se_tls_mode = ImplicitTls,
      se_explicitly_allowed_private_ips = [IpV4 [10, 0, 0, 7]], se_development_plaintext_enabled = False\<rparr>"

lemma demo_endpoint_valid: "smtp_endpoint_validate demo_endpoint = Inr ()"
proof -
  have "digit_value 10 CHR ''m'' = None" "digit_value 16 CHR ''m'' = None"
    by (simp_all add: digit_value_def is_ascii_digit_def is_ascii_alphanumeric_def is_ascii_lowercase_def
        is_ascii_uppercase_def ascii_lower_def byte_def)
  from letter_is_no_address [OF this] show ?thesis
    by (simp add: smtp_endpoint_validate_def demo_endpoint_def)
qed

theorem relay_resolution_is_confined_witness:
  "validate_resolution demo_endpoint 1 [IpV4 [10, 0, 0, 7], IpV4 [8, 8, 8, 8]] = Inr ()
   \<and> validate_resolution demo_endpoint 1 [IpV4 [169, 254, 169, 254]] \<noteq> Inr ()"
proof -
  have "list_all (relay_admitted demo_endpoint) [IpV4 [10, 0, 0, 7], IpV4 [8, 8, 8, 8]]"
    "\<not> list_all (relay_admitted demo_endpoint) [IpV4 [169, 254, 169, 254]]"
    by (simp_all add: relay_admitted_def demo_endpoint_def block_defs)
  then show ?thesis
    using relay_resolution_is_confined [of "[IpV4 [10, 0, 0, 7], IpV4 [8, 8, 8, 8]]" demo_endpoint 1]
      relay_resolution_is_confined [of "[IpV4 [169, 254, 169, 254]]" demo_endpoint 1] demo_endpoint_valid by simp
qed

end
