(* ===== verification/Spec2Isabelle.thy ===== *)
theory Spec2Isabelle
  imports Owl_Lifecycles Owl_Values Owl_Identity_Mutation_Laws Owl_Email Owl_Managed_Connection
    Owl_Refresh_Liveness Owl_Refresh_Refinement Owl_Session_Errors
    Owl_Retention Owl_Email_Guesses Owl_Mail_Policy
begin

text \<open>
  Verification of the identity server \<open>owlauth\<close>.
\<close>

end
